(* ===== verification/Go_Prelude.thy ===== *)
theory Go_Prelude
  imports Complex_Main "HOL-Library.Word" "HOL-Library.Sublist"
    "HOL-Library.Char_ord" "HOL-Library.List_Lexorder" "HOL-Library.AList" "HOL-Library.Multiset"
begin

text \<open>
  What every component shares: Go's error returns as values, the parts of Go's standard library
  the code uses (strings, time, maps, JSON) and the third-party packages it calls, which are
  parameters of the model.

  \<^item> \<^bold>\<open>Errors.\<close> A Go result of type \<open>error\<close> is an \<open>'e option\<close> (\<open>None\<close> is \<open>nil\<close>); a result
    \<open>(T, error)\<close> is \<open>'e + 'a\<close>. Each component has an error datatype with one constructor per
    distinct message; an error wrapped with \<open>%w\<close> is a constructor that carries the inner error.
    A run of early returns is a \<open>first_err\<close> over the guards, in the order of the source.
  \<^item> \<^bold>\<open>Decimals.\<close> \<open>github.com/shopspring/decimal\<close> is a parameter: a type \<open>'d\<close> of class
    \<open>linordered_idom\<close>, which states the documented behaviour the code relies on (exact
    arbitrary-precision \<open>Add\<close>, \<open>Sub\<close>, \<open>Mul\<close>, \<open>Neg\<close>, \<open>Abs\<close>, \<open>Sign\<close> and a total order for
    \<open>Cmp\<close>, \<open>Equal\<close>, \<open>GreaterThan\<close>, \<open>Min\<close>), and the fields \<open>decimal_\<close> of the record \<open>lib\<close> for
    the operations that round, divide or read the representation.  Two decimals that are
    \<open>Equal\<close> are one value of \<open>'d\<close>.
  \<^item> \<^bold>\<open>Other libraries.\<close> \<open>uuid.UUID\<close> is a 16-byte array, a \<open>128 word\<close>; its \<open>String\<close>, SHA-256,
    the Unicode case mapping of non-ASCII text and the JSON codec are fields of \<open>lib\<close>, so every
    theorem holds for any implementation of them.  Values the code draws from outside
    (\<open>time.Now()\<close>, \<open>uuid.New()\<close>) are arguments.
\<close>

section \<open>Collections of the development\<close>

named_theorems valid_defs \<open>definitions of the Validate methods\<close>
named_theorems same_defs \<open>definitions of the retry-equality functions\<close>

section \<open>Error returns\<close>

definition guard :: "bool \<Rightarrow> 'e \<Rightarrow> 'e option" where
  "guard c e = (if c then Some e else None)"

fun first_err :: "'e option list \<Rightarrow> 'e option" where
  "first_err [] = None"
| "first_err (None # es) = first_err es"
| "first_err (Some e # es) = Some e"

definition ensure :: "'e option \<Rightarrow> 'e + 'a \<Rightarrow> 'e + 'a" where
  "ensure err k = (case err of None \<Rightarrow> k | Some e \<Rightarrow> Inl e)"

definition and_then :: "'e + 'a \<Rightarrow> ('a \<Rightarrow> 'e + 'b) \<Rightarrow> 'e + 'b" where
  "and_then r k = (case r of Inl e \<Rightarrow> Inl e | Inr x \<Rightarrow> k x)"

definition wrap :: "('e \<Rightarrow> 'f) \<Rightarrow> 'e + 'a \<Rightarrow> 'f + 'a" where
  "wrap f r = (case r of Inl e \<Rightarrow> Inl (f e) | Inr x \<Rightarrow> Inr x)"

lemma guard_bool [simp]: "guard False e = None" "guard True e = Some e"
  by (simp_all add: guard_def)

lemma guard_eq_None [simp]: "guard c e = None \<longleftrightarrow> \<not> c"
  by (simp add: guard_def)

lemma guard_eq_Some [simp]: "guard c e = Some e' \<longleftrightarrow> c \<and> e' = e"
  by (auto simp: guard_def)

lemma Some_eq_guard [simp]: "Some e' = guard c e \<longleftrightarrow> c \<and> e' = e"
  by (auto simp: guard_def)

lemma first_err_Some_mem: "first_err xs = Some e \<Longrightarrow> Some e \<in> set xs"
  by (induction xs rule: first_err.induct) auto

lemma first_err_Cons_None [simp]: "first_err (x # xs) = None \<longleftrightarrow> x = None \<and> first_err xs = None"
  by (cases x) auto

lemma first_err_append_None [simp]:
  "first_err (xs @ ys) = None \<longleftrightarrow> first_err xs = None \<and> first_err ys = None"
  by (induction xs) auto

lemma first_err_None_iff: "first_err xs = None \<longleftrightarrow> (\<forall>x \<in> set xs. x = None)"
  by (induction xs) auto

lemma ensure_None [simp]: "ensure None k = k"
  by (simp add: ensure_def)

lemma ensure_eq_Inr [simp]: "ensure err k = Inr x \<longleftrightarrow> err = None \<and> k = Inr x"
  by (auto simp: ensure_def split: option.splits)

lemma and_then_eq_Inr [simp]: "and_then r k = Inr y \<longleftrightarrow> (\<exists>x. r = Inr x \<and> k x = Inr y)"
  by (auto simp: and_then_def split: sum.splits)

lemma and_then_Inr [simp]: "and_then (Inr x) k = k x"
  by (simp add: and_then_def)

lemma ensure_eq_Inl [simp]: "ensure err k = Inl e \<longleftrightarrow> err = Some e \<or> err = None \<and> k = Inl e"
  by (auto simp: ensure_def split: option.splits)

lemma and_then_eq_Inl [simp]: "and_then r k = Inl e \<longleftrightarrow> r = Inl e \<or> (\<exists>x. r = Inr x \<and> k x = Inl e)"
  by (auto simp: and_then_def split: sum.splits)

lemma wrap_eq_Inr [simp]: "wrap f r = Inr x \<longleftrightarrow> r = Inr x"
  by (auto simp: wrap_def split: sum.splits)

lemma wrap_Inr [simp]: "wrap f (Inr x) = Inr x"
  by (simp add: wrap_def)

section \<open>UUIDs, JSON and the library parameters\<close>

type_synonym uuid = "128 word"

abbreviation uuid_Nil :: uuid where
  "uuid_Nil \<equiv> 0"

text \<open>
  A decoded JSON value.  The list of a \<open>JObject\<close> is the graph of the Go map, sorted by key and
  without duplicates, so equality of values is \<open>reflect.DeepEqual\<close>.
\<close>

datatype json =
    JNull
  | JBool bool
  | JNumber string
  | JString string
  | JArray "json list"
  | JObject "(string \<times> json) list"

datatype decoded = EOF | DecodeError | Decoded json string

text \<open>
  \<open>json_Decode\<close> is \<open>Decoder.Decode\<close> with \<open>UseNumber\<close> on the remaining input (the value and what
  is left of the input, or \<open>io.EOF\<close>); \<open>json_Unmarshal\<close> is \<open>json.Unmarshal\<close> into \<open>any\<close>.
\<close>

record 'd lib =
  decimal_Round :: "'d \<Rightarrow> int \<Rightarrow> 'd"
  decimal_Mod :: "'d \<Rightarrow> 'd \<Rightarrow> 'd"
  decimal_Div :: "'d \<Rightarrow> 'd \<Rightarrow> 'd"
  decimal_Floor :: "'d \<Rightarrow> 'd"
  decimal_NumDigits :: "'d \<Rightarrow> int"
  decimal_Exponent :: "'d \<Rightarrow> int"
  decimal_String :: "'d \<Rightarrow> string"
  uuid_String :: "uuid \<Rightarrow> string"
  sha256_Sum256 :: "string \<Rightarrow> string"
  unicode_ToLower :: "string \<Rightarrow> string"
  unicode_ToUpper :: "string \<Rightarrow> string"
  json_Decode :: "string \<Rightarrow> decoded"
  json_Unmarshal :: "string \<Rightarrow> json option"
  json_Marshal :: "json \<Rightarrow> string"
  json_Valid :: "string \<Rightarrow> bool"

section \<open>Strings\<close>

text \<open>
  A Go string is its bytes.  \<open>unicode_spaces\<close> lists the UTF-8 encodings of the code points for
  which \<open>unicode.IsSpace\<close> holds; \<open>strings.TrimSpace\<close> drops them at both ends.
\<close>

definition unicode_spaces :: "string list" where
  "unicode_spaces =
    [[CHR 0x20], [CHR 0x09], [CHR 0x0A], [CHR 0x0B], [CHR 0x0C], [CHR 0x0D],
     [CHR 0xC2, CHR 0x85], [CHR 0xC2, CHR 0xA0], [CHR 0xE1, CHR 0x9A, CHR 0x80],
     [CHR 0xE2, CHR 0x80, CHR 0x80], [CHR 0xE2, CHR 0x80, CHR 0x81], [CHR 0xE2, CHR 0x80, CHR 0x82],
     [CHR 0xE2, CHR 0x80, CHR 0x83], [CHR 0xE2, CHR 0x80, CHR 0x84], [CHR 0xE2, CHR 0x80, CHR 0x85],
     [CHR 0xE2, CHR 0x80, CHR 0x86], [CHR 0xE2, CHR 0x80, CHR 0x87], [CHR 0xE2, CHR 0x80, CHR 0x88],
     [CHR 0xE2, CHR 0x80, CHR 0x89], [CHR 0xE2, CHR 0x80, CHR 0x8A], [CHR 0xE2, CHR 0x80, CHR 0xA8],
     [CHR 0xE2, CHR 0x80, CHR 0xA9], [CHR 0xE2, CHR 0x80, CHR 0xAF], [CHR 0xE2, CHR 0x81, CHR 0x9F],
     [CHR 0xE3, CHR 0x80, CHR 0x80]]"

function drop_prefixes :: "string list \<Rightarrow> string \<Rightarrow> string" where
  "drop_prefixes ws s =
     (case find (\<lambda>w. w \<noteq> [] \<and> prefix w s) ws of
        None \<Rightarrow> s
      | Some w \<Rightarrow> drop_prefixes ws (drop (length w) s))"
  by pat_completeness auto
termination
  by (relation "measure (\<lambda>(ws, s). length s)")
    (auto simp: find_Some_iff prefix_def)

declare drop_prefixes.simps [simp del]

definition TrimSpace :: "string \<Rightarrow> string" where
  "TrimSpace s = rev (drop_prefixes (map rev unicode_spaces) (rev (drop_prefixes unicode_spaces s)))"

definition ascii :: "string \<Rightarrow> bool" where
  "ascii s \<longleftrightarrow> list_all (\<lambda>c. of_char c < (128::nat)) s"

definition ascii_lower :: "char \<Rightarrow> char" where
  "ascii_lower c = (if CHR ''A'' \<le> c \<and> c \<le> CHR ''Z'' then char_of (of_char c + 32 :: nat) else c)"

definition ascii_upper :: "char \<Rightarrow> char" where
  "ascii_upper c = (if CHR ''a'' \<le> c \<and> c \<le> CHR ''z'' then char_of (of_char c - 32 :: nat) else c)"

definition ToLower :: "'d lib \<Rightarrow> string \<Rightarrow> string" where
  "ToLower L s = (if ascii s then map ascii_lower s else unicode_ToLower L s)"

definition ToUpper :: "'d lib \<Rightarrow> string \<Rightarrow> string" where
  "ToUpper L s = (if ascii s then map ascii_upper s else unicode_ToUpper L s)"

definition HasPrefix :: "string \<Rightarrow> string \<Rightarrow> bool" where
  "HasPrefix s p \<longleftrightarrow> prefix p s"

text \<open>\<open>strconv.Itoa\<close> and \<open>%d\<close> on a count, and \<open>hex.EncodeToString\<close>.\<close>

fun itoa :: "nat \<Rightarrow> string" where
  "itoa n = (if n < 10 then [char_of (48 + n)] else itoa (n div 10) @ [char_of (48 + n mod 10)])"

declare itoa.simps [simp del]

definition hex_digit :: "nat \<Rightarrow> char" where
  "hex_digit n = (if n < 10 then char_of (48 + n) else char_of (87 + n))"

definition hex_EncodeToString :: "string \<Rightarrow> string" where
  "hex_EncodeToString bs =
     concat (map (\<lambda>c. [hex_digit (of_char c div 16), hex_digit (of_char c mod 16)]) bs)"

lemma find_prefix_None_prefix:
  "find (\<lambda>w. w \<noteq> [] \<and> prefix w s) ws = None \<Longrightarrow> prefix r s \<Longrightarrow>
   find (\<lambda>w. w \<noteq> [] \<and> prefix w r) ws = None"
  by (auto simp: find_None_iff intro: prefix_order.trans)

lemma drop_prefixes_no_prefix: "find (\<lambda>w. w \<noteq> [] \<and> prefix w (drop_prefixes ws s)) ws = None"
proof (induction ws s rule: drop_prefixes.induct)
  case (1 ws s)
  show ?case
  proof (cases "find (\<lambda>w. w \<noteq> [] \<and> prefix w s) ws")
    case None
    then show ?thesis by (subst drop_prefixes.simps) simp
  next
    case (Some w)
    with "1.IH" show ?thesis by (subst drop_prefixes.simps) simp
  qed
qed

lemma drop_prefixes_id: "find (\<lambda>w. w \<noteq> [] \<and> prefix w s) ws = None \<Longrightarrow> drop_prefixes ws s = s"
  by (subst drop_prefixes.simps) simp

lemma drop_prefixes_suffix: "suffix (drop_prefixes ws s) s"
proof (induction ws s rule: drop_prefixes.induct)
  case (1 ws s)
  show ?case
  proof (cases "find (\<lambda>w. w \<noteq> [] \<and> prefix w s) ws")
    case None
    then show ?thesis by (simp add: drop_prefixes_id)
  next
    case (Some w)
    with "1.IH" have "suffix (drop_prefixes ws (drop (length w) s)) (drop (length w) s)" by blast
    with Some show ?thesis
      by (subst drop_prefixes.simps) (auto intro: suffix_order.trans suffix_drop)
  qed
qed

lemma TrimSpace_idem [simp]: "TrimSpace (TrimSpace s) = TrimSpace s"
proof -
  define l where "l = drop_prefixes unicode_spaces s"
  define r where "r = drop_prefixes (map rev unicode_spaces) (rev l)"
  have "suffix r (rev l)" by (simp add: r_def drop_prefixes_suffix)
  then have "prefix (rev r) l" by (simp add: suffix_to_prefix)
  then have "find (\<lambda>w. w \<noteq> [] \<and> prefix w (rev r)) unicode_spaces = None"
    using drop_prefixes_no_prefix find_prefix_None_prefix unfolding l_def by blast
  then have left: "drop_prefixes unicode_spaces (rev r) = rev r" by (rule drop_prefixes_id)
  have "drop_prefixes (map rev unicode_spaces) r = r"
    unfolding r_def by (rule drop_prefixes_id) (rule drop_prefixes_no_prefix)
  with left show ?thesis by (simp add: TrimSpace_def l_def [symmetric] r_def [symmetric])
qed

lemma TrimSpace_Nil [simp]: "TrimSpace [] = []"
proof -
  have "drop_prefixes ws [] = []" for ws
    by (subst drop_prefixes.simps) (auto simp: find_Some_iff split: option.splits)
  then show ?thesis by (simp add: TrimSpace_def)
qed

section \<open>Time\<close>

text \<open>
  \<open>time.Time\<close>: nanoseconds since the zero time (1 January of year 1, UTC) and a location.
  \<open>Duration\<close> is a signed 64-bit count of nanoseconds, and \<open>Sub\<close> saturates at its bounds.
\<close>

datatype location = UTC | Zone string

record time =
  instant :: int
  loc :: location

abbreviation Microsecond :: int where
  "Microsecond \<equiv> 1000"

definition time_zero :: time where
  "time_zero = \<lparr>instant = 0, loc = UTC\<rparr>"

definition IsZero :: "time \<Rightarrow> bool" where
  "IsZero t \<longleftrightarrow> instant t = 0"

definition to_UTC :: "time \<Rightarrow> time" where
  "to_UTC t = t\<lparr>loc := UTC\<rparr>"

definition Truncate :: "time \<Rightarrow> int \<Rightarrow> time" where
  "Truncate t d = (if d \<le> 0 then t else t\<lparr>instant := instant t - instant t mod d\<rparr>)"

definition After :: "time \<Rightarrow> time \<Rightarrow> bool" where
  "After t u \<longleftrightarrow> instant t > instant u"

definition Before :: "time \<Rightarrow> time \<Rightarrow> bool" where
  "Before t u \<longleftrightarrow> instant t < instant u"

definition time_Equal :: "time \<Rightarrow> time \<Rightarrow> bool" where
  "time_Equal t u \<longleftrightarrow> instant t = instant u"

definition time_Sub :: "time \<Rightarrow> time \<Rightarrow> int" where
  "time_Sub t u = max (- (2 ^ 63)) (min (2 ^ 63 - 1) (instant t - instant u))"

text \<open>The \<open>value.UTC().Truncate(time.Microsecond)\<close> of every constructor.\<close>

definition utc_micros :: "time \<Rightarrow> time" where
  "utc_micros t = Truncate (to_UTC t) Microsecond"

definition has_micros :: "time \<Rightarrow> bool" where
  "has_micros t \<longleftrightarrow> time_Equal t (Truncate t Microsecond)"

lemmas time_defs = IsZero_def to_UTC_def Truncate_def After_def Before_def time_Equal_def
  utc_micros_def has_micros_def time_zero_def

lemma loc_utc_micros [simp]: "loc (utc_micros t) = UTC"
  by (simp add: time_defs)

lemma has_micros_utc_micros [simp]: "has_micros (utc_micros t)"
  by (simp add: time_defs)

lemma utc_micros_id: "loc t = UTC \<Longrightarrow> has_micros t \<Longrightarrow> utc_micros t = t"
  by (simp add: time_defs)

lemma utc_micros_idem [simp]: "utc_micros (utc_micros t) = utc_micros t"
  by (simp add: utc_micros_id)

lemma time_Equal_refl [simp]: "time_Equal t t"
  by (simp add: time_Equal_def)

lemma time_eqI: "time_Equal t u \<Longrightarrow> loc t = loc u \<Longrightarrow> t = u"
  by (simp add: time_Equal_def)

section \<open>Optional values\<close>

text \<open>A pointer field is an \<open>option\<close>; \<open>dereference\<close> is only used behind a nil check.\<close>

definition opt_holds :: "('a \<Rightarrow> bool) \<Rightarrow> 'a option \<Rightarrow> bool" where
  "opt_holds P x = (case x of None \<Rightarrow> False | Some v \<Rightarrow> P v)"

definition opt_all :: "('a \<Rightarrow> bool) \<Rightarrow> 'a option \<Rightarrow> bool" where
  "opt_all P x = (case x of None \<Rightarrow> True | Some v \<Rightarrow> P v)"

lemma opt_holds_iff [simp]: "opt_holds P x \<longleftrightarrow> (\<exists>v. x = Some v \<and> P v)"
  by (auto simp: opt_holds_def split: option.splits)

lemma opt_all_Some [simp]: "opt_all P (Some v) = P v"
  by (simp add: opt_all_def)

lemma opt_all_None [simp]: "opt_all P None"
  by (simp add: opt_all_def)

section \<open>Maps\<close>

text \<open>
  A Go map whose entries are ranged over is an association list; \<open>map_get\<close> reads it with the zero
  value for a missing key, and \<open>map_accumulate\<close> is \<open>m[k] = m[k].Add(v)\<close>.
\<close>

definition map_get :: "('k \<times> 'v::zero) list \<Rightarrow> 'k \<Rightarrow> 'v" where
  "map_get m k = (case map_of m k of Some v \<Rightarrow> v | None \<Rightarrow> 0)"

definition map_accumulate :: "'k \<Rightarrow> 'v::monoid_add \<Rightarrow> ('k \<times> 'v) list \<Rightarrow> ('k \<times> 'v) list" where
  "map_accumulate k v m = AList.update k (map_get m k + v) m"

lemma map_get_Nil [simp]: "map_get [] k = 0"
  by (simp add: map_get_def)

lemma map_get_update [simp]: "map_get (AList.update k v m) k' = (if k' = k then v else map_get m k')"
  by (simp add: map_get_def update_conv)

lemma map_get_accumulate [simp]:
  "map_get (map_accumulate k v m) k' = (if k' = k then map_get m k + v else map_get m k')"
  by (simp add: map_accumulate_def)

lemma keys_accumulate [simp]: "fst ` set (map_accumulate k v m) = insert k (fst ` set m)"
  by (simp add: map_accumulate_def dom_update)

lemma distinct_accumulate [simp]: "distinct (map fst m) \<Longrightarrow> distinct (map fst (map_accumulate k v m))"
  by (simp add: map_accumulate_def distinct_update)

lemma map_get_in_set: "distinct (map fst m) \<Longrightarrow> (k, v) \<in> set m \<Longrightarrow> map_get m k = v"
  by (simp add: map_get_def)

lemma map_get_not_in: "k \<notin> fst ` set m \<Longrightarrow> map_get m k = 0"
  by (simp add: map_get_def map_of_eq_None_iff [THEN iffD2])

lemma map_get_all_zero:
  "distinct (map fst m) \<Longrightarrow> list_all (\<lambda>(k, v). v = 0) m \<longleftrightarrow> (\<forall>k. map_get m k = 0)"
  by (fastforce simp: list_all_iff map_get_in_set map_get_def dest: map_of_SomeD split: option.splits)

text \<open>Sums over the entries of a list that have a key.\<close>

definition sum_where :: "('a \<Rightarrow> bool) \<Rightarrow> ('a \<Rightarrow> 'v::monoid_add) \<Rightarrow> 'a list \<Rightarrow> 'v" where
  "sum_where P f xs = sum_list (map f (filter P xs))"

lemma sum_where_Nil [simp]: "sum_where P f [] = 0"
  by (simp add: sum_where_def)

lemma sum_where_Cons [simp]: "sum_where P f (x # xs) = (if P x then f x else 0) + sum_where P f xs"
  by (simp add: sum_where_def)

lemma sum_where_append [simp]: "sum_where P f (xs @ ys) = sum_where P f xs + sum_where P f ys"
  by (simp add: sum_where_def)

lemma sum_where_cong:
  "(\<And>x. x \<in> set xs \<Longrightarrow> P x = Q x) \<Longrightarrow> (\<And>x. x \<in> set xs \<Longrightarrow> Q x \<Longrightarrow> f x = g x) \<Longrightarrow>
   sum_where P f xs = sum_where Q g xs"
  by (induction xs) auto

lemma sum_where_none: "(\<And>x. x \<in> set xs \<Longrightarrow> \<not> P x) \<Longrightarrow> sum_where P f xs = 0"
  by (induction xs) auto

section \<open>Sorting\<close>

text \<open>
  \<open>sort.Slice\<close> with the comparison \<open>lt\<close> is insertion sort by the same comparison: the two agree
  whenever the comparison orders the elements totally, which is when the order of the rows does
  not matter either.
\<close>

fun insert_by :: "('a \<Rightarrow> 'a \<Rightarrow> bool) \<Rightarrow> 'a \<Rightarrow> 'a list \<Rightarrow> 'a list" where
  "insert_by lt x [] = [x]"
| "insert_by lt x (y # ys) = (if lt y x then y # insert_by lt x ys else x # y # ys)"

definition sort_by :: "('a \<Rightarrow> 'a \<Rightarrow> bool) \<Rightarrow> 'a list \<Rightarrow> 'a list" where
  "sort_by lt xs = foldr (insert_by lt) xs []"

lemma mset_insert_by [simp]: "mset (insert_by lt x xs) = add_mset x (mset xs)"
  by (induction xs) auto

lemma mset_sort_by [simp]: "mset (sort_by lt xs) = mset xs"
  by (induction xs) (auto simp: sort_by_def)

lemma set_sort_by [simp]: "set (sort_by lt xs) = set xs"
  by (metis mset_sort_by set_mset_mset)

lemma distinct_sort_by [simp]: "distinct (sort_by lt xs) = distinct xs"
  by (metis mset_sort_by mset_eq_imp_distinct_iff)

lemma length_sort_by [simp]: "length (sort_by lt xs) = length xs"
  by (metis mset_sort_by size_mset)

lemma sort_by_Nil [simp]: "sort_by lt [] = []" "sort_by lt xs = [] \<longleftrightarrow> xs = []"
  by (simp add: sort_by_def, metis length_0_conv length_sort_by)

text \<open>The result has no inversion, when the comparison is transitive and asymmetric.\<close>

lemma sorted_insert_by:
  assumes "\<And>x y z. lt x y \<Longrightarrow> \<not> lt z y \<Longrightarrow> lt x z" and "\<And>x y. lt x y \<Longrightarrow> \<not> lt y x"
    and "sorted_wrt (\<lambda>a b. \<not> lt b a) xs"
  shows "sorted_wrt (\<lambda>a b. \<not> lt b a) (insert_by lt x xs)"
  using assms(3)
proof (induction xs)
  case (Cons y ys)
  have mem: "set (insert_by lt x ys) = insert x (set ys)"
    by (metis mset_insert_by set_mset_add_mset_insert set_mset_mset)
  show ?case
  proof (cases "lt y x")
    case True
    with Cons assms(2) [OF True] show ?thesis by (auto simp: mem)
  next
    case False
    then have "\<not> lt z x" if "z \<in> set ys" for z using Cons.prems that assms(1) [of z x y] by auto
    with False Cons.prems show ?thesis by auto
  qed
qed simp

lemma sorted_sort_by:
  assumes "\<And>x y z. lt x y \<Longrightarrow> \<not> lt z y \<Longrightarrow> lt x z" and "\<And>x y. lt x y \<Longrightarrow> \<not> lt y x"
  shows "sorted_wrt (\<lambda>a b. \<not> lt b a) (sort_by lt xs)"
  by (induction xs) (auto simp: sort_by_def intro: sorted_insert_by [OF assms])

section \<open>Evaluation\<close>

text \<open>
  Sequencing is unfolded into case distinctions, so that a branch is evaluated only when it is taken, and code equations
  compute with binary integers where the definitions use natural numbers.
\<close>

declare and_then_def [code_unfold] ensure_def [code_unfold] wrap_def [code_unfold]
declare opt_holds_def [code_unfold] opt_all_def [code_unfold]

definition digit_char :: "int \<Rightarrow> char" where
  "digit_char d =
    (if d = 0 then CHR ''0'' else if d = 1 then CHR ''1'' else if d = 2 then CHR ''2'' else if d = 3 then CHR ''3''
     else if d = 4 then CHR ''4'' else if d = 5 then CHR ''5'' else if d = 6 then CHR ''6'' else if d = 7 then CHR ''7''
     else if d = 8 then CHR ''8'' else CHR ''9'')"

function int_digits :: "int \<Rightarrow> string" where
  "int_digits n = (if n < 10 then [digit_char n] else int_digits (n div 10) @ [digit_char (n mod 10)])"
  by auto
termination
  by (relation "measure nat") auto

declare int_digits.simps [simp del]

lemma of_char_int: "(of_char c :: int) = int (of_char c)"
  by (simp only: of_nat_of_char)

lemma eq_char_of: "c = char_of n \<longleftrightarrow> of_char c = n mod 256" for n :: nat
  by (metis char_of_char char_of_mod_256 of_char_of)

lemma digit_char_eq: "n < 10 \<Longrightarrow> digit_char (int n) = char_of (48 + n)"
  by (simp only: less_Suc_eq eval_nat_numeral) (auto simp: digit_char_def eq_char_of)

lemma itoa_code [code]: "itoa n = int_digits (int n)"
proof (induction n rule: itoa.induct)
  case (1 n)
  have digit: "digit_char (int n mod 10) = char_of (48 + n mod 10)"
    using digit_char_eq [of "n mod 10"] by (simp add: of_nat_mod)
  show ?case
  proof (cases "n < 10")
    case True
    then show ?thesis by (simp add: itoa.simps [of n] int_digits.simps [of "int n"] digit_char_eq)
  next
    case False
    with "1.IH" digit show ?thesis by (simp add: itoa.simps [of n] int_digits.simps [of "int n"] of_nat_div)
  qed
qed

lemma less_eq_char_code [code]: "c \<le> d \<longleftrightarrow> (of_char c :: int) \<le> of_char d" for c d :: char
  by (simp only: less_eq_char_def of_char_int of_nat_le_iff)

lemma less_char_code [code]: "c < d \<longleftrightarrow> (of_char c :: int) < of_char d" for c d :: char
  by (simp only: less_char_def of_char_int of_nat_less_iff)

lemma ascii_code [code]: "ascii s \<longleftrightarrow> list_all (\<lambda>c. (of_char c :: int) < 128) s"
  using of_nat_less_iff [where 'a = int and n = 128] by (simp add: ascii_def of_char_int del: of_nat_less_iff)

definition hex_char :: "int \<Rightarrow> char" where
  "hex_char d = (if d < 10 then digit_char d else if d = 10 then CHR ''a'' else if d = 11 then CHR ''b''
     else if d = 12 then CHR ''c'' else if d = 13 then CHR ''d'' else if d = 14 then CHR ''e'' else CHR ''f'')"

lemma hex_char_eq: "n < 16 \<Longrightarrow> hex_char (int n) = hex_digit n"
  by (simp only: less_Suc_eq eval_nat_numeral) (auto simp: hex_char_def hex_digit_def digit_char_def eq_char_of)

lemma hex_EncodeToString_code [code]:
  "hex_EncodeToString bs = concat (map (\<lambda>c. [hex_char (of_char c div 16), hex_char (of_char c mod 16)]) bs)"
proof -
  have "hex_char (of_char c div 16) = hex_digit (of_char c div 16)" "hex_char (of_char c mod 16) = hex_digit (of_char c mod 16)" for c
    using hex_char_eq [of "of_char c div 16"] hex_char_eq [of "of_char c mod 16"] nat_of_char_less_256 [of c]
    by (simp_all only: of_char_int of_nat_div of_nat_mod of_nat_numeral)
  then show ?thesis by (simp add: hex_EncodeToString_def)
qed

end
