(* ===== verification/Demo_Library.thy ===== *)
theory Demo_Library
  imports Go_Prelude
begin

text \<open>
  A concrete instance of the library parameters, for evaluating the model: decimals are integers
  (every value has zero decimal places), the hash is a stand-in that keeps the end of its input,
  and the JSON codec knows only the empty object.  It is used in witnesses only; no theorem about
  the program depends on it.
\<close>

definition demo_lib :: "int lib" where
  "demo_lib =
    \<lparr>decimal_Round = (\<lambda>x n. x),
     decimal_Mod = (\<lambda>x y. x mod y),
     decimal_Div = (\<lambda>x y. x div y),
     decimal_Floor = (\<lambda>x. x),
     decimal_NumDigits = (\<lambda>x. int (length (int_digits \<bar>x\<bar>))),
     decimal_Exponent = (\<lambda>x. 0),
     decimal_String = (\<lambda>x. (if x < 0 then ''-'' else []) @ int_digits \<bar>x\<bar>),
     uuid_String = (\<lambda>u. int_digits (uint u)),
     sha256_Sum256 = (\<lambda>s. replicate 13 (CHR 0x00) @ take 3 (rev s @ ''...'') @ ''................''),
     unicode_ToLower = (\<lambda>s. s),
     unicode_ToUpper = (\<lambda>s. s),
     json_Decode = (\<lambda>s. if s = ''{}'' then Decoded (JObject []) [] else if s = [] then EOF else DecodeError),
     json_Unmarshal = (\<lambda>s. if s = ''{}'' then Some (JObject []) else None),
     json_Marshal = (\<lambda>v. ''{}''),
     json_Valid = (\<lambda>s. s = ''{}'')\<rparr>"

definition demo_time :: "int \<Rightarrow> time" where
  "demo_time n = \<lparr>instant = n * Microsecond, loc = UTC\<rparr>"

end
