(* ===== verification/Domain_Account.thy ===== *)
theory Domain_Account
  imports Go_Prelude Demo_Library
begin

text \<open>
  \<open>internal/domain/account.go\<close>: accounts, capital flows, their constructors and validation.
  The package-local helpers that several packages repeat verbatim (\<open>normalizeJSONObject\<close>,
  \<open>isCurrencyCode\<close>, \<open>isNormalizedRequired\<close>, \<open>hasPostgresTimestampPrecision\<close>) are modelled here once.
\<close>

section \<open>Shared helpers\<close>

definition normalizeJSONObject :: "'d lib \<Rightarrow> string \<Rightarrow> string option" where
  "normalizeJSONObject L value =
     (let normalized = (if value = [] then ''{}'' else value) in
      case json_Unmarshal L normalized of
        Some (JObject kvs) \<Rightarrow> Some normalized
      | _ \<Rightarrow> None)"

definition hasPostgresTimestampPrecision :: "time \<Rightarrow> bool" where
  "hasPostgresTimestampPrecision value = time_Equal value (Truncate value Microsecond)"

definition isCurrencyCode :: "string \<Rightarrow> bool" where
  "isCurrencyCode value \<longleftrightarrow>
     length value = 3 \<and> list_all (\<lambda>c. \<not> (c < CHR ''A'' \<or> c > CHR ''Z'')) value"

definition hasDecimalScaleAtMost :: "('d::linordered_idom) lib \<Rightarrow> 'd \<Rightarrow> int \<Rightarrow> bool" where
  "hasDecimalScaleAtMost L value places \<longleftrightarrow> value = decimal_Round L value places"

definition isNormalizedRequired :: "string \<Rightarrow> bool" where
  "isNormalizedRequired value \<longleftrightarrow> value \<noteq> [] \<and> value = TrimSpace value"

lemma hasPostgresTimestampPrecision_iff [simp]: "hasPostgresTimestampPrecision t = has_micros t"
  by (simp add: hasPostgresTimestampPrecision_def has_micros_def)

lemma normalizeJSONObject_nonempty: "v \<noteq> [] \<Longrightarrow> normalizeJSONObject L v \<in> {None, Some v}"
  by (auto simp: normalizeJSONObject_def Let_def split: option.splits json.splits)

lemma normalizeJSONObject_idem:
  "normalizeJSONObject L v = Some w \<Longrightarrow> normalizeJSONObject L w = Some w"
  by (auto simp: normalizeJSONObject_def Let_def split: option.splits json.splits if_splits)

section \<open>Data\<close>

datatype AccountEnvironment =
    AccountEnvironmentPaperScored
  | AccountEnvironmentPaperStress
  | AccountEnvironmentShadow
  | AccountEnvironmentLive
  | OtherAccountEnvironment string

datatype MarginProfile =
    MarginProfileCash
  | MarginProfileRegT
  | MarginProfilePortfolio
  | MarginProfileStressUnlimited
  | OtherMarginProfile string

datatype AccountStatus =
    AccountStatusActive
  | AccountStatusPaused
  | AccountStatusClosed
  | OtherAccountStatus string

datatype CapitalFlowType =
    CapitalFlowTypeDeposit
  | CapitalFlowTypeWithdrawal
  | OtherCapitalFlowType string

datatype CapitalFlowSource =
    CapitalFlowSourceAccountOpening
  | CapitalFlowSourceOperator
  | CapitalFlowSourceVenue
  | CapitalFlowSourceReconciliation
  | CapitalFlowSourceMigration
  | OtherCapitalFlowSource string

fun AccountEnvironment_string :: "AccountEnvironment \<Rightarrow> string" where
  "AccountEnvironment_string AccountEnvironmentPaperScored = ''paper_scored''"
| "AccountEnvironment_string AccountEnvironmentPaperStress = ''paper_stress''"
| "AccountEnvironment_string AccountEnvironmentShadow = ''shadow''"
| "AccountEnvironment_string AccountEnvironmentLive = ''live''"
| "AccountEnvironment_string (OtherAccountEnvironment s) = s"

definition PaperEvidenceClassPromotion :: string where
  "PaperEvidenceClassPromotion = ''promotion_evidence''"

definition PaperEvidenceClassSynthetic :: string where
  "PaperEvidenceClassSynthetic = ''synthetic_stress''"

record 'd Account =
  Account_ID :: uuid
  Account_Name :: string
  Account_Environment :: AccountEnvironment
  Account_Venue :: string
  Account_ExternalAccountID :: string
  Account_BaseCurrency :: string
  Account_StorageNamespace :: string
  Account_EvidenceClass :: string
  Account_StartingCapital :: 'd
  Account_BuyingPowerMultiplier :: 'd
  Account_MarginProfile :: MarginProfile
  Account_Status :: AccountStatus
  Account_CreatedBy :: string
  Account_CreationMetadata :: string
  Account_CreatedAt :: time

record 'd AccountInput =
  AccountInput_Name :: string
  AccountInput_Environment :: AccountEnvironment
  AccountInput_Venue :: string
  AccountInput_ExternalAccountID :: string
  AccountInput_BaseCurrency :: string
  AccountInput_StorageNamespace :: string
  AccountInput_StartingCapital :: 'd
  AccountInput_BuyingPowerMultiplier :: 'd
  AccountInput_MarginProfile :: MarginProfile
  AccountInput_CreatedBy :: string
  AccountInput_CreationMetadata :: string
  AccountInput_CreatedAt :: time

record 'd CapitalFlow =
  CapitalFlow_ID :: uuid
  CapitalFlow_AccountID :: uuid
  CapitalFlow_Type :: CapitalFlowType
  CapitalFlow_Amount :: 'd
  CapitalFlow_Currency :: string
  CapitalFlow_IdempotencyKey :: string
  CapitalFlow_Source :: CapitalFlowSource
  CapitalFlow_ExternalReference :: string
  CapitalFlow_Metadata :: string
  CapitalFlow_EffectiveAt :: time
  CapitalFlow_ObservedAt :: time
  CapitalFlow_CreatedAt :: time

record 'd CapitalFlowInput =
  CapitalFlowInput_AccountID :: uuid
  CapitalFlowInput_Type :: CapitalFlowType
  CapitalFlowInput_Amount :: 'd
  CapitalFlowInput_Currency :: string
  CapitalFlowInput_IdempotencyKey :: string
  CapitalFlowInput_Source :: CapitalFlowSource
  CapitalFlowInput_ExternalReference :: string
  CapitalFlowInput_Metadata :: string
  CapitalFlowInput_EffectiveAt :: time
  CapitalFlowInput_ObservedAt :: time

datatype account_error =
    AccountIDRequired
  | AccountNameRequired
  | AccountNameVenueRequired
  | AccountVenueRequired
  | InvalidEnvironment
  | InvalidEnvironmentProfileStatus
  | BaseCurrencyNotCode
  | StorageNamespaceRequired
  | StorageNamespaceNotScoped
  | StartingCapitalNotPositive
  | StartingCapitalScale
  | StartingCapitalInvalid
  | BuyingPowerNegative
  | BuyingPowerScale
  | BuyingPowerInvalid
  | NonStressBuyingPowerNotPositive
  | InvalidMarginProfile
  | UnlimitedMarginRestricted
  | ZeroBuyingPowerNeedsUnlimited
  | EvidenceClassMismatch
  | AccountCreatorRequired
  | AccountCreationIdentityRequired
  | AccountCreationTimePrecision
  | AccountMetadataNotObject

datatype flow_error =
    FlowIDsRequired
  | FlowAccountIDRequired
  | FlowTypeInvalid
  | FlowTypeOrSourceInvalid
  | FlowAmountNotPositive
  | FlowAmountScale
  | FlowAmountInvalid
  | FlowCurrencyNotCode
  | FlowIdempotencyKeyRequired
  | FlowSourceInvalid
  | FlowEffectiveTimeRequired
  | FlowTimesRequired
  | FlowTimestampPrecision
  | FlowMetadataNotObject

section \<open>Operations\<close>

fun AccountEnvironment_IsValid :: "AccountEnvironment \<Rightarrow> bool" where
  "AccountEnvironment_IsValid (OtherAccountEnvironment s) = False"
| "AccountEnvironment_IsValid _ = True"

fun MarginProfile_IsValid :: "MarginProfile \<Rightarrow> bool" where
  "MarginProfile_IsValid (OtherMarginProfile s) = False"
| "MarginProfile_IsValid _ = True"

fun AccountStatus_IsValid :: "AccountStatus \<Rightarrow> bool" where
  "AccountStatus_IsValid (OtherAccountStatus s) = False"
| "AccountStatus_IsValid _ = True"

definition CapitalFlowType_IsValid :: "CapitalFlowType \<Rightarrow> bool" where
  "CapitalFlowType_IsValid t \<longleftrightarrow> t = CapitalFlowTypeDeposit \<or> t = CapitalFlowTypeWithdrawal"

fun CapitalFlowSource_IsValid :: "CapitalFlowSource \<Rightarrow> bool" where
  "CapitalFlowSource_IsValid (OtherCapitalFlowSource s) = False"
| "CapitalFlowSource_IsValid _ = True"

definition expected_evidence_class :: "AccountEnvironment \<Rightarrow> string" where
  "expected_evidence_class e =
     (case e of
        AccountEnvironmentPaperScored \<Rightarrow> PaperEvidenceClassPromotion
      | AccountEnvironmentPaperStress \<Rightarrow> PaperEvidenceClassSynthetic
      | _ \<Rightarrow> ''non_promotion'')"

definition Account_Validate :: "('d::linordered_idom) lib \<Rightarrow> 'd Account \<Rightarrow> account_error option" where
  [valid_defs]: "Account_Validate L a = first_err
    [guard (Account_ID a = uuid_Nil) AccountIDRequired,
     guard (TrimSpace (Account_Name a) = [] \<or> TrimSpace (Account_Venue a) = []) AccountNameVenueRequired,
     guard (\<not> AccountEnvironment_IsValid (Account_Environment a) \<or>
            \<not> MarginProfile_IsValid (Account_MarginProfile a) \<or>
            \<not> AccountStatus_IsValid (Account_Status a)) InvalidEnvironmentProfileStatus,
     guard (\<not> isCurrencyCode (Account_BaseCurrency a)) BaseCurrencyNotCode,
     guard (TrimSpace (Account_StorageNamespace a) = []) StorageNamespaceRequired,
     guard ((Account_Environment a = AccountEnvironmentPaperScored \<or>
             Account_Environment a = AccountEnvironmentPaperStress) \<and>
            \<not> HasPrefix (Account_StorageNamespace a)
                 (AccountEnvironment_string (Account_Environment a) @ ''/'')) StorageNamespaceNotScoped,
     guard (\<not> Account_StartingCapital a > 0 \<or>
            \<not> hasDecimalScaleAtMost L (Account_StartingCapital a) 8) StartingCapitalInvalid,
     guard (Account_BuyingPowerMultiplier a < 0 \<or>
            \<not> hasDecimalScaleAtMost L (Account_BuyingPowerMultiplier a) 8) BuyingPowerInvalid,
     guard (Account_Environment a \<noteq> AccountEnvironmentPaperStress \<and>
            \<not> Account_BuyingPowerMultiplier a > 0) NonStressBuyingPowerNotPositive,
     guard (Account_MarginProfile a = MarginProfileStressUnlimited \<and>
            Account_Environment a \<noteq> AccountEnvironmentPaperStress) UnlimitedMarginRestricted,
     guard (Account_Environment a = AccountEnvironmentPaperStress \<and>
            Account_BuyingPowerMultiplier a = 0 \<and>
            Account_MarginProfile a \<noteq> MarginProfileStressUnlimited) ZeroBuyingPowerNeedsUnlimited,
     guard (Account_EvidenceClass a \<noteq> expected_evidence_class (Account_Environment a)) EvidenceClassMismatch,
     guard (TrimSpace (Account_CreatedBy a) = [] \<or> IsZero (Account_CreatedAt a)) AccountCreationIdentityRequired,
     guard (\<not> hasPostgresTimestampPrecision (Account_CreatedAt a)) AccountCreationTimePrecision,
     guard (normalizeJSONObject L (Account_CreationMetadata a) = None) AccountMetadataNotObject]"

definition NewAccount ::
    "('d::linordered_idom) lib \<Rightarrow> time \<Rightarrow> uuid \<Rightarrow> 'd AccountInput \<Rightarrow> account_error + 'd Account" where
  "NewAccount L now newID input =
    (let name = TrimSpace (AccountInput_Name input);
         venue = ToLower L (TrimSpace (AccountInput_Venue input));
         currency = ToUpper L (TrimSpace (AccountInput_BaseCurrency input));
         namespace = TrimSpace (AccountInput_StorageNamespace input);
         createdBy = TrimSpace (AccountInput_CreatedBy input);
         env = AccountInput_Environment input;
         capital = AccountInput_StartingCapital input;
         multiplier = AccountInput_BuyingPowerMultiplier input;
         profile = AccountInput_MarginProfile input
     in ensure (first_err
          [guard (name = []) AccountNameRequired,
           guard (\<not> AccountEnvironment_IsValid env) InvalidEnvironment,
           guard (venue = []) AccountVenueRequired,
           guard (\<not> isCurrencyCode currency) BaseCurrencyNotCode,
           guard (namespace = []) StorageNamespaceRequired,
           guard (\<not> capital > 0) StartingCapitalNotPositive,
           guard (\<not> hasDecimalScaleAtMost L capital 8) StartingCapitalScale,
           guard (multiplier < 0) BuyingPowerNegative,
           guard (\<not> hasDecimalScaleAtMost L multiplier 8) BuyingPowerScale,
           guard (env \<noteq> AccountEnvironmentPaperStress \<and> \<not> multiplier > 0) NonStressBuyingPowerNotPositive,
           guard (\<not> MarginProfile_IsValid profile) InvalidMarginProfile,
           guard (profile = MarginProfileStressUnlimited \<and> env \<noteq> AccountEnvironmentPaperStress)
             UnlimitedMarginRestricted,
           guard (env = AccountEnvironmentPaperStress \<and> multiplier = 0 \<and>
                  profile \<noteq> MarginProfileStressUnlimited) ZeroBuyingPowerNeedsUnlimited,
           guard (createdBy = []) AccountCreatorRequired])
        (case normalizeJSONObject L (AccountInput_CreationMetadata input) of
           None \<Rightarrow> Inl AccountMetadataNotObject
         | Some creationMetadata \<Rightarrow>
            (let evidenceClass =
                   (if env = AccountEnvironmentPaperScored then PaperEvidenceClassPromotion
                    else if env \<noteq> AccountEnvironmentPaperStress then ''non_promotion''
                    else PaperEvidenceClassSynthetic);
                 createdAt = utc_micros (if IsZero (AccountInput_CreatedAt input) then now
                                         else AccountInput_CreatedAt input);
                 account =
                   \<lparr>Account_ID = newID,
                    Account_Name = name,
                    Account_Environment = env,
                    Account_Venue = venue,
                    Account_ExternalAccountID = TrimSpace (AccountInput_ExternalAccountID input),
                    Account_BaseCurrency = currency,
                    Account_StorageNamespace = namespace,
                    Account_EvidenceClass = evidenceClass,
                    Account_StartingCapital = capital,
                    Account_BuyingPowerMultiplier = multiplier,
                    Account_MarginProfile = profile,
                    Account_Status = AccountStatusActive,
                    Account_CreatedBy = createdBy,
                    Account_CreationMetadata = creationMetadata,
                    Account_CreatedAt = createdAt\<rparr>
             in ensure (Account_Validate L account) (Inr account))))"

definition CapitalFlow_Validate ::
    "('d::linordered_idom) lib \<Rightarrow> 'd CapitalFlow \<Rightarrow> flow_error option" where
  [valid_defs]: "CapitalFlow_Validate L f = first_err
    [guard (CapitalFlow_ID f = uuid_Nil \<or> CapitalFlow_AccountID f = uuid_Nil) FlowIDsRequired,
     guard (\<not> CapitalFlowType_IsValid (CapitalFlow_Type f) \<or>
            \<not> CapitalFlowSource_IsValid (CapitalFlow_Source f)) FlowTypeOrSourceInvalid,
     guard (\<not> CapitalFlow_Amount f > 0 \<or> \<not> hasDecimalScaleAtMost L (CapitalFlow_Amount f) 8)
       FlowAmountInvalid,
     guard (\<not> isCurrencyCode (CapitalFlow_Currency f)) FlowCurrencyNotCode,
     guard (TrimSpace (CapitalFlow_IdempotencyKey f) = []) FlowIdempotencyKeyRequired,
     guard (IsZero (CapitalFlow_EffectiveAt f) \<or> IsZero (CapitalFlow_ObservedAt f)) FlowTimesRequired,
     guard (\<not> hasPostgresTimestampPrecision (CapitalFlow_EffectiveAt f) \<or>
            \<not> hasPostgresTimestampPrecision (CapitalFlow_ObservedAt f)) FlowTimestampPrecision,
     guard (normalizeJSONObject L (CapitalFlow_Metadata f) = None) FlowMetadataNotObject]"

definition NewCapitalFlow ::
    "('d::linordered_idom) lib \<Rightarrow> time \<Rightarrow> uuid \<Rightarrow> 'd CapitalFlowInput \<Rightarrow> flow_error + 'd CapitalFlow" where
  "NewCapitalFlow L now newID input =
    (let currency = ToUpper L (TrimSpace (CapitalFlowInput_Currency input));
         idempotencyKey = TrimSpace (CapitalFlowInput_IdempotencyKey input)
     in ensure (first_err
          [guard (CapitalFlowInput_AccountID input = uuid_Nil) FlowAccountIDRequired,
           guard (\<not> CapitalFlowType_IsValid (CapitalFlowInput_Type input)) FlowTypeInvalid,
           guard (\<not> CapitalFlowInput_Amount input > 0) FlowAmountNotPositive,
           guard (\<not> hasDecimalScaleAtMost L (CapitalFlowInput_Amount input) 8) FlowAmountScale,
           guard (\<not> isCurrencyCode currency) FlowCurrencyNotCode,
           guard (idempotencyKey = []) FlowIdempotencyKeyRequired,
           guard (\<not> CapitalFlowSource_IsValid (CapitalFlowInput_Source input)) FlowSourceInvalid,
           guard (IsZero (CapitalFlowInput_EffectiveAt input)) FlowEffectiveTimeRequired])
        (case normalizeJSONObject L (CapitalFlowInput_Metadata input) of
           None \<Rightarrow> Inl FlowMetadataNotObject
         | Some metadata \<Rightarrow>
            (let observedAt = utc_micros (if IsZero (CapitalFlowInput_ObservedAt input) then now
                                          else CapitalFlowInput_ObservedAt input);
                 flow =
                   \<lparr>CapitalFlow_ID = newID,
                    CapitalFlow_AccountID = CapitalFlowInput_AccountID input,
                    CapitalFlow_Type = CapitalFlowInput_Type input,
                    CapitalFlow_Amount = CapitalFlowInput_Amount input,
                    CapitalFlow_Currency = currency,
                    CapitalFlow_IdempotencyKey = idempotencyKey,
                    CapitalFlow_Source = CapitalFlowInput_Source input,
                    CapitalFlow_ExternalReference = TrimSpace (CapitalFlowInput_ExternalReference input),
                    CapitalFlow_Metadata = metadata,
                    CapitalFlow_EffectiveAt = utc_micros (CapitalFlowInput_EffectiveAt input),
                    CapitalFlow_ObservedAt = observedAt,
                    CapitalFlow_CreatedAt = time_zero\<rparr>
             in ensure (CapitalFlow_Validate L flow) (Inr flow))))"

definition PromotionEligible :: "'d Account \<Rightarrow> bool" where
  "PromotionEligible a \<longleftrightarrow>
     Account_Environment a = AccountEnvironmentPaperScored \<and>
     Account_EvidenceClass a = PaperEvidenceClassPromotion"

definition CanShareStorageWith :: "'d Account \<Rightarrow> 'd Account \<Rightarrow> bool" where
  "CanShareStorageWith a other \<longleftrightarrow>
     Account_StorageNamespace a \<noteq> [] \<and>
     Account_StorageNamespace a = Account_StorageNamespace other \<and>
     Account_Environment a = Account_Environment other"

section \<open>Properties\<close>

lemma Account_Validate_namespace:
  assumes "Account_Validate L a = None"
    and "Account_Environment a = AccountEnvironmentPaperScored \<or>
         Account_Environment a = AccountEnvironmentPaperStress"
  shows "prefix (AccountEnvironment_string (Account_Environment a) @ ''/'') (Account_StorageNamespace a)"
  using assms by (auto simp: Account_Validate_def HasPrefix_def)

lemma Account_Validate_evidence:
  "Account_Validate L a = None \<Longrightarrow> Account_EvidenceClass a = expected_evidence_class (Account_Environment a)"
  by (simp add: Account_Validate_def)

lemma prefix_same_length_eq:
  "prefix p s \<Longrightarrow> prefix q s \<Longrightarrow> length p = length q \<Longrightarrow> p = q"
  by (auto simp: prefix_def append_eq_append_conv)

lemma paper_namespaces_disjoint_env:
  assumes "Account_Validate L a = None" and "Account_Validate L b = None"
    and "Account_Environment a \<in> {AccountEnvironmentPaperScored, AccountEnvironmentPaperStress}"
    and "Account_Environment b \<in> {AccountEnvironmentPaperScored, AccountEnvironmentPaperStress}"
    and "Account_StorageNamespace a = Account_StorageNamespace b"
  shows "Account_Environment a = Account_Environment b"
proof -
  from assms have "AccountEnvironment_string (Account_Environment a) @ ''/'' =
      AccountEnvironment_string (Account_Environment b) @ ''/''"
    using Account_Validate_namespace [of L a] Account_Validate_namespace [of L b]
    by (intro prefix_same_length_eq [where s = "Account_StorageNamespace a"]) auto
  with assms(3,4) show ?thesis by auto
qed

text \<open>
  The scored and the stress paper environment never share storage: a validated account that is
  eligible for promotion and a validated stress account have different storage namespaces.
\<close>

theorem promotion_storage_isolated:
  assumes "Account_Validate L a = None" and "Account_Validate L b = None"
    and "PromotionEligible a" and "Account_Environment b = AccountEnvironmentPaperStress"
  shows "Account_StorageNamespace a \<noteq> Account_StorageNamespace b \<and> \<not> CanShareStorageWith a b \<and>
    \<not> PromotionEligible b"
  using assms paper_namespaces_disjoint_env [of L a b]
  by (auto simp: PromotionEligible_def CanShareStorageWith_def)

definition demo_account :: "AccountEnvironment \<Rightarrow> string \<Rightarrow> MarginProfile \<Rightarrow> int Account" where
  "demo_account env namespace profile =
    \<lparr>Account_ID = 7, Account_Name = ''main'', Account_Environment = env, Account_Venue = ''alpaca'',
     Account_ExternalAccountID = [], Account_BaseCurrency = ''USD'', Account_StorageNamespace = namespace,
     Account_EvidenceClass = expected_evidence_class env, Account_StartingCapital = 1000,
     Account_BuyingPowerMultiplier = 1, Account_MarginProfile = profile, Account_Status = AccountStatusActive,
     Account_CreatedBy = ''operator'', Account_CreationMetadata = ''{}'', Account_CreatedAt = demo_time 1\<rparr>"

end
