(* ===== verification/Economic_ID.thy ===== *)
theory Economic_ID
  imports Go_Prelude
begin

text \<open>
  \<open>internal/economicid/id.go\<close>: the deterministic identifiers shared by all canonical economic
  facts.  The hash input is the domain followed by length-prefixed components; the identifier is
  the first 16 bytes of its SHA-256.  The framing is proved unambiguous, and the contract every
  record with a derived identity follows is stated once as the locale \<open>derived_identity\<close>.
\<close>

section \<open>The identifier\<close>

definition componentSeparator :: char where
  "componentSeparator = CHR 0x1F"

definition frame_component :: "string \<Rightarrow> string" where
  "frame_component c = componentSeparator # itoa (length c) @ CHR '':'' # c"

definition hash_input :: "string \<Rightarrow> string list \<Rightarrow> string" where
  "hash_input domain components = domain @ concat (map frame_component components)"

definition uuid_of_bytes :: "string \<Rightarrow> uuid" where
  "uuid_of_bytes bs = foldl (\<lambda>acc c. acc * 256 + of_nat (of_char c)) 0 bs"

lemma uuid_of_bytes_code [code]:
  "uuid_of_bytes bs = word_of_int (foldl (\<lambda>acc c. acc * 256 + of_char c) 0 bs)"
proof -
  have "foldl (\<lambda>acc c. acc * 256 + of_nat (of_char c)) (word_of_int n :: uuid) bs =
    word_of_int (foldl (\<lambda>acc c. acc * 256 + of_char c) n bs)" for n
  proof (induction bs arbitrary: n)
    case (Cons c bs)
    have "(word_of_int n :: uuid) * 256 + of_nat (of_char c) = word_of_int (n * 256 + of_char c)"
      by (simp add: of_char_int)
    then show ?case by (simp only: foldl.simps Cons.IH)
  qed simp
  from this [of 0] show ?thesis by (simp add: uuid_of_bytes_def)
qed

definition DeterministicUUID :: "'d lib \<Rightarrow> string \<Rightarrow> string list \<Rightarrow> uuid" where
  "DeterministicUUID L domain components =
     uuid_of_bytes (take 16 (sha256_Sum256 L (hash_input domain components)))"

section \<open>The framing is unambiguous\<close>

definition atoi :: "string \<Rightarrow> nat" where
  "atoi s = foldl (\<lambda>a c. 10 * a + (of_char c - 48)) 0 s"

lemma of_char_digit: "n < 10 \<Longrightarrow> of_char (char_of (48 + n :: nat)) = (48 + n :: nat)"
  by simp

lemma itoa_digits: "c \<in> set (itoa n) \<Longrightarrow> 48 \<le> (of_char c :: nat) \<and> (of_char c :: nat) \<le> 57"
proof (induction n rule: itoa.induct)
  case (1 n)
  show ?case
  proof (cases "n < 10")
    case True
    with "1.prems" have "c = char_of (48 + n)" by (simp add: itoa.simps [of n])
    with True show ?thesis by simp
  next
    case False
    from "1.prems" False have "c \<in> set (itoa (n div 10)) \<or> c = char_of (48 + n mod 10)"
      by (auto simp: itoa.simps [of n])
    then show ?thesis
    proof
      assume "c \<in> set (itoa (n div 10))"
      with "1.IH" False show ?thesis by blast
    next
      assume "c = char_of (48 + n mod 10)"
      moreover have "n mod 10 < 10" by simp
      ultimately show ?thesis by simp
    qed
  qed
qed

lemma atoi_itoa: "atoi (itoa n) = n"
proof (induction n rule: itoa.induct)
  case (1 n)
  show ?case
  proof (cases "n < 10")
    case True
    then show ?thesis by (simp add: atoi_def itoa.simps [of n])
  next
    case False
    with "1.IH" have "atoi (itoa (n div 10)) = n div 10" by blast
    moreover have "of_char (char_of (48 + n mod 10) :: char) = 48 + n mod 10"
      by (rule of_char_digit) simp
    ultimately show ?thesis
      using False by (simp add: atoi_def itoa.simps [of n])
  qed
qed

lemma itoa_inj: "itoa m = itoa n \<Longrightarrow> m = n"
  by (metis atoi_itoa)

lemma colon_notin_itoa: "CHR '':'' \<notin> set (itoa n)"
  using itoa_digits [of "CHR '':''" n] by auto

lemma append_stop_eq:
  assumes "xs @ z # us = ys @ z # vs" and "z \<notin> set xs" and "z \<notin> set ys"
  shows "xs = ys \<and> us = vs"
proof -
  have "takeWhile (\<lambda>c. c \<noteq> z) (xs @ z # us) = xs" "takeWhile (\<lambda>c. c \<noteq> z) (ys @ z # vs) = ys"
    using assms(2,3) by (auto simp: takeWhile_append)
  with assms(1) show ?thesis by simp
qed

lemma frame_component_append_eq:
  assumes "frame_component c @ r = frame_component c' @ r'"
  shows "c = c' \<and> r = r'"
proof -
  from assms have "itoa (length c) @ CHR '':'' # (c @ r) = itoa (length c') @ CHR '':'' # (c' @ r')"
    by (simp add: frame_component_def)
  then have "itoa (length c) = itoa (length c') \<and> c @ r = c' @ r'"
    by (rule append_stop_eq) (rule colon_notin_itoa)+
  then show ?thesis by (auto dest: itoa_inj)
qed

lemma concat_frames_inj:
  "concat (map frame_component cs) = concat (map frame_component cs') \<Longrightarrow> cs = cs'"
proof (induction cs arbitrary: cs')
  case Nil
  then show ?case by (cases cs') (auto simp: frame_component_def)
next
  case (Cons c cs)
  then obtain c' ds where cs': "cs' = c' # ds"
    by (cases cs') (auto simp: frame_component_def)
  with Cons.prems have "c = c' \<and> concat (map frame_component cs) = concat (map frame_component ds)"
    by (intro frame_component_append_eq) simp
  with Cons.IH cs' show ?case by blast
qed

lemma hash_input_inj:
  assumes "hash_input d cs = hash_input d' cs'"
    and "componentSeparator \<notin> set d" and "componentSeparator \<notin> set d'"
  shows "d = d' \<and> cs = cs'"
proof -
  have stop: "takeWhile (\<lambda>c. c \<noteq> componentSeparator) (hash_input e es) = e"
    if "componentSeparator \<notin> set e" for e es
    using that by (cases es) (auto simp: hash_input_def frame_component_def takeWhile_append)
  from stop [of d cs] stop [of d' cs'] assms have "d = d'" by simp
  with assms(1) have "concat (map frame_component cs) = concat (map frame_component cs')"
    by (simp add: hash_input_def)
  with \<open>d = d'\<close> show ?thesis by (blast dest: concat_frames_inj)
qed

section \<open>The contract of a derived identity\<close>

text \<open>
  A record whose \<open>Validate\<close> recomputes its identifier from some of its fields.  Equal identity
  fields then give equal identifiers (a retry finds the original row), and, unless the hash
  collides on the two inputs, equal identifiers give equal identity fields.
\<close>

definition collision_free :: "'d lib \<Rightarrow> string \<Rightarrow> string list set \<Rightarrow> bool" where
  "collision_free L domain S \<longleftrightarrow> inj_on (DeterministicUUID L domain) S"

locale derived_identity =
  fixes L :: "'d lib"
    and domain :: string
    and valid :: "'a \<Rightarrow> bool"
    and ident :: "'a \<Rightarrow> uuid"
    and components :: "'a \<Rightarrow> string list"
  assumes ident_derived: "valid x \<Longrightarrow> ident x = DeterministicUUID L domain (components x)"
begin

lemma same_source_same_id:
  "valid x \<Longrightarrow> valid y \<Longrightarrow> components x = components y \<Longrightarrow> ident x = ident y"
  by (simp add: ident_derived)

lemma same_id_same_source:
  "collision_free L domain {components x, components y} \<Longrightarrow> valid x \<Longrightarrow> valid y \<Longrightarrow>
   ident x = ident y \<Longrightarrow> components x = components y"
  unfolding collision_free_def by (metis ident_derived inj_onD insertI1 insertI2)

end

section \<open>Properties\<close>

text \<open>
  C24: the bytes that \<open>DeterministicUUID\<close> hashes determine the domain and every component, in
  order: no two different component lists share a hash input, whatever bytes the components
  contain, provided the domains do not contain the separator byte (all domains of the program are
  plain ASCII words).
\<close>

theorem hash_input_unambiguous:
  assumes "componentSeparator \<notin> set d" and "componentSeparator \<notin> set d'"
  shows "hash_input d cs = hash_input d' cs' \<longleftrightarrow> d = d' \<and> cs = cs'"
  using assms hash_input_inj by auto

lemma hash_input_unambiguous_witness:
  "componentSeparator \<notin> set ''mark'' \<and>
   hash_input ''mark'' [''a'', ''bc''] \<noteq> hash_input ''mark'' [''ab'', ''c'']"
  using hash_input_unambiguous [of "''mark''" "''mark''" "[''a'', ''bc'']" "[''ab'', ''c'']"]
  by (simp add: componentSeparator_def)

end
