(* ===== verification/Instrument_Reference.thy ===== *)
theory Instrument_Reference
  imports Domain_Account Economic_ID Demo_Library
begin

text \<open>
  \<open>internal/instrument\<close>: canonical instruments (\<open>instrument.go\<close>), dated reference facts
  (\<open>reference.go\<close>: alias events, venue contracts, corporate actions) and option contract terms
  (\<open>option_terms.go\<close>).  Where the source ranges over a Go map of decimals, whose order is not
  fixed, the model checks the entries in the order they are written: acceptance is the same in
  every order.
\<close>

section \<open>Data\<close>

datatype AssetClass =
    AssetClassUnknown
  | AssetClassEquity
  | AssetClassETF
  | AssetClassOption
  | AssetClassCryptoSpot
  | AssetClassPredictionContract
  | AssetClassFuture
  | OtherAssetClass string

datatype Status =
    StatusUnset  \<comment> \<open>the empty string\<close>
  | StatusActive
  | StatusInactive
  | StatusExpired
  | StatusQuarantined
  | OtherStatus string

datatype SettlementMethod =
    SettlementUnset  \<comment> \<open>the empty string\<close>
  | SettlementCash
  | SettlementPhysical
  | SettlementCrypto
  | SettlementBinary
  | OtherSettlementMethod string

datatype ExerciseStyle =
    ExerciseUnset  \<comment> \<open>the empty string\<close>
  | ExerciseAmerican
  | ExerciseEuropean
  | OtherExerciseStyle string

record 'd Instrument =
  Instrument_ID :: uuid
  Instrument_IdentityKey :: string
  Instrument_AssetClass :: AssetClass
  Instrument_PrimaryVenue :: string
  Instrument_Currency :: string
  Instrument_TickSize :: 'd
  Instrument_LotSize :: 'd
  Instrument_Multiplier :: 'd
  Instrument_Expiration :: "time option"
  Instrument_ExerciseStyle :: ExerciseStyle
  Instrument_SettlementMethod :: SettlementMethod
  Instrument_UnderlyingID :: "uuid option"
  Instrument_Status :: Status
  Instrument_Metadata :: string
  Instrument_CreatedAt :: time

record 'd InstrumentInput =
  InstrumentInput_IdentityKey :: string
  InstrumentInput_AssetClass :: AssetClass
  InstrumentInput_PrimaryVenue :: string
  InstrumentInput_Currency :: string
  InstrumentInput_TickSize :: 'd
  InstrumentInput_LotSize :: 'd
  InstrumentInput_Multiplier :: 'd
  InstrumentInput_Expiration :: "time option"
  InstrumentInput_ExerciseStyle :: ExerciseStyle
  InstrumentInput_SettlementMethod :: SettlementMethod
  InstrumentInput_UnderlyingID :: "uuid option"
  InstrumentInput_Status :: Status
  InstrumentInput_Metadata :: string
  InstrumentInput_CreatedAt :: time

datatype AliasType =
    AliasTicker | AliasOCC | AliasCUSIP | AliasFIGI | AliasVenueContract | AliasSlug | AliasProviderID
  | OtherAliasType string

datatype AliasAction = AliasAssigned | AliasRetired | OtherAliasAction string

record AliasEvent =
  AliasEvent_ID :: uuid
  AliasEvent_InstrumentID :: uuid
  AliasEvent_Provider :: string
  AliasEvent_AliasType :: AliasType
  AliasEvent_AliasValue :: string
  AliasEvent_Action :: AliasAction
  AliasEvent_EffectiveAt :: time
  AliasEvent_Source :: string
  AliasEvent_Metadata :: string
  AliasEvent_CreatedAt :: time

record AliasEventInput =
  AliasEventInput_InstrumentID :: uuid
  AliasEventInput_Provider :: string
  AliasEventInput_AliasType :: AliasType
  AliasEventInput_AliasValue :: string
  AliasEventInput_Action :: AliasAction
  AliasEventInput_EffectiveAt :: time
  AliasEventInput_Source :: string
  AliasEventInput_Metadata :: string
  AliasEventInput_CreatedAt :: time

record 'd VenueContract =
  VenueContract_ID :: uuid
  VenueContract_InstrumentID :: uuid
  VenueContract_Venue :: string
  VenueContract_ContractID :: string
  VenueContract_Currency :: string
  VenueContract_TickSize :: 'd
  VenueContract_LotSize :: 'd
  VenueContract_Multiplier :: 'd
  VenueContract_SettlementMethod :: SettlementMethod
  VenueContract_ValidFrom :: time
  VenueContract_ValidTo :: "time option"
  VenueContract_Metadata :: string
  VenueContract_CreatedAt :: time

record 'd VenueContractInput =
  VenueContractInput_InstrumentID :: uuid
  VenueContractInput_Venue :: string
  VenueContractInput_ContractID :: string
  VenueContractInput_Currency :: string
  VenueContractInput_TickSize :: 'd
  VenueContractInput_LotSize :: 'd
  VenueContractInput_Multiplier :: 'd
  VenueContractInput_SettlementMethod :: SettlementMethod
  VenueContractInput_ValidFrom :: time
  VenueContractInput_ValidTo :: "time option"
  VenueContractInput_Metadata :: string
  VenueContractInput_CreatedAt :: time

datatype CorporateActionType =
    CorporateActionSymbolChange | CorporateActionSplit | CorporateActionReverseSplit
  | CorporateActionMerger | CorporateActionSpinoff | CorporateActionDelisting
  | CorporateActionCashDividend | CorporateActionFuturesRoll
  | OtherCorporateActionType string

record 'd CorporateAction =
  CorporateAction_ID :: uuid
  CorporateAction_InstrumentID :: uuid
  CorporateAction_SuccessorInstrumentID :: "uuid option"
  CorporateAction_ActionType :: CorporateActionType
  CorporateAction_EffectiveAt :: time
  CorporateAction_RatioNumerator :: 'd
  CorporateAction_RatioDenominator :: 'd
  CorporateAction_CashAmount :: "'d option"
  CorporateAction_CashCurrency :: string
  CorporateAction_Source :: string
  CorporateAction_SourceEventID :: string
  CorporateAction_Metadata :: string
  CorporateAction_CreatedAt :: time

record 'd CorporateActionInput =
  CorporateActionInput_InstrumentID :: uuid
  CorporateActionInput_SuccessorInstrumentID :: "uuid option"
  CorporateActionInput_ActionType :: CorporateActionType
  CorporateActionInput_EffectiveAt :: time
  CorporateActionInput_RatioNumerator :: 'd
  CorporateActionInput_RatioDenominator :: 'd
  CorporateActionInput_CashAmount :: "'d option"
  CorporateActionInput_CashCurrency :: string
  CorporateActionInput_Source :: string
  CorporateActionInput_SourceEventID :: string
  CorporateActionInput_Metadata :: string
  CorporateActionInput_CreatedAt :: time

datatype OptionContractType = OptionContractUnset | OptionContractCall | OptionContractPut | OtherOptionContractType string

record 'd OptionContractTerms =
  OptionContractTerms_ID :: uuid
  OptionContractTerms_OptionInstrumentID :: uuid
  OptionContractTerms_UnderlyingInstrumentID :: uuid
  OptionContractTerms_ContractType :: OptionContractType
  OptionContractTerms_StrikePrice :: 'd
  OptionContractTerms_StrikeCurrency :: string
  OptionContractTerms_DeliverableQuantity :: 'd
  OptionContractTerms_Source :: string
  OptionContractTerms_SourceNamespace :: string
  OptionContractTerms_SourceRecordID :: string
  OptionContractTerms_SourceRevision :: string
  OptionContractTerms_EffectiveAt :: time
  OptionContractTerms_ObservedAt :: time
  OptionContractTerms_RawPayload :: string
  OptionContractTerms_PayloadSHA256 :: string
  OptionContractTerms_Metadata :: string
  OptionContractTerms_CreatedAt :: time

record 'd OptionContractTermsInput =
  OptionContractTermsInput_OptionInstrumentID :: uuid
  OptionContractTermsInput_UnderlyingInstrumentID :: uuid
  OptionContractTermsInput_ContractType :: OptionContractType
  OptionContractTermsInput_StrikePrice :: 'd
  OptionContractTermsInput_StrikeCurrency :: string
  OptionContractTermsInput_DeliverableQuantity :: 'd
  OptionContractTermsInput_Source :: string
  OptionContractTermsInput_SourceNamespace :: string
  OptionContractTermsInput_SourceRecordID :: string
  OptionContractTermsInput_SourceRevision :: string
  OptionContractTermsInput_EffectiveAt :: time
  OptionContractTermsInput_ObservedAt :: time
  OptionContractTermsInput_RawPayload :: string
  OptionContractTermsInput_Metadata :: string
  OptionContractTermsInput_CreatedAt :: time

datatype decimal_error = NotPositive | IsNegative | TooManyPlaces | ExceedsMagnitude

datatype size_field = TickSize | LotSize | Multiplier

datatype instrument_error =
    InstrumentIDRequired
  | InstrumentIdentityKey
  | InstrumentAssetClassInvalid
  | InstrumentStatusInvalid
  | InstrumentAssetClassUnknown
  | InstrumentPrimaryVenueInvalid
  | InstrumentCurrencyInvalid
  | InstrumentDecimal size_field decimal_error
  | InstrumentSettlementInvalid
  | InstrumentExpirationInvalid
  | InstrumentExerciseStyleInvalid
  | InstrumentUnderlyingNil
  | InstrumentUnderlyingSelf
  | InstrumentOptionIncomplete
  | InstrumentCreationTime
  | InstrumentMetadataNotObject
  | InstrumentProvenanceRequired

datatype alias_error =
    AliasIDsRequired
  | AliasProviderEmpty
  | AliasProviderInvalid
  | AliasTypeInvalid
  | AliasValueEmpty
  | AliasValueInvalid
  | AliasActionInvalid
  | AliasEffectiveTime
  | AliasSourceInvalid
  | AliasCreationTime
  | AliasMetadataNotObject

datatype contract_error =
    ContractIDsRequired
  | ContractVenueInvalid
  | ContractIDInvalid
  | ContractCurrencyInvalid
  | ContractDecimal size_field decimal_error
  | ContractSettlementInvalid
  | ContractValidFromInvalid
  | ContractValidToInvalid
  | ContractWindowInvalid
  | ContractCreationTime
  | ContractMetadataNotObject

datatype action_error =
    ActionIDsRequired
  | ActionTypeInvalid
  | ActionEffectiveTime
  | ActionSuccessorInvalid
  | ActionNumerator decimal_error
  | ActionDenominator decimal_error
  | ActionCashAmount decimal_error
  | ActionCashCurrencyInvalid
  | ActionCashIncomplete
  | ActionSuccessorRequired
  | ActionDividendIncomplete
  | ActionSourceInvalid
  | ActionCreationTime
  | ActionMetadataNotObject

datatype terms_error =
    TermsIDsRequired
  | TermsUnderlyingSame
  | TermsContractTypeInvalid
  | TermsStrike decimal_error
  | TermsStrikeCurrency
  | TermsDeliverable decimal_error
  | TermsSourceInvalid
  | TermsNamespaceInvalid
  | TermsRevisionInvalid
  | TermsEffectiveTime
  | TermsObservedTime
  | TermsObservedBeforeEffective
  | TermsPayloadInvalid
  | TermsPayloadHash
  | TermsMetadataNotObject
  | TermsCreationTime
  | TermsIdentity

section \<open>Helpers\<close>

fun validAssetClass :: "AssetClass \<Rightarrow> bool" where
  "validAssetClass (OtherAssetClass s) = False"
| "validAssetClass _ = True"

fun validStatus :: "Status \<Rightarrow> bool" where
  "validStatus StatusUnset = False"
| "validStatus (OtherStatus s) = False"
| "validStatus _ = True"

fun validSettlementMethod :: "SettlementMethod \<Rightarrow> bool" where
  "validSettlementMethod SettlementUnset = False"
| "validSettlementMethod (OtherSettlementMethod s) = False"
| "validSettlementMethod _ = True"

definition validExerciseStyle :: "ExerciseStyle \<Rightarrow> bool" where
  "validExerciseStyle value \<longleftrightarrow> value = ExerciseAmerican \<or> value = ExerciseEuropean"

fun validAliasType :: "AliasType \<Rightarrow> bool" where
  "validAliasType (OtherAliasType s) = False"
| "validAliasType _ = True"

fun validCorporateActionType :: "CorporateActionType \<Rightarrow> bool" where
  "validCorporateActionType (OtherCorporateActionType s) = False"
| "validCorporateActionType _ = True"

definition normalizeOptionalTime :: "time option \<Rightarrow> time option" where
  "normalizeOptionalTime value = map_option utc_micros value"

definition isNormalizedReferenceTime :: "time \<Rightarrow> bool" where
  "isNormalizedReferenceTime value \<longleftrightarrow> loc value = UTC \<and> time_Equal value (Truncate value Microsecond)"

text \<open>The precision and magnitude test every package applies to a decimal.\<close>

definition decimal_shape :: "('d::linordered_idom) lib \<Rightarrow> 'd \<Rightarrow> decimal_error option" where
  "decimal_shape L value = first_err
    [guard (value \<noteq> decimal_Round L value 12) TooManyPlaces,
     guard (decimal_NumDigits L value + decimal_Exponent L value > 26) ExceedsMagnitude]"

definition validatePositiveReferenceDecimal ::
    "('d::linordered_idom) lib \<Rightarrow> 'd \<Rightarrow> decimal_error option" where
  "validatePositiveReferenceDecimal L value =
    first_err [guard (\<not> value > 0) NotPositive, decimal_shape L value]"

definition normalizedRequiredReference :: "string \<Rightarrow> bool" where
  "normalizedRequiredReference value \<longleftrightarrow> value \<noteq> [] \<and> value = TrimSpace value"

definition normalizeAliasValue :: "'d lib \<Rightarrow> AliasType \<Rightarrow> string \<Rightarrow> string" where
  "normalizeAliasValue L aliasType value =
     (let normalized = TrimSpace value in
      case aliasType of
        AliasTicker \<Rightarrow> ToUpper L normalized
      | AliasOCC \<Rightarrow> ToUpper L normalized
      | AliasCUSIP \<Rightarrow> ToUpper L normalized
      | AliasFIGI \<Rightarrow> ToUpper L normalized
      | AliasVenueContract \<Rightarrow> ToUpper L normalized
      | _ \<Rightarrow> normalized)"

definition NormalizeAlias ::
    "'d lib \<Rightarrow> string \<Rightarrow> AliasType \<Rightarrow> string \<Rightarrow> alias_error + (string \<times> string)" where
  "NormalizeAlias L provider aliasType aliasValue =
    (let normalizedProvider = ToLower L (TrimSpace provider);
         normalizedValue = normalizeAliasValue L aliasType aliasValue
     in ensure (first_err
          [guard (normalizedProvider = []) AliasProviderEmpty,
           guard (\<not> validAliasType aliasType) AliasTypeInvalid,
           guard (normalizedValue = []) AliasValueEmpty])
        (Inr (normalizedProvider, normalizedValue)))"

definition jsonBytesEqual :: "'d lib \<Rightarrow> string \<Rightarrow> string \<Rightarrow> bool" where
  "jsonBytesEqual L left right =
     (case (json_Unmarshal L left, json_Unmarshal L right) of
        (Some l, Some r) \<Rightarrow> json_Marshal L l = json_Marshal L r
      | _ \<Rightarrow> False)"

section \<open>Instruments\<close>

definition instrument_decimal ::
    "('d::linordered_idom) lib \<Rightarrow> bool \<Rightarrow> size_field \<Rightarrow> 'd \<Rightarrow> instrument_error option" where
  "instrument_decimal L quarantined name value =
     (if quarantined \<and> value = 0 then None
      else map_option (InstrumentDecimal name) (validatePositiveReferenceDecimal L value))"

definition Instrument_Validate ::
    "('d::linordered_idom) lib \<Rightarrow> 'd Instrument \<Rightarrow> instrument_error option" where
  [valid_defs]: "Instrument_Validate L i =
    (let quarantined = (Instrument_Status i = StatusQuarantined) in first_err
    [guard (Instrument_ID i = uuid_Nil) InstrumentIDRequired,
     guard (Instrument_IdentityKey i = [] \<or> Instrument_IdentityKey i \<noteq> TrimSpace (Instrument_IdentityKey i))
       InstrumentIdentityKey,
     guard (\<not> validAssetClass (Instrument_AssetClass i)) InstrumentAssetClassInvalid,
     guard (\<not> validStatus (Instrument_Status i)) InstrumentStatusInvalid,
     guard (\<not> quarantined \<and> Instrument_AssetClass i = AssetClassUnknown) InstrumentAssetClassUnknown,
     guard (Instrument_PrimaryVenue i = [] \<or>
            Instrument_PrimaryVenue i \<noteq> ToLower L (TrimSpace (Instrument_PrimaryVenue i)))
       InstrumentPrimaryVenueInvalid,
     guard ((\<not> quarantined \<or> Instrument_Currency i \<noteq> []) \<and> \<not> isCurrencyCode (Instrument_Currency i))
       InstrumentCurrencyInvalid,
     instrument_decimal L quarantined TickSize (Instrument_TickSize i),
     instrument_decimal L quarantined LotSize (Instrument_LotSize i),
     instrument_decimal L quarantined Multiplier (Instrument_Multiplier i),
     guard ((\<not> quarantined \<or> Instrument_SettlementMethod i \<noteq> SettlementUnset) \<and>
            \<not> validSettlementMethod (Instrument_SettlementMethod i)) InstrumentSettlementInvalid,
     guard (opt_holds (\<lambda>e. loc e \<noteq> UTC \<or> \<not> time_Equal e (Truncate e Microsecond)) (Instrument_Expiration i))
       InstrumentExpirationInvalid,
     guard (Instrument_ExerciseStyle i \<noteq> ExerciseUnset \<and> \<not> validExerciseStyle (Instrument_ExerciseStyle i))
       InstrumentExerciseStyleInvalid,
     guard (Instrument_UnderlyingID i = Some uuid_Nil) InstrumentUnderlyingNil,
     guard (Instrument_UnderlyingID i = Some (Instrument_ID i)) InstrumentUnderlyingSelf,
     guard (\<not> quarantined \<and> Instrument_AssetClass i = AssetClassOption \<and>
            (Instrument_Expiration i = None \<or> \<not> validExerciseStyle (Instrument_ExerciseStyle i) \<or>
             Instrument_UnderlyingID i = None)) InstrumentOptionIncomplete,
     guard (IsZero (Instrument_CreatedAt i) \<or> loc (Instrument_CreatedAt i) \<noteq> UTC \<or>
            \<not> time_Equal (Instrument_CreatedAt i) (Truncate (Instrument_CreatedAt i) Microsecond))
       InstrumentCreationTime,
     (case normalizeJSONObject L (Instrument_Metadata i) of
        None \<Rightarrow> Some InstrumentMetadataNotObject
      | Some metadata \<Rightarrow>
          guard (quarantined \<and>
                 (case json_Unmarshal L metadata of Some (JObject provenance) \<Rightarrow> provenance = [] | _ \<Rightarrow> True))
            InstrumentProvenanceRequired)])"

definition NewInstrument ::
    "('d::linordered_idom) lib \<Rightarrow> time \<Rightarrow> uuid \<Rightarrow> 'd InstrumentInput \<Rightarrow> instrument_error + 'd Instrument" where
  "NewInstrument L now newID input =
    (let created = utc_micros (InstrumentInput_CreatedAt input);
         createdAt = (if IsZero created then utc_micros now else created);
         status = (if InstrumentInput_Status input = StatusUnset then StatusActive
                   else InstrumentInput_Status input)
     in case normalizeJSONObject L (InstrumentInput_Metadata input) of
          None \<Rightarrow> Inl InstrumentMetadataNotObject
        | Some metadata \<Rightarrow>
           (let instrument =
              \<lparr>Instrument_ID = newID,
               Instrument_IdentityKey = TrimSpace (InstrumentInput_IdentityKey input),
               Instrument_AssetClass = InstrumentInput_AssetClass input,
               Instrument_PrimaryVenue = ToLower L (TrimSpace (InstrumentInput_PrimaryVenue input)),
               Instrument_Currency = ToUpper L (TrimSpace (InstrumentInput_Currency input)),
               Instrument_TickSize = InstrumentInput_TickSize input,
               Instrument_LotSize = InstrumentInput_LotSize input,
               Instrument_Multiplier = InstrumentInput_Multiplier input,
               Instrument_Expiration = normalizeOptionalTime (InstrumentInput_Expiration input),
               Instrument_ExerciseStyle = InstrumentInput_ExerciseStyle input,
               Instrument_SettlementMethod = InstrumentInput_SettlementMethod input,
               Instrument_UnderlyingID = InstrumentInput_UnderlyingID input,
               Instrument_Status = status,
               Instrument_Metadata = metadata,
               Instrument_CreatedAt = createdAt\<rparr>
            in ensure (Instrument_Validate L instrument) (Inr instrument)))"

section \<open>Alias events\<close>

definition AliasEvent_Validate :: "'d lib \<Rightarrow> AliasEvent \<Rightarrow> alias_error option" where
  [valid_defs]: "AliasEvent_Validate L e = first_err
    [guard (AliasEvent_ID e = uuid_Nil \<or> AliasEvent_InstrumentID e = uuid_Nil) AliasIDsRequired,
     guard (AliasEvent_Provider e = [] \<or> AliasEvent_Provider e \<noteq> ToLower L (TrimSpace (AliasEvent_Provider e)))
       AliasProviderInvalid,
     guard (\<not> validAliasType (AliasEvent_AliasType e)) AliasTypeInvalid,
     guard (AliasEvent_AliasValue e = [] \<or>
            AliasEvent_AliasValue e \<noteq> normalizeAliasValue L (AliasEvent_AliasType e) (AliasEvent_AliasValue e))
       AliasValueInvalid,
     guard (AliasEvent_Action e \<noteq> AliasAssigned \<and> AliasEvent_Action e \<noteq> AliasRetired) AliasActionInvalid,
     guard (IsZero (AliasEvent_EffectiveAt e) \<or> \<not> isNormalizedReferenceTime (AliasEvent_EffectiveAt e))
       AliasEffectiveTime,
     guard (AliasEvent_Source e = [] \<or> AliasEvent_Source e \<noteq> TrimSpace (AliasEvent_Source e)) AliasSourceInvalid,
     guard (IsZero (AliasEvent_CreatedAt e) \<or> \<not> isNormalizedReferenceTime (AliasEvent_CreatedAt e))
       AliasCreationTime,
     guard (normalizeJSONObject L (AliasEvent_Metadata e) = None) AliasMetadataNotObject]"

definition NewAliasEvent ::
    "'d lib \<Rightarrow> time \<Rightarrow> uuid \<Rightarrow> AliasEventInput \<Rightarrow> alias_error + AliasEvent" where
  "NewAliasEvent L now newID input =
    (let created = utc_micros (AliasEventInput_CreatedAt input);
         createdAt = (if IsZero created then utc_micros now else created)
     in case normalizeJSONObject L (AliasEventInput_Metadata input) of
          None \<Rightarrow> Inl AliasMetadataNotObject
        | Some metadata \<Rightarrow>
           and_then (NormalizeAlias L (AliasEventInput_Provider input) (AliasEventInput_AliasType input)
               (AliasEventInput_AliasValue input)) (\<lambda>(provider, aliasValue).
            let event =
              \<lparr>AliasEvent_ID = newID,
               AliasEvent_InstrumentID = AliasEventInput_InstrumentID input,
               AliasEvent_Provider = provider,
               AliasEvent_AliasType = AliasEventInput_AliasType input,
               AliasEvent_AliasValue = aliasValue,
               AliasEvent_Action = AliasEventInput_Action input,
               AliasEvent_EffectiveAt = utc_micros (AliasEventInput_EffectiveAt input),
               AliasEvent_Source = TrimSpace (AliasEventInput_Source input),
               AliasEvent_Metadata = metadata,
               AliasEvent_CreatedAt = createdAt\<rparr>
            in ensure (AliasEvent_Validate L event) (Inr event)))"

section \<open>Venue contracts\<close>

definition VenueContract_Validate ::
    "('d::linordered_idom) lib \<Rightarrow> 'd VenueContract \<Rightarrow> contract_error option" where
  [valid_defs]: "VenueContract_Validate L c = first_err
    [guard (VenueContract_ID c = uuid_Nil \<or> VenueContract_InstrumentID c = uuid_Nil) ContractIDsRequired,
     guard (VenueContract_Venue c = [] \<or> VenueContract_Venue c \<noteq> ToLower L (TrimSpace (VenueContract_Venue c)))
       ContractVenueInvalid,
     guard (VenueContract_ContractID c = [] \<or>
            VenueContract_ContractID c \<noteq> ToUpper L (TrimSpace (VenueContract_ContractID c))) ContractIDInvalid,
     guard (\<not> isCurrencyCode (VenueContract_Currency c)) ContractCurrencyInvalid,
     map_option (ContractDecimal TickSize) (validatePositiveReferenceDecimal L (VenueContract_TickSize c)),
     map_option (ContractDecimal LotSize) (validatePositiveReferenceDecimal L (VenueContract_LotSize c)),
     map_option (ContractDecimal Multiplier) (validatePositiveReferenceDecimal L (VenueContract_Multiplier c)),
     guard (\<not> validSettlementMethod (VenueContract_SettlementMethod c)) ContractSettlementInvalid,
     guard (IsZero (VenueContract_ValidFrom c) \<or> \<not> isNormalizedReferenceTime (VenueContract_ValidFrom c))
       ContractValidFromInvalid,
     guard (opt_holds (\<lambda>t. \<not> isNormalizedReferenceTime t) (VenueContract_ValidTo c)) ContractValidToInvalid,
     guard (opt_holds (\<lambda>t. \<not> After t (VenueContract_ValidFrom c)) (VenueContract_ValidTo c))
       ContractWindowInvalid,
     guard (IsZero (VenueContract_CreatedAt c) \<or> \<not> isNormalizedReferenceTime (VenueContract_CreatedAt c))
       ContractCreationTime,
     guard (normalizeJSONObject L (VenueContract_Metadata c) = None) ContractMetadataNotObject]"

definition NewVenueContract ::
    "('d::linordered_idom) lib \<Rightarrow> time \<Rightarrow> uuid \<Rightarrow> 'd VenueContractInput \<Rightarrow> contract_error + 'd VenueContract" where
  "NewVenueContract L now newID input =
    (let created = utc_micros (VenueContractInput_CreatedAt input);
         createdAt = (if IsZero created then utc_micros now else created)
     in case normalizeJSONObject L (VenueContractInput_Metadata input) of
          None \<Rightarrow> Inl ContractMetadataNotObject
        | Some metadata \<Rightarrow>
           (let contract =
              \<lparr>VenueContract_ID = newID,
               VenueContract_InstrumentID = VenueContractInput_InstrumentID input,
               VenueContract_Venue = ToLower L (TrimSpace (VenueContractInput_Venue input)),
               VenueContract_ContractID = ToUpper L (TrimSpace (VenueContractInput_ContractID input)),
               VenueContract_Currency = ToUpper L (TrimSpace (VenueContractInput_Currency input)),
               VenueContract_TickSize = VenueContractInput_TickSize input,
               VenueContract_LotSize = VenueContractInput_LotSize input,
               VenueContract_Multiplier = VenueContractInput_Multiplier input,
               VenueContract_SettlementMethod = VenueContractInput_SettlementMethod input,
               VenueContract_ValidFrom = utc_micros (VenueContractInput_ValidFrom input),
               VenueContract_ValidTo = normalizeOptionalTime (VenueContractInput_ValidTo input),
               VenueContract_Metadata = metadata,
               VenueContract_CreatedAt = createdAt\<rparr>
            in ensure (VenueContract_Validate L contract) (Inr contract)))"

section \<open>Corporate actions\<close>

definition CorporateAction_Validate ::
    "('d::linordered_idom) lib \<Rightarrow> 'd CorporateAction \<Rightarrow> action_error option" where
  [valid_defs]: "CorporateAction_Validate L a = first_err
    [guard (CorporateAction_ID a = uuid_Nil \<or> CorporateAction_InstrumentID a = uuid_Nil) ActionIDsRequired,
     guard (\<not> validCorporateActionType (CorporateAction_ActionType a)) ActionTypeInvalid,
     guard (IsZero (CorporateAction_EffectiveAt a) \<or> \<not> isNormalizedReferenceTime (CorporateAction_EffectiveAt a))
       ActionEffectiveTime,
     guard (opt_holds (\<lambda>s. s = uuid_Nil \<or> s = CorporateAction_InstrumentID a)
              (CorporateAction_SuccessorInstrumentID a)) ActionSuccessorInvalid,
     (if CorporateAction_ActionType a = CorporateActionSplit \<or>
         CorporateAction_ActionType a = CorporateActionReverseSplit \<or>
         CorporateAction_RatioNumerator a \<noteq> 0 \<or> CorporateAction_RatioDenominator a \<noteq> 0
      then first_err
        [map_option ActionNumerator (validatePositiveReferenceDecimal L (CorporateAction_RatioNumerator a)),
         map_option ActionDenominator (validatePositiveReferenceDecimal L (CorporateAction_RatioDenominator a))]
      else None),
     (case CorporateAction_CashAmount a of
        Some amount \<Rightarrow> first_err
          [map_option ActionCashAmount (validatePositiveReferenceDecimal L amount),
           guard (\<not> isCurrencyCode (CorporateAction_CashCurrency a)) ActionCashCurrencyInvalid]
      | None \<Rightarrow> guard (CorporateAction_CashCurrency a \<noteq> []) ActionCashIncomplete),
     (case CorporateAction_ActionType a of
        CorporateActionMerger \<Rightarrow> guard (CorporateAction_SuccessorInstrumentID a = None) ActionSuccessorRequired
      | CorporateActionSpinoff \<Rightarrow> guard (CorporateAction_SuccessorInstrumentID a = None) ActionSuccessorRequired
      | CorporateActionFuturesRoll \<Rightarrow> guard (CorporateAction_SuccessorInstrumentID a = None) ActionSuccessorRequired
      | CorporateActionCashDividend \<Rightarrow>
          guard (CorporateAction_CashAmount a = None \<or> \<not> isCurrencyCode (CorporateAction_CashCurrency a))
            ActionDividendIncomplete
      | _ \<Rightarrow> None),
     guard (CorporateAction_Source a = [] \<or> CorporateAction_Source a \<noteq> TrimSpace (CorporateAction_Source a) \<or>
            CorporateAction_SourceEventID a = [] \<or>
            CorporateAction_SourceEventID a \<noteq> TrimSpace (CorporateAction_SourceEventID a)) ActionSourceInvalid,
     guard (IsZero (CorporateAction_CreatedAt a) \<or> \<not> isNormalizedReferenceTime (CorporateAction_CreatedAt a))
       ActionCreationTime,
     guard (normalizeJSONObject L (CorporateAction_Metadata a) = None) ActionMetadataNotObject]"

definition NewCorporateAction ::
    "('d::linordered_idom) lib \<Rightarrow> time \<Rightarrow> uuid \<Rightarrow> 'd CorporateActionInput \<Rightarrow> action_error + 'd CorporateAction" where
  "NewCorporateAction L now newID input =
    (let created = utc_micros (CorporateActionInput_CreatedAt input);
         createdAt = (if IsZero created then utc_micros now else created)
     in case normalizeJSONObject L (CorporateActionInput_Metadata input) of
          None \<Rightarrow> Inl ActionMetadataNotObject
        | Some metadata \<Rightarrow>
           (let action =
              \<lparr>CorporateAction_ID = newID,
               CorporateAction_InstrumentID = CorporateActionInput_InstrumentID input,
               CorporateAction_SuccessorInstrumentID = CorporateActionInput_SuccessorInstrumentID input,
               CorporateAction_ActionType = CorporateActionInput_ActionType input,
               CorporateAction_EffectiveAt = utc_micros (CorporateActionInput_EffectiveAt input),
               CorporateAction_RatioNumerator = CorporateActionInput_RatioNumerator input,
               CorporateAction_RatioDenominator = CorporateActionInput_RatioDenominator input,
               CorporateAction_CashAmount = CorporateActionInput_CashAmount input,
               CorporateAction_CashCurrency = ToUpper L (TrimSpace (CorporateActionInput_CashCurrency input)),
               CorporateAction_Source = TrimSpace (CorporateActionInput_Source input),
               CorporateAction_SourceEventID = TrimSpace (CorporateActionInput_SourceEventID input),
               CorporateAction_Metadata = metadata,
               CorporateAction_CreatedAt = createdAt\<rparr>
            in ensure (CorporateAction_Validate L action) (Inr action)))"

section \<open>Option contract terms\<close>

definition optionContractTermsIDDomain :: string where
  "optionContractTermsIDDomain = ''option-contract-terms''"

definition OptionContractTerms_components :: "'d lib \<Rightarrow> 'd OptionContractTerms \<Rightarrow> string list" where
  "OptionContractTerms_components L t =
     [uuid_String L (OptionContractTerms_OptionInstrumentID t), OptionContractTerms_Source t,
      OptionContractTerms_SourceNamespace t, OptionContractTerms_SourceRecordID t]"

definition OptionContractTerms_Validate ::
    "('d::linordered_idom) lib \<Rightarrow> 'd OptionContractTerms \<Rightarrow> terms_error option" where
  [valid_defs]: "OptionContractTerms_Validate L t = first_err
    [guard (OptionContractTerms_OptionInstrumentID t = uuid_Nil \<or>
            OptionContractTerms_UnderlyingInstrumentID t = uuid_Nil) TermsIDsRequired,
     guard (OptionContractTerms_OptionInstrumentID t = OptionContractTerms_UnderlyingInstrumentID t)
       TermsUnderlyingSame,
     guard (OptionContractTerms_ContractType t \<noteq> OptionContractCall \<and>
            OptionContractTerms_ContractType t \<noteq> OptionContractPut) TermsContractTypeInvalid,
     map_option TermsStrike (validatePositiveReferenceDecimal L (OptionContractTerms_StrikePrice t)),
     guard (\<not> isCurrencyCode (OptionContractTerms_StrikeCurrency t)) TermsStrikeCurrency,
     map_option TermsDeliverable (validatePositiveReferenceDecimal L (OptionContractTerms_DeliverableQuantity t)),
     guard (OptionContractTerms_Source t = [] \<or>
            OptionContractTerms_Source t \<noteq> ToLower L (TrimSpace (OptionContractTerms_Source t))) TermsSourceInvalid,
     guard (\<not> normalizedRequiredReference (OptionContractTerms_SourceNamespace t) \<or>
            \<not> normalizedRequiredReference (OptionContractTerms_SourceRecordID t)) TermsNamespaceInvalid,
     guard (OptionContractTerms_SourceRevision t \<noteq> TrimSpace (OptionContractTerms_SourceRevision t))
       TermsRevisionInvalid,
     guard (IsZero (OptionContractTerms_EffectiveAt t) \<or>
            \<not> isNormalizedReferenceTime (OptionContractTerms_EffectiveAt t)) TermsEffectiveTime,
     guard (IsZero (OptionContractTerms_ObservedAt t) \<or>
            \<not> isNormalizedReferenceTime (OptionContractTerms_ObservedAt t)) TermsObservedTime,
     guard (Before (OptionContractTerms_ObservedAt t) (OptionContractTerms_EffectiveAt t))
       TermsObservedBeforeEffective,
     guard (OptionContractTerms_RawPayload t = [] \<or> \<not> json_Valid L (OptionContractTerms_RawPayload t))
       TermsPayloadInvalid,
     guard (OptionContractTerms_PayloadSHA256 t \<noteq>
            hex_EncodeToString (sha256_Sum256 L (OptionContractTerms_RawPayload t))) TermsPayloadHash,
     guard (normalizeJSONObject L (OptionContractTerms_Metadata t) = None) TermsMetadataNotObject,
     guard (IsZero (OptionContractTerms_CreatedAt t) \<or>
            \<not> isNormalizedReferenceTime (OptionContractTerms_CreatedAt t)) TermsCreationTime,
     guard (OptionContractTerms_ID t \<noteq>
            DeterministicUUID L optionContractTermsIDDomain (OptionContractTerms_components L t)) TermsIdentity]"

definition NewOptionContractTerms ::
    "('d::linordered_idom) lib \<Rightarrow> time \<Rightarrow> 'd OptionContractTermsInput \<Rightarrow> terms_error + 'd OptionContractTerms" where
  "NewOptionContractTerms L now input =
    (let created = utc_micros (OptionContractTermsInput_CreatedAt input);
         createdAt = (if IsZero created then utc_micros now else created)
     in case normalizeJSONObject L (OptionContractTermsInput_Metadata input) of
          None \<Rightarrow> Inl TermsMetadataNotObject
        | Some metadata \<Rightarrow>
           (let rawPayload = OptionContractTermsInput_RawPayload input;
                terms0 =
                  \<lparr>OptionContractTerms_ID = uuid_Nil,
                   OptionContractTerms_OptionInstrumentID = OptionContractTermsInput_OptionInstrumentID input,
                   OptionContractTerms_UnderlyingInstrumentID = OptionContractTermsInput_UnderlyingInstrumentID input,
                   OptionContractTerms_ContractType = OptionContractTermsInput_ContractType input,
                   OptionContractTerms_StrikePrice = OptionContractTermsInput_StrikePrice input,
                   OptionContractTerms_StrikeCurrency =
                     ToUpper L (TrimSpace (OptionContractTermsInput_StrikeCurrency input)),
                   OptionContractTerms_DeliverableQuantity = OptionContractTermsInput_DeliverableQuantity input,
                   OptionContractTerms_Source = ToLower L (TrimSpace (OptionContractTermsInput_Source input)),
                   OptionContractTerms_SourceNamespace = TrimSpace (OptionContractTermsInput_SourceNamespace input),
                   OptionContractTerms_SourceRecordID = TrimSpace (OptionContractTermsInput_SourceRecordID input),
                   OptionContractTerms_SourceRevision = TrimSpace (OptionContractTermsInput_SourceRevision input),
                   OptionContractTerms_EffectiveAt = utc_micros (OptionContractTermsInput_EffectiveAt input),
                   OptionContractTerms_ObservedAt = utc_micros (OptionContractTermsInput_ObservedAt input),
                   OptionContractTerms_RawPayload = rawPayload,
                   OptionContractTerms_PayloadSHA256 = hex_EncodeToString (sha256_Sum256 L rawPayload),
                   OptionContractTerms_Metadata = metadata,
                   OptionContractTerms_CreatedAt = createdAt\<rparr>;
                terms = terms0\<lparr>OptionContractTerms_ID :=
                   DeterministicUUID L optionContractTermsIDDomain (OptionContractTerms_components L terms0)\<rparr>
            in ensure (OptionContractTerms_Validate L terms) (Inr terms)))"

definition SameOptionContractTermsPayload ::
    "'d lib \<Rightarrow> 'd OptionContractTerms option \<Rightarrow> 'd OptionContractTerms option \<Rightarrow> bool" where
  [same_defs]: "SameOptionContractTermsPayload L left right =
    (case (left, right) of
       (Some l, Some r) \<Rightarrow>
         OptionContractTerms_ID l = OptionContractTerms_ID r \<and>
         OptionContractTerms_OptionInstrumentID l = OptionContractTerms_OptionInstrumentID r \<and>
         OptionContractTerms_UnderlyingInstrumentID l = OptionContractTerms_UnderlyingInstrumentID r \<and>
         OptionContractTerms_ContractType l = OptionContractTerms_ContractType r \<and>
         OptionContractTerms_StrikePrice l = OptionContractTerms_StrikePrice r \<and>
         OptionContractTerms_StrikeCurrency l = OptionContractTerms_StrikeCurrency r \<and>
         OptionContractTerms_DeliverableQuantity l = OptionContractTerms_DeliverableQuantity r \<and>
         OptionContractTerms_Source l = OptionContractTerms_Source r \<and>
         OptionContractTerms_SourceNamespace l = OptionContractTerms_SourceNamespace r \<and>
         OptionContractTerms_SourceRecordID l = OptionContractTerms_SourceRecordID r \<and>
         OptionContractTerms_SourceRevision l = OptionContractTerms_SourceRevision r \<and>
         time_Equal (OptionContractTerms_EffectiveAt l) (OptionContractTerms_EffectiveAt r) \<and>
         time_Equal (OptionContractTerms_ObservedAt l) (OptionContractTerms_ObservedAt r) \<and>
         OptionContractTerms_PayloadSHA256 l = OptionContractTerms_PayloadSHA256 r \<and>
         OptionContractTerms_RawPayload l = OptionContractTerms_RawPayload r \<and>
         jsonBytesEqual L (OptionContractTerms_Metadata l) (OptionContractTerms_Metadata r)
     | _ \<Rightarrow> False)"

section \<open>Properties\<close>

lemma validatePositiveReferenceDecimal_None [simp]:
  "validatePositiveReferenceDecimal L v = None \<longleftrightarrow> 0 < v \<and> decimal_shape L v = None"
  by (simp add: validatePositiveReferenceDecimal_def)

lemma VenueContract_Validate_positive:
  "VenueContract_Validate L c = None \<Longrightarrow>
   0 < VenueContract_TickSize c \<and> 0 < VenueContract_LotSize c \<and> 0 < VenueContract_Multiplier c"
  by (simp add: VenueContract_Validate_def)

lemma Instrument_Validate_not_own_underlying:
  "Instrument_Validate L i = None \<Longrightarrow> Instrument_UnderlyingID i \<noteq> Some (Instrument_ID i)"
  by (simp add: Instrument_Validate_def Let_def)

lemma Instrument_Validate_positive:
  assumes "Instrument_Validate L i = None" and "Instrument_Status i \<noteq> StatusQuarantined"
  shows "0 < Instrument_TickSize i \<and> 0 < Instrument_LotSize i \<and> 0 < Instrument_Multiplier i"
  using assms by (simp add: Instrument_Validate_def Let_def instrument_decimal_def)

interpretation terms_identity: derived_identity L optionContractTermsIDDomain
    "\<lambda>t. OptionContractTerms_Validate L t = None" OptionContractTerms_ID "OptionContractTerms_components L" for L
  by unfold_locales (simp add: OptionContractTerms_Validate_def)

section \<open>Concrete references for evaluation\<close>

definition demo_instrument :: "int Instrument" where
  "demo_instrument =
    \<lparr>Instrument_ID = 2, Instrument_IdentityKey = ''equity:ABC'', Instrument_AssetClass = AssetClassEquity,
     Instrument_PrimaryVenue = ''alpaca'', Instrument_Currency = ''USD'', Instrument_TickSize = 1,
     Instrument_LotSize = 1, Instrument_Multiplier = 1, Instrument_Expiration = None,
     Instrument_ExerciseStyle = ExerciseUnset, Instrument_SettlementMethod = SettlementPhysical,
     Instrument_UnderlyingID = None, Instrument_Status = StatusActive, Instrument_Metadata = ''{}'',
     Instrument_CreatedAt = demo_time 1\<rparr>"

definition demo_contract :: "int VenueContract" where
  "demo_contract =
    \<lparr>VenueContract_ID = 3, VenueContract_InstrumentID = 2, VenueContract_Venue = ''alpaca'',
     VenueContract_ContractID = ''ABC'', VenueContract_Currency = ''USD'', VenueContract_TickSize = 1,
     VenueContract_LotSize = 1, VenueContract_Multiplier = 1, VenueContract_SettlementMethod = SettlementPhysical,
     VenueContract_ValidFrom = demo_time 1, VenueContract_ValidTo = None, VenueContract_Metadata = ''{}'',
     VenueContract_CreatedAt = demo_time 1\<rparr>"

definition demo_option :: "int Instrument" where
  "demo_option = demo_instrument
    \<lparr>Instrument_ID := 12, Instrument_IdentityKey := ''option:ABC'', Instrument_AssetClass := AssetClassOption,
     Instrument_Multiplier := 100, Instrument_Expiration := Some (demo_time 50),
     Instrument_ExerciseStyle := ExerciseAmerican, Instrument_UnderlyingID := Some 2\<rparr>"

definition demo_option_contract :: "int VenueContract" where
  "demo_option_contract = demo_contract
    \<lparr>VenueContract_ID := 13, VenueContract_InstrumentID := 12, VenueContract_ContractID := ''ABCOPT'',
     VenueContract_Multiplier := 100\<rparr>"

definition demo_terms :: "OptionContractType \<Rightarrow> int OptionContractTerms" where
  "demo_terms kind =
    \<lparr>OptionContractTerms_ID = 3241018,
     OptionContractTerms_OptionInstrumentID = 12, OptionContractTerms_UnderlyingInstrumentID = 2,
     OptionContractTerms_ContractType = kind, OptionContractTerms_StrikePrice = 90,
     OptionContractTerms_StrikeCurrency = ''USD'', OptionContractTerms_DeliverableQuantity = 100,
     OptionContractTerms_Source = ''occ'', OptionContractTerms_SourceNamespace = ''terms'',
     OptionContractTerms_SourceRecordID = ''t1'', OptionContractTerms_SourceRevision = [],
     OptionContractTerms_EffectiveAt = demo_time 1, OptionContractTerms_ObservedAt = demo_time 2,
     OptionContractTerms_RawPayload = ''{}'',
     OptionContractTerms_PayloadSHA256 =
       ''000000000000000000000000007d7b2e2e2e2e2e2e2e2e2e2e2e2e2e2e2e2e2e'',
     OptionContractTerms_Metadata = ''{}'', OptionContractTerms_CreatedAt = demo_time 3\<rparr>"

section \<open>Properties\<close>

text \<open>
  The identity of option contract terms is their source identity: two validated terms with the
  same option, source, namespace and record ID have the same ID whatever their payload, and two
  validated terms with the same ID come from the same source record unless the hash collides on
  the two.
\<close>

theorem option_terms_identity:
  assumes "OptionContractTerms_Validate L s = None" and "OptionContractTerms_Validate L t = None"
    and "collision_free L optionContractTermsIDDomain
           {OptionContractTerms_components L s, OptionContractTerms_components L t}"
  shows "OptionContractTerms_ID s = OptionContractTerms_ID t \<longleftrightarrow>
    OptionContractTerms_components L s = OptionContractTerms_components L t"
  using assms terms_identity.same_source_same_id terms_identity.same_id_same_source by blast

end
