(* ===== verification/Market_Data.thy ===== *)
theory Market_Data
  imports Instrument_Reference Demo_Library
begin

text \<open>
  \<open>internal/marketdata/snapshot.go\<close>: immutable quote observations, their validation, and the
  assessment of an observation at an intent or route time.  A \<open>time.Duration\<close> is an \<open>int\<close> of
  nanoseconds (\<open>time_Sub\<close> saturates at the 64-bit bounds); sequence numbers and level indexes
  are only compared and are \<open>int\<close>.  A Go map of decimals, whose iteration order is not fixed, is
  checked in the order it is written; a set of statuses (a map to \<open>struct{}\<close>) is a list.
\<close>

section \<open>Data\<close>

definition MaxDepthLevelsPerSide :: nat where
  "MaxDepthLevelsPerSide = 1000"

datatype DepthSide = DepthSideBid | DepthSideAsk | OtherDepthSide string

record 'd DepthLevel =
  DepthLevel_Side :: DepthSide
  DepthLevel_Level :: int
  DepthLevel_Price :: 'd
  DepthLevel_Size :: 'd

record 'd DepthLevelInput =
  DepthLevelInput_Price :: 'd
  DepthLevelInput_Size :: 'd

record 'd QuoteSnapshot =
  QuoteSnapshot_ID :: uuid
  QuoteSnapshot_IngestSequence :: int
  QuoteSnapshot_InstrumentID :: uuid
  QuoteSnapshot_VenueContractID :: "uuid option"
  QuoteSnapshot_Provider :: string
  QuoteSnapshot_Venue :: string
  QuoteSnapshot_Source :: string
  QuoteSnapshot_ObservationNamespace :: string
  QuoteSnapshot_ObservationID :: string
  QuoteSnapshot_SourceRevision :: string
  QuoteSnapshot_SourceSequence :: "int option"
  QuoteSnapshot_ExchangeAt :: "time option"
  QuoteSnapshot_ReceivedAt :: time
  QuoteSnapshot_AvailableAt :: "time option"
  QuoteSnapshot_Bid :: "'d option"
  QuoteSnapshot_BidSize :: "'d option"
  QuoteSnapshot_Ask :: "'d option"
  QuoteSnapshot_AskSize :: "'d option"
  QuoteSnapshot_Last :: "'d option"
  QuoteSnapshot_Mark :: "'d option"
  QuoteSnapshot_MarketStatus :: string
  QuoteSnapshot_SessionStatus :: string
  QuoteSnapshot_Depth :: "'d DepthLevel list"
  QuoteSnapshot_Metadata :: string
  QuoteSnapshot_CreatedAt :: time

record 'd QuoteSnapshotInput =
  QuoteSnapshotInput_InstrumentID :: uuid
  QuoteSnapshotInput_VenueContractID :: "uuid option"
  QuoteSnapshotInput_Provider :: string
  QuoteSnapshotInput_Venue :: string
  QuoteSnapshotInput_Source :: string
  QuoteSnapshotInput_ObservationNamespace :: string
  QuoteSnapshotInput_ObservationID :: string
  QuoteSnapshotInput_SourceRevision :: string
  QuoteSnapshotInput_SourceSequence :: "int option"
  QuoteSnapshotInput_ExchangeAt :: "time option"
  QuoteSnapshotInput_ReceivedAt :: time
  QuoteSnapshotInput_AvailableAt :: "time option"
  QuoteSnapshotInput_Bid :: "'d option"
  QuoteSnapshotInput_BidSize :: "'d option"
  QuoteSnapshotInput_Ask :: "'d option"
  QuoteSnapshotInput_AskSize :: "'d option"
  QuoteSnapshotInput_Last :: "'d option"
  QuoteSnapshotInput_Mark :: "'d option"
  QuoteSnapshotInput_MarketStatus :: string
  QuoteSnapshotInput_SessionStatus :: string
  QuoteSnapshotInput_Bids :: "'d DepthLevelInput list"
  QuoteSnapshotInput_Asks :: "'d DepthLevelInput list"
  QuoteSnapshotInput_Metadata :: string
  QuoteSnapshotInput_CreatedAt :: time

record QuoteSelector =
  QuoteSelector_InstrumentID :: uuid
  QuoteSelector_Provider :: string
  QuoteSelector_Venue :: string
  QuoteSelector_ObservationNamespace :: string
  QuoteSelector_AsOf :: time

datatype AssessmentCode =
    AssessmentMissingSource
  | AssessmentMissingVenueContract
  | AssessmentMissingAvailability
  | AssessmentMissingBid
  | AssessmentMissingAsk
  | AssessmentMissingExchangeTime
  | AssessmentFutureObservation
  | AssessmentStaleQuote
  | AssessmentMissingBidDepth
  | AssessmentMissingAskDepth
  | AssessmentMissingMarketStatus
  | AssessmentMissingSessionStatus
  | AssessmentMarketNotExecutable
  | AssessmentSessionNotExecutable
  | AssessmentInstrumentMismatch
  | AssessmentInstrumentNotExecutable
  | AssessmentVenueContractMismatch
  | AssessmentInvalidPriceTick
  | AssessmentInvalidLotSize

record QuoteRequirements =
  RequireSource :: bool
  RequireVenueContract :: bool
  RequireBid :: bool
  RequireAsk :: bool
  RequireBidDepth :: bool
  RequireAskDepth :: bool
  RequireMarketStatus :: bool
  RequireSessionStatus :: bool
  AllowedMarketStatuses :: "string list"
  AllowedSessionStatuses :: "string list"
  MaxAge :: int

record 'd QuoteAssessment =
  QuoteAssessment_SnapshotID :: uuid
  QuoteAssessment_VenueContractID :: "uuid option"
  QuoteAssessment_EvaluatedAt :: time
  QuoteAssessment_ExchangeAge :: "int option"
  QuoteAssessment_ReceiveAge :: int
  QuoteAssessment_AvailabilityAge :: int
  QuoteAssessment_TransportLatency :: "int option"
  QuoteAssessment_ValidationLatency :: "int option"
  QuoteAssessment_Spread :: "'d option"

datatype quote_time =
    ReceiveTime | CreationTime | ExchangeTime | AvailabilityTime | SelectorAsOf | AssessmentTime
  | EligibilityTime

datatype quote_decimal = BidValue | BidSizeValue | AskValue | AskSizeValue | LastValue | MarkValue
  | DepthPrice | DepthSize

datatype quote_error =
    QuoteIDsRequired
  | QuoteIngestSequenceNegative
  | QuoteVenueContractNil
  | QuoteProviderVenue
  | QuoteSourceNotNormalized
  | QuoteObservationIdentity
  | QuoteRevisionNotNormalized
  | QuoteSourceSequenceNegative
  | QuoteTime quote_time
  | QuoteExchangeAfterReceive
  | QuoteAvailableBeforeReceive
  | QuoteDecimal quote_decimal decimal_error
  | QuoteBidSizeWithoutBid
  | QuoteAskSizeWithoutAsk
  | QuoteCrossed
  | QuoteStatusesNotNormalized
  | DepthSideInvalid
  | DepthBidAfterAsk
  | DepthIndexes DepthSide
  | DepthTooDeep
  | DepthBidsNotDescending
  | DepthAsksNotAscending
  | DepthCrossed
  | DepthBidTop
  | DepthBidTopSize
  | DepthAskTop
  | DepthAskTopSize
  | QuoteMetadataNotObject
  | SelectorInstrumentRequired
  | SelectorProviderVenue
  | SelectorNamespace

datatype assess_error =
    AssessSnapshot quote_error
  | AssessTime quote_error
  | AssessMaxAgeNegative
  | AssessEmptyMarketStatus
  | AssessEmptySessionStatus
  | AssessmentFailure AssessmentCode

section \<open>Helpers\<close>

definition normalizeLower :: "'d lib \<Rightarrow> string \<Rightarrow> string" where
  "normalizeLower L value = ToLower L (TrimSpace value)"

definition isNormalizedLowerRequired :: "'d lib \<Rightarrow> string \<Rightarrow> bool" where
  "isNormalizedLowerRequired L value \<longleftrightarrow> value \<noteq> [] \<and> value = normalizeLower L value"

definition isNormalizedLowerOptional :: "'d lib \<Rightarrow> string \<Rightarrow> bool" where
  "isNormalizedLowerOptional L value \<longleftrightarrow> value = [] \<or> value = normalizeLower L value"

definition validateRequiredTimestamp :: "time \<Rightarrow> quote_time \<Rightarrow> quote_error option" where
  "validateRequiredTimestamp value label = guard
     (IsZero value \<or> loc value \<noteq> UTC \<or> \<not> time_Equal value (Truncate value Microsecond)) (QuoteTime label)"

definition validateOptionalTimestamp :: "time option \<Rightarrow> quote_time \<Rightarrow> quote_error option" where
  "validateOptionalTimestamp value label =
     (case value of None \<Rightarrow> None | Some t \<Rightarrow> validateRequiredTimestamp t label)"

definition validateOptionalDecimal ::
    "('d::linordered_idom) lib \<Rightarrow> quote_decimal \<Rightarrow> 'd option \<Rightarrow> quote_error option" where
  "validateOptionalDecimal L label value =
     (case value of
        None \<Rightarrow> None
      | Some v \<Rightarrow> map_option (QuoteDecimal label)
          (first_err [guard (v < 0) IsNegative, decimal_shape L v]))"

definition isExactMultiple :: "('d::linordered_idom) lib \<Rightarrow> 'd \<Rightarrow> 'd \<Rightarrow> bool" where
  "isExactMultiple L value increment \<longleftrightarrow> decimal_Mod L value increment = 0"

definition venueContractEffectiveAt :: "'d VenueContract \<Rightarrow> time \<Rightarrow> bool" where
  "venueContractEffectiveAt contract when \<longleftrightarrow>
     \<not> Before when (VenueContract_ValidFrom contract) \<and>
     opt_all (\<lambda>validTo. Before when validTo) (VenueContract_ValidTo contract)"

definition depth_levels :: "DepthSide \<Rightarrow> 'd DepthLevelInput list \<Rightarrow> 'd DepthLevel list" where
  "depth_levels side values = map (\<lambda>(level, value).
     \<lparr>DepthLevel_Side = side, DepthLevel_Level = int level,
      DepthLevel_Price = DepthLevelInput_Price value, DepthLevel_Size = DepthLevelInput_Size value\<rparr>)
     (enumerate 0 values)"

definition makeDepth :: "'d DepthLevelInput list \<Rightarrow> 'd DepthLevelInput list \<Rightarrow> 'd DepthLevel list" where
  "makeDepth bids asks = depth_levels DepthSideBid bids @ depth_levels DepthSideAsk asks"

text \<open>\<open>normalizeAllowedStatuses\<close> fails (\<open>None\<close>) on an empty status; \<open>statusAllowed\<close> is membership.\<close>

fun normalizeAllowedStatuses :: "'d lib \<Rightarrow> string list \<Rightarrow> string list option" where
  "normalizeAllowedStatuses L [] = Some []"
| "normalizeAllowedStatuses L (value # values) =
     (let normalized = normalizeLower L value in
      if normalized = [] then None
      else map_option (\<lambda>allowed. normalized # allowed) (normalizeAllowedStatuses L values))"

definition statusAllowed :: "string \<Rightarrow> string list \<Rightarrow> bool" where
  "statusAllowed value allowed \<longleftrightarrow> value \<in> set allowed"

definition hasDepthSide :: "'d QuoteSnapshot \<Rightarrow> DepthSide \<Rightarrow> bool" where
  "hasDepthSide snapshot side \<longleftrightarrow>
     list_ex (\<lambda>level. DepthLevel_Side level = side) (QuoteSnapshot_Depth snapshot)"

section \<open>Validation of an observation\<close>

text \<open>The loop of \<open>validateDepth\<close>: it splits the book into sides, checking the order and indexes.\<close>

fun splitDepth ::
    "('d::linordered_idom) lib \<Rightarrow> 'd DepthLevel list \<Rightarrow> 'd DepthLevel list \<Rightarrow> bool \<Rightarrow> 'd DepthLevel list \<Rightarrow>
     quote_error + ('d DepthLevel list \<times> 'd DepthLevel list)" where
  "splitDepth L bids asks seenAsk [] = Inr (bids, asks)"
| "splitDepth L bids asks seenAsk (level # levels) =
     (let isAsk = (DepthLevel_Side level = DepthSideAsk);
          sideLevels = (if isAsk then asks else bids)
      in ensure (first_err
          [guard (DepthLevel_Side level \<noteq> DepthSideBid \<and> DepthLevel_Side level \<noteq> DepthSideAsk)
             DepthSideInvalid,
           guard (\<not> isAsk \<and> seenAsk) DepthBidAfterAsk,
           validateOptionalDecimal L DepthPrice (Some (DepthLevel_Price level)),
           validateOptionalDecimal L DepthSize (Some (DepthLevel_Size level)),
           guard (DepthLevel_Level level \<noteq> int (length sideLevels)) (DepthIndexes (DepthLevel_Side level))])
        (splitDepth L (if isAsk then bids else bids @ [level]) (if isAsk then asks @ [level] else asks)
           (seenAsk \<or> isAsk) levels))"

definition pairwise_index :: "('a \<Rightarrow> 'a \<Rightarrow> bool) \<Rightarrow> 'a list \<Rightarrow> bool" where
  "pairwise_index R xs \<longleftrightarrow> list_all (\<lambda>index. R (xs ! (index - 1)) (xs ! index)) [1..<length xs]"

definition checkSides ::
    "('d::linordered_idom) QuoteSnapshot \<Rightarrow> 'd DepthLevel list \<Rightarrow> 'd DepthLevel list \<Rightarrow> quote_error option" where
  "checkSides snapshot bids asks = first_err
    [guard (length bids > MaxDepthLevelsPerSide \<or> length asks > MaxDepthLevelsPerSide) DepthTooDeep,
     guard (\<not> pairwise_index (\<lambda>p q. DepthLevel_Price p > DepthLevel_Price q) bids) DepthBidsNotDescending,
     guard (\<not> pairwise_index (\<lambda>p q. DepthLevel_Price p < DepthLevel_Price q) asks) DepthAsksNotAscending,
     guard (bids \<noteq> [] \<and> asks \<noteq> [] \<and> DepthLevel_Price (bids ! 0) > DepthLevel_Price (asks ! 0)) DepthCrossed,
     guard (bids \<noteq> [] \<and> opt_holds (\<lambda>bid. DepthLevel_Price (bids ! 0) \<noteq> bid) (QuoteSnapshot_Bid snapshot))
       DepthBidTop,
     guard (bids \<noteq> [] \<and> opt_holds (\<lambda>size. DepthLevel_Size (bids ! 0) \<noteq> size) (QuoteSnapshot_BidSize snapshot))
       DepthBidTopSize,
     guard (asks \<noteq> [] \<and> opt_holds (\<lambda>ask. DepthLevel_Price (asks ! 0) \<noteq> ask) (QuoteSnapshot_Ask snapshot))
       DepthAskTop,
     guard (asks \<noteq> [] \<and> opt_holds (\<lambda>size. DepthLevel_Size (asks ! 0) \<noteq> size) (QuoteSnapshot_AskSize snapshot))
       DepthAskTopSize]"

definition validateDepth :: "('d::linordered_idom) lib \<Rightarrow> 'd QuoteSnapshot \<Rightarrow> quote_error option" where
  "validateDepth L snapshot =
     (case splitDepth L [] [] False (QuoteSnapshot_Depth snapshot) of
        Inl e \<Rightarrow> Some e
      | Inr (bids, asks) \<Rightarrow> checkSides snapshot bids asks)"

definition QuoteSnapshot_Validate ::
    "('d::linordered_idom) lib \<Rightarrow> 'd QuoteSnapshot \<Rightarrow> quote_error option" where
  [valid_defs]: "QuoteSnapshot_Validate L s = first_err
    [guard (QuoteSnapshot_ID s = uuid_Nil \<or> QuoteSnapshot_InstrumentID s = uuid_Nil) QuoteIDsRequired,
     guard (QuoteSnapshot_IngestSequence s < 0) QuoteIngestSequenceNegative,
     guard (opt_holds (\<lambda>c. c = uuid_Nil) (QuoteSnapshot_VenueContractID s)) QuoteVenueContractNil,
     guard (\<not> isNormalizedLowerRequired L (QuoteSnapshot_Provider s) \<or>
            \<not> isNormalizedLowerRequired L (QuoteSnapshot_Venue s)) QuoteProviderVenue,
     guard (QuoteSnapshot_Source s \<noteq> TrimSpace (QuoteSnapshot_Source s)) QuoteSourceNotNormalized,
     guard (\<not> isNormalizedRequired (QuoteSnapshot_ObservationNamespace s) \<or>
            \<not> isNormalizedRequired (QuoteSnapshot_ObservationID s)) QuoteObservationIdentity,
     guard (QuoteSnapshot_SourceRevision s \<noteq> TrimSpace (QuoteSnapshot_SourceRevision s))
       QuoteRevisionNotNormalized,
     guard (opt_holds (\<lambda>n. n < 0) (QuoteSnapshot_SourceSequence s)) QuoteSourceSequenceNegative,
     validateRequiredTimestamp (QuoteSnapshot_ReceivedAt s) ReceiveTime,
     validateRequiredTimestamp (QuoteSnapshot_CreatedAt s) CreationTime,
     validateOptionalTimestamp (QuoteSnapshot_ExchangeAt s) ExchangeTime,
     validateOptionalTimestamp (QuoteSnapshot_AvailableAt s) AvailabilityTime,
     guard (opt_holds (\<lambda>t. After t (QuoteSnapshot_ReceivedAt s)) (QuoteSnapshot_ExchangeAt s))
       QuoteExchangeAfterReceive,
     guard (opt_holds (\<lambda>t. Before t (QuoteSnapshot_ReceivedAt s)) (QuoteSnapshot_AvailableAt s))
       QuoteAvailableBeforeReceive,
     validateOptionalDecimal L BidValue (QuoteSnapshot_Bid s),
     validateOptionalDecimal L BidSizeValue (QuoteSnapshot_BidSize s),
     validateOptionalDecimal L AskValue (QuoteSnapshot_Ask s),
     validateOptionalDecimal L AskSizeValue (QuoteSnapshot_AskSize s),
     validateOptionalDecimal L LastValue (QuoteSnapshot_Last s),
     validateOptionalDecimal L MarkValue (QuoteSnapshot_Mark s),
     guard (QuoteSnapshot_BidSize s \<noteq> None \<and> QuoteSnapshot_Bid s = None) QuoteBidSizeWithoutBid,
     guard (QuoteSnapshot_AskSize s \<noteq> None \<and> QuoteSnapshot_Ask s = None) QuoteAskSizeWithoutAsk,
     guard (opt_holds (\<lambda>bid. opt_holds (\<lambda>ask. bid > ask) (QuoteSnapshot_Ask s)) (QuoteSnapshot_Bid s))
       QuoteCrossed,
     guard (\<not> isNormalizedLowerOptional L (QuoteSnapshot_MarketStatus s) \<or>
            \<not> isNormalizedLowerOptional L (QuoteSnapshot_SessionStatus s)) QuoteStatusesNotNormalized,
     validateDepth L s,
     guard (normalizeJSONObject L (QuoteSnapshot_Metadata s) = None) QuoteMetadataNotObject]"

definition NewQuoteSnapshot ::
    "('d::linordered_idom) lib \<Rightarrow> time \<Rightarrow> uuid \<Rightarrow> 'd QuoteSnapshotInput \<Rightarrow> quote_error + 'd QuoteSnapshot" where
  "NewQuoteSnapshot L now newID input =
    (case normalizeJSONObject L (QuoteSnapshotInput_Metadata input) of
       None \<Rightarrow> Inl QuoteMetadataNotObject
     | Some metadata \<Rightarrow>
        (let created = utc_micros (QuoteSnapshotInput_CreatedAt input);
             createdAt = (if IsZero created then utc_micros now else created);
             snapshot =
               \<lparr>QuoteSnapshot_ID = newID,
                QuoteSnapshot_IngestSequence = 0,
                QuoteSnapshot_InstrumentID = QuoteSnapshotInput_InstrumentID input,
                QuoteSnapshot_VenueContractID = QuoteSnapshotInput_VenueContractID input,
                QuoteSnapshot_Provider = normalizeLower L (QuoteSnapshotInput_Provider input),
                QuoteSnapshot_Venue = normalizeLower L (QuoteSnapshotInput_Venue input),
                QuoteSnapshot_Source = TrimSpace (QuoteSnapshotInput_Source input),
                QuoteSnapshot_ObservationNamespace = TrimSpace (QuoteSnapshotInput_ObservationNamespace input),
                QuoteSnapshot_ObservationID = TrimSpace (QuoteSnapshotInput_ObservationID input),
                QuoteSnapshot_SourceRevision = TrimSpace (QuoteSnapshotInput_SourceRevision input),
                QuoteSnapshot_SourceSequence = QuoteSnapshotInput_SourceSequence input,
                QuoteSnapshot_ExchangeAt = normalizeOptionalTime (QuoteSnapshotInput_ExchangeAt input),
                QuoteSnapshot_ReceivedAt = utc_micros (QuoteSnapshotInput_ReceivedAt input),
                QuoteSnapshot_AvailableAt = normalizeOptionalTime (QuoteSnapshotInput_AvailableAt input),
                QuoteSnapshot_Bid = QuoteSnapshotInput_Bid input,
                QuoteSnapshot_BidSize = QuoteSnapshotInput_BidSize input,
                QuoteSnapshot_Ask = QuoteSnapshotInput_Ask input,
                QuoteSnapshot_AskSize = QuoteSnapshotInput_AskSize input,
                QuoteSnapshot_Last = QuoteSnapshotInput_Last input,
                QuoteSnapshot_Mark = QuoteSnapshotInput_Mark input,
                QuoteSnapshot_MarketStatus = normalizeLower L (QuoteSnapshotInput_MarketStatus input),
                QuoteSnapshot_SessionStatus = normalizeLower L (QuoteSnapshotInput_SessionStatus input),
                QuoteSnapshot_Depth = makeDepth (QuoteSnapshotInput_Bids input) (QuoteSnapshotInput_Asks input),
                QuoteSnapshot_Metadata = metadata,
                QuoteSnapshot_CreatedAt = createdAt\<rparr>
         in ensure (QuoteSnapshot_Validate L snapshot) (Inr snapshot)))"

definition QuoteSelector_Validate :: "'d lib \<Rightarrow> QuoteSelector \<Rightarrow> quote_error option" where
  [valid_defs]: "QuoteSelector_Validate L s = first_err
    [guard (QuoteSelector_InstrumentID s = uuid_Nil) SelectorInstrumentRequired,
     guard (\<not> isNormalizedLowerRequired L (QuoteSelector_Provider s) \<or>
            \<not> isNormalizedLowerRequired L (QuoteSelector_Venue s)) SelectorProviderVenue,
     guard (\<not> isNormalizedRequired (QuoteSelector_ObservationNamespace s)) SelectorNamespace,
     validateRequiredTimestamp (QuoteSelector_AsOf s) SelectorAsOf]"

definition NewQuoteSelector ::
    "'d lib \<Rightarrow> uuid \<Rightarrow> string \<Rightarrow> string \<Rightarrow> string \<Rightarrow> time \<Rightarrow> quote_error + QuoteSelector" where
  "NewQuoteSelector L instrumentID provider venue observationNamespace asOf =
    (let selector =
       \<lparr>QuoteSelector_InstrumentID = instrumentID,
        QuoteSelector_Provider = normalizeLower L provider,
        QuoteSelector_Venue = normalizeLower L venue,
        QuoteSelector_ObservationNamespace = TrimSpace observationNamespace,
        QuoteSelector_AsOf = utc_micros asOf\<rparr>
     in ensure (QuoteSelector_Validate L selector) (Inr selector))"

section \<open>Assessment\<close>

text \<open>The checks of \<open>Assess\<close> between the availability test and the derived ages, in order.\<close>

definition requirement_failures ::
    "'d QuoteSnapshot \<Rightarrow> QuoteRequirements \<Rightarrow> string list \<Rightarrow> string list \<Rightarrow> assess_error option" where
  "requirement_failures s req allowedMarket allowedSession = first_err
    [guard (RequireSource req \<and> QuoteSnapshot_Source s = []) (AssessmentFailure AssessmentMissingSource),
     guard (RequireVenueContract req \<and> QuoteSnapshot_VenueContractID s = None)
       (AssessmentFailure AssessmentMissingVenueContract),
     guard (RequireBid req \<and> QuoteSnapshot_Bid s = None) (AssessmentFailure AssessmentMissingBid),
     guard (RequireAsk req \<and> QuoteSnapshot_Ask s = None) (AssessmentFailure AssessmentMissingAsk),
     guard (RequireBidDepth req \<and> \<not> hasDepthSide s DepthSideBid) (AssessmentFailure AssessmentMissingBidDepth),
     guard (RequireAskDepth req \<and> \<not> hasDepthSide s DepthSideAsk) (AssessmentFailure AssessmentMissingAskDepth),
     guard ((RequireMarketStatus req \<or> allowedMarket \<noteq> []) \<and> QuoteSnapshot_MarketStatus s = [])
       (AssessmentFailure AssessmentMissingMarketStatus),
     guard (allowedMarket \<noteq> [] \<and> \<not> statusAllowed (QuoteSnapshot_MarketStatus s) allowedMarket)
       (AssessmentFailure AssessmentMarketNotExecutable),
     guard ((RequireSessionStatus req \<or> allowedSession \<noteq> []) \<and> QuoteSnapshot_SessionStatus s = [])
       (AssessmentFailure AssessmentMissingSessionStatus),
     guard (allowedSession \<noteq> [] \<and> \<not> statusAllowed (QuoteSnapshot_SessionStatus s) allowedSession)
       (AssessmentFailure AssessmentSessionNotExecutable)]"

definition derived_assessment ::
    "('d::linordered_idom) QuoteSnapshot \<Rightarrow> time \<Rightarrow> time \<Rightarrow> 'd QuoteAssessment" where
  "derived_assessment s evaluatedAt availableAt =
     \<lparr>QuoteAssessment_SnapshotID = QuoteSnapshot_ID s,
      QuoteAssessment_VenueContractID = QuoteSnapshot_VenueContractID s,
      QuoteAssessment_EvaluatedAt = evaluatedAt,
      QuoteAssessment_ExchangeAge =
        map_option (\<lambda>exchangeAt. time_Sub evaluatedAt exchangeAt) (QuoteSnapshot_ExchangeAt s),
      QuoteAssessment_ReceiveAge = time_Sub evaluatedAt (QuoteSnapshot_ReceivedAt s),
      QuoteAssessment_AvailabilityAge = time_Sub evaluatedAt availableAt,
      QuoteAssessment_TransportLatency =
        map_option (\<lambda>exchangeAt. time_Sub (QuoteSnapshot_ReceivedAt s) exchangeAt) (QuoteSnapshot_ExchangeAt s),
      QuoteAssessment_ValidationLatency = Some (time_Sub availableAt (QuoteSnapshot_ReceivedAt s)),
      QuoteAssessment_Spread =
        (case (QuoteSnapshot_Bid s, QuoteSnapshot_Ask s) of
           (Some bid, Some ask) \<Rightarrow> Some (ask - bid)
         | _ \<Rightarrow> None)\<rparr>"

definition Assess ::
    "('d::linordered_idom) lib \<Rightarrow> 'd QuoteSnapshot \<Rightarrow> time \<Rightarrow> QuoteRequirements \<Rightarrow>
     assess_error + 'd QuoteAssessment" where
  "Assess L s asOf req =
    (let evaluatedAt = utc_micros asOf in
     ensure (first_err
       [map_option AssessSnapshot (QuoteSnapshot_Validate L s),
        map_option AssessTime (validateRequiredTimestamp evaluatedAt AssessmentTime),
        guard (MaxAge req < 0) AssessMaxAgeNegative])
     (case normalizeAllowedStatuses L (AllowedMarketStatuses req) of
        None \<Rightarrow> Inl AssessEmptyMarketStatus
      | Some allowedMarket \<Rightarrow>
     (case normalizeAllowedStatuses L (AllowedSessionStatuses req) of
        None \<Rightarrow> Inl AssessEmptySessionStatus
      | Some allowedSession \<Rightarrow>
     (case QuoteSnapshot_AvailableAt s of
        None \<Rightarrow> Inl (AssessmentFailure AssessmentMissingAvailability)
      | Some availableAt \<Rightarrow>
        ensure (first_err
          [guard (After availableAt evaluatedAt) (AssessmentFailure AssessmentFutureObservation),
           requirement_failures s req allowedMarket allowedSession])
        (let assessment = derived_assessment s evaluatedAt availableAt in
         ensure (if MaxAge req > 0
                 then (case QuoteAssessment_ExchangeAge assessment of
                         None \<Rightarrow> Some (AssessmentFailure AssessmentMissingExchangeTime)
                       | Some age \<Rightarrow> guard (age > MaxAge req) (AssessmentFailure AssessmentStaleQuote))
                 else None)
           (Inr assessment))))))"

definition ValidateInstrumentEligibility ::
    "('d::linordered_idom) lib \<Rightarrow> 'd QuoteSnapshot \<Rightarrow> 'd Instrument \<Rightarrow> time \<Rightarrow> assess_error option" where
  "ValidateInstrumentEligibility L s reference asOf =
    (let evaluatedAt = utc_micros asOf in first_err
     [map_option AssessSnapshot (QuoteSnapshot_Validate L s),
      guard (Instrument_Validate L reference \<noteq> None) (AssessmentFailure AssessmentInstrumentNotExecutable),
      guard (Instrument_ID reference \<noteq> QuoteSnapshot_InstrumentID s)
        (AssessmentFailure AssessmentInstrumentMismatch),
      guard (Instrument_Status reference \<noteq> StatusActive) (AssessmentFailure AssessmentInstrumentNotExecutable),
      map_option AssessTime (validateRequiredTimestamp evaluatedAt EligibilityTime),
      guard (opt_holds (\<lambda>expiration. \<not> Before evaluatedAt expiration) (Instrument_Expiration reference))
        (AssessmentFailure AssessmentInstrumentNotExecutable)])"

definition level_mechanics ::
    "('d::linordered_idom) lib \<Rightarrow> 'd VenueContract \<Rightarrow> 'd DepthLevel \<Rightarrow> assess_error option" where
  "level_mechanics L contract level = first_err
    [guard (\<not> isExactMultiple L (DepthLevel_Price level) (VenueContract_TickSize contract))
       (AssessmentFailure AssessmentInvalidPriceTick),
     guard (\<not> isExactMultiple L (DepthLevel_Size level) (VenueContract_LotSize contract))
       (AssessmentFailure AssessmentInvalidLotSize)]"

definition ValidateAgainstVenueContract ::
    "('d::linordered_idom) lib \<Rightarrow> 'd QuoteSnapshot \<Rightarrow> 'd VenueContract \<Rightarrow> assess_error option" where
  "ValidateAgainstVenueContract L s contract =
    (let tick = (\<lambda>value. guard
           (opt_holds (\<lambda>v. \<not> isExactMultiple L v (VenueContract_TickSize contract)) value)
           (AssessmentFailure AssessmentInvalidPriceTick));
         lot = (\<lambda>value. guard
           (opt_holds (\<lambda>v. \<not> isExactMultiple L v (VenueContract_LotSize contract)) value)
           (AssessmentFailure AssessmentInvalidLotSize));
         observedAt = (case QuoteSnapshot_ExchangeAt s of Some t \<Rightarrow> t | None \<Rightarrow> QuoteSnapshot_ReceivedAt s)
     in first_err
     [map_option AssessSnapshot (QuoteSnapshot_Validate L s),
      guard (QuoteSnapshot_VenueContractID s = None) (AssessmentFailure AssessmentMissingVenueContract),
      guard (VenueContract_Validate L contract \<noteq> None) (AssessmentFailure AssessmentVenueContractMismatch),
      guard (Some (VenueContract_ID contract) \<noteq> QuoteSnapshot_VenueContractID s \<or>
             VenueContract_InstrumentID contract \<noteq> QuoteSnapshot_InstrumentID s \<or>
             VenueContract_Venue contract \<noteq> QuoteSnapshot_Venue s)
        (AssessmentFailure AssessmentVenueContractMismatch),
      guard (\<not> venueContractEffectiveAt contract observedAt) (AssessmentFailure AssessmentVenueContractMismatch),
      tick (QuoteSnapshot_Bid s), tick (QuoteSnapshot_Ask s),
      lot (QuoteSnapshot_BidSize s), lot (QuoteSnapshot_AskSize s),
      first_err (map (level_mechanics L contract) (QuoteSnapshot_Depth s))])"

definition AssessForExecution ::
    "('d::linordered_idom) lib \<Rightarrow> 'd QuoteSnapshot \<Rightarrow> time \<Rightarrow> QuoteRequirements \<Rightarrow> 'd Instrument \<Rightarrow>
     'd VenueContract \<Rightarrow> assess_error + 'd QuoteAssessment" where
  "AssessForExecution L s asOf req reference contract =
    and_then (Assess L s asOf (req\<lparr>RequireVenueContract := True\<rparr>)) (\<lambda>assessment.
      ensure (first_err
        [ValidateInstrumentEligibility L s reference (QuoteAssessment_EvaluatedAt assessment),
         ValidateAgainstVenueContract L s contract,
         guard (\<not> venueContractEffectiveAt contract (QuoteAssessment_EvaluatedAt assessment))
           (AssessmentFailure AssessmentVenueContractMismatch)])
      (Inr assessment))"

section \<open>The validated book\<close>

lemma pairwise_index_sorted_wrt:
  assumes "transp R"
  shows "pairwise_index R xs \<longleftrightarrow> sorted_wrt R xs"
proof -
  have "pairwise_index R xs \<longleftrightarrow> (\<forall>i. Suc i < length xs \<longrightarrow> R (xs ! i) (xs ! Suc i))"
  proof (intro iffI allI impI)
    fix i assume "pairwise_index R xs" and i: "Suc i < length xs"
    then have "\<forall>j \<in> set [1..<length xs]. R (xs ! (j - 1)) (xs ! j)"
      by (simp only: pairwise_index_def list_all_iff)
    from bspec [OF this, of "Suc i"] i show "R (xs ! i) (xs ! Suc i)" by simp
  next
    assume step: "\<forall>i. Suc i < length xs \<longrightarrow> R (xs ! i) (xs ! Suc i)"
    have "R (xs ! (j - 1)) (xs ! j)" if "1 \<le> j" "j < length xs" for j
      using step [rule_format, of "j - 1"] that by simp
    then show "pairwise_index R xs" by (simp add: pairwise_index_def list_all_iff)
  qed
  then show ?thesis by (simp add: sorted_wrt_iff_nth_Suc_transp [OF assms])
qed

definition indexed_side :: "DepthSide \<Rightarrow> 'd DepthLevel list \<Rightarrow> bool" where
  "indexed_side side levels \<longleftrightarrow>
     (\<forall>i < length levels. DepthLevel_Side (levels ! i) = side \<and> DepthLevel_Level (levels ! i) = int i)"

lemma indexed_side_Nil [simp]: "indexed_side side []"
  by (simp add: indexed_side_def)

lemma indexed_side_snoc:
  "indexed_side side (levels @ [level]) \<longleftrightarrow>
     indexed_side side levels \<and> DepthLevel_Side level = side \<and> DepthLevel_Level level = int (length levels)"
  by (auto simp: indexed_side_def nth_append less_Suc_eq)

lemma indexed_side_depth_levels: "indexed_side side (depth_levels side values)"
  by (simp add: indexed_side_def depth_levels_def nth_enumerate_eq)

lemma splitDepth_sides:
  "splitDepth L bids asks seenAsk levels = Inr (bids', asks') \<Longrightarrow>
   seenAsk = (asks \<noteq> []) \<Longrightarrow> indexed_side DepthSideBid bids \<Longrightarrow> indexed_side DepthSideAsk asks \<Longrightarrow>
   bids' @ asks' = bids @ asks @ levels \<and> indexed_side DepthSideBid bids' \<and> indexed_side DepthSideAsk asks'"
proof (induction L bids asks seenAsk levels rule: splitDepth.induct)
  case (2 L bids asks seenAsk level levels)
  show ?case
  proof (cases "DepthLevel_Side level = DepthSideAsk")
    case True
    with 2 show ?thesis by (simp add: Let_def indexed_side_snoc)
  next
    case False
    with "2.prems" have "asks = []" "DepthLevel_Side level = DepthSideBid" by (auto simp: Let_def)
    with 2 False show ?thesis by (simp add: Let_def indexed_side_snoc)
  qed
qed simp

lemma validateDepth_book:
  assumes "validateDepth L s = None"
  obtains bids asks where "QuoteSnapshot_Depth s = bids @ asks"
    and "indexed_side DepthSideBid bids" and "indexed_side DepthSideAsk asks"
    and "checkSides s bids asks = None"
proof -
  from assms obtain bids asks where split: "splitDepth L [] [] False (QuoteSnapshot_Depth s) = Inr (bids, asks)"
    and "checkSides s bids asks = None"
    by (auto simp: validateDepth_def split: sum.splits)
  with splitDepth_sides [OF split] that [of bids asks] show thesis by simp
qed

lemma checkSides_sorted:
  fixes s :: "('d::linordered_idom) QuoteSnapshot"
  assumes "checkSides s bids asks = None"
  shows "sorted_wrt (>) (map DepthLevel_Price bids) \<and> sorted_wrt (<) (map DepthLevel_Price asks)"
proof -
  have "transp (\<lambda>p q :: 'd DepthLevel. DepthLevel_Price q < DepthLevel_Price p)"
    "transp (\<lambda>p q :: 'd DepthLevel. DepthLevel_Price p < DepthLevel_Price q)"
    by (auto intro: transpI)
  from this [THEN pairwise_index_sorted_wrt] assms show ?thesis
    by (simp add: checkSides_def sorted_wrt_map)
qed

lemma sorted_wrt_head:
  "sorted_wrt R (x # xs) \<Longrightarrow> y \<in> set (x # xs) \<Longrightarrow> y = x \<or> R x y"
  by auto

lemma checkSides_uncrossed:
  assumes ok: "checkSides s bids asks = None" and "b \<in> set bids" and "a \<in> set asks"
  shows "DepthLevel_Price b \<le> DepthLevel_Price a"
proof -
  from assms obtain b0 bs a0 as where bids: "bids = b0 # bs" and asks: "asks = a0 # as"
    by (metis list.set_cases)
  from checkSides_sorted [OF ok] assms(2,3) bids asks
  have "DepthLevel_Price b \<le> DepthLevel_Price b0" "DepthLevel_Price a0 \<le> DepthLevel_Price a"
    by (auto intro: less_imp_le)
  moreover from ok bids asks have "DepthLevel_Price b0 \<le> DepthLevel_Price a0"
    by (simp add: checkSides_def not_less)
  ultimately show ?thesis by linarith
qed

lemma QuoteSnapshot_Validate_depth: "QuoteSnapshot_Validate L s = None \<Longrightarrow> validateDepth L s = None"
  by (simp add: QuoteSnapshot_Validate_def)

lemma splitDepth_levels_step:
  fixes levels :: "('d::linordered_idom) DepthLevel list"
  assumes ok: "\<And>l. l \<in> set levels \<Longrightarrow>
      validateOptionalDecimal L DepthPrice (Some (DepthLevel_Price l)) = None \<and>
      validateOptionalDecimal L DepthSize (Some (DepthLevel_Size l)) = None"
    and side: "side = DepthSideBid \<and> \<not> seenAsk \<or> side = DepthSideAsk"
    and "indexed_side side (sideLevels @ levels)"
    and "sideLevels = (if side = DepthSideAsk then asks else bids)"
  shows "splitDepth L bids asks seenAsk (levels @ rest) =
     splitDepth L (if side = DepthSideAsk then bids else bids @ levels)
       (if side = DepthSideAsk then asks @ levels else asks)
       (seenAsk \<or> (side = DepthSideAsk \<and> levels \<noteq> [])) rest"
  using assms
proof (induction levels arbitrary: bids asks seenAsk sideLevels)
  case (Cons level levels)
  from Cons.prems(3) have head: "DepthLevel_Side level = side" "DepthLevel_Level level = int (length sideLevels)"
    by (auto simp: indexed_side_def dest!: spec [of _ "length sideLevels"])
  show ?case
    using Cons.IH [where sideLevels = "sideLevels @ [level]"
        and asks = "if side = DepthSideAsk then asks @ [level] else asks"
        and bids = "if side = DepthSideAsk then bids else bids @ [level]"
        and seenAsk = "seenAsk \<or> side = DepthSideAsk"] Cons.prems head
    by (auto simp: Let_def)
qed auto

section \<open>Ages of an assessed observation\<close>

lemma Assess_ok:
  assumes "Assess L s asOf req = Inr a"
  obtains availableAt where "QuoteSnapshot_AvailableAt s = Some availableAt"
    and "QuoteSnapshot_Validate L s = None"
    and "\<not> After availableAt (utc_micros asOf)"
    and "a = derived_assessment s (utc_micros asOf) availableAt"
    and "0 < MaxAge req \<Longrightarrow> \<exists>age. QuoteAssessment_ExchangeAge a = Some age \<and> age \<le> MaxAge req"
  using assms
  by (force simp: Assess_def Let_def not_less split: option.splits if_splits)

lemma utc_micros_le: "instant (utc_micros t) \<le> instant t"
  by (simp add: time_defs)

lemma time_Sub_nonneg: "instant u \<le> instant t \<Longrightarrow> 0 \<le> time_Sub t u"
  by (simp add: time_Sub_def)

lemma time_Sub_exact: "0 \<le> instant t - instant u \<Longrightarrow> instant t - instant u < 2 ^ 63 \<Longrightarrow>
   time_Sub t u = instant t - instant u"
  by (simp add: time_Sub_def)

lemma QuoteSnapshot_Validate_order:
  assumes "QuoteSnapshot_Validate L s = None"
  shows "(\<forall>t. QuoteSnapshot_ExchangeAt s = Some t \<longrightarrow> instant t \<le> instant (QuoteSnapshot_ReceivedAt s)) \<and>
    (\<forall>t. QuoteSnapshot_AvailableAt s = Some t \<longrightarrow> instant (QuoteSnapshot_ReceivedAt s) \<le> instant t)"
  using assms by (auto simp: QuoteSnapshot_Validate_def After_def Before_def)

section \<open>Properties\<close>

text \<open>
  C23: the depth of a validated quote is an ordered, uncrossed book: bids then asks, each side
  indexed from zero without gaps, bid prices strictly falling, ask prices strictly rising, and no
  bid above any ask.
\<close>

theorem validated_depth_is_ordered_book:
  assumes "QuoteSnapshot_Validate L s = None"
  shows "\<exists>bids asks. QuoteSnapshot_Depth s = bids @ asks \<and>
    indexed_side DepthSideBid bids \<and> indexed_side DepthSideAsk asks \<and>
    length bids \<le> MaxDepthLevelsPerSide \<and> length asks \<le> MaxDepthLevelsPerSide \<and>
    sorted_wrt (>) (map DepthLevel_Price bids) \<and> sorted_wrt (<) (map DepthLevel_Price asks) \<and>
    (\<forall>b. b \<in> set bids \<longrightarrow> (\<forall>a. a \<in> set asks \<longrightarrow> DepthLevel_Price b \<le> DepthLevel_Price a))"
proof -
  obtain bids asks where book: "QuoteSnapshot_Depth s = bids @ asks"
    "indexed_side DepthSideBid bids" "indexed_side DepthSideAsk asks" and ok: "checkSides s bids asks = None"
    using QuoteSnapshot_Validate_depth [OF assms] by (rule validateDepth_book)
  from ok have "length bids \<le> MaxDepthLevelsPerSide" "length asks \<le> MaxDepthLevelsPerSide"
    by (simp_all add: checkSides_def)
  with book checkSides_sorted [OF ok] checkSides_uncrossed [OF ok] show ?thesis by blast
qed

definition demo_quote :: "int QuoteSnapshot" where
  "demo_quote =
    \<lparr>QuoteSnapshot_ID = 1, QuoteSnapshot_IngestSequence = 0, QuoteSnapshot_InstrumentID = 2,
     QuoteSnapshot_VenueContractID = Some 3, QuoteSnapshot_Provider = ''alpaca'', QuoteSnapshot_Venue = ''alpaca'',
     QuoteSnapshot_Source = [], QuoteSnapshot_ObservationNamespace = ''quotes'',
     QuoteSnapshot_ObservationID = ''q1'', QuoteSnapshot_SourceRevision = [],
     QuoteSnapshot_SourceSequence = None, QuoteSnapshot_ExchangeAt = Some (demo_time 10),
     QuoteSnapshot_ReceivedAt = demo_time 12, QuoteSnapshot_AvailableAt = Some (demo_time 15),
     QuoteSnapshot_Bid = Some 99, QuoteSnapshot_BidSize = Some 4, QuoteSnapshot_Ask = Some 101,
     QuoteSnapshot_AskSize = Some 5, QuoteSnapshot_Last = None, QuoteSnapshot_Mark = None,
     QuoteSnapshot_MarketStatus = ''open'', QuoteSnapshot_SessionStatus = [],
     QuoteSnapshot_Depth =
       [\<lparr>DepthLevel_Side = DepthSideBid, DepthLevel_Level = 0, DepthLevel_Price = 99, DepthLevel_Size = 4\<rparr>,
        \<lparr>DepthLevel_Side = DepthSideBid, DepthLevel_Level = 1, DepthLevel_Price = 98, DepthLevel_Size = 9\<rparr>,
        \<lparr>DepthLevel_Side = DepthSideAsk, DepthLevel_Level = 0, DepthLevel_Price = 101, DepthLevel_Size = 5\<rparr>],
     QuoteSnapshot_Metadata = ''{}'', QuoteSnapshot_CreatedAt = demo_time 16\<rparr>"

definition demo_requirements :: QuoteRequirements where
  "demo_requirements =
    \<lparr>RequireSource = False, RequireVenueContract = False, RequireBid = True, RequireAsk = True,
     RequireBidDepth = True, RequireAskDepth = True, RequireMarketStatus = True, RequireSessionStatus = False,
     AllowedMarketStatuses = ['' Open ''], AllowedSessionStatuses = [], MaxAge = 50000\<rparr>"

lemma demo_quote_valid: "QuoteSnapshot_Validate demo_lib demo_quote = None"
  by code_simp

lemma validated_depth_is_ordered_book_witness:
  "\<exists>bids asks. QuoteSnapshot_Depth demo_quote = bids @ asks \<and>
     indexed_side DepthSideBid bids \<and> indexed_side DepthSideAsk asks \<and>
     sorted_wrt (>) (map DepthLevel_Price bids) \<and> sorted_wrt (<) (map DepthLevel_Price asks)"
  using validated_depth_is_ordered_book [OF demo_quote_valid] by blast

text \<open>
  C21: no look-ahead.  When \<open>Assess\<close> accepts an observation at a time, the exchange time, the receive
  time and the availability time precede that time in this order, every derived age and latency is
  non-negative, the spread is non-negative, and with a maximum age the exchange age is known and
  within it.
\<close>

theorem Assess_no_lookahead:
  assumes "Assess L s asOf req = Inr a"
  shows "(\<exists>availableAt. QuoteSnapshot_AvailableAt s = Some availableAt \<and>
      instant (QuoteSnapshot_ReceivedAt s) \<le> instant availableAt \<and> instant availableAt \<le> instant asOf) \<and>
    opt_all (\<lambda>t. instant t \<le> instant (QuoteSnapshot_ReceivedAt s)) (QuoteSnapshot_ExchangeAt s) \<and>
    0 \<le> QuoteAssessment_ReceiveAge a \<and> 0 \<le> QuoteAssessment_AvailabilityAge a \<and>
    opt_all (\<lambda>age. 0 \<le> age) (QuoteAssessment_ExchangeAge a) \<and>
    opt_all (\<lambda>latency. 0 \<le> latency) (QuoteAssessment_TransportLatency a) \<and>
    opt_all (\<lambda>latency. 0 \<le> latency) (QuoteAssessment_ValidationLatency a) \<and>
    opt_all (\<lambda>spread. 0 \<le> spread) (QuoteAssessment_Spread a) \<and>
    (0 < MaxAge req \<longrightarrow> opt_holds (\<lambda>age. age \<le> MaxAge req) (QuoteAssessment_ExchangeAge a))"
proof -
  obtain availableAt where available: "QuoteSnapshot_AvailableAt s = Some availableAt"
    and valid: "QuoteSnapshot_Validate L s = None" and past: "\<not> After availableAt (utc_micros asOf)"
    and a: "a = derived_assessment s (utc_micros asOf) availableAt"
    and age: "0 < MaxAge req \<Longrightarrow> \<exists>age. QuoteAssessment_ExchangeAge a = Some age \<and> age \<le> MaxAge req"
    using assms by (rule Assess_ok) blast
  from QuoteSnapshot_Validate_order [OF valid] available
  have order: "instant (QuoteSnapshot_ReceivedAt s) \<le> instant availableAt"
    and exch: "opt_all (\<lambda>t. instant t \<le> instant (QuoteSnapshot_ReceivedAt s)) (QuoteSnapshot_ExchangeAt s)"
    by (auto simp: opt_all_def split: option.splits)
  from past have avail: "instant availableAt \<le> instant (utc_micros asOf)" by (simp add: After_def)
  from valid have "opt_all (\<lambda>bid. opt_all (\<lambda>ask. bid \<le> ask) (QuoteSnapshot_Ask s)) (QuoteSnapshot_Bid s)"
    by (auto simp: QuoteSnapshot_Validate_def opt_all_def not_less split: option.splits)
  then have spread: "opt_all (\<lambda>spread. 0 \<le> spread) (QuoteAssessment_Spread a)"
    by (auto simp: a derived_assessment_def opt_all_def split: option.splits)
  from exch order avail
  have "opt_all (\<lambda>age. 0 \<le> age) (QuoteAssessment_ExchangeAge a)"
    "opt_all (\<lambda>latency. 0 \<le> latency) (QuoteAssessment_TransportLatency a)"
    by (auto simp: a derived_assessment_def opt_all_def time_Sub_nonneg split: option.splits)
  with order avail exch spread available age utc_micros_le [of asOf] show ?thesis
    by (auto simp: a derived_assessment_def time_Sub_nonneg)
qed

lemma Assess_no_lookahead_witness:
  "\<exists>a. Assess demo_lib demo_quote (demo_time 20) demo_requirements = Inr a \<and>
     0 \<le> QuoteAssessment_AvailabilityAge a \<and> opt_holds (\<lambda>age. age \<le> 50000) (QuoteAssessment_ExchangeAge a)"
proof -
  have "\<not> isl (Assess demo_lib demo_quote (demo_time 20) demo_requirements)" by code_simp
  then obtain a where a: "Assess demo_lib demo_quote (demo_time 20) demo_requirements = Inr a"
    by (metis sum.collapse(2))
  from Assess_no_lookahead [OF a] have "0 \<le> QuoteAssessment_AvailabilityAge a"
    "opt_holds (\<lambda>age. age \<le> 50000) (QuoteAssessment_ExchangeAge a)"
    by (simp_all add: demo_requirements_def)
  with a show ?thesis by blast
qed

lemma first_err_map_None [simp]: "first_err (map f xs) = None \<longleftrightarrow> (\<forall>x \<in> set xs. f x = None)"
  by (auto simp: first_err_None_iff)

text \<open>
  C22: the execution boundary.  When \<open>AssessForExecution\<close> accepts, the instrument is the observed one,
  active and not expired at the evaluation time; the venue contract is the one bound to the
  observation and is effective at the observation and at the evaluation time; and every top-of-book
  and depth price and size is an exact multiple of its tick or lot size.
\<close>

theorem AssessForExecution_eligible:
  assumes "AssessForExecution L s asOf req i contract = Inr a"
  shows "Instrument_ID i = QuoteSnapshot_InstrumentID s \<and> Instrument_Status i = StatusActive \<and>
    opt_all (\<lambda>expiration. instant (QuoteAssessment_EvaluatedAt a) < instant expiration) (Instrument_Expiration i) \<and>
    QuoteSnapshot_VenueContractID s = Some (VenueContract_ID contract) \<and>
    VenueContract_InstrumentID contract = QuoteSnapshot_InstrumentID s \<and>
    venueContractEffectiveAt contract (case QuoteSnapshot_ExchangeAt s of Some t \<Rightarrow> t | None \<Rightarrow> QuoteSnapshot_ReceivedAt s) \<and>
    venueContractEffectiveAt contract (QuoteAssessment_EvaluatedAt a) \<and>
    QuoteAssessment_EvaluatedAt a = utc_micros asOf \<and>
    opt_all (\<lambda>v. isExactMultiple L v (VenueContract_TickSize contract)) (QuoteSnapshot_Bid s) \<and>
    opt_all (\<lambda>v. isExactMultiple L v (VenueContract_TickSize contract)) (QuoteSnapshot_Ask s) \<and>
    opt_all (\<lambda>v. isExactMultiple L v (VenueContract_LotSize contract)) (QuoteSnapshot_BidSize s) \<and>
    opt_all (\<lambda>v. isExactMultiple L v (VenueContract_LotSize contract)) (QuoteSnapshot_AskSize s) \<and>
    list_all (\<lambda>level. isExactMultiple L (DepthLevel_Price level) (VenueContract_TickSize contract) \<and>
                      isExactMultiple L (DepthLevel_Size level) (VenueContract_LotSize contract))
      (QuoteSnapshot_Depth s)"
proof -
  from assms have assess: "Assess L s asOf (req\<lparr>RequireVenueContract := True\<rparr>) = Inr a"
    and inst: "ValidateInstrumentEligibility L s i (QuoteAssessment_EvaluatedAt a) = None"
    and venue: "ValidateAgainstVenueContract L s contract = None"
    and eff: "venueContractEffectiveAt contract (QuoteAssessment_EvaluatedAt a)"
    by (auto simp: AssessForExecution_def)
  have at: "QuoteAssessment_EvaluatedAt a = utc_micros asOf"
    using assess by (rule Assess_ok) (simp add: derived_assessment_def)
  have "Instrument_ID i = QuoteSnapshot_InstrumentID s \<and> Instrument_Status i = StatusActive \<and>
    opt_all (\<lambda>expiration. instant (QuoteAssessment_EvaluatedAt a) < instant expiration) (Instrument_Expiration i)"
    using inst by (auto simp: ValidateInstrumentEligibility_def Let_def at Before_def opt_all_def split: option.splits)
  moreover have "opt_all (\<lambda>v. isExactMultiple L v (VenueContract_TickSize contract)) (QuoteSnapshot_Bid s) \<and>
    opt_all (\<lambda>v. isExactMultiple L v (VenueContract_TickSize contract)) (QuoteSnapshot_Ask s) \<and>
    opt_all (\<lambda>v. isExactMultiple L v (VenueContract_LotSize contract)) (QuoteSnapshot_BidSize s) \<and>
    opt_all (\<lambda>v. isExactMultiple L v (VenueContract_LotSize contract)) (QuoteSnapshot_AskSize s)"
    using venue by (auto simp: ValidateAgainstVenueContract_def Let_def opt_all_def split: option.splits)
  moreover have "QuoteSnapshot_VenueContractID s = Some (VenueContract_ID contract) \<and>
    VenueContract_InstrumentID contract = QuoteSnapshot_InstrumentID s \<and>
    venueContractEffectiveAt contract (case QuoteSnapshot_ExchangeAt s of Some t \<Rightarrow> t | None \<Rightarrow> QuoteSnapshot_ReceivedAt s)"
    using venue by (simp add: ValidateAgainstVenueContract_def Let_def)
  moreover have "list_all (\<lambda>level. isExactMultiple L (DepthLevel_Price level) (VenueContract_TickSize contract) \<and>
                      isExactMultiple L (DepthLevel_Size level) (VenueContract_LotSize contract))
      (QuoteSnapshot_Depth s)"
    using venue by (simp add: ValidateAgainstVenueContract_def Let_def level_mechanics_def list_all_iff)
  ultimately show ?thesis using eff at by blast
qed

lemma AssessForExecution_eligible_witness:
  "\<exists>a. AssessForExecution demo_lib demo_quote (demo_time 20) demo_requirements demo_instrument demo_contract = Inr a \<and>
     venueContractEffectiveAt demo_contract (QuoteAssessment_EvaluatedAt a)"
proof -
  have "\<not> isl (AssessForExecution demo_lib demo_quote (demo_time 20) demo_requirements demo_instrument demo_contract)"
    by code_simp
  then obtain a where a:
    "AssessForExecution demo_lib demo_quote (demo_time 20) demo_requirements demo_instrument demo_contract = Inr a"
    by (metis sum.collapse(2))
  from AssessForExecution_eligible [OF a] a show ?thesis by blast
qed

end
