(* ===== verification/Ledger_Transaction.thy ===== *)
theory Ledger_Transaction
  imports Domain_Account Economic_ID "HOL-Library.Multiset"
begin

text \<open>
  \<open>internal/ledger/transaction.go\<close> (double-entry transactions), \<open>economic_source_event.go\<close> (raw
  provider evidence) and \<open>mark.go\<close> (canonical mark observations).  The main fact is that the
  single pass over a map of balances in \<open>Validate\<close> establishes that the postings net to zero in
  every unit.
\<close>

section \<open>Data\<close>

datatype UnitKind = UnitKindCurrency | UnitKindInstrument | OtherUnitKind string

record 'd Posting =
  Posting_ID :: uuid
  Posting_TransactionID :: uuid
  Posting_IdempotencyKey :: string
  Posting_LedgerAccount :: string
  Posting_UnitKind :: UnitKind
  Posting_Unit :: string
  Posting_Amount :: 'd
  Posting_Metadata :: string
  Posting_CreatedAt :: time

record 'd Transaction =
  Transaction_ID :: uuid
  Transaction_AccountID :: uuid
  Transaction_EventType :: string
  Transaction_IdempotencyKey :: string
  Transaction_OriginType :: string
  Transaction_OriginID :: string
  Transaction_ReferenceType :: string
  Transaction_ReferenceID :: string
  Transaction_EffectiveAt :: time
  Transaction_ObservedAt :: time
  Transaction_Metadata :: string
  Transaction_Postings :: "'d Posting list"
  Transaction_CreatedAt :: time

record 'd PostingInput =
  PostingInput_IdempotencyKey :: string
  PostingInput_LedgerAccount :: string
  PostingInput_UnitKind :: UnitKind
  PostingInput_Unit :: string
  PostingInput_Amount :: 'd
  PostingInput_Metadata :: string

record 'd TransactionInput =
  TransactionInput_AccountID :: uuid
  TransactionInput_EventType :: string
  TransactionInput_IdempotencyKey :: string
  TransactionInput_OriginType :: string
  TransactionInput_OriginID :: string
  TransactionInput_ReferenceType :: string
  TransactionInput_ReferenceID :: string
  TransactionInput_EffectiveAt :: time
  TransactionInput_ObservedAt :: time
  TransactionInput_Metadata :: string
  TransactionInput_Postings :: "'d PostingInput list"

type_synonym postingUnit = "UnitKind \<times> string"

datatype ledger_error =
    LedgerIDsRequired
  | LedgerEventTypeKey
  | LedgerOrigin
  | LedgerReferenceTogether
  | LedgerReferenceNormalized
  | LedgerTimesRequired
  | LedgerTimesPrecision
  | LedgerMetadataNotObject
  | LedgerTooFewPostings
  | PostingIdentity
  | PostingKeyAccount
  | PostingDuplicateKey
  | PostingUnitKindInvalid
  | PostingUnitNormalized
  | PostingCurrencyUnit
  | PostingAmountZero
  | PostingTimeRequired
  | PostingTimePrecision
  | PostingAmountPlaces
  | PostingAmountMagnitude
  | PostingMetadataNotObject
  | PostingsUnbalanced
  | DeterministicSeedRequired
  | DeterministicVersion
  | DeterministicObservedRequired

section \<open>Transactions\<close>

definition isCurrencyUnit :: "string \<Rightarrow> bool" where
  "isCurrencyUnit value \<longleftrightarrow>
     length value = 3 \<and> list_all (\<lambda>c. \<not> (c < CHR ''A'' \<or> c > CHR ''Z'')) value"

definition Posting_checks ::
    "('d::linordered_idom) lib \<Rightarrow> uuid \<Rightarrow> string list \<Rightarrow> 'd Posting \<Rightarrow> ledger_error option" where
  "Posting_checks L transactionID postingKeys p = first_err
    [guard (Posting_ID p = uuid_Nil \<or> Posting_TransactionID p \<noteq> transactionID) PostingIdentity,
     guard (\<not> isNormalizedRequired (Posting_IdempotencyKey p) \<or>
            \<not> isNormalizedRequired (Posting_LedgerAccount p)) PostingKeyAccount,
     guard (Posting_IdempotencyKey p \<in> set postingKeys) PostingDuplicateKey,
     guard (Posting_UnitKind p \<noteq> UnitKindCurrency \<and> Posting_UnitKind p \<noteq> UnitKindInstrument)
       PostingUnitKindInvalid,
     guard (\<not> isNormalizedRequired (Posting_Unit p)) PostingUnitNormalized,
     guard (Posting_UnitKind p = UnitKindCurrency \<and> \<not> isCurrencyUnit (Posting_Unit p)) PostingCurrencyUnit,
     guard (Posting_Amount p = 0) PostingAmountZero,
     guard (IsZero (Posting_CreatedAt p)) PostingTimeRequired,
     guard (\<not> hasPostgresTimestampPrecision (Posting_CreatedAt p)) PostingTimePrecision,
     guard (Posting_Amount p \<noteq> decimal_Round L (Posting_Amount p) 12) PostingAmountPlaces,
     guard (decimal_NumDigits L (Posting_Amount p) + decimal_Exponent L (Posting_Amount p) > 26)
       PostingAmountMagnitude,
     guard (normalizeJSONObject L (Posting_Metadata p) = None) PostingMetadataNotObject]"

text \<open>The loop of \<open>Transaction.Validate\<close>: the posting keys seen and the balance of every unit.\<close>

fun checkPostings ::
    "('d::linordered_idom) lib \<Rightarrow> uuid \<Rightarrow> string list \<Rightarrow> (postingUnit \<times> 'd) list \<Rightarrow> 'd Posting list \<Rightarrow>
     ledger_error + (postingUnit \<times> 'd) list" where
  "checkPostings L tid postingKeys balances [] = Inr balances"
| "checkPostings L tid postingKeys balances (p # ps) =
     ensure (Posting_checks L tid postingKeys p)
       (checkPostings L tid (Posting_IdempotencyKey p # postingKeys)
          (map_accumulate (Posting_UnitKind p, Posting_Unit p) (Posting_Amount p) balances) ps)"

definition Transaction_Validate ::
    "('d::linordered_idom) lib \<Rightarrow> 'd Transaction \<Rightarrow> ledger_error option" where
  [valid_defs]: "Transaction_Validate L t = first_err
    [guard (Transaction_ID t = uuid_Nil \<or> Transaction_AccountID t = uuid_Nil) LedgerIDsRequired,
     guard (\<not> isNormalizedRequired (Transaction_EventType t) \<or>
            \<not> isNormalizedRequired (Transaction_IdempotencyKey t)) LedgerEventTypeKey,
     guard (\<not> isNormalizedRequired (Transaction_OriginType t) \<or>
            \<not> isNormalizedRequired (Transaction_OriginID t)) LedgerOrigin,
     guard ((Transaction_ReferenceType t = []) \<noteq> (Transaction_ReferenceID t = [])) LedgerReferenceTogether,
     guard (Transaction_ReferenceType t \<noteq> [] \<and>
            (\<not> isNormalizedRequired (Transaction_ReferenceType t) \<or>
             \<not> isNormalizedRequired (Transaction_ReferenceID t))) LedgerReferenceNormalized,
     guard (IsZero (Transaction_EffectiveAt t) \<or> IsZero (Transaction_ObservedAt t) \<or>
            IsZero (Transaction_CreatedAt t)) LedgerTimesRequired,
     guard (\<not> hasPostgresTimestampPrecision (Transaction_EffectiveAt t) \<or>
            \<not> hasPostgresTimestampPrecision (Transaction_ObservedAt t) \<or>
            \<not> hasPostgresTimestampPrecision (Transaction_CreatedAt t)) LedgerTimesPrecision,
     guard (normalizeJSONObject L (Transaction_Metadata t) = None) LedgerMetadataNotObject,
     guard (length (Transaction_Postings t) < 2) LedgerTooFewPostings,
     (case checkPostings L (Transaction_ID t) [] [] (Transaction_Postings t) of
        Inl e \<Rightarrow> Some e
      | Inr balances \<Rightarrow> guard (\<not> list_all (\<lambda>(u, balance). balance = 0) balances) PostingsUnbalanced)]"

text \<open>
  \<open>materializeTransaction\<close>: \<open>postingID i key\<close> is the result of the \<open>i\<close>-th call of its
  \<open>postingID\<close> argument (\<open>uuid.New()\<close> draws a new value at every call).
\<close>

fun materializePostings ::
    "'d lib \<Rightarrow> uuid \<Rightarrow> (nat \<Rightarrow> string \<Rightarrow> uuid) \<Rightarrow> time \<Rightarrow> nat \<Rightarrow> 'd PostingInput list \<Rightarrow> ledger_error + 'd Posting list" where
  "materializePostings L transactionID postingID createdAt i [] = Inr []"
| "materializePostings L transactionID postingID createdAt i (candidate # candidates) =
     (case normalizeJSONObject L (PostingInput_Metadata candidate) of
        None \<Rightarrow> Inl PostingMetadataNotObject
      | Some postingMetadata \<Rightarrow>
         (let trimmed = TrimSpace (PostingInput_Unit candidate);
              unit = (if PostingInput_UnitKind candidate = UnitKindCurrency then ToUpper L trimmed else trimmed);
              postingKey = TrimSpace (PostingInput_IdempotencyKey candidate);
              posting = \<lparr>Posting_ID = postingID i postingKey,
                         Posting_TransactionID = transactionID,
                         Posting_IdempotencyKey = postingKey,
                         Posting_LedgerAccount = TrimSpace (PostingInput_LedgerAccount candidate),
                         Posting_UnitKind = PostingInput_UnitKind candidate,
                         Posting_Unit = unit,
                         Posting_Amount = PostingInput_Amount candidate,
                         Posting_Metadata = postingMetadata,
                         Posting_CreatedAt = createdAt\<rparr>
          in and_then (materializePostings L transactionID postingID createdAt (Suc i) candidates)
               (\<lambda>postings. Inr (posting # postings))))"

definition materializeTransaction ::
    "('d::linordered_idom) lib \<Rightarrow> time \<Rightarrow> 'd TransactionInput \<Rightarrow> uuid \<Rightarrow> (nat \<Rightarrow> string \<Rightarrow> uuid) \<Rightarrow> bool \<Rightarrow>
     ledger_error + 'd Transaction" where
  "materializeTransaction L now input transactionID postingID defaultObservedAt =
    (let createdAt = utc_micros now in
     case normalizeJSONObject L (TransactionInput_Metadata input) of
       None \<Rightarrow> Inl LedgerMetadataNotObject
     | Some metadata \<Rightarrow>
        and_then (materializePostings L transactionID postingID createdAt 0 (TransactionInput_Postings input))
          (\<lambda>postings.
            let observed = utc_micros (TransactionInput_ObservedAt input);
                observedAt = (if IsZero observed \<and> defaultObservedAt then createdAt else observed);
                transaction =
                  \<lparr>Transaction_ID = transactionID,
                   Transaction_AccountID = TransactionInput_AccountID input,
                   Transaction_EventType = TrimSpace (TransactionInput_EventType input),
                   Transaction_IdempotencyKey = TrimSpace (TransactionInput_IdempotencyKey input),
                   Transaction_OriginType = TrimSpace (TransactionInput_OriginType input),
                   Transaction_OriginID = TrimSpace (TransactionInput_OriginID input),
                   Transaction_ReferenceType = TrimSpace (TransactionInput_ReferenceType input),
                   Transaction_ReferenceID = TrimSpace (TransactionInput_ReferenceID input),
                   Transaction_EffectiveAt = utc_micros (TransactionInput_EffectiveAt input),
                   Transaction_ObservedAt = observedAt,
                   Transaction_Metadata = metadata,
                   Transaction_Postings = postings,
                   Transaction_CreatedAt = createdAt\<rparr>
            in ensure (Transaction_Validate L transaction) (Inr transaction)))"

text \<open>\<open>newIDs\<close> is the sequence of values \<open>uuid.New()\<close> returns: the transaction ID, then posting IDs.\<close>

definition NewTransaction ::
    "('d::linordered_idom) lib \<Rightarrow> time \<Rightarrow> (nat \<Rightarrow> uuid) \<Rightarrow> 'd TransactionInput \<Rightarrow> ledger_error + 'd Transaction" where
  "NewTransaction L now newIDs input =
     materializeTransaction L now input (newIDs 0) (\<lambda>i key. newIDs (Suc i)) True"

definition transactionIDDomain :: string where
  "transactionIDDomain = ''economic-ledger-transaction''"

definition postingIDDomain :: string where
  "postingIDDomain = ''economic-ledger-posting''"

definition newDeterministicTransaction ::
    "('d::linordered_idom) lib \<Rightarrow> time \<Rightarrow> uuid \<Rightarrow> string \<Rightarrow> 'd TransactionInput \<Rightarrow> ledger_error + 'd Transaction" where
  "newDeterministicTransaction L now seed normalizerVersion input =
    ensure (first_err
      [guard (seed = uuid_Nil) DeterministicSeedRequired,
       guard (\<not> isNormalizedRequired normalizerVersion) DeterministicVersion,
       guard (IsZero (TransactionInput_ObservedAt input)) DeterministicObservedRequired])
    (materializeTransaction L now input
       (DeterministicUUID L transactionIDDomain [uuid_String L seed, normalizerVersion])
       (\<lambda>i postingKey. DeterministicUUID L postingIDDomain [uuid_String L seed, normalizerVersion, postingKey])
       False)"

section \<open>Source events\<close>

record EconomicSourceEvent =
  EconomicSourceEvent_ID :: uuid
  EconomicSourceEvent_AccountID :: uuid
  EconomicSourceEvent_Source :: string
  EconomicSourceEvent_SourceNamespace :: string
  EconomicSourceEvent_SourceEventID :: string
  EconomicSourceEvent_SourceRevision :: string
  EconomicSourceEvent_ObservedAt :: time
  EconomicSourceEvent_RawPayload :: string
  EconomicSourceEvent_PayloadSHA256 :: string
  EconomicSourceEvent_CreatedAt :: time

record EconomicSourceEventInput =
  EconomicSourceEventInput_AccountID :: uuid
  EconomicSourceEventInput_Source :: string
  EconomicSourceEventInput_SourceNamespace :: string
  EconomicSourceEventInput_SourceEventID :: string
  EconomicSourceEventInput_SourceRevision :: string
  EconomicSourceEventInput_ObservedAt :: time
  EconomicSourceEventInput_RawPayload :: string
  EconomicSourceEventInput_CreatedAt :: time

datatype source_event_error =
    SourceAccountRequired
  | SourceNameInvalid
  | SourceNamespaceInvalid
  | SourceRevisionInvalid
  | SourceObservedTime
  | SourceCreationTime
  | SourcePayloadInvalid
  | SourcePayloadHash
  | SourceIdentity

definition economicSourceEventIDDomain :: string where
  "economicSourceEventIDDomain = ''economic-source-event''"

definition EconomicSourceEvent_components :: "'d lib \<Rightarrow> EconomicSourceEvent \<Rightarrow> string list" where
  "EconomicSourceEvent_components L e =
     [uuid_String L (EconomicSourceEvent_AccountID e), EconomicSourceEvent_Source e,
      EconomicSourceEvent_SourceNamespace e, EconomicSourceEvent_SourceEventID e]"

definition EconomicSourceEvent_Validate :: "'d lib \<Rightarrow> EconomicSourceEvent \<Rightarrow> source_event_error option" where
  [valid_defs]: "EconomicSourceEvent_Validate L e = first_err
    [guard (EconomicSourceEvent_AccountID e = uuid_Nil) SourceAccountRequired,
     guard (EconomicSourceEvent_Source e = [] \<or>
            EconomicSourceEvent_Source e \<noteq> ToLower L (TrimSpace (EconomicSourceEvent_Source e))) SourceNameInvalid,
     guard (\<not> isNormalizedRequired (EconomicSourceEvent_SourceNamespace e) \<or>
            \<not> isNormalizedRequired (EconomicSourceEvent_SourceEventID e)) SourceNamespaceInvalid,
     guard (EconomicSourceEvent_SourceRevision e \<noteq> TrimSpace (EconomicSourceEvent_SourceRevision e))
       SourceRevisionInvalid,
     guard (IsZero (EconomicSourceEvent_ObservedAt e) \<or> loc (EconomicSourceEvent_ObservedAt e) \<noteq> UTC \<or>
            \<not> hasPostgresTimestampPrecision (EconomicSourceEvent_ObservedAt e)) SourceObservedTime,
     guard (IsZero (EconomicSourceEvent_CreatedAt e) \<or> loc (EconomicSourceEvent_CreatedAt e) \<noteq> UTC \<or>
            \<not> hasPostgresTimestampPrecision (EconomicSourceEvent_CreatedAt e)) SourceCreationTime,
     guard (EconomicSourceEvent_RawPayload e = [] \<or> \<not> json_Valid L (EconomicSourceEvent_RawPayload e))
       SourcePayloadInvalid,
     guard (EconomicSourceEvent_PayloadSHA256 e \<noteq>
            hex_EncodeToString (sha256_Sum256 L (EconomicSourceEvent_RawPayload e))) SourcePayloadHash,
     guard (EconomicSourceEvent_ID e \<noteq>
            DeterministicUUID L economicSourceEventIDDomain (EconomicSourceEvent_components L e)) SourceIdentity]"

definition NewEconomicSourceEvent ::
    "'d lib \<Rightarrow> time \<Rightarrow> EconomicSourceEventInput \<Rightarrow> source_event_error + EconomicSourceEvent" where
  "NewEconomicSourceEvent L now input =
    (let created = utc_micros (EconomicSourceEventInput_CreatedAt input);
         createdAt = (if IsZero created then utc_micros now else created);
         rawPayload = EconomicSourceEventInput_RawPayload input;
         event0 =
           \<lparr>EconomicSourceEvent_ID = uuid_Nil,
            EconomicSourceEvent_AccountID = EconomicSourceEventInput_AccountID input,
            EconomicSourceEvent_Source = ToLower L (TrimSpace (EconomicSourceEventInput_Source input)),
            EconomicSourceEvent_SourceNamespace = TrimSpace (EconomicSourceEventInput_SourceNamespace input),
            EconomicSourceEvent_SourceEventID = TrimSpace (EconomicSourceEventInput_SourceEventID input),
            EconomicSourceEvent_SourceRevision = TrimSpace (EconomicSourceEventInput_SourceRevision input),
            EconomicSourceEvent_ObservedAt = utc_micros (EconomicSourceEventInput_ObservedAt input),
            EconomicSourceEvent_RawPayload = rawPayload,
            EconomicSourceEvent_PayloadSHA256 = hex_EncodeToString (sha256_Sum256 L rawPayload),
            EconomicSourceEvent_CreatedAt = createdAt\<rparr>;
         event = event0\<lparr>EconomicSourceEvent_ID :=
           DeterministicUUID L economicSourceEventIDDomain (EconomicSourceEvent_components L event0)\<rparr>
     in ensure (EconomicSourceEvent_Validate L event) (Inr event))"

definition SameEconomicSourceEventPayload ::
    "EconomicSourceEvent option \<Rightarrow> EconomicSourceEvent option \<Rightarrow> bool" where
  [same_defs]: "SameEconomicSourceEventPayload left right =
    (case (left, right) of
       (Some l, Some r) \<Rightarrow>
         EconomicSourceEvent_ID l = EconomicSourceEvent_ID r \<and>
         EconomicSourceEvent_AccountID l = EconomicSourceEvent_AccountID r \<and>
         EconomicSourceEvent_Source l = EconomicSourceEvent_Source r \<and>
         EconomicSourceEvent_SourceNamespace l = EconomicSourceEvent_SourceNamespace r \<and>
         EconomicSourceEvent_SourceEventID l = EconomicSourceEvent_SourceEventID r \<and>
         EconomicSourceEvent_SourceRevision l = EconomicSourceEvent_SourceRevision r \<and>
         time_Equal (EconomicSourceEvent_ObservedAt l) (EconomicSourceEvent_ObservedAt r) \<and>
         EconomicSourceEvent_PayloadSHA256 l = EconomicSourceEvent_PayloadSHA256 r \<and>
         EconomicSourceEvent_RawPayload l = EconomicSourceEvent_RawPayload r
     | _ \<Rightarrow> False)"

section \<open>Marks\<close>

record 'd MarkObservation =
  MarkObservation_ID :: uuid
  MarkObservation_InstrumentID :: uuid
  MarkObservation_Price :: 'd
  MarkObservation_PriceCurrency :: string
  MarkObservation_Source :: string
  MarkObservation_SourceNamespace :: string
  MarkObservation_SourceObservationID :: string
  MarkObservation_SourceRevision :: string
  MarkObservation_EffectiveAt :: time
  MarkObservation_ObservedAt :: time
  MarkObservation_Metadata :: string
  MarkObservation_CreatedAt :: time

record 'd MarkObservationInput =
  MarkObservationInput_InstrumentID :: uuid
  MarkObservationInput_Price :: 'd
  MarkObservationInput_PriceCurrency :: string
  MarkObservationInput_Source :: string
  MarkObservationInput_SourceNamespace :: string
  MarkObservationInput_SourceObservationID :: string
  MarkObservationInput_SourceRevision :: string
  MarkObservationInput_EffectiveAt :: time
  MarkObservationInput_ObservedAt :: time
  MarkObservationInput_Metadata :: string

datatype mark_error =
    MarkIDsRequired
  | MarkPriceNegative
  | MarkPriceShape
  | MarkCurrencyInvalid
  | MarkSourceInvalid
  | MarkNamespaceInvalid
  | MarkRevisionInvalid
  | MarkTimesRequired
  | MarkTimesPrecision
  | MarkObservedBeforeEffective
  | MarkMetadataNotObject
  | MarkIdentity

definition markObservationIDDomain :: string where
  "markObservationIDDomain = ''canonical-mark-observation''"

definition markObservation_components :: "'d lib \<Rightarrow> 'd MarkObservation \<Rightarrow> string list" where
  "markObservation_components L m =
     [uuid_String L (MarkObservation_InstrumentID m), MarkObservation_PriceCurrency m,
      MarkObservation_Source m, MarkObservation_SourceNamespace m, MarkObservation_SourceObservationID m]"

definition markObservationID :: "'d lib \<Rightarrow> 'd MarkObservation \<Rightarrow> uuid" where
  "markObservationID L m = DeterministicUUID L markObservationIDDomain (markObservation_components L m)"

definition validProjectionDecimal :: "('d::linordered_idom) lib \<Rightarrow> 'd \<Rightarrow> bool" where
  "validProjectionDecimal L value \<longleftrightarrow>
     value = decimal_Round L value 12 \<and> decimal_NumDigits L value + decimal_Exponent L value \<le> 26"

definition jsonSemanticEqual :: "'d lib \<Rightarrow> string \<Rightarrow> string \<Rightarrow> bool" where
  "jsonSemanticEqual L left right =
     (case (json_Decode L left, json_Decode L right) of
        (Decoded l restl, Decoded r restr) \<Rightarrow> l = r
      | _ \<Rightarrow> False)"

definition MarkObservation_Validate ::
    "('d::linordered_idom) lib \<Rightarrow> 'd MarkObservation \<Rightarrow> mark_error option" where
  [valid_defs]: "MarkObservation_Validate L m = first_err
    [guard (MarkObservation_ID m = uuid_Nil \<or> MarkObservation_InstrumentID m = uuid_Nil) MarkIDsRequired,
     guard (MarkObservation_Price m < 0) MarkPriceNegative,
     guard (\<not> validProjectionDecimal L (MarkObservation_Price m)) MarkPriceShape,
     guard (\<not> isCurrencyUnit (MarkObservation_PriceCurrency m)) MarkCurrencyInvalid,
     guard (\<not> isNormalizedRequired (MarkObservation_Source m) \<or>
            MarkObservation_Source m \<noteq> ToLower L (MarkObservation_Source m)) MarkSourceInvalid,
     guard (\<not> isNormalizedRequired (MarkObservation_SourceNamespace m) \<or>
            \<not> isNormalizedRequired (MarkObservation_SourceObservationID m)) MarkNamespaceInvalid,
     guard (MarkObservation_SourceRevision m \<noteq> TrimSpace (MarkObservation_SourceRevision m)) MarkRevisionInvalid,
     guard (IsZero (MarkObservation_EffectiveAt m) \<or> IsZero (MarkObservation_ObservedAt m) \<or>
            IsZero (MarkObservation_CreatedAt m)) MarkTimesRequired,
     first_err (map (\<lambda>value. guard (loc value \<noteq> UTC \<or> \<not> hasPostgresTimestampPrecision value) MarkTimesPrecision)
       [MarkObservation_EffectiveAt m, MarkObservation_ObservedAt m, MarkObservation_CreatedAt m]),
     guard (Before (MarkObservation_ObservedAt m) (MarkObservation_EffectiveAt m)) MarkObservedBeforeEffective,
     guard (normalizeJSONObject L (MarkObservation_Metadata m) = None) MarkMetadataNotObject,
     guard (MarkObservation_ID m \<noteq> markObservationID L m) MarkIdentity]"

definition NewMarkObservation ::
    "('d::linordered_idom) lib \<Rightarrow> time \<Rightarrow> 'd MarkObservationInput \<Rightarrow> mark_error + 'd MarkObservation" where
  "NewMarkObservation L now input =
    (case normalizeJSONObject L (MarkObservationInput_Metadata input) of
       None \<Rightarrow> Inl MarkMetadataNotObject
     | Some metadata \<Rightarrow>
        (let mark0 =
           \<lparr>MarkObservation_ID = uuid_Nil,
            MarkObservation_InstrumentID = MarkObservationInput_InstrumentID input,
            MarkObservation_Price = MarkObservationInput_Price input,
            MarkObservation_PriceCurrency = ToUpper L (TrimSpace (MarkObservationInput_PriceCurrency input)),
            MarkObservation_Source = ToLower L (TrimSpace (MarkObservationInput_Source input)),
            MarkObservation_SourceNamespace = TrimSpace (MarkObservationInput_SourceNamespace input),
            MarkObservation_SourceObservationID = TrimSpace (MarkObservationInput_SourceObservationID input),
            MarkObservation_SourceRevision = TrimSpace (MarkObservationInput_SourceRevision input),
            MarkObservation_EffectiveAt = utc_micros (MarkObservationInput_EffectiveAt input),
            MarkObservation_ObservedAt = utc_micros (MarkObservationInput_ObservedAt input),
            MarkObservation_Metadata = metadata,
            MarkObservation_CreatedAt = utc_micros now\<rparr>;
             mark = mark0\<lparr>MarkObservation_ID := markObservationID L mark0\<rparr>
         in ensure (MarkObservation_Validate L mark) (Inr mark)))"

definition SameMarkObservation ::
    "'d lib \<Rightarrow> 'd MarkObservation option \<Rightarrow> 'd MarkObservation option \<Rightarrow> bool" where
  [same_defs]: "SameMarkObservation L left right =
    (case (left, right) of
       (Some l, Some r) \<Rightarrow>
         MarkObservation_ID l = MarkObservation_ID r \<and>
         MarkObservation_InstrumentID l = MarkObservation_InstrumentID r \<and>
         MarkObservation_Price l = MarkObservation_Price r \<and>
         MarkObservation_PriceCurrency l = MarkObservation_PriceCurrency r \<and>
         MarkObservation_Source l = MarkObservation_Source r \<and>
         MarkObservation_SourceNamespace l = MarkObservation_SourceNamespace r \<and>
         MarkObservation_SourceObservationID l = MarkObservation_SourceObservationID r \<and>
         MarkObservation_SourceRevision l = MarkObservation_SourceRevision r \<and>
         time_Equal (MarkObservation_EffectiveAt l) (MarkObservation_EffectiveAt r) \<and>
         time_Equal (MarkObservation_ObservedAt l) (MarkObservation_ObservedAt r) \<and>
         jsonSemanticEqual L (MarkObservation_Metadata l) (MarkObservation_Metadata r)
     | (None, None) \<Rightarrow> True
     | _ \<Rightarrow> False)"

section \<open>Balance of a validated transaction\<close>

definition unit_total :: "UnitKind \<Rightarrow> string \<Rightarrow> 'd Posting list \<Rightarrow> 'd::linordered_idom" where
  "unit_total kind unit ps = sum_where (\<lambda>p. Posting_UnitKind p = kind \<and> Posting_Unit p = unit) Posting_Amount ps"

lemma checkPostings_balances:
  "checkPostings L tid keys balances ps = Inr result \<Longrightarrow>
   map_get result (kind, unit) = map_get balances (kind, unit) + unit_total kind unit ps"
  by (induction L tid keys balances ps rule: checkPostings.induct) (auto simp: unit_total_def algebra_simps)

lemma checkPostings_distinct_units:
  "checkPostings L tid keys balances ps = Inr result \<Longrightarrow> distinct (map fst balances) \<Longrightarrow>
   distinct (map fst result)"
  by (induction L tid keys balances ps rule: checkPostings.induct) auto

lemma checkPostings_keys:
  "checkPostings L tid keys balances ps = Inr result \<Longrightarrow>
   distinct (map Posting_IdempotencyKey ps) \<and> Posting_IdempotencyKey ` set ps \<inter> set keys = {}"
  by (induction L tid keys balances ps rule: checkPostings.induct) (auto simp: Posting_checks_def)

lemma checkPostings_nonzero:
  "checkPostings L tid keys balances ps = Inr result \<Longrightarrow> p \<in> set ps \<Longrightarrow>
   Posting_Amount p \<noteq> 0 \<and> Posting_TransactionID p = tid"
  by (induction L tid keys balances ps rule: checkPostings.induct) (auto simp: Posting_checks_def)

lemma Transaction_Validate_checkPostings:
  assumes "Transaction_Validate L t = None"
  obtains balances where "checkPostings L (Transaction_ID t) [] [] (Transaction_Postings t) = Inr balances"
    and "list_all (\<lambda>(u, balance). balance = 0) balances"
  using assms by (auto simp: Transaction_Validate_def split: sum.splits)

lemma Transaction_Validate_balanced:
  assumes "Transaction_Validate L t = None"
  shows "unit_total kind unit (Transaction_Postings t) = 0"
proof -
  from assms obtain balances
    where run: "checkPostings L (Transaction_ID t) [] [] (Transaction_Postings t) = Inr balances"
      and zero: "list_all (\<lambda>(u, balance). balance = 0) balances"
    by (rule Transaction_Validate_checkPostings)
  have "distinct (map fst balances)" using checkPostings_distinct_units [OF run] by simp
  with zero have "map_get balances (kind, unit) = 0" by (simp add: map_get_all_zero)
  with checkPostings_balances [OF run, of kind unit] show ?thesis by simp
qed

lemma Transaction_Validate_distinct_keys:
  "Transaction_Validate L t = None \<Longrightarrow> distinct (map Posting_IdempotencyKey (Transaction_Postings t))"
  by (blast elim: Transaction_Validate_checkPostings dest: checkPostings_keys)

interpretation source_identity: derived_identity L economicSourceEventIDDomain
    "\<lambda>e. EconomicSourceEvent_Validate L e = None" EconomicSourceEvent_ID "EconomicSourceEvent_components L" for L
  by unfold_locales (simp add: EconomicSourceEvent_Validate_def)

interpretation mark_identity: derived_identity L markObservationIDDomain
    "\<lambda>m. MarkObservation_Validate L m = None" MarkObservation_ID "markObservation_components L" for L
  by unfold_locales (simp add: MarkObservation_Validate_def markObservationID_def)

end
