(* ===== verification/Ledger_Normalization.thy ===== *)
theory Ledger_Normalization
  imports Instrument_Reference Ledger_Transaction
begin

text \<open>
  \<open>internal/ledger/economic_normalization.go\<close>: the typed interpretation of a raw source event and
  the ledger postings it produces.  Pointers to copies (\<open>cloneEconomicDecimal\<close> and the like) are the
  values themselves.  \<open>json.Marshal\<close> of a \<open>map[string]string\<close> does not fail and emits the keys in
  sorted order, so its error branch is not modelled.  \<open>time.Now()\<close> is read several times in one
  constructor; \<open>clock i\<close> is its \<open>i\<close>-th reading.  The contract of the four posting builders is the
  locale \<open>posting_builder\<close>.
\<close>

section \<open>Data\<close>

datatype EconomicEventType =
    EconomicEventFillBuy
  | EconomicEventFillSell
  | EconomicEventFee
  | EconomicEventRebate
  | EconomicEventOptionCashSettlement
  | EconomicEventOptionExpiration
  | EconomicEventOptionExercise
  | EconomicEventOptionAssignment
  | EconomicEventPredictionPayout
  | OtherEconomicEvent string

fun EconomicEventType_string :: "EconomicEventType \<Rightarrow> string" where
  "EconomicEventType_string EconomicEventFillBuy = ''fill.buy''"
| "EconomicEventType_string EconomicEventFillSell = ''fill.sell''"
| "EconomicEventType_string EconomicEventFee = ''cost.fee''"
| "EconomicEventType_string EconomicEventRebate = ''cost.rebate''"
| "EconomicEventType_string EconomicEventOptionCashSettlement = ''settlement.option_cash''"
| "EconomicEventType_string EconomicEventOptionExpiration = ''settlement.option_expiration''"
| "EconomicEventType_string EconomicEventOptionExercise = ''settlement.option_exercise''"
| "EconomicEventType_string EconomicEventOptionAssignment = ''settlement.option_assignment''"
| "EconomicEventType_string EconomicEventPredictionPayout = ''settlement.prediction_payout''"
| "EconomicEventType_string (OtherEconomicEvent s) = s"

datatype ExecutionOriginType =
    ExecutionOriginStrategyVersion
  | ExecutionOriginCopySubscription
  | ExecutionOriginPortfolioRebalance
  | ExecutionOriginRiskReduction
  | ExecutionOriginOperator
  | ExecutionOriginSettlement
  | ExecutionOriginReconciliation
  | OtherExecutionOrigin string

fun ExecutionOriginType_string :: "ExecutionOriginType \<Rightarrow> string" where
  "ExecutionOriginType_string ExecutionOriginStrategyVersion = ''strategy_version''"
| "ExecutionOriginType_string ExecutionOriginCopySubscription = ''copy_subscription''"
| "ExecutionOriginType_string ExecutionOriginPortfolioRebalance = ''portfolio_rebalance''"
| "ExecutionOriginType_string ExecutionOriginRiskReduction = ''risk_reduction''"
| "ExecutionOriginType_string ExecutionOriginOperator = ''operator''"
| "ExecutionOriginType_string ExecutionOriginSettlement = ''settlement''"
| "ExecutionOriginType_string ExecutionOriginReconciliation = ''reconciliation''"
| "ExecutionOriginType_string (OtherExecutionOrigin s) = s"

datatype FillSide = FillSideBuy | FillSideSell | OtherFillSide string

datatype CostKind = CostKindUnset | CostKindFee | CostKindRebate | OtherCostKind string

record 'd CostComponent =
  CostComponent_Kind :: CostKind
  CostComponent_Currency :: string
  CostComponent_Amount :: 'd

record 'd EconomicNormalization =
  Normalization_ID :: uuid
  Normalization_SourceEvent :: "EconomicSourceEvent option"
  Normalization_Account :: "'d Account option"
  Normalization_EventType :: EconomicEventType
  Normalization_NormalizerVersion :: string
  Normalization_ExecutionOriginType :: ExecutionOriginType
  Normalization_ExecutionOriginID :: string
  Normalization_ReferenceType :: string
  Normalization_ReferenceID :: string
  Normalization_Venue :: string
  Normalization_Instrument :: "'d Instrument option"
  Normalization_SecondaryInstrument :: "'d Instrument option"
  Normalization_VenueContract :: "'d VenueContract option"
  Normalization_OptionTerms :: "'d OptionContractTerms option"
  Normalization_EffectiveAt :: time
  Normalization_CashCurrency :: string
  Normalization_Quantity :: "'d option"
  Normalization_Price :: "'d option"
  Normalization_CostKind :: CostKind
  Normalization_CostCurrency :: string
  Normalization_CostAmount :: "'d option"
  Normalization_PositionQuantity :: "'d option"
  Normalization_SettlementPrice :: "'d option"
  Normalization_Transaction :: "'d Transaction option"
  Normalization_CreatedAt :: time

record 'd EconomicNormalizationBaseInput =
  BaseInput_SourceEvent :: "EconomicSourceEvent option"
  BaseInput_Account :: "'d Account option"
  BaseInput_NormalizerVersion :: string
  BaseInput_ExecutionOriginType :: ExecutionOriginType
  BaseInput_ExecutionOriginID :: string
  BaseInput_ReferenceType :: string
  BaseInput_ReferenceID :: string
  BaseInput_EffectiveAt :: time

record 'd FillEconomicEventInput =
  FillEvent_Base :: "'d EconomicNormalizationBaseInput"
  FillEvent_Instrument :: "'d Instrument"
  FillEvent_VenueContract :: "'d VenueContract"
  FillEvent_Side :: FillSide
  FillEvent_Quantity :: 'd
  FillEvent_Price :: 'd
  FillEvent_Cost :: "'d CostComponent option"

record 'd CostEconomicEventInput =
  CostEvent_Base :: "'d EconomicNormalizationBaseInput"
  CostEvent_Kind :: CostKind
  CostEvent_Currency :: string
  CostEvent_Amount :: 'd

datatype CashSettlementKind =
    CashSettlementOption | CashSettlementExpiration | CashSettlementPrediction | OtherCashSettlement string

record 'd CashSettlementEconomicEventInput =
  CashSettlement_Base :: "'d EconomicNormalizationBaseInput"
  CashSettlement_Kind :: CashSettlementKind
  CashSettlement_Instrument :: "'d Instrument"
  CashSettlement_VenueContract :: "'d VenueContract"
  CashSettlement_PositionQuantity :: 'd
  CashSettlement_SettlementPrice :: 'd

datatype PhysicalOptionAction = PhysicalOptionExercise | PhysicalOptionAssignment | OtherPhysicalOption string

record 'd PhysicalOptionEconomicEventInput =
  PhysicalOption_Base :: "'d EconomicNormalizationBaseInput"
  PhysicalOption_Action :: PhysicalOptionAction
  PhysicalOption_OptionInstrument :: "'d Instrument"
  PhysicalOption_UnderlyingInstrument :: "'d Instrument"
  PhysicalOption_VenueContract :: "'d VenueContract"
  PhysicalOption_OptionTerms :: "'d OptionContractTerms"
  PhysicalOption_PositionQuantity :: 'd

datatype economic_value =
    FillQuantity | FillPrice | FillGrossCash | CostAmountValue | SettlementPosition | SettlementPriceValue
  | SettlementCashValue | PhysicalPosition | PhysicalDelivered | PhysicalStrikeCash

datatype fill_error =
    FillSideInvalid
  | FillIncomplete
  | FillIrrelevant
  | FillInstrument instrument_error
  | FillInstrumentInactive
  | FillContract contract_error
  | FillContractMismatch
  | FillCurrencyMismatch
  | FillContractNotEffective
  | FillQuantityLot
  | FillPriceTick
  | FillPredictionPrice

datatype cost_error =
    CostKindInvalid
  | CostIrrelevant
  | CostKindMismatch
  | CostKindWithoutAmount
  | CostAmountRequired
  | CostCurrencyMismatch
  | CostContractCurrency

datatype settlement_error =
    CashSettlementKindInvalid
  | SettlementIncomplete
  | SettlementIrrelevant
  | SettlementInstrument instrument_error
  | SettlementQuarantined
  | SettlementContract contract_error
  | SettlementContractMismatch
  | SettlementCurrencyMismatch
  | SettlementContractNotBegun
  | SettlementMultiplierMismatch
  | SettlementNotCashOption
  | SettlementNotZeroOption
  | SettlementExpirationMechanics
  | SettlementNotPrediction
  | SettlementPayoutNotBinary
  | SettlementPositionZero
  | SettlementPositionLot
  | SettlementPriceTick

datatype physical_error =
    PhysicalActionInvalid
  | PhysicalIncomplete
  | PhysicalIrrelevant
  | PhysicalInstrument instrument_error
  | PhysicalUnderlying instrument_error
  | PhysicalQuarantined
  | PhysicalUnderlyingMismatch
  | PhysicalContract contract_error
  | PhysicalMechanics
  | PhysicalContractNotBegun
  | PhysicalTerms terms_error
  | PhysicalTermsMismatch
  | PhysicalTermsNotEffective
  | PhysicalTermsNotObserved
  | PhysicalCurrencyMismatch
  | PhysicalMultiplierMismatch
  | PhysicalPositionZero
  | PhysicalPositionLot
  | PhysicalExerciseNotLong
  | PhysicalAssignmentNotShort
  | PhysicalDeliveryLot

datatype norm_error =
    NormSourceAndAccountRequired
  | NormSourceEvent source_event_error
  | NormAccount account_error
  | NormSourceAccountMismatch
  | NormVersionInvalid
  | NormOriginInvalid
  | NormReferenceInvalid
  | NormEffectiveTime
  | NormEffectiveAfterObserved
  | NormCreationTime
  | NormCashCurrency
  | NormIdentity
  | NormTransactionMismatch
  | NormTransaction ledger_error
  | NormEventTypeUnsupported
  | NormDecimal economic_value decimal_error
  | NormNoInventoryAccount
  | InFill fill_error
  | InCost cost_error
  | InSettlement settlement_error
  | InPhysical physical_error

section \<open>Helpers\<close>

definition validateEconomicDecimalShape ::
    "('d::linordered_idom) lib \<Rightarrow> economic_value \<Rightarrow> 'd \<Rightarrow> norm_error option" where
  "validateEconomicDecimalShape L label value = map_option (NormDecimal label) (decimal_shape L value)"

definition validatePositiveEconomicDecimal ::
    "('d::linordered_idom) lib \<Rightarrow> economic_value \<Rightarrow> 'd \<Rightarrow> norm_error option" where
  "validatePositiveEconomicDecimal L label value = first_err
    [guard (\<not> value > 0) (NormDecimal label NotPositive), validateEconomicDecimalShape L label value]"

definition validateNonnegativeEconomicDecimal ::
    "('d::linordered_idom) lib \<Rightarrow> economic_value \<Rightarrow> 'd \<Rightarrow> norm_error option" where
  "validateNonnegativeEconomicDecimal L label value = first_err
    [guard (value < 0) (NormDecimal label IsNegative), validateEconomicDecimalShape L label value]"

definition ledger_isExactMultiple :: "('d::linordered_idom) lib \<Rightarrow> 'd \<Rightarrow> 'd \<Rightarrow> bool" where
  "ledger_isExactMultiple L value increment \<longleftrightarrow> increment > 0 \<and> decimal_Mod L value increment = 0"

fun validExecutionOriginType :: "ExecutionOriginType \<Rightarrow> bool" where
  "validExecutionOriginType (OtherExecutionOrigin s) = False"
| "validExecutionOriginType _ = True"

definition inventoryLedgerAccount :: "AssetClass \<Rightarrow> norm_error + string" where
  "inventoryLedgerAccount assetClass =
     (case assetClass of
        AssetClassEquity \<Rightarrow> Inr ''asset:security_inventory''
      | AssetClassETF \<Rightarrow> Inr ''asset:security_inventory''
      | AssetClassFuture \<Rightarrow> Inr ''asset:security_inventory''
      | AssetClassCryptoSpot \<Rightarrow> Inr ''asset:crypto_inventory''
      | AssetClassOption \<Rightarrow> Inr ''asset:option_inventory''
      | AssetClassPredictionContract \<Rightarrow> Inr ''asset:event_contract_inventory''
      | _ \<Rightarrow> Inl NormNoInventoryAccount)"

definition postingInput :: "string \<Rightarrow> string \<Rightarrow> UnitKind \<Rightarrow> string \<Rightarrow> 'd \<Rightarrow> 'd PostingInput" where
  "postingInput key account kind unit amount =
     \<lparr>PostingInput_IdempotencyKey = key,
      PostingInput_LedgerAccount = account,
      PostingInput_UnitKind = kind,
      PostingInput_Unit = unit,
      PostingInput_Amount = amount,
      PostingInput_Metadata = ''{}''\<rparr>"

section \<open>Posting builders\<close>

definition requiredCostPostings ::
    "('d::linordered_idom) lib \<Rightarrow> 'd EconomicNormalization \<Rightarrow> norm_error + 'd PostingInput list" where
  "requiredCostPostings L n =
    (case Normalization_CostAmount n of
       None \<Rightarrow> Inl (InCost CostAmountRequired)
     | Some costAmount \<Rightarrow>
        ensure (first_err
          [guard (Normalization_CostKind n \<noteq> CostKindFee \<and> Normalization_CostKind n \<noteq> CostKindRebate)
             (InCost CostKindInvalid),
           guard (Normalization_CostCurrency n \<noteq> Normalization_CashCurrency n) (InCost CostCurrencyMismatch),
           guard (opt_holds (\<lambda>c. Normalization_CostCurrency n \<noteq> VenueContract_Currency c)
                    (Normalization_VenueContract n)) (InCost CostContractCurrency),
           validatePositiveEconomicDecimal L CostAmountValue costAmount])
        (if Normalization_CostKind n = CostKindFee
         then Inr
           [postingInput ''fee-expense'' ''expense:fees'' UnitKindCurrency (Normalization_CashCurrency n) costAmount,
            postingInput ''fee-cash'' ''asset:cash'' UnitKindCurrency (Normalization_CashCurrency n) (- costAmount)]
         else Inr
           [postingInput ''rebate-cash'' ''asset:cash'' UnitKindCurrency (Normalization_CashCurrency n) costAmount,
            postingInput ''rebate-income'' ''income:rebates'' UnitKindCurrency (Normalization_CashCurrency n)
              (- costAmount)]))"

definition optionalCostPostings ::
    "('d::linordered_idom) lib \<Rightarrow> 'd EconomicNormalization \<Rightarrow> norm_error + 'd PostingInput list" where
  "optionalCostPostings L n =
    (if Normalization_CostAmount n = None
     then (if Normalization_CostKind n \<noteq> CostKindUnset \<or> Normalization_CostCurrency n \<noteq> []
           then Inl (InCost CostKindWithoutAmount) else Inr [])
     else requiredCostPostings L n)"

definition costPostings ::
    "('d::linordered_idom) lib \<Rightarrow> 'd EconomicNormalization \<Rightarrow> norm_error + 'd PostingInput list" where
  "costPostings L n =
    (let expectedKind = (if Normalization_EventType n = EconomicEventRebate then CostKindRebate else CostKindFee)
     in ensure (first_err
          [guard (Normalization_Instrument n \<noteq> None \<or> Normalization_SecondaryInstrument n \<noteq> None \<or>
                  Normalization_VenueContract n \<noteq> None \<or> Normalization_OptionTerms n \<noteq> None \<or>
                  Normalization_Venue n \<noteq> [] \<or> Normalization_Quantity n \<noteq> None \<or>
                  Normalization_Price n \<noteq> None \<or> Normalization_PositionQuantity n \<noteq> None \<or>
                  Normalization_SettlementPrice n \<noteq> None) (InCost CostIrrelevant),
           guard (Normalization_CostKind n \<noteq> expectedKind) (InCost CostKindMismatch)])
        (requiredCostPostings L n))"

text \<open>\<open>fillPostings\<close>: the checks before the postings, then the postings.\<close>

definition fill_checks ::
    "('d::linordered_idom) lib \<Rightarrow> 'd EconomicNormalization \<Rightarrow> 'd Instrument \<Rightarrow> 'd VenueContract \<Rightarrow> 'd \<Rightarrow> 'd \<Rightarrow>
     norm_error option" where
  "fill_checks L n i contract quantity price = first_err
    [guard (Normalization_SecondaryInstrument n \<noteq> None \<or> Normalization_OptionTerms n \<noteq> None \<or>
            Normalization_PositionQuantity n \<noteq> None \<or> Normalization_SettlementPrice n \<noteq> None) (InFill FillIrrelevant),
     map_option (InFill \<circ> FillInstrument) (Instrument_Validate L i),
     guard (Instrument_Status i \<noteq> StatusActive) (InFill FillInstrumentInactive),
     map_option (InFill \<circ> FillContract) (VenueContract_Validate L contract),
     guard (VenueContract_InstrumentID contract \<noteq> Instrument_ID i \<or>
            Normalization_Venue n \<noteq> VenueContract_Venue contract) (InFill FillContractMismatch),
     guard (Instrument_Currency i \<noteq> VenueContract_Currency contract \<or>
            VenueContract_Currency contract \<noteq> Normalization_CashCurrency n) (InFill FillCurrencyMismatch),
     guard (Before (Normalization_EffectiveAt n) (VenueContract_ValidFrom contract) \<or>
            opt_holds (\<lambda>validTo. \<not> Before (Normalization_EffectiveAt n) validTo) (VenueContract_ValidTo contract))
       (InFill FillContractNotEffective),
     validatePositiveEconomicDecimal L FillQuantity quantity,
     guard (\<not> ledger_isExactMultiple L quantity (VenueContract_LotSize contract)) (InFill FillQuantityLot),
     validateNonnegativeEconomicDecimal L FillPrice price,
     guard (\<not> ledger_isExactMultiple L price (VenueContract_TickSize contract)) (InFill FillPriceTick),
     guard (Instrument_AssetClass i = AssetClassPredictionContract \<and> (price < 0 \<or> price > 1))
       (InFill FillPredictionPrice)]"

definition fillPostings ::
    "('d::linordered_idom) lib \<Rightarrow> 'd EconomicNormalization \<Rightarrow> norm_error + 'd PostingInput list" where
  "fillPostings L n =
    (case (Normalization_Instrument n, Normalization_VenueContract n, Normalization_Quantity n, Normalization_Price n) of
       (Some i, Some contract, Some quantity, Some price) \<Rightarrow>
         ensure (fill_checks L n i contract quantity price)
         (and_then (inventoryLedgerAccount (Instrument_AssetClass i)) (\<lambda>inventoryAccount.
           let direction = (if Normalization_EventType n = EconomicEventFillSell then - 1 else 1);
               inventoryAmount = quantity * direction;
               instrumentUnit = uuid_String L (Instrument_ID i);
               inventory =
                 [postingInput ''inventory'' inventoryAccount UnitKindInstrument instrumentUnit inventoryAmount,
                  postingInput ''clearing-inventory'' ''clearing:execution'' UnitKindInstrument instrumentUnit
                    (- inventoryAmount)];
               gross = price * quantity * VenueContract_Multiplier contract;
               cashAmount = - (gross * direction);
               cash = (if gross = 0 then [] else
                 [postingInput ''gross-cash'' ''asset:cash'' UnitKindCurrency (Normalization_CashCurrency n) cashAmount,
                  postingInput ''clearing-gross-cash'' ''clearing:execution'' UnitKindCurrency
                    (Normalization_CashCurrency n) (- cashAmount)])
           in ensure (validateNonnegativeEconomicDecimal L FillGrossCash gross)
              (and_then (optionalCostPostings L n) (\<lambda>costs. Inr (inventory @ cash @ costs)))))
     | _ \<Rightarrow> Inl (InFill FillIncomplete))"

definition validateSettlementReferences ::
    "('d::linordered_idom) lib \<Rightarrow> 'd EconomicNormalization \<Rightarrow> 'd Instrument \<Rightarrow> 'd VenueContract \<Rightarrow> norm_error option" where
  "validateSettlementReferences L n i contract = first_err
    [map_option (InSettlement \<circ> SettlementInstrument) (Instrument_Validate L i),
     guard (Instrument_Status i = StatusQuarantined) (InSettlement SettlementQuarantined),
     map_option (InSettlement \<circ> SettlementContract) (VenueContract_Validate L contract),
     guard (VenueContract_InstrumentID contract \<noteq> Instrument_ID i \<or>
            Normalization_Venue n \<noteq> VenueContract_Venue contract) (InSettlement SettlementContractMismatch),
     guard (Instrument_Currency i \<noteq> VenueContract_Currency contract \<or>
            VenueContract_Currency contract \<noteq> Normalization_CashCurrency n) (InSettlement SettlementCurrencyMismatch),
     guard (After (VenueContract_ValidFrom contract) (Normalization_EffectiveAt n)) (InSettlement SettlementContractNotBegun),
     guard (Instrument_Multiplier i \<noteq> VenueContract_Multiplier contract) (InSettlement SettlementMultiplierMismatch)]"

definition settlement_mechanics ::
    "('d::linordered_idom) EconomicNormalization \<Rightarrow> 'd Instrument \<Rightarrow> 'd VenueContract \<Rightarrow> 'd \<Rightarrow> norm_error option" where
  "settlement_mechanics n i contract price =
    (case Normalization_EventType n of
       EconomicEventOptionCashSettlement \<Rightarrow>
         guard (Instrument_AssetClass i \<noteq> AssetClassOption \<or> Instrument_SettlementMethod i \<noteq> SettlementCash \<or>
                VenueContract_SettlementMethod contract \<noteq> SettlementCash) (InSettlement SettlementNotCashOption)
     | EconomicEventOptionExpiration \<Rightarrow> first_err
         [guard (Instrument_AssetClass i \<noteq> AssetClassOption \<or> price \<noteq> 0) (InSettlement SettlementNotZeroOption),
          guard (VenueContract_SettlementMethod contract \<noteq> Instrument_SettlementMethod i)
            (InSettlement SettlementExpirationMechanics)]
     | EconomicEventPredictionPayout \<Rightarrow> first_err
         [guard (Instrument_AssetClass i \<noteq> AssetClassPredictionContract \<or>
                 Instrument_SettlementMethod i \<noteq> SettlementBinary \<or>
                 VenueContract_SettlementMethod contract \<noteq> SettlementBinary) (InSettlement SettlementNotPrediction),
          guard (price \<noteq> 0 \<and> price \<noteq> 1) (InSettlement SettlementPayoutNotBinary)]
     | _ \<Rightarrow> None)"

definition cashSettlementPostings ::
    "('d::linordered_idom) lib \<Rightarrow> 'd EconomicNormalization \<Rightarrow> norm_error + 'd PostingInput list" where
  "cashSettlementPostings L n =
    (case (Normalization_Instrument n, Normalization_VenueContract n, Normalization_PositionQuantity n,
           Normalization_SettlementPrice n) of
       (Some i, Some contract, Some position, Some price) \<Rightarrow>
         ensure (first_err
           [guard (Normalization_SecondaryInstrument n \<noteq> None \<or> Normalization_OptionTerms n \<noteq> None \<or>
                   Normalization_Quantity n \<noteq> None \<or> Normalization_Price n \<noteq> None \<or>
                   Normalization_CostAmount n \<noteq> None \<or> Normalization_CostKind n \<noteq> CostKindUnset \<or>
                   Normalization_CostCurrency n \<noteq> []) (InSettlement SettlementIrrelevant),
            validateSettlementReferences L n i contract,
            settlement_mechanics n i contract price,
            guard (position = 0) (InSettlement SettlementPositionZero),
            validateEconomicDecimalShape L SettlementPosition position,
            guard (\<not> ledger_isExactMultiple L \<bar>position\<bar> (VenueContract_LotSize contract)) (InSettlement SettlementPositionLot),
            validateNonnegativeEconomicDecimal L SettlementPriceValue price,
            guard (\<not> ledger_isExactMultiple L price (VenueContract_TickSize contract)) (InSettlement SettlementPriceTick)])
         (and_then (inventoryLedgerAccount (Instrument_AssetClass i)) (\<lambda>inventoryAccount.
           let inventoryAmount = - position;
               instrumentUnit = uuid_String L (Instrument_ID i);
               inventory =
                 [postingInput ''inventory-settlement'' inventoryAccount UnitKindInstrument instrumentUnit
                    inventoryAmount,
                  postingInput ''clearing-inventory-settlement'' ''clearing:settlement'' UnitKindInstrument
                    instrumentUnit (- inventoryAmount)];
               payout = position * price * VenueContract_Multiplier contract
           in ensure (validateEconomicDecimalShape L SettlementCashValue payout)
              (Inr (if payout = 0 then inventory else inventory @
                 [postingInput ''settlement-cash'' ''asset:cash'' UnitKindCurrency (Normalization_CashCurrency n) payout,
                  postingInput ''clearing-settlement-cash'' ''clearing:settlement'' UnitKindCurrency
                    (Normalization_CashCurrency n) (- payout)]))))
     | _ \<Rightarrow> Inl (InSettlement SettlementIncomplete))"

text \<open>\<open>physicalOptionPostings\<close>: the checks on the references and the position, then the postings.\<close>

definition physical_checks ::
    "('d::linordered_idom) lib \<Rightarrow> 'd EconomicNormalization \<Rightarrow> 'd Instrument \<Rightarrow> 'd Instrument \<Rightarrow> 'd VenueContract \<Rightarrow>
     'd OptionContractTerms \<Rightarrow> 'd \<Rightarrow> EconomicSourceEvent \<Rightarrow> norm_error option" where
  "physical_checks L n opt underlying contract terms position source = first_err
    [guard (Normalization_Quantity n \<noteq> None \<or> Normalization_Price n \<noteq> None \<or>
            Normalization_SettlementPrice n \<noteq> None \<or> Normalization_CostAmount n \<noteq> None \<or>
            Normalization_CostKind n \<noteq> CostKindUnset \<or> Normalization_CostCurrency n \<noteq> []) (InPhysical PhysicalIrrelevant),
     map_option (InPhysical \<circ> PhysicalInstrument) (Instrument_Validate L opt),
     map_option (InPhysical \<circ> PhysicalUnderlying) (Instrument_Validate L underlying),
     guard (Instrument_Status opt = StatusQuarantined \<or> Instrument_Status underlying = StatusQuarantined)
       (InPhysical PhysicalQuarantined),
     guard (Instrument_AssetClass opt \<noteq> AssetClassOption \<or>
            Instrument_UnderlyingID opt \<noteq> Some (Instrument_ID underlying)) (InPhysical PhysicalUnderlyingMismatch),
     map_option (InPhysical \<circ> PhysicalContract) (VenueContract_Validate L contract),
     guard (VenueContract_InstrumentID contract \<noteq> Instrument_ID opt \<or>
            VenueContract_Venue contract \<noteq> Normalization_Venue n \<or>
            VenueContract_SettlementMethod contract \<noteq> SettlementPhysical \<or>
            Instrument_SettlementMethod opt \<noteq> SettlementPhysical) (InPhysical PhysicalMechanics),
     guard (After (VenueContract_ValidFrom contract) (Normalization_EffectiveAt n)) (InPhysical PhysicalContractNotBegun),
     map_option (InPhysical \<circ> PhysicalTerms) (OptionContractTerms_Validate L terms),
     guard (OptionContractTerms_OptionInstrumentID terms \<noteq> Instrument_ID opt \<or>
            OptionContractTerms_UnderlyingInstrumentID terms \<noteq> Instrument_ID underlying) (InPhysical PhysicalTermsMismatch),
     guard (After (OptionContractTerms_EffectiveAt terms) (Normalization_EffectiveAt n)) (InPhysical PhysicalTermsNotEffective),
     guard (After (OptionContractTerms_ObservedAt terms) (EconomicSourceEvent_ObservedAt source))
       (InPhysical PhysicalTermsNotObserved),
     guard (Instrument_Currency opt \<noteq> VenueContract_Currency contract \<or>
            VenueContract_Currency contract \<noteq> Normalization_CashCurrency n \<or>
            OptionContractTerms_StrikeCurrency terms \<noteq> Normalization_CashCurrency n) (InPhysical PhysicalCurrencyMismatch),
     guard (VenueContract_Multiplier contract \<noteq> OptionContractTerms_DeliverableQuantity terms)
       (InPhysical PhysicalMultiplierMismatch),
     guard (position = 0) (InPhysical PhysicalPositionZero),
     validateEconomicDecimalShape L PhysicalPosition position,
     guard (\<not> ledger_isExactMultiple L \<bar>position\<bar> (VenueContract_LotSize contract)) (InPhysical PhysicalPositionLot),
     guard (Normalization_EventType n = EconomicEventOptionExercise \<and> \<not> position > 0) (InPhysical PhysicalExerciseNotLong),
     guard (Normalization_EventType n = EconomicEventOptionAssignment \<and> \<not> position < 0)
       (InPhysical PhysicalAssignmentNotShort)]"

text \<open>
  The source event is read through a pointer; every caller has checked that it is not nil, and the
  model reports the missing source as the error of \<open>newEconomicNormalization\<close> and \<open>Validate\<close>.
\<close>

definition physicalOptionPostings ::
    "('d::linordered_idom) lib \<Rightarrow> 'd EconomicNormalization \<Rightarrow> norm_error + 'd PostingInput list" where
  "physicalOptionPostings L n =
    (case (Normalization_Instrument n, Normalization_SecondaryInstrument n, Normalization_VenueContract n,
           Normalization_OptionTerms n, Normalization_PositionQuantity n) of
       (Some opt, Some underlying, Some contract, Some terms, Some position) \<Rightarrow>
        (case Normalization_SourceEvent n of None \<Rightarrow> Inl NormSourceAndAccountRequired | Some source \<Rightarrow>
         ensure (physical_checks L n opt underlying contract terms position source)
         (let optionClose = - position;
              delivered0 = position * OptionContractTerms_DeliverableQuantity terms;
              delivered = (if OptionContractTerms_ContractType terms = OptionContractPut then - delivered0
                           else delivered0);
              strikeCash = - (delivered * OptionContractTerms_StrikePrice terms);
              optionUnit = uuid_String L (Instrument_ID opt);
              underlyingUnit = uuid_String L (Instrument_ID underlying)
          in ensure (first_err
               [validateEconomicDecimalShape L PhysicalDelivered delivered,
                guard (\<not> ledger_isExactMultiple L \<bar>delivered\<bar> (Instrument_LotSize underlying))
                  (InPhysical PhysicalDeliveryLot),
                validateEconomicDecimalShape L PhysicalStrikeCash strikeCash])
             (and_then (inventoryLedgerAccount (Instrument_AssetClass underlying)) (\<lambda>underlyingAccount.
               Inr
                 [postingInput ''option-close'' ''asset:option_inventory'' UnitKindInstrument optionUnit optionClose,
                  postingInput ''clearing-option-close'' ''clearing:settlement'' UnitKindInstrument optionUnit
                    (- optionClose),
                  postingInput ''underlying-delivery'' underlyingAccount UnitKindInstrument underlyingUnit delivered,
                  postingInput ''clearing-underlying-delivery'' ''clearing:settlement'' UnitKindInstrument
                    underlyingUnit (- delivered),
                  postingInput ''strike-cash'' ''asset:cash'' UnitKindCurrency (Normalization_CashCurrency n) strikeCash,
                  postingInput ''clearing-strike-cash'' ''clearing:settlement'' UnitKindCurrency
                    (Normalization_CashCurrency n) (- strikeCash)]))))
     | _ \<Rightarrow> Inl (InPhysical PhysicalIncomplete))"

definition expectedPostings ::
    "('d::linordered_idom) lib \<Rightarrow> 'd EconomicNormalization \<Rightarrow> norm_error + 'd PostingInput list" where
  "expectedPostings L n =
    (case Normalization_EventType n of
       EconomicEventFillBuy \<Rightarrow> fillPostings L n
     | EconomicEventFillSell \<Rightarrow> fillPostings L n
     | EconomicEventFee \<Rightarrow> costPostings L n
     | EconomicEventRebate \<Rightarrow> costPostings L n
     | EconomicEventOptionCashSettlement \<Rightarrow> cashSettlementPostings L n
     | EconomicEventOptionExpiration \<Rightarrow> cashSettlementPostings L n
     | EconomicEventPredictionPayout \<Rightarrow> cashSettlementPostings L n
     | EconomicEventOptionExercise \<Rightarrow> physicalOptionPostings L n
     | EconomicEventOptionAssignment \<Rightarrow> physicalOptionPostings L n
     | OtherEconomicEvent s \<Rightarrow> Inl NormEventTypeUnsupported)"

section \<open>The expected transaction and validation\<close>

definition normalization_metadata :: "'d lib \<Rightarrow> 'd EconomicNormalization \<Rightarrow> EconomicSourceEvent \<Rightarrow> string" where
  "normalization_metadata L n source = json_Marshal L (JObject
     [(''economic_normalization_id'', JString (uuid_String L (Normalization_ID n))),
      (''execution_origin_id'', JString (Normalization_ExecutionOriginID n)),
      (''execution_origin_type'', JString (ExecutionOriginType_string (Normalization_ExecutionOriginType n))),
      (''normalizer_version'', JString (Normalization_NormalizerVersion n)),
      (''raw_payload_sha256'', JString (EconomicSourceEvent_PayloadSHA256 source)),
      (''source_event_id'', JString (uuid_String L (EconomicSourceEvent_ID source)))])"

definition expectedTransaction ::
    "('d::linordered_idom) lib \<Rightarrow> time \<Rightarrow> 'd EconomicNormalization \<Rightarrow> norm_error + 'd Transaction" where
  "expectedTransaction L now n =
    and_then (expectedPostings L n) (\<lambda>postings.
      case Normalization_SourceEvent n of
        None \<Rightarrow> Inl NormSourceAndAccountRequired
      | Some source \<Rightarrow>
          wrap NormTransaction (newDeterministicTransaction L now (EconomicSourceEvent_ID source)
            (Normalization_NormalizerVersion n)
            \<lparr>TransactionInput_AccountID = EconomicSourceEvent_AccountID source,
             TransactionInput_EventType = EconomicEventType_string (Normalization_EventType n),
             TransactionInput_IdempotencyKey =
               ''economic-source-event:'' @ uuid_String L (EconomicSourceEvent_ID source),
             TransactionInput_OriginType = ''economic_source_event'',
             TransactionInput_OriginID = uuid_String L (EconomicSourceEvent_ID source),
             TransactionInput_ReferenceType = Normalization_ReferenceType n,
             TransactionInput_ReferenceID = Normalization_ReferenceID n,
             TransactionInput_EffectiveAt = Normalization_EffectiveAt n,
             TransactionInput_ObservedAt = EconomicSourceEvent_ObservedAt source,
             TransactionInput_Metadata = normalization_metadata L n source,
             TransactionInput_Postings = postings\<rparr>))"

definition same_posting :: "'d lib \<Rightarrow> 'd Posting \<Rightarrow> 'd Posting \<Rightarrow> bool" where
  "same_posting L posting expected \<longleftrightarrow>
     Posting_ID posting = Posting_ID expected \<and>
     Posting_TransactionID posting = Posting_TransactionID expected \<and>
     Posting_LedgerAccount posting = Posting_LedgerAccount expected \<and>
     Posting_UnitKind posting = Posting_UnitKind expected \<and>
     Posting_Unit posting = Posting_Unit expected \<and>
     Posting_Amount posting = Posting_Amount expected \<and>
     jsonSemanticEqual L (Posting_Metadata posting) (Posting_Metadata expected)"

text \<open>\<open>rightByKey\<close>: the later posting with a key replaces an earlier one.\<close>

definition postings_by_key :: "'d Posting list \<Rightarrow> string \<rightharpoonup> 'd Posting" where
  "postings_by_key ps = map_of (rev (map (\<lambda>p. (Posting_IdempotencyKey p, p)) ps))"

definition sameEconomicTransaction :: "'d lib \<Rightarrow> 'd Transaction option \<Rightarrow> 'd Transaction option \<Rightarrow> bool" where
  [same_defs]: "sameEconomicTransaction L left right =
    (case (left, right) of
       (Some l, Some r) \<Rightarrow>
         Transaction_ID l = Transaction_ID r \<and>
         Transaction_AccountID l = Transaction_AccountID r \<and>
         Transaction_EventType l = Transaction_EventType r \<and>
         Transaction_IdempotencyKey l = Transaction_IdempotencyKey r \<and>
         Transaction_OriginType l = Transaction_OriginType r \<and>
         Transaction_OriginID l = Transaction_OriginID r \<and>
         Transaction_ReferenceType l = Transaction_ReferenceType r \<and>
         Transaction_ReferenceID l = Transaction_ReferenceID r \<and>
         time_Equal (Transaction_EffectiveAt l) (Transaction_EffectiveAt r) \<and>
         time_Equal (Transaction_ObservedAt l) (Transaction_ObservedAt r) \<and>
         jsonSemanticEqual L (Transaction_Metadata l) (Transaction_Metadata r) \<and>
         length (Transaction_Postings l) = length (Transaction_Postings r) \<and>
         list_all (\<lambda>posting. case postings_by_key (Transaction_Postings r) (Posting_IdempotencyKey posting) of
                               None \<Rightarrow> False
                             | Some expected \<Rightarrow> same_posting L posting expected) (Transaction_Postings l)
     | _ \<Rightarrow> False)"

definition economicNormalizationIDDomain :: string where
  "economicNormalizationIDDomain = ''economic-normalization''"

definition EconomicNormalization_Validate ::
    "('d::linordered_idom) lib \<Rightarrow> time \<Rightarrow> 'd EconomicNormalization \<Rightarrow> norm_error option" where
  [valid_defs]: "EconomicNormalization_Validate L now n =
    (case (Normalization_SourceEvent n, Normalization_Account n) of
       (Some source, Some account) \<Rightarrow> first_err
         [map_option NormSourceEvent (EconomicSourceEvent_Validate L source),
          map_option NormAccount (Account_Validate L account),
          guard (EconomicSourceEvent_AccountID source \<noteq> Account_ID account) NormSourceAccountMismatch,
          guard (\<not> isNormalizedRequired (Normalization_NormalizerVersion n)) NormVersionInvalid,
          guard (\<not> validExecutionOriginType (Normalization_ExecutionOriginType n) \<or>
                 \<not> isNormalizedRequired (Normalization_ExecutionOriginID n)) NormOriginInvalid,
          guard (\<not> isNormalizedRequired (Normalization_ReferenceType n) \<or>
                 \<not> isNormalizedRequired (Normalization_ReferenceID n)) NormReferenceInvalid,
          guard (IsZero (Normalization_EffectiveAt n) \<or> loc (Normalization_EffectiveAt n) \<noteq> UTC \<or>
                 \<not> hasPostgresTimestampPrecision (Normalization_EffectiveAt n)) NormEffectiveTime,
          guard (After (Normalization_EffectiveAt n) (EconomicSourceEvent_ObservedAt source))
            NormEffectiveAfterObserved,
          guard (IsZero (Normalization_CreatedAt n) \<or> loc (Normalization_CreatedAt n) \<noteq> UTC \<or>
                 \<not> hasPostgresTimestampPrecision (Normalization_CreatedAt n)) NormCreationTime,
          guard (Normalization_CashCurrency n \<noteq> Account_BaseCurrency account) NormCashCurrency,
          guard (Normalization_ID n \<noteq> DeterministicUUID L economicNormalizationIDDomain
                   [uuid_String L (EconomicSourceEvent_ID source), Normalization_NormalizerVersion n]) NormIdentity,
          (case expectedTransaction L now n of
             Inl e \<Rightarrow> Some e
           | Inr transaction \<Rightarrow>
               guard (\<not> sameEconomicTransaction L (Normalization_Transaction n) (Some transaction))
                 NormTransactionMismatch)]
     | _ \<Rightarrow> Some NormSourceAndAccountRequired)"

section \<open>Constructors\<close>

definition materializeAndValidate ::
    "('d::linordered_idom) lib \<Rightarrow> (nat \<Rightarrow> time) \<Rightarrow> 'd EconomicNormalization \<Rightarrow> norm_error + 'd EconomicNormalization" where
  "materializeAndValidate L clock n =
    and_then (expectedTransaction L (clock 1) n) (\<lambda>transaction.
      let n' = n\<lparr>Normalization_Transaction := Some transaction\<rparr>
      in ensure (EconomicNormalization_Validate L (clock 2) n') (Inr n'))"

definition newEconomicNormalization ::
    "'d lib \<Rightarrow> (nat \<Rightarrow> time) \<Rightarrow> 'd EconomicNormalizationBaseInput \<Rightarrow> EconomicEventType \<Rightarrow>
     norm_error + 'd EconomicNormalization" where
  "newEconomicNormalization L clock input eventType =
    (case (BaseInput_SourceEvent input, BaseInput_Account input) of
       (Some source, Some account) \<Rightarrow>
         (let normalizerVersion = TrimSpace (BaseInput_NormalizerVersion input) in Inr
           \<lparr>Normalization_ID = DeterministicUUID L economicNormalizationIDDomain
              [uuid_String L (EconomicSourceEvent_ID source), normalizerVersion],
            Normalization_SourceEvent = Some source,
            Normalization_Account = Some account,
            Normalization_EventType = eventType,
            Normalization_NormalizerVersion = normalizerVersion,
            Normalization_ExecutionOriginType = BaseInput_ExecutionOriginType input,
            Normalization_ExecutionOriginID = TrimSpace (BaseInput_ExecutionOriginID input),
            Normalization_ReferenceType = TrimSpace (BaseInput_ReferenceType input),
            Normalization_ReferenceID = TrimSpace (BaseInput_ReferenceID input),
            Normalization_Venue = [],
            Normalization_Instrument = None,
            Normalization_SecondaryInstrument = None,
            Normalization_VenueContract = None,
            Normalization_OptionTerms = None,
            Normalization_EffectiveAt = utc_micros (BaseInput_EffectiveAt input),
            Normalization_CashCurrency = Account_BaseCurrency account,
            Normalization_Quantity = None,
            Normalization_Price = None,
            Normalization_CostKind = CostKindUnset,
            Normalization_CostCurrency = [],
            Normalization_CostAmount = None,
            Normalization_PositionQuantity = None,
            Normalization_SettlementPrice = None,
            Normalization_Transaction = None,
            Normalization_CreatedAt = utc_micros (clock 0)\<rparr>)
     | _ \<Rightarrow> Inl NormSourceAndAccountRequired)"

definition fill_fields ::
    "'d lib \<Rightarrow> 'd FillEconomicEventInput \<Rightarrow> 'd EconomicNormalization \<Rightarrow> 'd EconomicNormalization" where
  "fill_fields L input n =
    (let contract = FillEvent_VenueContract input;
         n1 = n\<lparr>Normalization_Venue := VenueContract_Venue contract,
                Normalization_Instrument := Some (FillEvent_Instrument input),
                Normalization_VenueContract := Some contract,
                Normalization_Quantity := Some (FillEvent_Quantity input),
                Normalization_Price := Some (FillEvent_Price input)\<rparr>
     in case FillEvent_Cost input of
          None \<Rightarrow> n1
        | Some cost \<Rightarrow> n1\<lparr>Normalization_CostKind := CostComponent_Kind cost,
                          Normalization_CostCurrency := ToUpper L (TrimSpace (CostComponent_Currency cost)),
                          Normalization_CostAmount := Some (CostComponent_Amount cost)\<rparr>)"

definition NewFillEconomicNormalization ::
    "('d::linordered_idom) lib \<Rightarrow> (nat \<Rightarrow> time) \<Rightarrow> 'd FillEconomicEventInput \<Rightarrow> norm_error + 'd EconomicNormalization" where
  "NewFillEconomicNormalization L clock input =
    (if FillEvent_Side input \<noteq> FillSideSell \<and> FillEvent_Side input \<noteq> FillSideBuy then Inl (InFill FillSideInvalid)
     else
       (let eventType =
              (if FillEvent_Side input = FillSideSell then EconomicEventFillSell else EconomicEventFillBuy)
        in and_then (newEconomicNormalization L clock (FillEvent_Base input) eventType) (\<lambda>n.
             materializeAndValidate L clock (fill_fields L input n))))"

definition NewCostEconomicNormalization ::
    "('d::linordered_idom) lib \<Rightarrow> (nat \<Rightarrow> time) \<Rightarrow> 'd CostEconomicEventInput \<Rightarrow> norm_error + 'd EconomicNormalization" where
  "NewCostEconomicNormalization L clock input =
    (if CostEvent_Kind input \<noteq> CostKindRebate \<and> CostEvent_Kind input \<noteq> CostKindFee then Inl (InCost CostKindInvalid)
     else
       (let eventType = (if CostEvent_Kind input = CostKindRebate then EconomicEventRebate else EconomicEventFee) in
        and_then (newEconomicNormalization L clock (CostEvent_Base input) eventType) (\<lambda>n.
          materializeAndValidate L clock
            (n\<lparr>Normalization_CostKind := CostEvent_Kind input,
               Normalization_CostCurrency := ToUpper L (TrimSpace (CostEvent_Currency input)),
               Normalization_CostAmount := Some (CostEvent_Amount input)\<rparr>))))"

definition cash_settlement_event :: "CashSettlementKind \<Rightarrow> norm_error + EconomicEventType" where
  "cash_settlement_event kind =
    (case kind of
       CashSettlementOption \<Rightarrow> Inr EconomicEventOptionCashSettlement
     | CashSettlementExpiration \<Rightarrow> Inr EconomicEventOptionExpiration
     | CashSettlementPrediction \<Rightarrow> Inr EconomicEventPredictionPayout
     | OtherCashSettlement s \<Rightarrow> Inl (InSettlement CashSettlementKindInvalid))"

definition NewCashSettlementEconomicNormalization ::
    "('d::linordered_idom) lib \<Rightarrow> (nat \<Rightarrow> time) \<Rightarrow> 'd CashSettlementEconomicEventInput \<Rightarrow>
     norm_error + 'd EconomicNormalization" where
  "NewCashSettlementEconomicNormalization L clock input =
    and_then (cash_settlement_event (CashSettlement_Kind input)) (\<lambda>eventType.
    and_then (newEconomicNormalization L clock (CashSettlement_Base input) eventType) (\<lambda>n.
      materializeAndValidate L clock
        (n\<lparr>Normalization_Venue := VenueContract_Venue (CashSettlement_VenueContract input),
           Normalization_Instrument := Some (CashSettlement_Instrument input),
           Normalization_VenueContract := Some (CashSettlement_VenueContract input),
           Normalization_PositionQuantity := Some (CashSettlement_PositionQuantity input),
           Normalization_SettlementPrice := Some (CashSettlement_SettlementPrice input)\<rparr>)))"

definition physical_option_event :: "PhysicalOptionAction \<Rightarrow> norm_error + EconomicEventType" where
  "physical_option_event action =
    (case action of
       PhysicalOptionExercise \<Rightarrow> Inr EconomicEventOptionExercise
     | PhysicalOptionAssignment \<Rightarrow> Inr EconomicEventOptionAssignment
     | OtherPhysicalOption s \<Rightarrow> Inl (InPhysical PhysicalActionInvalid))"

definition NewPhysicalOptionEconomicNormalization ::
    "('d::linordered_idom) lib \<Rightarrow> (nat \<Rightarrow> time) \<Rightarrow> 'd PhysicalOptionEconomicEventInput \<Rightarrow>
     norm_error + 'd EconomicNormalization" where
  "NewPhysicalOptionEconomicNormalization L clock input =
    and_then (physical_option_event (PhysicalOption_Action input)) (\<lambda>eventType.
    and_then (newEconomicNormalization L clock (PhysicalOption_Base input) eventType) (\<lambda>n.
      materializeAndValidate L clock
        (n\<lparr>Normalization_Venue := VenueContract_Venue (PhysicalOption_VenueContract input),
           Normalization_Instrument := Some (PhysicalOption_OptionInstrument input),
           Normalization_SecondaryInstrument := Some (PhysicalOption_UnderlyingInstrument input),
           Normalization_VenueContract := Some (PhysicalOption_VenueContract input),
           Normalization_OptionTerms := Some (PhysicalOption_OptionTerms input),
           Normalization_PositionQuantity := Some (PhysicalOption_PositionQuantity input)\<rparr>)))"

section \<open>Retry equality\<close>

definition opt_same :: "('a \<Rightarrow> 'a \<Rightarrow> bool) \<Rightarrow> 'a option \<Rightarrow> 'a option \<Rightarrow> bool" where
  "opt_same R left right =
    (case (left, right) of (None, None) \<Rightarrow> True | (Some l, Some r) \<Rightarrow> R l r | _ \<Rightarrow> False)"

definition sameNormalizationOptionTerms ::
    "'d lib \<Rightarrow> 'd OptionContractTerms option \<Rightarrow> 'd OptionContractTerms option \<Rightarrow> bool" where
  "sameNormalizationOptionTerms L =
     opt_same (\<lambda>l r. SameOptionContractTermsPayload L (Some l) (Some r))"

definition sameEconomicDecimalPointer :: "'d option \<Rightarrow> 'd option \<Rightarrow> bool" where
  "sameEconomicDecimalPointer = opt_same (=)"

definition sameNormalizationInstrument :: "'d Instrument option \<Rightarrow> 'd Instrument option \<Rightarrow> bool" where
  "sameNormalizationInstrument = opt_same (\<lambda>l r.
     Instrument_ID l = Instrument_ID r \<and> Instrument_AssetClass l = Instrument_AssetClass r \<and>
     Instrument_Currency l = Instrument_Currency r \<and> Instrument_TickSize l = Instrument_TickSize r \<and>
     Instrument_LotSize l = Instrument_LotSize r \<and> Instrument_Multiplier l = Instrument_Multiplier r \<and>
     Instrument_SettlementMethod l = Instrument_SettlementMethod r \<and> Instrument_Status l = Instrument_Status r \<and>
     opt_same (=) (Instrument_UnderlyingID l) (Instrument_UnderlyingID r))"

definition sameNormalizationContract :: "'d VenueContract option \<Rightarrow> 'd VenueContract option \<Rightarrow> bool" where
  "sameNormalizationContract = opt_same (\<lambda>l r.
     VenueContract_ID l = VenueContract_ID r \<and> VenueContract_InstrumentID l = VenueContract_InstrumentID r \<and>
     VenueContract_Venue l = VenueContract_Venue r \<and> VenueContract_ContractID l = VenueContract_ContractID r \<and>
     VenueContract_Currency l = VenueContract_Currency r \<and> VenueContract_TickSize l = VenueContract_TickSize r \<and>
     VenueContract_LotSize l = VenueContract_LotSize r \<and> VenueContract_Multiplier l = VenueContract_Multiplier r \<and>
     VenueContract_SettlementMethod l = VenueContract_SettlementMethod r \<and>
     time_Equal (VenueContract_ValidFrom l) (VenueContract_ValidFrom r) \<and>
     opt_same time_Equal (VenueContract_ValidTo l) (VenueContract_ValidTo r))"

definition SameEconomicNormalizationPayload ::
    "'d lib \<Rightarrow> 'd EconomicNormalization option \<Rightarrow> 'd EconomicNormalization option \<Rightarrow> bool" where
  [same_defs]: "SameEconomicNormalizationPayload L left right =
    (case (left, right) of
       (Some l, Some r) \<Rightarrow>
         Normalization_ID l = Normalization_ID r \<and>
         SameEconomicSourceEventPayload (Normalization_SourceEvent l) (Normalization_SourceEvent r) \<and>
         (case (Normalization_Account l, Normalization_Account r) of
            (Some la, Some ra) \<Rightarrow> Account_ID la = Account_ID ra \<and> Account_BaseCurrency la = Account_BaseCurrency ra
          | _ \<Rightarrow> False) \<and>
         Normalization_EventType l = Normalization_EventType r \<and>
         Normalization_NormalizerVersion l = Normalization_NormalizerVersion r \<and>
         Normalization_ExecutionOriginType l = Normalization_ExecutionOriginType r \<and>
         Normalization_ExecutionOriginID l = Normalization_ExecutionOriginID r \<and>
         Normalization_ReferenceType l = Normalization_ReferenceType r \<and>
         Normalization_ReferenceID l = Normalization_ReferenceID r \<and>
         Normalization_Venue l = Normalization_Venue r \<and>
         time_Equal (Normalization_EffectiveAt l) (Normalization_EffectiveAt r) \<and>
         Normalization_CashCurrency l = Normalization_CashCurrency r \<and>
         Normalization_CostKind l = Normalization_CostKind r \<and>
         Normalization_CostCurrency l = Normalization_CostCurrency r \<and>
         sameEconomicDecimalPointer (Normalization_Quantity l) (Normalization_Quantity r) \<and>
         sameEconomicDecimalPointer (Normalization_Price l) (Normalization_Price r) \<and>
         sameEconomicDecimalPointer (Normalization_CostAmount l) (Normalization_CostAmount r) \<and>
         sameEconomicDecimalPointer (Normalization_PositionQuantity l) (Normalization_PositionQuantity r) \<and>
         sameEconomicDecimalPointer (Normalization_SettlementPrice l) (Normalization_SettlementPrice r) \<and>
         sameNormalizationInstrument (Normalization_Instrument l) (Normalization_Instrument r) \<and>
         sameNormalizationInstrument (Normalization_SecondaryInstrument l) (Normalization_SecondaryInstrument r) \<and>
         sameNormalizationContract (Normalization_VenueContract l) (Normalization_VenueContract r) \<and>
         sameNormalizationOptionTerms L (Normalization_OptionTerms l) (Normalization_OptionTerms r) \<and>
         sameEconomicTransaction L (Normalization_Transaction l) (Normalization_Transaction r)
     | _ \<Rightarrow> False)"

end
