(* ===== verification/Event_Sourcing.thy ===== *)
theory Event_Sourcing
  imports Go_Prelude
begin

text \<open>
  State rebuilt by applying a sequence of facts, where every step may fail: the shape of the ledger
  projection replay and of the order-lifecycle replay.  The locale states the contract once; its
  interpretations give the invariants of both replays.
\<close>

fun replay :: "('s \<Rightarrow> 'e \<Rightarrow> 'err + 's) \<Rightarrow> 's \<Rightarrow> 'e list \<Rightarrow> 'err + 's" where
  "replay apply s [] = Inr s"
| "replay apply s (e # es) = and_then (apply s e) (\<lambda>s'. replay apply s' es)"

lemma replay_append:
  "replay apply s (xs @ ys) = and_then (replay apply s xs) (\<lambda>s'. replay apply s' ys)"
  by (induction xs arbitrary: s) (auto simp: and_then_def split: sum.splits)

lemma replay_snoc:
  "replay apply s (xs @ [x]) = Inr t \<longleftrightarrow> (\<exists>s'. replay apply s xs = Inr s' \<and> apply s' x = Inr t)"
  by (auto simp: replay_append)

text \<open>The states a replay can reach.\<close>

inductive reachable :: "('s \<Rightarrow> 'e \<Rightarrow> 'err + 's) \<Rightarrow> 's \<Rightarrow> 's \<Rightarrow> bool" for step init where
  start: "reachable step init init"
| step: "reachable step init s \<Longrightarrow> step s e = Inr s' \<Longrightarrow> reachable step init s'"

lemma replay_reachable: "replay step s es = Inr t \<Longrightarrow> reachable step init s \<Longrightarrow> reachable step init t"
  by (induction es arbitrary: s) (auto intro: reachable.step)

locale event_sourced =
  fixes step :: "'s \<Rightarrow> 'e \<Rightarrow> 'err + 's"
    and init :: 's
    and good :: "'e \<Rightarrow> bool"
    and invar :: "'s \<Rightarrow> bool"
  assumes invar_init: "invar init"
    and invar_step: "invar s \<Longrightarrow> good e \<Longrightarrow> step s e = Inr s' \<Longrightarrow> invar s'"
begin

lemma invar_replay_from: "replay step s es = Inr t \<Longrightarrow> invar s \<Longrightarrow> list_all good es \<Longrightarrow> invar t"
  by (induction es arbitrary: s) (auto intro: invar_step)

lemma invar_replay: "replay step init es = Inr t \<Longrightarrow> list_all good es \<Longrightarrow> invar t"
  by (rule invar_replay_from [OF _ invar_init])

end

text \<open>A quantity that every step changes by an amount read off the fact alone is a sum over the facts.\<close>

locale additive_view = event_sourced +
  fixes view :: "'a \<Rightarrow> 'v::comm_monoid_add"
    and delta :: "'b \<Rightarrow> 'v"
  assumes view_init: "view init = 0"
    and view_step: "invar s \<Longrightarrow> good e \<Longrightarrow> step s e = Inr s' \<Longrightarrow> view s' = view s + delta e"
begin

lemma view_replay_from:
  "replay step s es = Inr t \<Longrightarrow> invar s \<Longrightarrow> list_all good es \<Longrightarrow> view t = view s + sum_list (map delta es)"
proof (induction es arbitrary: s)
  case (Cons e es)
  then obtain s' where s': "step s e = Inr s'" "replay step s' es = Inr t" by auto
  with Cons.prems have "invar s'" "view s' = view s + delta e" by (auto intro: invar_step view_step)
  with Cons.IH [OF s'(2)] Cons.prems(3) show ?case by (simp add: add.assoc)
qed simp

lemma view_replay: "replay step init es = Inr t \<Longrightarrow> list_all good es \<Longrightarrow> view t = sum_list (map delta es)"
  using view_replay_from [OF _ invar_init] by (simp add: view_init)

end

text \<open>An error that no step gives on a good fact is not the result of a replay.\<close>

lemma replay_not_Inl:
  assumes "\<And>s e. good e \<Longrightarrow> step s e \<noteq> Inl x" and "list_all good es"
  shows "replay step s es \<noteq> Inl x"
  using assms(2) by (induction es arbitrary: s) (auto simp: and_then_def assms(1) split: sum.splits)

end
