(* ===== verification/Ledger_Projection.thy ===== *)
theory Ledger_Projection
  imports Ledger_Normalization Event_Sourcing
begin

text \<open>
  \<open>internal/ledger/projection.go\<close>: the rebuild of a portfolio from its ledger transactions, with
  FIFO lots, realized and unrealized profit and the mark selection, up to the totals.  The canonical
  JSON payload and the checksums are in \<open>Projection_Payload\<close>.

  A dereference of a pointer that may be nil is a branch with the error \<open>NilDereference\<close> (a Go
  panic).  The set \<open>activity\<close> is a list without duplicates.  \<open>sort.Slice\<close> is insertion sort by the
  same comparison: the two agree whenever the comparison orders the elements totally.
\<close>

section \<open>Data\<close>

record ProjectionRequest =
  Request_AccountID :: uuid
  Request_AsOf :: time
  Request_MarkSource :: string
  Request_MarkNamespace :: string
  Request_MaxMarkAge :: int

record 'd ProjectionMechanics =
  Mechanics_NormalizationID :: uuid
  Mechanics_SourceEventID :: uuid
  Mechanics_TransactionID :: uuid
  Mechanics_EventType :: EconomicEventType
  Mechanics_NormalizerVersion :: string
  Mechanics_ExecutionOriginType :: ExecutionOriginType
  Mechanics_ExecutionOriginID :: string
  Mechanics_ReferenceType :: string
  Mechanics_ReferenceID :: string
  Mechanics_Venue :: string
  Mechanics_InstrumentID :: uuid
  Mechanics_SecondaryInstrumentID :: uuid
  Mechanics_VenueContractID :: uuid
  Mechanics_OptionTermsID :: uuid
  Mechanics_CashCurrency :: string
  Mechanics_Quantity :: "'d option"
  Mechanics_Price :: "'d option"
  Mechanics_CostKind :: CostKind
  Mechanics_CostCurrency :: string
  Mechanics_CostAmount :: "'d option"
  Mechanics_PositionQuantity :: "'d option"
  Mechanics_SettlementPrice :: "'d option"
  Mechanics_OptionContractType :: OptionContractType
  Mechanics_StrikePrice :: "'d option"
  Mechanics_DeliverableQuantity :: "'d option"
  Mechanics_PrimaryMultiplier :: 'd
  Mechanics_SecondaryMultiplier :: 'd

record 'd ProjectionInput =
  Input_Request :: ProjectionRequest
  Input_BaseCurrency :: string
  Input_Transactions :: "'d Transaction option list"
  Input_Mechanics :: "'d ProjectionMechanics list"
  Input_Marks :: "'d MarkObservation option list"

record 'd ProjectionMark =
  Mark_ID :: uuid
  Mark_InstrumentID :: uuid
  Mark_Price :: 'd
  Mark_PriceCurrency :: string
  Mark_Source :: string
  Mark_SourceNamespace :: string
  Mark_SourceObservationID :: string
  Mark_SourceRevision :: string
  Mark_EffectiveAt :: time
  Mark_ObservedAt :: time
  Mark_Metadata :: string

record 'd ProjectionLot =
  Lot_ID :: uuid
  Lot_InstrumentID :: uuid
  Lot_OpeningTransactionID :: uuid
  Lot_OpeningOriginType :: ExecutionOriginType
  Lot_OpeningOriginID :: string
  Lot_OpeningReferenceType :: string
  Lot_OpeningReferenceID :: string
  Lot_OpenedAt :: time
  Lot_Quantity :: 'd
  Lot_RemainingQuantity :: 'd
  Lot_OpeningCash :: 'd
  Lot_RemainingOpeningCash :: 'd
  Lot_MarkMultiplier :: 'd

record 'd ProjectionMatch =
  Match_ID :: uuid
  Match_LotID :: uuid
  Match_InstrumentID :: uuid
  Match_ClosingTransactionID :: uuid
  Match_OpeningOriginType :: ExecutionOriginType
  Match_OpeningOriginID :: string
  Match_OpeningReferenceType :: string
  Match_OpeningReferenceID :: string
  Match_ClosingOriginType :: ExecutionOriginType
  Match_ClosingOriginID :: string
  Match_ClosingReferenceType :: string
  Match_ClosingReferenceID :: string
  Match_ClosedAt :: time
  Match_Quantity :: 'd
  Match_OpeningCash :: 'd
  Match_ClosingCash :: 'd
  Match_RealizedPnL :: 'd
  Match_Disposition :: string

record 'd ProjectionPosition =
  Position_InstrumentID :: uuid
  Position_Open :: bool
  Position_Quantity :: 'd
  Position_RemainingOpeningCash :: 'd
  Position_RealizedPnL :: 'd
  Position_MarketValue :: 'd
  Position_UnrealizedPnL :: 'd
  Position_MarkObservationID :: uuid
  Position_OpenLotCount :: nat

record 'd ProjectionTotals =
  Totals_Cash :: 'd
  Totals_NetCapital :: 'd
  Totals_Fees :: 'd
  Totals_Rebates :: 'd
  Totals_RealizedPnL :: 'd
  Totals_UnrealizedPnL :: 'd
  Totals_MarketValue :: 'd
  Totals_Equity :: 'd
  Totals_TotalPnL :: 'd

record 'd projectionState =
  lots :: "'d ProjectionLot list"
  matches :: "'d ProjectionMatch list"
  activity :: "uuid list"
  cash :: 'd
  netCapital :: 'd
  fees :: 'd
  rebates :: 'd
  realized :: 'd

datatype mechanics_error =
    MechanicsIDsRequired
  | MechanicsIdentity
  | MechanicsOrigin
  | MechanicsVenue
  | MechanicsDecimal
  | MechanicsMultiplier
  | MechanicsCost
  | MechanicsFill
  | MechanicsFillCostPresence
  | MechanicsFillCost
  | MechanicsSettlement
  | MechanicsPhysical
  | MechanicsEventType
  | MechanicsNormalizationRequired
  | MechanicsNormalization norm_error

datatype projection_error =
    NilDereference
  | BoundaryAccountAsOf
  | BoundaryMarkPolicy
  | BoundaryCurrencyAge
  | ProjectionTransactionNil
  | ProjectionTransactionInvalid ledger_error
  | ProjectionTransactionAccount
  | ProjectionNoTransactions
  | ProjectionMechanicsInvalid mechanics_error
  | ProjectionMechanicsDuplicate
  | ForeignCurrency
  | CashPostingUnit
  | FeePostingInvalid
  | RebatePostingInvalid
  | CapitalHasMechanics
  | CapitalShape
  | CapitalDirection
  | MechanicsMissing
  | MechanicsEventTypeMismatch
  | MechanicsCurrencyMismatch
  | MechanicsProvenance
  | PostingMechanicsMismatch
  | PostingMissing
  | FillDirection
  | FillQuantityMismatch
  | FillCashMismatch
  | CostHasInventory
  | CostDirection
  | CostCashMismatch
  | SettlementMismatch
  | EventTypeUnsupported
  | MovementInvalid
  | NotExactClose
  | NoSegment
  | PhysicalMismatch
  | PhysicalNotExactClose
  | ProjectionMarkNil
  | ProjectionMarkInvalid mark_error
  | NoFreshMark
  | PnLEquation
  | CanonicalJSON

section \<open>Mechanics\<close>

definition mechanics_decimals_ok :: "('d::linordered_idom) lib \<Rightarrow> 'd ProjectionMechanics \<Rightarrow> bool" where
  "mechanics_decimals_ok L m \<longleftrightarrow>
     list_all (opt_all (validProjectionDecimal L))
       [Mechanics_Quantity m, Mechanics_Price m, Mechanics_CostAmount m, Mechanics_PositionQuantity m,
        Mechanics_SettlementPrice m, Mechanics_StrikePrice m, Mechanics_DeliverableQuantity m]"

definition mechanics_shape ::
    "('d::linordered_idom) ProjectionMechanics \<Rightarrow> mechanics_error option" where
  "mechanics_shape m =
    (case Mechanics_EventType m of
       EconomicEventFee \<Rightarrow> guard
         (Mechanics_InstrumentID m \<noteq> uuid_Nil \<or> Mechanics_SecondaryInstrumentID m \<noteq> uuid_Nil \<or>
          Mechanics_VenueContractID m \<noteq> uuid_Nil \<or> Mechanics_OptionTermsID m \<noteq> uuid_Nil \<or> Mechanics_Venue m \<noteq> [] \<or>
          Mechanics_PrimaryMultiplier m \<noteq> 0 \<or> Mechanics_SecondaryMultiplier m \<noteq> 0 \<or>
          Mechanics_Quantity m \<noteq> None \<or> Mechanics_Price m \<noteq> None \<or> Mechanics_PositionQuantity m \<noteq> None \<or>
          Mechanics_SettlementPrice m \<noteq> None \<or> \<not> opt_holds (\<lambda>c. c > 0) (Mechanics_CostAmount m) \<or>
          Mechanics_CostCurrency m \<noteq> Mechanics_CashCurrency m \<or>
          Mechanics_OptionContractType m \<noteq> OptionContractUnset \<or>
          Mechanics_StrikePrice m \<noteq> None \<or> Mechanics_DeliverableQuantity m \<noteq> None \<or>
          Mechanics_CostKind m \<noteq> CostKindFee) MechanicsCost
     | EconomicEventRebate \<Rightarrow> guard
         (Mechanics_InstrumentID m \<noteq> uuid_Nil \<or> Mechanics_SecondaryInstrumentID m \<noteq> uuid_Nil \<or>
          Mechanics_VenueContractID m \<noteq> uuid_Nil \<or> Mechanics_OptionTermsID m \<noteq> uuid_Nil \<or> Mechanics_Venue m \<noteq> [] \<or>
          Mechanics_PrimaryMultiplier m \<noteq> 0 \<or> Mechanics_SecondaryMultiplier m \<noteq> 0 \<or>
          Mechanics_Quantity m \<noteq> None \<or> Mechanics_Price m \<noteq> None \<or> Mechanics_PositionQuantity m \<noteq> None \<or>
          Mechanics_SettlementPrice m \<noteq> None \<or> \<not> opt_holds (\<lambda>c. c > 0) (Mechanics_CostAmount m) \<or>
          Mechanics_CostCurrency m \<noteq> Mechanics_CashCurrency m \<or>
          Mechanics_OptionContractType m \<noteq> OptionContractUnset \<or>
          Mechanics_StrikePrice m \<noteq> None \<or> Mechanics_DeliverableQuantity m \<noteq> None \<or>
          Mechanics_CostKind m \<noteq> CostKindRebate) MechanicsCost
     | kind \<Rightarrow>
       if kind = EconomicEventFillBuy \<or> kind = EconomicEventFillSell then first_err
         [guard
           (Mechanics_InstrumentID m = uuid_Nil \<or> Mechanics_SecondaryInstrumentID m \<noteq> uuid_Nil \<or>
            Mechanics_VenueContractID m = uuid_Nil \<or> Mechanics_OptionTermsID m \<noteq> uuid_Nil \<or> Mechanics_Venue m = [] \<or>
            \<not> Mechanics_PrimaryMultiplier m > 0 \<or> Mechanics_SecondaryMultiplier m \<noteq> 0 \<or>
            \<not> opt_holds (\<lambda>q. q > 0) (Mechanics_Quantity m) \<or> \<not> opt_holds (\<lambda>p. \<not> p < 0) (Mechanics_Price m) \<or>
            Mechanics_PositionQuantity m \<noteq> None \<or> Mechanics_SettlementPrice m \<noteq> None \<or>
            Mechanics_OptionContractType m \<noteq> OptionContractUnset \<or>
            Mechanics_StrikePrice m \<noteq> None \<or> Mechanics_DeliverableQuantity m \<noteq> None) MechanicsFill,
          guard
           ((Mechanics_CostAmount m = None) \<noteq>
            (Mechanics_CostKind m = CostKindUnset \<or> Mechanics_CostCurrency m = [])) MechanicsFillCostPresence,
          guard
           (opt_holds (\<lambda>c. \<not> c > 0 \<or>
              (Mechanics_CostKind m \<noteq> CostKindFee \<and> Mechanics_CostKind m \<noteq> CostKindRebate) \<or>
              Mechanics_CostCurrency m \<noteq> Mechanics_CashCurrency m) (Mechanics_CostAmount m)) MechanicsFillCost]
       else if kind = EconomicEventOptionCashSettlement \<or> kind = EconomicEventOptionExpiration \<or>
               kind = EconomicEventPredictionPayout then guard
         (Mechanics_InstrumentID m = uuid_Nil \<or> Mechanics_SecondaryInstrumentID m \<noteq> uuid_Nil \<or>
          Mechanics_VenueContractID m = uuid_Nil \<or> Mechanics_OptionTermsID m \<noteq> uuid_Nil \<or> Mechanics_Venue m = [] \<or>
          \<not> Mechanics_PrimaryMultiplier m > 0 \<or> Mechanics_SecondaryMultiplier m \<noteq> 0 \<or>
          Mechanics_Quantity m \<noteq> None \<or> Mechanics_Price m \<noteq> None \<or> Mechanics_CostKind m \<noteq> CostKindUnset \<or>
          Mechanics_CostCurrency m \<noteq> [] \<or> Mechanics_CostAmount m \<noteq> None \<or>
          \<not> opt_holds (\<lambda>q. q \<noteq> 0) (Mechanics_PositionQuantity m) \<or>
          \<not> opt_holds (\<lambda>p. \<not> p < 0) (Mechanics_SettlementPrice m) \<or>
          Mechanics_OptionContractType m \<noteq> OptionContractUnset \<or>
          Mechanics_StrikePrice m \<noteq> None \<or> Mechanics_DeliverableQuantity m \<noteq> None) MechanicsSettlement
       else if kind = EconomicEventOptionExercise \<or> kind = EconomicEventOptionAssignment then guard
         (Mechanics_InstrumentID m = uuid_Nil \<or> Mechanics_SecondaryInstrumentID m = uuid_Nil \<or>
          Mechanics_VenueContractID m = uuid_Nil \<or> Mechanics_OptionTermsID m = uuid_Nil \<or> Mechanics_Venue m = [] \<or>
          \<not> Mechanics_PrimaryMultiplier m > 0 \<or> \<not> Mechanics_SecondaryMultiplier m > 0 \<or>
          Mechanics_Quantity m \<noteq> None \<or> Mechanics_Price m \<noteq> None \<or> Mechanics_CostKind m \<noteq> CostKindUnset \<or>
          Mechanics_CostCurrency m \<noteq> [] \<or> Mechanics_CostAmount m \<noteq> None \<or>
          \<not> opt_holds (\<lambda>q. q \<noteq> 0) (Mechanics_PositionQuantity m) \<or> Mechanics_SettlementPrice m \<noteq> None \<or>
          (Mechanics_OptionContractType m \<noteq> OptionContractCall \<and>
           Mechanics_OptionContractType m \<noteq> OptionContractPut) \<or>
          \<not> opt_holds (\<lambda>p. p > 0) (Mechanics_StrikePrice m) \<or>
          \<not> opt_holds (\<lambda>q. q > 0 \<and> Mechanics_PrimaryMultiplier m = q) (Mechanics_DeliverableQuantity m))
         MechanicsPhysical
       else Some MechanicsEventType)"

definition ProjectionMechanics_Validate ::
    "('d::linordered_idom) lib \<Rightarrow> 'd ProjectionMechanics \<Rightarrow> mechanics_error option" where
  [valid_defs]: "ProjectionMechanics_Validate L m = first_err
    [guard (Mechanics_NormalizationID m = uuid_Nil \<or> Mechanics_SourceEventID m = uuid_Nil \<or>
            Mechanics_TransactionID m = uuid_Nil) MechanicsIDsRequired,
     guard (\<not> isNormalizedRequired (Mechanics_NormalizerVersion m) \<or>
            Mechanics_NormalizationID m \<noteq> DeterministicUUID L economicNormalizationIDDomain
              [uuid_String L (Mechanics_SourceEventID m), Mechanics_NormalizerVersion m] \<or>
            Mechanics_TransactionID m \<noteq> DeterministicUUID L transactionIDDomain
              [uuid_String L (Mechanics_SourceEventID m), Mechanics_NormalizerVersion m]) MechanicsIdentity,
     guard (\<not> validExecutionOriginType (Mechanics_ExecutionOriginType m) \<or>
            \<not> isNormalizedRequired (Mechanics_ExecutionOriginID m) \<or>
            \<not> isNormalizedRequired (Mechanics_ReferenceType m) \<or>
            \<not> isNormalizedRequired (Mechanics_ReferenceID m) \<or>
            \<not> isCurrencyUnit (Mechanics_CashCurrency m)) MechanicsOrigin,
     guard (Mechanics_Venue m \<noteq> [] \<and>
            (\<not> isNormalizedRequired (Mechanics_Venue m) \<or> Mechanics_Venue m \<noteq> ToLower L (Mechanics_Venue m)))
       MechanicsVenue,
     guard (\<not> mechanics_decimals_ok L m) MechanicsDecimal,
     guard (\<not> list_all (\<lambda>multiplier. multiplier = 0 \<or> multiplier > 0 \<and> validProjectionDecimal L multiplier)
              [Mechanics_PrimaryMultiplier m, Mechanics_SecondaryMultiplier m]) MechanicsMultiplier,
     mechanics_shape m]"

definition ProjectionMechanicsFromNormalization ::
    "('d::linordered_idom) lib \<Rightarrow> time \<Rightarrow> 'd EconomicNormalization option \<Rightarrow>
     mechanics_error + 'd ProjectionMechanics" where
  "ProjectionMechanicsFromNormalization L now normalization =
    (case normalization of
       None \<Rightarrow> Inl MechanicsNormalizationRequired
     | Some n \<Rightarrow>
        ensure (map_option MechanicsNormalization (EconomicNormalization_Validate L now n))
        (case (Normalization_SourceEvent n, Normalization_Transaction n) of
           (Some source, Some transaction) \<Rightarrow>
             (let mechanics =
                \<lparr>Mechanics_NormalizationID = Normalization_ID n,
                 Mechanics_SourceEventID = EconomicSourceEvent_ID source,
                 Mechanics_TransactionID = Transaction_ID transaction,
                 Mechanics_EventType = Normalization_EventType n,
                 Mechanics_NormalizerVersion = Normalization_NormalizerVersion n,
                 Mechanics_ExecutionOriginType = Normalization_ExecutionOriginType n,
                 Mechanics_ExecutionOriginID = Normalization_ExecutionOriginID n,
                 Mechanics_ReferenceType = Normalization_ReferenceType n,
                 Mechanics_ReferenceID = Normalization_ReferenceID n,
                 Mechanics_Venue = Normalization_Venue n,
                 Mechanics_InstrumentID =
                   (case Normalization_Instrument n of Some i \<Rightarrow> Instrument_ID i | None \<Rightarrow> uuid_Nil),
                 Mechanics_SecondaryInstrumentID =
                   (case Normalization_SecondaryInstrument n of Some i \<Rightarrow> Instrument_ID i | None \<Rightarrow> uuid_Nil),
                 Mechanics_VenueContractID =
                   (case Normalization_VenueContract n of Some c \<Rightarrow> VenueContract_ID c | None \<Rightarrow> uuid_Nil),
                 Mechanics_OptionTermsID =
                   (case Normalization_OptionTerms n of Some t \<Rightarrow> OptionContractTerms_ID t | None \<Rightarrow> uuid_Nil),
                 Mechanics_CashCurrency = Normalization_CashCurrency n,
                 Mechanics_Quantity = Normalization_Quantity n,
                 Mechanics_Price = Normalization_Price n,
                 Mechanics_CostKind = Normalization_CostKind n,
                 Mechanics_CostCurrency = Normalization_CostCurrency n,
                 Mechanics_CostAmount = Normalization_CostAmount n,
                 Mechanics_PositionQuantity = Normalization_PositionQuantity n,
                 Mechanics_SettlementPrice = Normalization_SettlementPrice n,
                 Mechanics_OptionContractType =
                   (case Normalization_OptionTerms n of Some t \<Rightarrow> OptionContractTerms_ContractType t
                    | None \<Rightarrow> OptionContractUnset),
                 Mechanics_StrikePrice = map_option OptionContractTerms_StrikePrice (Normalization_OptionTerms n),
                 Mechanics_DeliverableQuantity =
                   map_option OptionContractTerms_DeliverableQuantity (Normalization_OptionTerms n),
                 Mechanics_PrimaryMultiplier =
                   (case Normalization_VenueContract n of Some c \<Rightarrow> VenueContract_Multiplier c | None \<Rightarrow> 0),
                 Mechanics_SecondaryMultiplier =
                   (case Normalization_SecondaryInstrument n of Some i \<Rightarrow> Instrument_Multiplier i | None \<Rightarrow> 0)\<rparr>
              in ensure (ProjectionMechanics_Validate L mechanics) (Inr mechanics))
         | _ \<Rightarrow> Inl (MechanicsNormalization NormSourceAndAccountRequired)))"

section \<open>Reading a transaction\<close>

fun cashAndCosts ::
    "string \<Rightarrow> 'd \<Rightarrow> 'd \<Rightarrow> 'd \<Rightarrow> ('d::linordered_idom) Posting list \<Rightarrow> projection_error + ('d \<times> 'd \<times> 'd)" where
  "cashAndCosts currency c f r [] = Inr (c, f, r)"
| "cashAndCosts currency c f r (p # ps) =
    (let isCurrency = (Posting_UnitKind p = UnitKindCurrency) in
     if isCurrency \<and> Posting_Unit p \<noteq> currency then Inl ForeignCurrency
     else if Posting_LedgerAccount p = ''asset:cash'' then
       (if \<not> isCurrency then Inl CashPostingUnit else cashAndCosts currency (c + Posting_Amount p) f r ps)
     else if Posting_LedgerAccount p = ''expense:fees'' then
       (if \<not> isCurrency \<or> \<not> Posting_Amount p > 0 then Inl FeePostingInvalid
        else cashAndCosts currency c (f + Posting_Amount p) r ps)
     else if Posting_LedgerAccount p = ''income:rebates'' then
       (if \<not> isCurrency \<or> \<not> Posting_Amount p < 0 then Inl RebatePostingInvalid
        else cashAndCosts currency c f (r + \<bar>Posting_Amount p\<bar>) ps)
     else cashAndCosts currency c f r ps)"

definition projectionCashAndCosts ::
    "('d::linordered_idom) Transaction \<Rightarrow> string \<Rightarrow> projection_error + ('d \<times> 'd \<times> 'd)" where
  "projectionCashAndCosts transaction currency = cashAndCosts currency 0 0 0 (Transaction_Postings transaction)"

definition projectionInstrumentMovement ::
    "'d lib \<Rightarrow> 'd Transaction \<Rightarrow> string \<Rightarrow> uuid \<Rightarrow> projection_error + 'd" where
  "projectionInstrumentMovement L transaction key instrumentID =
    (case find (\<lambda>p. Posting_IdempotencyKey p = key) (Transaction_Postings transaction) of
       None \<Rightarrow> Inl PostingMissing
     | Some p \<Rightarrow>
         if Posting_UnitKind p \<noteq> UnitKindInstrument \<or> Posting_Unit p \<noteq> uuid_String L instrumentID \<or>
            \<not> HasPrefix (Posting_LedgerAccount p) ''asset:''
         then Inl PostingMechanicsMismatch else Inr (Posting_Amount p))"

definition projectionHasAssetInventory :: "'d Transaction \<Rightarrow> bool" where
  "projectionHasAssetInventory transaction \<longleftrightarrow>
     list_ex (\<lambda>p. Posting_UnitKind p = UnitKindInstrument \<and> HasPrefix (Posting_LedgerAccount p) ''asset:'')
       (Transaction_Postings transaction)"

definition projectionTransactionLess :: "'d lib \<Rightarrow> 'd Transaction \<Rightarrow> 'd Transaction \<Rightarrow> bool" where
  "projectionTransactionLess L left right =
    (if \<not> time_Equal (Transaction_EffectiveAt left) (Transaction_EffectiveAt right)
     then Before (Transaction_EffectiveAt left) (Transaction_EffectiveAt right)
     else if \<not> time_Equal (Transaction_ObservedAt left) (Transaction_ObservedAt right)
     then Before (Transaction_ObservedAt left) (Transaction_ObservedAt right)
     else uuid_String L (Transaction_ID left) < uuid_String L (Transaction_ID right))"

definition projectionMarkLater :: "'d lib \<Rightarrow> 'd MarkObservation \<Rightarrow> 'd MarkObservation \<Rightarrow> bool" where
  "projectionMarkLater L left right =
    (if \<not> time_Equal (MarkObservation_EffectiveAt left) (MarkObservation_EffectiveAt right)
     then After (MarkObservation_EffectiveAt left) (MarkObservation_EffectiveAt right)
     else if \<not> time_Equal (MarkObservation_ObservedAt left) (MarkObservation_ObservedAt right)
     then After (MarkObservation_ObservedAt left) (MarkObservation_ObservedAt right)
     else uuid_String L (MarkObservation_ID left) > uuid_String L (MarkObservation_ID right))"

section \<open>Lots\<close>

text \<open>The first loop of \<open>applyMovement\<close>: which lots the movement closes, and what is left of it.\<close>

fun closeSegments ::
    "uuid \<Rightarrow> 'd \<Rightarrow> 'd \<Rightarrow> nat \<Rightarrow> ('d::linordered_idom) ProjectionLot list \<Rightarrow> (nat \<times> 'd) list \<times> 'd" where
  "closeSegments instrumentID movement remainingMovement index [] = ([], remainingMovement)"
| "closeSegments instrumentID movement remainingMovement index (lot # ls) =
    (if Lot_InstrumentID lot \<noteq> instrumentID \<or> Lot_RemainingQuantity lot = 0 \<or>
        sgn (Lot_RemainingQuantity lot) = sgn movement
     then closeSegments instrumentID movement remainingMovement (Suc index) ls
     else
       (let closeQuantity = min \<bar>Lot_RemainingQuantity lot\<bar> \<bar>remainingMovement\<bar>;
            remaining = remainingMovement - sgn movement * closeQuantity
        in if remaining = 0 then ([(index, closeQuantity)], remaining)
           else (let (segments, rest) = closeSegments instrumentID movement remaining (Suc index) ls
                 in ((index, closeQuantity) # segments, rest))))"

text \<open>\<open>allocateProjectionAmount\<close> returns the allocation and the two remainders it updates.\<close>

definition allocateProjectionAmount ::
    "('d::linordered_idom) lib \<Rightarrow> 'd \<Rightarrow> 'd \<Rightarrow> 'd \<Rightarrow> 'd \<Rightarrow> 'd \<Rightarrow> bool \<Rightarrow> 'd \<times> 'd \<times> 'd" where
  "allocateProjectionAmount L amount quantity totalQuantity remainingAmount remainingQuantity final =
    (if final then (remainingAmount, 0, 0)
     else (let allocated = decimal_Round L (decimal_Div L (amount * quantity) totalQuantity) 12
           in (allocated, remainingAmount - allocated, remainingQuantity - quantity)))"

text \<open>The opening cash a close of \<open>quantity\<close> releases, and the lot afterwards.\<close>

definition releasedOpeningCash :: "('d::linordered_idom) lib \<Rightarrow> 'd ProjectionLot \<Rightarrow> 'd \<Rightarrow> 'd" where
  "releasedOpeningCash L lot quantity =
    (if quantity \<noteq> \<bar>Lot_RemainingQuantity lot\<bar>
     then decimal_Round L (decimal_Div L (Lot_RemainingOpeningCash lot * quantity) \<bar>Lot_RemainingQuantity lot\<bar>) 12
     else Lot_RemainingOpeningCash lot)"

definition closeLot ::
    "('d::linordered_idom) ProjectionLot \<Rightarrow> 'd \<Rightarrow> 'd \<Rightarrow> 'd \<Rightarrow> 'd ProjectionLot" where
  "closeLot lot movement quantity openingCash =
    (let remaining = Lot_RemainingQuantity lot + sgn movement * quantity in
     lot\<lparr>Lot_RemainingQuantity := remaining,
         Lot_RemainingOpeningCash := (if remaining = 0 then 0 else Lot_RemainingOpeningCash lot - openingCash)\<rparr>)"

definition newMatch ::
    "'d lib \<Rightarrow> 'd Transaction \<Rightarrow> 'd ProjectionMechanics \<Rightarrow> uuid \<Rightarrow> nat \<Rightarrow> 'd ProjectionLot \<Rightarrow> 'd \<Rightarrow> 'd \<Rightarrow> 'd \<Rightarrow> 'd \<Rightarrow>
     string \<Rightarrow> 'd ProjectionMatch" where
  "newMatch L transaction mechanics instrumentID ordinal lot quantity openingCash closingCash realizedPnL disposition =
    \<lparr>Match_ID = DeterministicUUID L ''portfolio-projection-match''
       [uuid_String L (Lot_ID lot), uuid_String L (Transaction_ID transaction), itoa ordinal],
     Match_LotID = Lot_ID lot,
     Match_InstrumentID = instrumentID,
     Match_ClosingTransactionID = Transaction_ID transaction,
     Match_OpeningOriginType = Lot_OpeningOriginType lot,
     Match_OpeningOriginID = Lot_OpeningOriginID lot,
     Match_OpeningReferenceType = Lot_OpeningReferenceType lot,
     Match_OpeningReferenceID = Lot_OpeningReferenceID lot,
     Match_ClosingOriginType = Mechanics_ExecutionOriginType mechanics,
     Match_ClosingOriginID = Mechanics_ExecutionOriginID mechanics,
     Match_ClosingReferenceType = Mechanics_ReferenceType mechanics,
     Match_ClosingReferenceID = Mechanics_ReferenceID mechanics,
     Match_ClosedAt = Transaction_EffectiveAt transaction,
     Match_Quantity = quantity,
     Match_OpeningCash = openingCash,
     Match_ClosingCash = closingCash,
     Match_RealizedPnL = realizedPnL,
     Match_Disposition = disposition\<rparr>"

text \<open>The second loop of \<open>applyMovement\<close>: close the segments in order, allocating the event cash.\<close>

fun applySegments ::
    "('d::linordered_idom) lib \<Rightarrow> 'd Transaction \<Rightarrow> 'd ProjectionMechanics \<Rightarrow> uuid \<Rightarrow> 'd \<Rightarrow> 'd \<Rightarrow> string \<Rightarrow> nat \<Rightarrow>
     'd projectionState \<Rightarrow> 'd \<Rightarrow> 'd \<Rightarrow> nat \<Rightarrow> (nat \<times> 'd) list \<Rightarrow> 'd projectionState \<times> 'd" where
  "applySegments L transaction mechanics instrumentID movement eventCash disposition segmentCount
     state remainingCash remainingQuantity segmentIndex [] = (state, remainingCash)"
| "applySegments L transaction mechanics instrumentID movement eventCash disposition segmentCount
     state remainingCash remainingQuantity segmentIndex ((lotIndex, quantity) # segments) =
    (let (closingCash, remainingCash', remainingQuantity') =
           allocateProjectionAmount L eventCash quantity \<bar>movement\<bar> remainingCash remainingQuantity
             (segmentIndex = segmentCount - 1);
         lot = lots state ! lotIndex;
         openingCash = releasedOpeningCash L lot quantity;
         realizedPnL = openingCash + closingCash
     in applySegments L transaction mechanics instrumentID movement eventCash disposition segmentCount
          (state\<lparr>lots := (lots state)[lotIndex := closeLot lot movement quantity openingCash],
                 realized := realized state + realizedPnL,
                 matches := matches state @
                   [newMatch L transaction mechanics instrumentID segmentIndex lot quantity openingCash closingCash
                      realizedPnL disposition]\<rparr>)
          remainingCash' remainingQuantity' (Suc segmentIndex) segments)"

definition openLot ::
    "'d lib \<Rightarrow> 'd projectionState \<Rightarrow> 'd Transaction \<Rightarrow> 'd ProjectionMechanics \<Rightarrow> uuid \<Rightarrow> 'd \<Rightarrow> 'd \<Rightarrow> 'd \<Rightarrow>
     'd projectionState" where
  "openLot L state transaction mechanics instrumentID quantity cashAmount multiplier =
    (let segment = length (filter (\<lambda>lot. Lot_OpeningTransactionID lot = Transaction_ID transaction \<and>
                                          Lot_InstrumentID lot = instrumentID) (lots state))
     in state\<lparr>lots := lots state @
          [\<lparr>Lot_ID = DeterministicUUID L ''portfolio-projection-lot''
              [uuid_String L (Transaction_ID transaction), uuid_String L instrumentID, itoa segment],
            Lot_InstrumentID = instrumentID,
            Lot_OpeningTransactionID = Transaction_ID transaction,
            Lot_OpeningOriginType = Mechanics_ExecutionOriginType mechanics,
            Lot_OpeningOriginID = Mechanics_ExecutionOriginID mechanics,
            Lot_OpeningReferenceType = Mechanics_ReferenceType mechanics,
            Lot_OpeningReferenceID = Mechanics_ReferenceID mechanics,
            Lot_OpenedAt = Transaction_EffectiveAt transaction,
            Lot_Quantity = quantity,
            Lot_RemainingQuantity = quantity,
            Lot_OpeningCash = cashAmount,
            Lot_RemainingOpeningCash = cashAmount,
            Lot_MarkMultiplier = multiplier\<rparr>]\<rparr>)"

definition add_activity :: "uuid \<Rightarrow> 'd projectionState \<Rightarrow> 'd projectionState" where
  "add_activity instrumentID state = state\<lparr>activity := List.insert instrumentID (activity state)\<rparr>"

definition applyMovement ::
    "('d::linordered_idom) lib \<Rightarrow> 'd projectionState \<Rightarrow> 'd Transaction \<Rightarrow> 'd ProjectionMechanics \<Rightarrow> uuid \<Rightarrow> 'd \<Rightarrow> 'd \<Rightarrow>
     'd \<Rightarrow> string \<Rightarrow> bool \<Rightarrow> projection_error + 'd projectionState" where
  "applyMovement L state transaction mechanics instrumentID movement eventCash multiplier disposition requireExactClose =
    (if movement = 0 \<or> instrumentID = uuid_Nil \<or> \<not> multiplier > 0 then Inl MovementInvalid
     else
      (let (segments, remainingMovement) = closeSegments instrumentID movement movement 0 (lots state);
           segmentCount = length segments + (if remainingMovement \<noteq> 0 then 1 else 0)
       in if requireExactClose \<and> remainingMovement \<noteq> 0 then Inl NotExactClose
          else if segmentCount = 0 then Inl NoSegment
          else
           (let (closed, remainingCash) =
                  applySegments L transaction mechanics instrumentID movement eventCash disposition segmentCount
                    state eventCash \<bar>movement\<bar> 0 segments;
                opened =
                  (if remainingMovement \<noteq> 0
                   then openLot L closed transaction mechanics instrumentID remainingMovement remainingCash multiplier
                   else closed)
            in Inr (add_activity instrumentID opened))))"

text \<open>The loop of \<open>applyPhysicalOption\<close> over the option lots; it returns the cash transferred.\<close>

fun transferLots ::
    "('d::linordered_idom) lib \<Rightarrow> 'd Transaction \<Rightarrow> 'd ProjectionMechanics \<Rightarrow> 'd \<Rightarrow> 'd projectionState \<Rightarrow> 'd \<Rightarrow> 'd \<Rightarrow> nat \<Rightarrow>
     nat list \<Rightarrow> 'd projectionState \<times> 'd \<times> 'd" where
  "transferLots L transaction mechanics optionMovement state remaining transferredCash ordinal [] =
     (state, remaining, transferredCash)"
| "transferLots L transaction mechanics optionMovement state remaining transferredCash ordinal (index # indexes) =
    (let lot = lots state ! index in
     if Lot_InstrumentID lot \<noteq> Mechanics_InstrumentID mechanics \<or> Lot_RemainingQuantity lot = 0 \<or>
        sgn (Lot_RemainingQuantity lot) = sgn optionMovement
     then transferLots L transaction mechanics optionMovement state remaining transferredCash ordinal indexes
     else
       (let closeQuantity = min \<bar>Lot_RemainingQuantity lot\<bar> \<bar>remaining\<bar>;
            openingCash = releasedOpeningCash L lot closeQuantity;
            state' = state\<lparr>lots := (lots state)[index := closeLot lot optionMovement closeQuantity openingCash],
                           matches := matches state @
                             [newMatch L transaction mechanics (Mechanics_InstrumentID mechanics) ordinal lot
                                closeQuantity openingCash (- openingCash) 0 ''basis_transfer'']\<rparr>;
            remaining' = remaining - sgn optionMovement * closeQuantity
        in if remaining' = 0 then (state', remaining', transferredCash + openingCash)
           else transferLots L transaction mechanics optionMovement state' remaining' (transferredCash + openingCash)
                  (Suc ordinal) indexes))"

definition applyPhysicalOption ::
    "('d::linordered_idom) lib \<Rightarrow> 'd projectionState \<Rightarrow> 'd Transaction \<Rightarrow> 'd ProjectionMechanics \<Rightarrow> 'd \<Rightarrow>
     projection_error + 'd projectionState" where
  "applyPhysicalOption L state transaction mechanics strikeCash =
    and_then (projectionInstrumentMovement L transaction ''option-close'' (Mechanics_InstrumentID mechanics))
      (\<lambda>optionMovement.
    and_then (projectionInstrumentMovement L transaction ''underlying-delivery'' (Mechanics_SecondaryInstrumentID mechanics))
      (\<lambda>underlyingMovement.
    case (Mechanics_PositionQuantity mechanics, Mechanics_DeliverableQuantity mechanics, Mechanics_StrikePrice mechanics) of
      (Some position, Some deliverable, Some strike) \<Rightarrow>
        (let product = position * deliverable;
             expectedUnderlyingMovement =
               (if Mechanics_OptionContractType mechanics = OptionContractPut then - product else product);
             expectedStrikeCash = - (expectedUnderlyingMovement * strike)
         in if optionMovement \<noteq> - position \<or> underlyingMovement \<noteq> expectedUnderlyingMovement \<or>
               strikeCash \<noteq> expectedStrikeCash
            then Inl PhysicalMismatch
            else
              (let (state', remaining, transferredCash) =
                     transferLots L transaction mechanics optionMovement state optionMovement 0 0
                       [0..<length (lots state)]
               in if remaining \<noteq> 0 then Inl PhysicalNotExactClose
                  else applyMovement L (add_activity (Mechanics_InstrumentID mechanics) state') transaction mechanics
                         (Mechanics_SecondaryInstrumentID mechanics) underlyingMovement
                         (strikeCash + transferredCash) (Mechanics_SecondaryMultiplier mechanics)
                         ''physical_delivery'' False))
    | _ \<Rightarrow> Inl NilDereference))"

definition applyFill ::
    "('d::linordered_idom) lib \<Rightarrow> 'd projectionState \<Rightarrow> 'd Transaction \<Rightarrow> 'd ProjectionMechanics \<Rightarrow> 'd \<Rightarrow>
     projection_error + 'd projectionState" where
  "applyFill L state transaction mechanics eventCash =
    and_then (projectionInstrumentMovement L transaction ''inventory'' (Mechanics_InstrumentID mechanics)) (\<lambda>movement.
     let buy = (Mechanics_EventType mechanics = EconomicEventFillBuy) in
     ensure (guard (buy \<and> \<not> movement > 0 \<or>
                    Mechanics_EventType mechanics = EconomicEventFillSell \<and> \<not> movement < 0) FillDirection)
     (case Mechanics_Quantity mechanics of
        None \<Rightarrow> Inl NilDereference
      | Some quantity \<Rightarrow>
          ensure (guard (\<bar>movement\<bar> \<noteq> quantity) FillQuantityMismatch)
          (case Mechanics_Price mechanics of
             None \<Rightarrow> Inl NilDereference
           | Some price \<Rightarrow>
              (let gross = quantity * price * Mechanics_PrimaryMultiplier mechanics;
                   signed = (if buy then - gross else gross);
                   expectedCash =
                     (case Mechanics_CostAmount mechanics of
                        None \<Rightarrow> signed
                      | Some cost \<Rightarrow> if Mechanics_CostKind mechanics = CostKindFee then signed - cost else signed + cost)
               in ensure (guard (eventCash \<noteq> expectedCash) FillCashMismatch)
                  (applyMovement L state transaction mechanics (Mechanics_InstrumentID mechanics) movement eventCash
                     (Mechanics_PrimaryMultiplier mechanics) ''trade'' False)))))"

definition applyCost ::
    "('d::linordered_idom) projectionState \<Rightarrow> 'd Transaction \<Rightarrow> 'd ProjectionMechanics \<Rightarrow> 'd \<Rightarrow>
     projection_error + 'd projectionState" where
  "applyCost state transaction mechanics eventCash =
    ensure (first_err
      [guard (projectionHasAssetInventory transaction) CostHasInventory,
       guard (Mechanics_EventType mechanics = EconomicEventFee \<and> \<not> eventCash < 0 \<or>
              Mechanics_EventType mechanics = EconomicEventRebate \<and> \<not> eventCash > 0) CostDirection])
    (case Mechanics_CostAmount mechanics of
       None \<Rightarrow> Inl NilDereference
     | Some amount \<Rightarrow>
         ensure (guard (eventCash \<noteq> (if Mechanics_EventType mechanics = EconomicEventFee then - amount else amount))
                   CostCashMismatch)
           (Inr (state\<lparr>realized := realized state + eventCash\<rparr>)))"

definition applySettlement ::
    "('d::linordered_idom) lib \<Rightarrow> 'd projectionState \<Rightarrow> 'd Transaction \<Rightarrow> 'd ProjectionMechanics \<Rightarrow> 'd \<Rightarrow>
     projection_error + 'd projectionState" where
  "applySettlement L state transaction mechanics eventCash =
    and_then (projectionInstrumentMovement L transaction ''inventory-settlement'' (Mechanics_InstrumentID mechanics))
      (\<lambda>movement.
     case Mechanics_PositionQuantity mechanics of
       None \<Rightarrow> Inl NilDereference
     | Some position \<Rightarrow>
         if movement \<noteq> - position then Inl SettlementMismatch
         else
           (case Mechanics_SettlementPrice mechanics of
              None \<Rightarrow> Inl NilDereference
            | Some price \<Rightarrow>
                ensure (guard (eventCash \<noteq> position * price * Mechanics_PrimaryMultiplier mechanics) SettlementMismatch)
                  (applyMovement L state transaction mechanics (Mechanics_InstrumentID mechanics) movement eventCash
                     (Mechanics_PrimaryMultiplier mechanics) ''settlement'' True)))"

definition applyEconomicTransaction ::
    "('d::linordered_idom) lib \<Rightarrow> 'd projectionState \<Rightarrow> 'd Transaction \<Rightarrow> 'd ProjectionMechanics \<Rightarrow> 'd \<Rightarrow>
     projection_error + 'd projectionState" where
  "applyEconomicTransaction L state transaction mechanics eventCash =
    ensure (guard
      (ExecutionOriginType_string (Mechanics_ExecutionOriginType mechanics) = [] \<or>
       Mechanics_ExecutionOriginID mechanics = [] \<or>
       Mechanics_ReferenceType mechanics \<noteq> Transaction_ReferenceType transaction \<or>
       Mechanics_ReferenceID mechanics \<noteq> Transaction_ReferenceID transaction) MechanicsProvenance)
    (case Mechanics_EventType mechanics of
       EconomicEventFillBuy \<Rightarrow> applyFill L state transaction mechanics eventCash
     | EconomicEventFillSell \<Rightarrow> applyFill L state transaction mechanics eventCash
     | EconomicEventFee \<Rightarrow> applyCost state transaction mechanics eventCash
     | EconomicEventRebate \<Rightarrow> applyCost state transaction mechanics eventCash
     | EconomicEventOptionCashSettlement \<Rightarrow> applySettlement L state transaction mechanics eventCash
     | EconomicEventOptionExpiration \<Rightarrow> applySettlement L state transaction mechanics eventCash
     | EconomicEventPredictionPayout \<Rightarrow> applySettlement L state transaction mechanics eventCash
     | EconomicEventOptionExercise \<Rightarrow> applyPhysicalOption L state transaction mechanics eventCash
     | EconomicEventOptionAssignment \<Rightarrow> applyPhysicalOption L state transaction mechanics eventCash
     | OtherEconomicEvent s \<Rightarrow> Inl EventTypeUnsupported)"

section \<open>Replay\<close>

definition normalizeProjectionBoundary ::
    "'d lib \<Rightarrow> ProjectionRequest \<Rightarrow> string \<Rightarrow> projection_error + (ProjectionRequest \<times> string)" where
  "normalizeProjectionBoundary L request baseCurrency =
    (let r = request\<lparr>Request_AsOf := utc_micros (Request_AsOf request),
                     Request_MarkSource := ToLower L (TrimSpace (Request_MarkSource request)),
                     Request_MarkNamespace := TrimSpace (Request_MarkNamespace request)\<rparr>;
         currency = ToUpper L (TrimSpace baseCurrency);
         age = Request_MaxMarkAge request - Request_MaxMarkAge request mod Microsecond
     in ensure (first_err
          [guard (Request_AccountID r = uuid_Nil \<or> IsZero (Request_AsOf r)) BoundaryAccountAsOf,
           guard (\<not> isNormalizedRequired (Request_MarkSource r) \<or>
                  Request_MarkSource r \<noteq> ToLower L (Request_MarkSource r) \<or>
                  \<not> isNormalizedRequired (Request_MarkNamespace r) \<or> Request_MaxMarkAge r \<le> 0) BoundaryMarkPolicy,
           guard (age \<le> 0 \<or> \<not> isCurrencyUnit currency) BoundaryCurrencyAge])
        (Inr (r\<lparr>Request_MaxMarkAge := age\<rparr>, currency)))"

fun eligibleTransactions ::
    "('d::linordered_idom) lib \<Rightarrow> ProjectionRequest \<Rightarrow> 'd Transaction option list \<Rightarrow>
     projection_error + 'd Transaction list" where
  "eligibleTransactions L request [] = Inr []"
| "eligibleTransactions L request (None # ts) = Inl ProjectionTransactionNil"
| "eligibleTransactions L request (Some t # ts) =
    (if After (Transaction_EffectiveAt t) (Request_AsOf request) \<or>
        After (Transaction_ObservedAt t) (Request_AsOf request)
     then eligibleTransactions L request ts
     else ensure (first_err
            [map_option ProjectionTransactionInvalid (Transaction_Validate L t),
             guard (Transaction_AccountID t \<noteq> Request_AccountID request) ProjectionTransactionAccount])
          (and_then (eligibleTransactions L request ts) (\<lambda>rest. Inr (t # rest))))"

fun collectMechanics ::
    "('d::linordered_idom) lib \<Rightarrow> uuid list \<Rightarrow> (uuid \<times> 'd ProjectionMechanics) list \<Rightarrow> 'd ProjectionMechanics list \<Rightarrow>
     projection_error + (uuid \<times> 'd ProjectionMechanics) list" where
  "collectMechanics L eligible result [] = Inr result"
| "collectMechanics L eligible result (m # ms) =
    (if Mechanics_TransactionID m \<notin> set eligible then collectMechanics L eligible result ms
     else ensure (first_err
            [map_option ProjectionMechanicsInvalid (ProjectionMechanics_Validate L m),
             guard (map_of result (Mechanics_TransactionID m) \<noteq> None) ProjectionMechanicsDuplicate])
          (collectMechanics L eligible ((Mechanics_TransactionID m, m) # result) ms))"

definition eligibleProjectionMechanics ::
    "('d::linordered_idom) lib \<Rightarrow> 'd ProjectionMechanics list \<Rightarrow> 'd Transaction list \<Rightarrow>
     projection_error + (uuid \<times> 'd ProjectionMechanics) list" where
  "eligibleProjectionMechanics L candidates transactions =
     collectMechanics L (map Transaction_ID transactions) [] candidates"

definition empty_state :: "('d::linordered_idom) projectionState" where
  "empty_state = \<lparr>lots = [], matches = [], activity = [], cash = 0, netCapital = 0, fees = 0, rebates = 0, realized = 0\<rparr>"

text \<open>The body of the transaction loop of \<open>BuildPortfolioProjection\<close>.\<close>

definition projectTransaction ::
    "('d::linordered_idom) lib \<Rightarrow> string \<Rightarrow> (uuid \<times> 'd ProjectionMechanics) list \<Rightarrow> 'd projectionState \<Rightarrow>
     'd Transaction \<Rightarrow> projection_error + 'd projectionState" where
  "projectTransaction L currency mechanicsByTransaction state transaction =
    and_then (projectionCashAndCosts transaction currency) (\<lambda>(eventCash, eventFees, eventRebates).
     let s = state\<lparr>cash := cash state + eventCash, fees := fees state + eventFees,
                   rebates := rebates state + eventRebates\<rparr>;
         found = map_of mechanicsByTransaction (Transaction_ID transaction);
         deposit = (Transaction_EventType transaction = ''capital_flow.deposit'');
         withdrawal = (Transaction_EventType transaction = ''capital_flow.withdrawal'')
     in if deposit \<or> withdrawal then
          ensure (first_err
            [guard (found \<noteq> None) CapitalHasMechanics,
             guard (projectionHasAssetInventory transaction \<or> eventCash = 0) CapitalShape,
             guard (deposit \<and> \<not> eventCash > 0 \<or> withdrawal \<and> \<not> eventCash < 0) CapitalDirection])
          (Inr (s\<lparr>netCapital := netCapital s + eventCash\<rparr>))
        else
          (case found of
             None \<Rightarrow> Inl MechanicsMissing
           | Some mechanics \<Rightarrow>
               ensure (first_err
                 [guard (EconomicEventType_string (Mechanics_EventType mechanics) \<noteq> Transaction_EventType transaction)
                    MechanicsEventTypeMismatch,
                  guard (Mechanics_CashCurrency mechanics \<noteq> currency) MechanicsCurrencyMismatch])
               (applyEconomicTransaction L s transaction mechanics eventCash)))"

section \<open>Totals\<close>

definition mark_ineligible :: "ProjectionRequest \<Rightarrow> string \<Rightarrow> 'd MarkObservation \<Rightarrow> bool" where
  "mark_ineligible request currency m \<longleftrightarrow>
     MarkObservation_PriceCurrency m \<noteq> currency \<or> MarkObservation_Source m \<noteq> Request_MarkSource request \<or>
     MarkObservation_SourceNamespace m \<noteq> Request_MarkNamespace request \<or>
     After (MarkObservation_EffectiveAt m) (Request_AsOf request) \<or>
     After (MarkObservation_ObservedAt m) (Request_AsOf request) \<or>
     time_Sub (Request_AsOf request) (MarkObservation_EffectiveAt m) > Request_MaxMarkAge request"

fun selectMarks ::
    "('d::linordered_idom) lib \<Rightarrow> ProjectionRequest \<Rightarrow> string \<Rightarrow> (uuid \<times> 'd MarkObservation) list \<Rightarrow>
     'd MarkObservation option list \<Rightarrow> projection_error + (uuid \<times> 'd MarkObservation) list" where
  "selectMarks L request currency selected [] = Inr selected"
| "selectMarks L request currency selected (None # ms) = Inl ProjectionMarkNil"
| "selectMarks L request currency selected (Some m # ms) =
    ensure (map_option ProjectionMarkInvalid (MarkObservation_Validate L m))
    (if mark_ineligible request currency m then selectMarks L request currency selected ms
     else if (case map_of selected (MarkObservation_InstrumentID m) of
                None \<Rightarrow> True | Some current \<Rightarrow> projectionMarkLater L m current)
     then selectMarks L request currency (AList.update (MarkObservation_InstrumentID m) m selected) ms
     else selectMarks L request currency selected ms)"

definition projectionMarkFromObservation :: "'d MarkObservation \<Rightarrow> 'd ProjectionMark" where
  "projectionMarkFromObservation m =
    \<lparr>Mark_ID = MarkObservation_ID m, Mark_InstrumentID = MarkObservation_InstrumentID m,
     Mark_Price = MarkObservation_Price m, Mark_PriceCurrency = MarkObservation_PriceCurrency m,
     Mark_Source = MarkObservation_Source m, Mark_SourceNamespace = MarkObservation_SourceNamespace m,
     Mark_SourceObservationID = MarkObservation_SourceObservationID m,
     Mark_SourceRevision = MarkObservation_SourceRevision m,
     Mark_EffectiveAt = MarkObservation_EffectiveAt m, Mark_ObservedAt = MarkObservation_ObservedAt m,
     Mark_Metadata = MarkObservation_Metadata m\<rparr>"

abbreviation lot_of :: "uuid \<Rightarrow> 'd ProjectionLot \<Rightarrow> bool" where
  "lot_of instrumentID lot \<equiv> Lot_InstrumentID lot = instrumentID"

text \<open>The position of an instrument before it is marked.\<close>

definition position_of :: "('d::linordered_idom) projectionState \<Rightarrow> uuid \<Rightarrow> 'd ProjectionPosition" where
  "position_of state instrumentID =
    (let quantity = sum_where (lot_of instrumentID) Lot_RemainingQuantity (lots state) in
     \<lparr>Position_InstrumentID = instrumentID,
      Position_Open = (quantity \<noteq> 0),
      Position_Quantity = quantity,
      Position_RemainingOpeningCash = sum_where (lot_of instrumentID) Lot_RemainingOpeningCash (lots state),
      Position_RealizedPnL =
        sum_where (\<lambda>m. Match_InstrumentID m = instrumentID) Match_RealizedPnL (matches state),
      Position_MarketValue = 0,
      Position_UnrealizedPnL = 0,
      Position_MarkObservationID = uuid_Nil,
      Position_OpenLotCount =
        length (filter (\<lambda>lot. lot_of instrumentID lot \<and> Lot_RemainingQuantity lot \<noteq> 0) (lots state))\<rparr>)"

definition marked_position ::
    "('d::linordered_idom) projectionState \<Rightarrow> 'd ProjectionPosition \<Rightarrow> 'd MarkObservation \<Rightarrow> 'd ProjectionPosition" where
  "marked_position state position m =
    (let marketValue =
           sum_where (\<lambda>lot. lot_of (Position_InstrumentID position) lot \<and> Lot_RemainingQuantity lot \<noteq> 0)
             (\<lambda>lot. Lot_RemainingQuantity lot * MarkObservation_Price m * Lot_MarkMultiplier lot) (lots state)
     in position\<lparr>Position_MarkObservationID := MarkObservation_ID m,
                 Position_MarketValue := marketValue,
                 Position_UnrealizedPnL := marketValue + Position_RemainingOpeningCash position\<rparr>)"

text \<open>The position loop of \<open>finalize\<close>: marks, positions, market value and unrealized profit.\<close>

fun positionLoop ::
    "('d::linordered_idom) projectionState \<Rightarrow> (uuid \<times> 'd MarkObservation) list \<Rightarrow> uuid list \<Rightarrow>
     projection_error + ('d ProjectionMark list \<times> 'd ProjectionPosition list \<times> 'd \<times> 'd)" where
  "positionLoop state selected [] = Inr ([], [], 0, 0)"
| "positionLoop state selected (instrumentID # ids) =
    (let position = position_of state instrumentID in
     if Position_Open position then
       (case map_of selected instrumentID of
          None \<Rightarrow> Inl NoFreshMark
        | Some m \<Rightarrow>
            (let marked = marked_position state position m in
             and_then (positionLoop state selected ids) (\<lambda>(marks, positions, marketValue, unrealized).
               Inr (projectionMarkFromObservation m # marks, marked # positions,
                    Position_MarketValue marked + marketValue, Position_UnrealizedPnL marked + unrealized))))
     else
       and_then (positionLoop state selected ids) (\<lambda>(marks, positions, marketValue, unrealized).
         Inr (marks, position # positions, marketValue, unrealized)))"

definition finalize ::
    "('d::linordered_idom) lib \<Rightarrow> 'd projectionState \<Rightarrow> ProjectionRequest \<Rightarrow> string \<Rightarrow> 'd MarkObservation option list \<Rightarrow>
     projection_error + ('d ProjectionMark list \<times> 'd ProjectionPosition list \<times> 'd ProjectionTotals)" where
  "finalize L state request currency candidates =
    and_then (selectMarks L request currency [] candidates) (\<lambda>selected.
    let instrumentIDs = sort_by (\<lambda>x y. uuid_String L x < uuid_String L y) (activity state) in
    and_then (positionLoop state selected instrumentIDs) (\<lambda>(marks, positions, marketValue, unrealized).
    let sortedMarks =
          sort_by (\<lambda>x y. uuid_String L (Mark_InstrumentID x) < uuid_String L (Mark_InstrumentID y)) marks;
        equity = cash state + marketValue;
        totals =
          \<lparr>Totals_Cash = cash state, Totals_NetCapital = netCapital state, Totals_Fees = fees state,
           Totals_Rebates = rebates state, Totals_RealizedPnL = realized state, Totals_UnrealizedPnL = unrealized,
           Totals_MarketValue = marketValue, Totals_Equity = equity,
           Totals_TotalPnL = equity - netCapital state\<rparr>
    in ensure (guard (Totals_RealizedPnL totals + Totals_UnrealizedPnL totals \<noteq> Totals_TotalPnL totals) PnLEquation)
         (Inr (sortedMarks, positions, totals))))"

end
