(* ===== verification/Projection_Payload.thy ===== *)
theory Projection_Payload
  imports Ledger_Projection
begin

text \<open>
  \<open>internal/ledger/projection.go\<close>, continued: the canonical JSON evidence of a projection, its
  checksums and the complete rebuild \<open>BuildPortfolioProjection\<close>.  A Go struct given to
  \<open>json.Marshal\<close> is a \<open>JObject\<close> with the fields in declaration order; an embedded
  \<open>json.RawMessage\<close> produced by \<open>canonicalJSON\<close> is the value it encodes.  \<open>json.Marshal\<close> does not fail
  on these structs, so its error branches are not modelled.
\<close>

section \<open>Formatting\<close>

text \<open>\<open>Time.Format\<close> with the layout \<open>2006-01-02T15:04:05.000000Z\<close>, from the proleptic Gregorian calendar.\<close>

definition pad_digits :: "nat \<Rightarrow> int \<Rightarrow> string" where
  "pad_digits width n =
    (let s = itoa (nat \<bar>n\<bar>) in
     (if n < 0 then ''-'' else []) @ replicate (width - length s) (CHR ''0'') @ s)"

lemma pad_digits_code [code]:
  "pad_digits width n =
    (let s = int_digits \<bar>n\<bar> in (if n < 0 then ''-'' else []) @ replicate (width - length s) (CHR ''0'') @ s)"
  by (simp add: pad_digits_def itoa_code)

definition is_leap :: "int \<Rightarrow> bool" where
  "is_leap y \<longleftrightarrow> y mod 4 = 0 \<and> (y mod 100 \<noteq> 0 \<or> y mod 400 = 0)"

definition month_lengths :: "int \<Rightarrow> int list" where
  "month_lengths y = [31, if is_leap y then 29 else 28, 31, 30, 31, 30, 31, 31, 30, 31, 30, 31]"

fun month_day :: "int list \<Rightarrow> int \<Rightarrow> int \<Rightarrow> int \<times> int" where
  "month_day [] month day = (month, day + 1)"
| "month_day (len # lens) month day = (if day < len then (month, day + 1) else month_day lens (month + 1) (day - len))"

text \<open>Year, month and day of a day number counted from 1 January of year 1.\<close>

definition civil_date :: "int \<Rightarrow> int \<times> int \<times> int" where
  "civil_date d =
    (let n400 = d div 146097; d1 = d mod 146097;
         n100 = min 3 (d1 div 36524); d2 = d1 - 36524 * n100;
         n4 = d2 div 1461; d3 = d2 mod 1461;
         n1 = min 3 (d3 div 365);
         y = 400 * n400 + 100 * n100 + 4 * n4 + n1 + 1;
         (month, day) = month_day (month_lengths y) 1 (d3 - 365 * n1)
     in (y, month, day))"

definition format_time :: "time \<Rightarrow> string" where
  "format_time t =
    (let seconds = instant t div 1000000000;
         micros = (instant t mod 1000000000) div 1000;
         (y, month, day) = civil_date (seconds div 86400);
         ofday = seconds mod 86400
     in pad_digits 4 y @ ''-'' @ pad_digits 2 month @ ''-'' @ pad_digits 2 day @ ''T'' @
        pad_digits 2 (ofday div 3600) @ '':'' @ pad_digits 2 (ofday mod 3600 div 60) @ '':'' @
        pad_digits 2 (ofday mod 60) @ ''.'' @ pad_digits 6 micros @ ''Z'')"

definition projectionTime :: "time \<Rightarrow> string" where
  "projectionTime value = format_time (utc_micros value)"

definition projectionUUID :: "'d lib \<Rightarrow> uuid \<Rightarrow> string" where
  "projectionUUID L value = (if value = uuid_Nil then [] else uuid_String L value)"

definition projectionDecimalPointer :: "'d lib \<Rightarrow> 'd option \<Rightarrow> string" where
  "projectionDecimalPointer L value = (case value of None \<Rightarrow> [] | Some v \<Rightarrow> decimal_String L v)"

definition sha256Hex :: "'d lib \<Rightarrow> string \<Rightarrow> string" where
  "sha256Hex L value = hex_EncodeToString (sha256_Sum256 L value)"

text \<open>\<open>Duration.Microseconds\<close> of a positive duration, as a JSON number.\<close>

definition age_microseconds :: "int \<Rightarrow> json" where
  "age_microseconds age = JNumber (pad_digits 1 (age div 1000))"

definition canonicalJSON :: "'d lib \<Rightarrow> string \<Rightarrow> projection_error + json" where
  "canonicalJSON L raw =
    (case json_Decode L raw of
       Decoded value rest \<Rightarrow> (if json_Decode L rest = EOF then Inr value else Inl CanonicalJSON)
     | _ \<Rightarrow> Inl CanonicalJSON)"

fun UnitKind_string :: "UnitKind \<Rightarrow> string" where
  "UnitKind_string UnitKindCurrency = ''currency''"
| "UnitKind_string UnitKindInstrument = ''instrument''"
| "UnitKind_string (OtherUnitKind s) = s"

fun CostKind_string :: "CostKind \<Rightarrow> string" where
  "CostKind_string CostKindUnset = []"
| "CostKind_string CostKindFee = ''fee''"
| "CostKind_string CostKindRebate = ''rebate''"
| "CostKind_string (OtherCostKind s) = s"

fun OptionContractType_string :: "OptionContractType \<Rightarrow> string" where
  "OptionContractType_string OptionContractUnset = []"
| "OptionContractType_string OptionContractCall = ''call''"
| "OptionContractType_string OptionContractPut = ''put''"
| "OptionContractType_string (OtherOptionContractType s) = s"

fun traverse :: "('a \<Rightarrow> 'e + 'b) \<Rightarrow> 'a list \<Rightarrow> 'e + 'b list" where
  "traverse f [] = Inr []"
| "traverse f (x # xs) = and_then (f x) (\<lambda>y. and_then (traverse f xs) (\<lambda>ys. Inr (y # ys)))"

section \<open>Canonical rows\<close>

definition canonicalPosting :: "'d lib \<Rightarrow> 'd Posting \<Rightarrow> projection_error + json" where
  "canonicalPosting L p =
    and_then (canonicalJSON L (Posting_Metadata p)) (\<lambda>metadata. Inr (JObject
      [(''id'', JString (uuid_String L (Posting_ID p))),
       (''idempotency_key'', JString (Posting_IdempotencyKey p)),
       (''ledger_account'', JString (Posting_LedgerAccount p)),
       (''unit_kind'', JString (UnitKind_string (Posting_UnitKind p))),
       (''unit'', JString (Posting_Unit p)),
       (''amount'', JString (decimal_String L (Posting_Amount p))),
       (''metadata'', metadata)]))"

definition posting_less :: "'d lib \<Rightarrow> 'd Posting \<Rightarrow> 'd Posting \<Rightarrow> bool" where
  "posting_less L left right =
    (if Posting_IdempotencyKey left \<noteq> Posting_IdempotencyKey right
     then Posting_IdempotencyKey left < Posting_IdempotencyKey right
     else uuid_String L (Posting_ID left) < uuid_String L (Posting_ID right))"

definition canonicalTransaction :: "'d lib \<Rightarrow> 'd Transaction \<Rightarrow> projection_error + json" where
  "canonicalTransaction L t =
    and_then (canonicalJSON L (Transaction_Metadata t)) (\<lambda>metadata.
    and_then (traverse (canonicalPosting L) (sort_by (posting_less L) (Transaction_Postings t))) (\<lambda>postings. Inr (JObject
      [(''id'', JString (uuid_String L (Transaction_ID t))),
       (''account_id'', JString (uuid_String L (Transaction_AccountID t))),
       (''event_type'', JString (Transaction_EventType t)),
       (''idempotency_key'', JString (Transaction_IdempotencyKey t)),
       (''origin_type'', JString (Transaction_OriginType t)),
       (''origin_id'', JString (Transaction_OriginID t)),
       (''reference_type'', JString (Transaction_ReferenceType t)),
       (''reference_id'', JString (Transaction_ReferenceID t)),
       (''effective_at'', JString (projectionTime (Transaction_EffectiveAt t))),
       (''observed_at'', JString (projectionTime (Transaction_ObservedAt t))),
       (''metadata'', metadata),
       (''postings'', JArray postings)])))"

definition canonicalMechanics :: "'d lib \<Rightarrow> 'd ProjectionMechanics \<Rightarrow> json" where
  "canonicalMechanics L m = JObject
    [(''normalization_id'', JString (uuid_String L (Mechanics_NormalizationID m))),
     (''source_event_id'', JString (uuid_String L (Mechanics_SourceEventID m))),
     (''transaction_id'', JString (uuid_String L (Mechanics_TransactionID m))),
     (''event_type'', JString (EconomicEventType_string (Mechanics_EventType m))),
     (''normalizer_version'', JString (Mechanics_NormalizerVersion m)),
     (''execution_origin_type'', JString (ExecutionOriginType_string (Mechanics_ExecutionOriginType m))),
     (''execution_origin_id'', JString (Mechanics_ExecutionOriginID m)),
     (''reference_type'', JString (Mechanics_ReferenceType m)),
     (''reference_id'', JString (Mechanics_ReferenceID m)),
     (''venue'', JString (Mechanics_Venue m)),
     (''instrument_id'', JString (projectionUUID L (Mechanics_InstrumentID m))),
     (''secondary_instrument_id'', JString (projectionUUID L (Mechanics_SecondaryInstrumentID m))),
     (''venue_contract_id'', JString (projectionUUID L (Mechanics_VenueContractID m))),
     (''option_terms_id'', JString (projectionUUID L (Mechanics_OptionTermsID m))),
     (''cash_currency'', JString (Mechanics_CashCurrency m)),
     (''quantity'', JString (projectionDecimalPointer L (Mechanics_Quantity m))),
     (''price'', JString (projectionDecimalPointer L (Mechanics_Price m))),
     (''cost_kind'', JString (CostKind_string (Mechanics_CostKind m))),
     (''cost_currency'', JString (Mechanics_CostCurrency m)),
     (''cost_amount'', JString (projectionDecimalPointer L (Mechanics_CostAmount m))),
     (''position_quantity'', JString (projectionDecimalPointer L (Mechanics_PositionQuantity m))),
     (''settlement_price'', JString (projectionDecimalPointer L (Mechanics_SettlementPrice m))),
     (''option_contract_type'', JString (OptionContractType_string (Mechanics_OptionContractType m))),
     (''strike_price'', JString (projectionDecimalPointer L (Mechanics_StrikePrice m))),
     (''deliverable_quantity'', JString (projectionDecimalPointer L (Mechanics_DeliverableQuantity m))),
     (''primary_multiplier'', JString (decimal_String L (Mechanics_PrimaryMultiplier m))),
     (''secondary_multiplier'', JString (decimal_String L (Mechanics_SecondaryMultiplier m)))]"

definition canonicalMark :: "'d lib \<Rightarrow> 'd ProjectionMark \<Rightarrow> projection_error + json" where
  "canonicalMark L m =
    and_then (canonicalJSON L (Mark_Metadata m)) (\<lambda>metadata. Inr (JObject
      [(''id'', JString (uuid_String L (Mark_ID m))),
       (''instrument_id'', JString (uuid_String L (Mark_InstrumentID m))),
       (''price'', JString (decimal_String L (Mark_Price m))),
       (''price_currency'', JString (Mark_PriceCurrency m)),
       (''source'', JString (Mark_Source m)),
       (''source_namespace'', JString (Mark_SourceNamespace m)),
       (''source_observation_id'', JString (Mark_SourceObservationID m)),
       (''source_revision'', JString (Mark_SourceRevision m)),
       (''effective_at'', JString (projectionTime (Mark_EffectiveAt m))),
       (''observed_at'', JString (projectionTime (Mark_ObservedAt m))),
       (''metadata'', metadata)]))"

definition canonicalProjectionMarks :: "'d lib \<Rightarrow> 'd ProjectionMark list \<Rightarrow> projection_error + json list" where
  "canonicalProjectionMarks L marks = traverse (canonicalMark L) marks"

section \<open>Checksums and payload\<close>

definition PortfolioProjectionVersion :: string where
  "PortfolioProjectionVersion = ''ledger_fifo_v1''"

definition PortfolioProjectionType :: string where
  "PortfolioProjectionType = ''portfolio''"

definition ProjectionFIFO :: string where
  "ProjectionFIFO = ''fifo''"

definition projectionInputChecksum ::
    "'d lib \<Rightarrow> ProjectionRequest \<Rightarrow> string \<Rightarrow> 'd Transaction list \<Rightarrow> (uuid \<times> 'd ProjectionMechanics) list \<Rightarrow>
     'd ProjectionMark list \<Rightarrow> projection_error + string" where
  "projectionInputChecksum L request currency transactions mechanics marks =
    and_then (traverse (canonicalTransaction L) transactions) (\<lambda>canonicalTransactions.
    and_then (canonicalProjectionMarks L marks) (\<lambda>canonicalMarks.
      Inr (sha256Hex L (json_Marshal L (JObject
        [(''version'', JString PortfolioProjectionVersion),
         (''account_id'', JString (uuid_String L (Request_AccountID request))),
         (''base_currency'', JString currency),
         (''as_of'', JString (projectionTime (Request_AsOf request))),
         (''mark_source'', JString (Request_MarkSource request)),
         (''mark_namespace'', JString (Request_MarkNamespace request)),
         (''max_mark_age_microseconds'', age_microseconds (Request_MaxMarkAge request)),
         (''transactions'', JArray canonicalTransactions),
         (''mechanics'', JArray (map (canonicalMechanics L)
            (List.map_filter (\<lambda>t. map_of mechanics (Transaction_ID t)) transactions))),
         (''marks'', JArray canonicalMarks)])))))"

record 'd PortfolioProjection =
  Projection_CheckpointID :: uuid
  Projection_ProjectionType :: string
  Projection_Version :: string
  Projection_FIFO :: string
  Projection_AccountID :: uuid
  Projection_BaseCurrency :: string
  Projection_AsOf :: time
  Projection_MarkSource :: string
  Projection_MarkNamespace :: string
  Projection_MaxMarkAge :: int
  Projection_ThroughTransactionID :: uuid
  Projection_TransactionCount :: nat
  Projection_InputChecksum :: string
  Projection_OutputChecksum :: string
  Projection_Marks :: "'d ProjectionMark list"
  Projection_Lots :: "'d ProjectionLot list"
  Projection_Matches :: "'d ProjectionMatch list"
  Projection_Positions :: "'d ProjectionPosition list"
  Projection_Totals :: "'d ProjectionTotals"
  Projection_PayloadBytes :: string

definition projectionCheckpointID :: "'d lib \<Rightarrow> 'd PortfolioProjection \<Rightarrow> uuid" where
  "projectionCheckpointID L p = DeterministicUUID L ''portfolio-projection-checkpoint''
    [uuid_String L (Projection_AccountID p), Projection_ProjectionType p, Projection_Version p,
     format_time (Projection_AsOf p), Projection_InputChecksum p]"

definition canonicalLot :: "'d lib \<Rightarrow> 'd ProjectionLot \<Rightarrow> json" where
  "canonicalLot L lot = JObject
    [(''id'', JString (uuid_String L (Lot_ID lot))),
     (''instrument_id'', JString (uuid_String L (Lot_InstrumentID lot))),
     (''opening_transaction_id'', JString (uuid_String L (Lot_OpeningTransactionID lot))),
     (''opening_origin_type'', JString (ExecutionOriginType_string (Lot_OpeningOriginType lot))),
     (''opening_origin_id'', JString (Lot_OpeningOriginID lot)),
     (''opening_reference_type'', JString (Lot_OpeningReferenceType lot)),
     (''opening_reference_id'', JString (Lot_OpeningReferenceID lot)),
     (''opened_at'', JString (projectionTime (Lot_OpenedAt lot))),
     (''quantity'', JString (decimal_String L (Lot_Quantity lot))),
     (''remaining_quantity'', JString (decimal_String L (Lot_RemainingQuantity lot))),
     (''opening_cash'', JString (decimal_String L (Lot_OpeningCash lot))),
     (''remaining_opening_cash'', JString (decimal_String L (Lot_RemainingOpeningCash lot))),
     (''mark_multiplier'', JString (decimal_String L (Lot_MarkMultiplier lot)))]"

definition canonicalMatch :: "'d lib \<Rightarrow> 'd ProjectionMatch \<Rightarrow> json" where
  "canonicalMatch L m = JObject
    [(''id'', JString (uuid_String L (Match_ID m))),
     (''lot_id'', JString (uuid_String L (Match_LotID m))),
     (''instrument_id'', JString (uuid_String L (Match_InstrumentID m))),
     (''closing_transaction_id'', JString (uuid_String L (Match_ClosingTransactionID m))),
     (''opening_origin_type'', JString (ExecutionOriginType_string (Match_OpeningOriginType m))),
     (''opening_origin_id'', JString (Match_OpeningOriginID m)),
     (''opening_reference_type'', JString (Match_OpeningReferenceType m)),
     (''opening_reference_id'', JString (Match_OpeningReferenceID m)),
     (''closing_origin_type'', JString (ExecutionOriginType_string (Match_ClosingOriginType m))),
     (''closing_origin_id'', JString (Match_ClosingOriginID m)),
     (''closing_reference_type'', JString (Match_ClosingReferenceType m)),
     (''closing_reference_id'', JString (Match_ClosingReferenceID m)),
     (''closed_at'', JString (projectionTime (Match_ClosedAt m))),
     (''quantity'', JString (decimal_String L (Match_Quantity m))),
     (''opening_cash'', JString (decimal_String L (Match_OpeningCash m))),
     (''closing_cash'', JString (decimal_String L (Match_ClosingCash m))),
     (''realized_pnl'', JString (decimal_String L (Match_RealizedPnL m))),
     (''disposition'', JString (Match_Disposition m))]"

definition canonicalPosition :: "'d lib \<Rightarrow> 'd ProjectionPosition \<Rightarrow> json" where
  "canonicalPosition L p = JObject
    [(''instrument_id'', JString (uuid_String L (Position_InstrumentID p))),
     (''open'', JBool (Position_Open p)),
     (''quantity'', JString (decimal_String L (Position_Quantity p))),
     (''remaining_opening_cash'', JString (decimal_String L (Position_RemainingOpeningCash p))),
     (''realized_pnl'', JString (decimal_String L (Position_RealizedPnL p))),
     (''market_value'', JString (decimal_String L (Position_MarketValue p))),
     (''unrealized_pnl'', JString (decimal_String L (Position_UnrealizedPnL p))),
     (''mark_observation_id'', JString (projectionUUID L (Position_MarkObservationID p))),
     (''open_lot_count'', JNumber (itoa (Position_OpenLotCount p)))]"

definition canonicalTotals :: "'d lib \<Rightarrow> 'd ProjectionTotals \<Rightarrow> json" where
  "canonicalTotals L t = JObject
    [(''cash'', JString (decimal_String L (Totals_Cash t))),
     (''net_capital'', JString (decimal_String L (Totals_NetCapital t))),
     (''fees'', JString (decimal_String L (Totals_Fees t))),
     (''rebates'', JString (decimal_String L (Totals_Rebates t))),
     (''realized_pnl'', JString (decimal_String L (Totals_RealizedPnL t))),
     (''unrealized_pnl'', JString (decimal_String L (Totals_UnrealizedPnL t))),
     (''market_value'', JString (decimal_String L (Totals_MarketValue t))),
     (''equity'', JString (decimal_String L (Totals_Equity t))),
     (''total_pnl'', JString (decimal_String L (Totals_TotalPnL t)))]"

definition marshalProjectionPayload :: "'d lib \<Rightarrow> 'd PortfolioProjection \<Rightarrow> projection_error + string" where
  "marshalProjectionPayload L p =
    and_then (canonicalProjectionMarks L (Projection_Marks p)) (\<lambda>canonicalMarks.
      Inr (json_Marshal L (JObject
        [(''checkpoint_id'', JString (uuid_String L (Projection_CheckpointID p))),
         (''projection_type'', JString (Projection_ProjectionType p)),
         (''version'', JString (Projection_Version p)),
         (''fifo'', JString (Projection_FIFO p)),
         (''account_id'', JString (uuid_String L (Projection_AccountID p))),
         (''base_currency'', JString (Projection_BaseCurrency p)),
         (''as_of'', JString (projectionTime (Projection_AsOf p))),
         (''mark_source'', JString (Projection_MarkSource p)),
         (''mark_namespace'', JString (Projection_MarkNamespace p)),
         (''max_mark_age_microseconds'', age_microseconds (Projection_MaxMarkAge p)),
         (''through_transaction_id'', JString (uuid_String L (Projection_ThroughTransactionID p))),
         (''transaction_count'', JNumber (itoa (Projection_TransactionCount p))),
         (''input_checksum'', JString (Projection_InputChecksum p)),
         (''marks'', JArray canonicalMarks),
         (''lots'', JArray (map (canonicalLot L) (Projection_Lots p))),
         (''matches'', JArray (map (canonicalMatch L) (Projection_Matches p))),
         (''positions'', JArray (map (canonicalPosition L) (Projection_Positions p))),
         (''totals'', canonicalTotals L (Projection_Totals p))])))"

section \<open>The rebuild\<close>

text \<open>The replay of \<open>BuildPortfolioProjection\<close>: the sorted eligible transactions, their mechanics and the state.\<close>

definition projectionReplay ::
    "('d::linordered_idom) lib \<Rightarrow> ProjectionRequest \<Rightarrow> string \<Rightarrow> 'd ProjectionInput \<Rightarrow>
     projection_error + ('d Transaction list \<times> (uuid \<times> 'd ProjectionMechanics) list \<times> 'd projectionState)" where
  "projectionReplay L request currency input =
    and_then (eligibleTransactions L request (Input_Transactions input)) (\<lambda>eligible.
    ensure (guard (eligible = []) ProjectionNoTransactions)
    (let transactions = sort_by (projectionTransactionLess L) eligible in
     and_then (eligibleProjectionMechanics L (Input_Mechanics input) transactions) (\<lambda>mechanicsByTransaction.
     and_then (replay (projectTransaction L currency mechanicsByTransaction) empty_state transactions) (\<lambda>state.
       Inr (transactions, mechanicsByTransaction, state)))))"

definition newProjection ::
    "ProjectionRequest \<Rightarrow> string \<Rightarrow> 'd Transaction list \<Rightarrow> 'd projectionState \<Rightarrow> 'd ProjectionMark list \<Rightarrow>
     'd ProjectionPosition list \<Rightarrow> 'd ProjectionTotals \<Rightarrow> string \<Rightarrow> 'd PortfolioProjection" where
  "newProjection request currency transactions state marks positions totals inputChecksum =
    \<lparr>Projection_CheckpointID = uuid_Nil,
     Projection_ProjectionType = PortfolioProjectionType,
     Projection_Version = PortfolioProjectionVersion,
     Projection_FIFO = ProjectionFIFO,
     Projection_AccountID = Request_AccountID request,
     Projection_BaseCurrency = currency,
     Projection_AsOf = Request_AsOf request,
     Projection_MarkSource = Request_MarkSource request,
     Projection_MarkNamespace = Request_MarkNamespace request,
     Projection_MaxMarkAge = Request_MaxMarkAge request,
     Projection_ThroughTransactionID = Transaction_ID (last transactions),
     Projection_TransactionCount = length transactions,
     Projection_InputChecksum = inputChecksum,
     Projection_OutputChecksum = [],
     Projection_Marks = marks,
     Projection_Lots = lots state,
     Projection_Matches = matches state,
     Projection_Positions = positions,
     Projection_Totals = totals,
     Projection_PayloadBytes = []\<rparr>"

definition BuildPortfolioProjection ::
    "('d::linordered_idom) lib \<Rightarrow> 'd ProjectionInput \<Rightarrow> projection_error + 'd PortfolioProjection" where
  "BuildPortfolioProjection L input =
    and_then (normalizeProjectionBoundary L (Input_Request input) (Input_BaseCurrency input)) (\<lambda>(request, currency).
    and_then (projectionReplay L request currency input) (\<lambda>(transactions, mechanicsByTransaction, state).
    and_then (finalize L state request currency (Input_Marks input)) (\<lambda>(marks, positions, totals).
    and_then (projectionInputChecksum L request currency transactions mechanicsByTransaction marks) (\<lambda>inputChecksum.
    let p0 = newProjection request currency transactions state marks positions totals inputChecksum;
        p1 = p0\<lparr>Projection_CheckpointID := projectionCheckpointID L p0\<rparr>
    in and_then (marshalProjectionPayload L p1) (\<lambda>payloadBytes.
         Inr (p1\<lparr>Projection_PayloadBytes := payloadBytes,
                 Projection_OutputChecksum := sha256Hex L payloadBytes\<rparr>))))))"

section \<open>Checkpoints\<close>

record ProjectionCheckpoint =
  Checkpoint_ID :: uuid
  Checkpoint_AccountID :: uuid
  Checkpoint_ProjectionType :: string
  Checkpoint_ThroughTransactionID :: uuid
  Checkpoint_ProjectionVersion :: string
  Checkpoint_AsOf :: time
  Checkpoint_FIFO :: string
  Checkpoint_BaseCurrency :: string
  Checkpoint_MarkSource :: string
  Checkpoint_MarkNamespace :: string
  Checkpoint_MaxMarkAge :: int
  Checkpoint_TransactionCount :: nat
  Checkpoint_MarkCount :: nat
  Checkpoint_LotCount :: nat
  Checkpoint_MatchCount :: nat
  Checkpoint_PositionCount :: nat
  Checkpoint_InputChecksum :: string
  Checkpoint_OutputChecksum :: string
  Checkpoint_PayloadBytes :: string
  Checkpoint_AttestationKeyID :: string
  Checkpoint_AttestationHMAC :: string
  Checkpoint_CreatedAt :: time

definition Checkpoint :: "'d PortfolioProjection option \<Rightarrow> ProjectionCheckpoint option" where
  "Checkpoint projection = map_option (\<lambda>p.
    \<lparr>Checkpoint_ID = Projection_CheckpointID p,
     Checkpoint_AccountID = Projection_AccountID p,
     Checkpoint_ProjectionType = Projection_ProjectionType p,
     Checkpoint_ThroughTransactionID = Projection_ThroughTransactionID p,
     Checkpoint_ProjectionVersion = Projection_Version p,
     Checkpoint_AsOf = Projection_AsOf p,
     Checkpoint_FIFO = Projection_FIFO p,
     Checkpoint_BaseCurrency = Projection_BaseCurrency p,
     Checkpoint_MarkSource = Projection_MarkSource p,
     Checkpoint_MarkNamespace = Projection_MarkNamespace p,
     Checkpoint_MaxMarkAge = Projection_MaxMarkAge p,
     Checkpoint_TransactionCount = Projection_TransactionCount p,
     Checkpoint_MarkCount = length (Projection_Marks p),
     Checkpoint_LotCount = length (Projection_Lots p),
     Checkpoint_MatchCount = length (Projection_Matches p),
     Checkpoint_PositionCount = length (Projection_Positions p),
     Checkpoint_InputChecksum = Projection_InputChecksum p,
     Checkpoint_OutputChecksum = Projection_OutputChecksum p,
     Checkpoint_PayloadBytes = Projection_PayloadBytes p,
     Checkpoint_AttestationKeyID = [],
     Checkpoint_AttestationHMAC = [],
     Checkpoint_CreatedAt = time_zero\<rparr>) projection"

definition isProjectionAttestationKeyID :: "'d lib \<Rightarrow> string \<Rightarrow> bool" where
  "isProjectionAttestationKeyID L value \<longleftrightarrow>
     value \<noteq> [] \<and> length value \<le> 128 \<and> value = TrimSpace value \<and> value = ToLower L value \<and>
     list_all (\<lambda>(index, c).
       CHR ''a'' \<le> c \<and> c \<le> CHR ''z'' \<or> CHR ''0'' \<le> c \<and> c \<le> CHR ''9'' \<or>
       index > 0 \<and> (c = CHR ''.'' \<or> c = CHR ''_'' \<or> c = CHR ''-'')) (enumerate 0 value)"

end
