(* ===== verification/Projection_Invariants.thy ===== *)
theory Projection_Invariants
  imports Projection_Payload
begin

text \<open>
  Proofs about the portfolio rebuild: the accounting identity, lot bookkeeping and FIFO order hold
  in every state the replay reaches, for any rounding and division the decimal library performs.
\<close>

section \<open>Sums over updated lists\<close>

lemma sum_where_update:
  fixes f :: "'a \<Rightarrow> 'd::ab_group_add"
  assumes "i < length xs" and "P x = P (xs ! i)"
  shows "sum_where P f (xs[i := x]) = sum_where P f xs + (if P (xs ! i) then f x - f (xs ! i) else 0)"
  using assms
proof (induction xs arbitrary: i)
  case (Cons y ys)
  then show ?case by (cases i) (auto simp: algebra_simps)
qed simp

definition lot_cash :: "('d::linordered_idom) ProjectionLot list \<Rightarrow> 'd" where
  "lot_cash ls = sum_where (\<lambda>l. True) Lot_RemainingOpeningCash ls"

definition lot_quantity :: "uuid \<Rightarrow> ('d::linordered_idom) ProjectionLot list \<Rightarrow> 'd" where
  "lot_quantity i ls = sum_where (lot_of i) Lot_RemainingQuantity ls"

section \<open>Closing a lot\<close>

definition opposite :: "uuid \<Rightarrow> ('d::linordered_idom) \<Rightarrow> 'd ProjectionLot \<Rightarrow> bool" where
  "opposite i mv lot \<longleftrightarrow>
     Lot_InstrumentID lot = i \<and> Lot_RemainingQuantity lot \<noteq> 0 \<and> sgn (Lot_RemainingQuantity lot) \<noteq> sgn mv"

definition closable :: "uuid \<Rightarrow> ('d::linordered_idom) \<Rightarrow> 'd ProjectionLot \<Rightarrow> 'd \<Rightarrow> bool" where
  "closable i mv lot q \<longleftrightarrow> mv \<noteq> 0 \<and> opposite i mv lot \<and> 0 < q \<and> q \<le> \<bar>Lot_RemainingQuantity lot\<bar>"

text \<open>Every lot keeps its instrument and its side, and zero quantity means no opening cash.\<close>

definition shrinks :: "('d::linordered_idom) ProjectionLot \<Rightarrow> 'd ProjectionLot \<Rightarrow> bool" where
  "shrinks l l' \<longleftrightarrow> Lot_InstrumentID l' = Lot_InstrumentID l \<and>
     (0 \<le> Lot_RemainingQuantity l \<longrightarrow> 0 \<le> Lot_RemainingQuantity l') \<and>
     (Lot_RemainingQuantity l \<le> 0 \<longrightarrow> Lot_RemainingQuantity l' \<le> 0)"

definition zero_clean :: "('d::linordered_idom) ProjectionLot list \<Rightarrow> bool" where
  "zero_clean ls \<longleftrightarrow> list_all (\<lambda>l. Lot_RemainingQuantity l = 0 \<longrightarrow> Lot_RemainingOpeningCash l = 0) ls"

definition one_sided :: "('d::linordered_idom) ProjectionLot list \<Rightarrow> bool" where
  "one_sided ls \<longleftrightarrow>
     (\<forall>i. (\<forall>l \<in> set ls. lot_of i l \<longrightarrow> 0 \<le> Lot_RemainingQuantity l) \<or>
          (\<forall>l \<in> set ls. lot_of i l \<longrightarrow> Lot_RemainingQuantity l \<le> 0))"

lemma shrinks_refl [simp]: "shrinks l l"
  by (simp add: shrinks_def)

lemma shrinks_trans: "shrinks l m \<Longrightarrow> shrinks m n \<Longrightarrow> shrinks l n"
  by (auto simp: shrinks_def)

lemma closable_cases:
  assumes "closable i mv lot q"
  obtains "0 < mv" and "Lot_RemainingQuantity lot < 0" and "q \<le> - Lot_RemainingQuantity lot" and "sgn mv = 1" and "0 < q"
  | "mv < 0" and "0 < Lot_RemainingQuantity lot" and "q \<le> Lot_RemainingQuantity lot" and "sgn mv = - 1" and "0 < q"
  using assms by (auto simp: closable_def opposite_def sgn_if split: if_splits)

lemma closeLot_sel [simp]:
  "Lot_InstrumentID (closeLot lot mv q oc) = Lot_InstrumentID lot"
  "Lot_RemainingQuantity (closeLot lot mv q oc) = Lot_RemainingQuantity lot + sgn mv * q"
  by (simp_all add: closeLot_def Let_def)

lemma closeLot_shrinks: "closable i mv lot q \<Longrightarrow> shrinks lot (closeLot lot mv q oc)"
  by (erule closable_cases) (auto simp: shrinks_def)

lemma closeLot_zero_iff:
  "closable i mv lot q \<Longrightarrow> Lot_RemainingQuantity lot + sgn mv * q = 0 \<longleftrightarrow> q = \<bar>Lot_RemainingQuantity lot\<bar>"
  by (erule closable_cases) auto

lemma closeLot_cash:
  "closable i mv lot q \<Longrightarrow>
   Lot_RemainingOpeningCash (closeLot lot mv q (releasedOpeningCash L lot q)) =
   Lot_RemainingOpeningCash lot - releasedOpeningCash L lot q"
  using closeLot_zero_iff [of i mv lot q] by (auto simp: closeLot_def releasedOpeningCash_def Let_def)

lemma closeLot_clean:
  "Lot_RemainingQuantity (closeLot lot mv q oc) = 0 \<Longrightarrow> Lot_RemainingOpeningCash (closeLot lot mv q oc) = 0"
  by (simp add: closeLot_def Let_def)

section \<open>Choosing the lots to close\<close>

lemma closeSegments_spec:
  assumes "closeSegments i mv rem idx ls = (segs, rest)" and "mv \<noteq> 0" and "rem \<noteq> 0" and "sgn rem = sgn mv"
  shows "(\<forall>s \<in> set segs. idx \<le> fst s \<and> fst s < idx + length ls \<and> closable i mv (ls ! (fst s - idx)) (snd s)) \<and>
    distinct (map fst segs) \<and>
    rest = rem - sgn mv * sum_list (map snd segs) \<and> (rest = 0 \<or> sgn rest = sgn mv) \<and>
    (rest \<noteq> 0 \<longrightarrow> (\<forall>k < length ls. opposite i mv (ls ! k) \<longrightarrow> (idx + k, \<bar>Lot_RemainingQuantity (ls ! k)\<bar>) \<in> set segs))"
  using assms
proof (induction i mv rem idx ls arbitrary: segs rest rule: closeSegments.induct)
  case (2 i mv rem idx lot ls)
  show ?case
  proof (cases "opposite i mv lot")
    case False
    then have skip: "Lot_InstrumentID lot \<noteq> i \<or> Lot_RemainingQuantity lot = 0 \<or> sgn (Lot_RemainingQuantity lot) = sgn mv"
      by (auto simp: opposite_def)
    with "2.prems" have "closeSegments i mv rem (Suc idx) ls = (segs, rest)" by auto
    from "2.IH"(1) [OF skip this "2.prems"(2-4)] False show ?thesis
      by (fastforce simp: nth_Cons' less_Suc_eq_0_disj Suc_le_eq)
  next
    case True
    then have noskip: "\<not> (Lot_InstrumentID lot \<noteq> i \<or> Lot_RemainingQuantity lot = 0 \<or> sgn (Lot_RemainingQuantity lot) = sgn mv)"
      by (auto simp: opposite_def)
    define q where "q = min \<bar>Lot_RemainingQuantity lot\<bar> \<bar>rem\<bar>"
    define rem' where "rem' = rem - sgn mv * q"
    have clos: "closable i mv lot q" using True "2.prems"(2,3) by (auto simp: closable_def opposite_def q_def)
    have sgn': "rem' = 0 \<or> sgn rem' = sgn mv"
      using "2.prems"(2-4) by (auto simp: rem'_def q_def sgn_if min_def abs_if split: if_splits)
    have full: "rem' \<noteq> 0 \<Longrightarrow> q = \<bar>Lot_RemainingQuantity lot\<bar>"
      using "2.prems"(2-4) by (auto simp: rem'_def q_def sgn_if min_def abs_if split: if_splits)
    show ?thesis
    proof (cases "rem' = 0")
      case True
      with "2.prems"(1) noskip have "segs = [(idx, q)]" "rest = rem'"
        by (auto simp: Let_def q_def rem'_def)
      with True clos show ?thesis by (simp add: rem'_def)
    next
      case False
      obtain segs' rest' where rec: "closeSegments i mv rem' (Suc idx) ls = (segs', rest')" by fastforce
      with "2.prems"(1) noskip False have segs: "segs = (idx, q) # segs'" "rest = rest'"
        by (auto simp: Let_def q_def rem'_def split: if_splits)
      note IH = "2.IH"(2) [OF noskip q_def rem'_def False rec "2.prems"(2) False]
      have IH1: "Suc idx \<le> fst s \<and> fst s < Suc idx + length ls \<and> closable i mv (ls ! (fst s - Suc idx)) (snd s)"
        if "s \<in> set segs'" for s using IH sgn' False that by blast
      have IH2: "distinct (map fst segs')" "rest' = rem' - sgn mv * sum_list (map snd segs')"
        "rest' = 0 \<or> sgn rest' = sgn mv"
        using IH sgn' False by blast+
      have IH3: "(Suc idx + k, \<bar>Lot_RemainingQuantity (ls ! k)\<bar>) \<in> set segs'"
        if "rest' \<noteq> 0" "k < length ls" "opposite i mv (ls ! k)" for k
        using IH sgn' False that by blast
      have "idx \<le> fst s \<and> fst s < idx + length (lot # ls) \<and> closable i mv ((lot # ls) ! (fst s - idx)) (snd s)"
        if "s \<in> set segs" for s
        using that clos IH1 [of s] unfolding segs(1) by (auto simp: nth_Cons' Suc_le_eq)
      moreover have "distinct (map fst segs)" using IH1 IH2(1) unfolding segs(1) by fastforce
      moreover have "rest = rem - sgn mv * sum_list (map snd segs)" "rest = 0 \<or> sgn rest = sgn mv"
        using IH2(2,3) unfolding segs rem'_def by (simp_all add: algebra_simps)
      moreover have "(idx + k, \<bar>Lot_RemainingQuantity ((lot # ls) ! k)\<bar>) \<in> set segs"
        if "rest \<noteq> 0" "k < length (lot # ls)" "opposite i mv ((lot # ls) ! k)" for k
        using that full [OF False] IH3 [of "k - 1"] unfolding segs by (cases k) auto
      ultimately show ?thesis by blast
    qed
  qed
qed (auto simp: algebra_simps)

section \<open>Closing the chosen lots\<close>

text \<open>What an update of one lot by a close does to the list of lots.\<close>

lemma close_update:
  fixes L :: "('d::linordered_idom) lib"
  assumes j: "j < length ls" and c: "closable i mv (ls ! j) q"
    and ls': "ls' = ls[j := closeLot (ls ! j) mv q (releasedOpeningCash L (ls ! j) q)]"
  shows "lot_cash ls' = lot_cash ls - releasedOpeningCash L (ls ! j) q"
    and "lot_quantity k ls' = lot_quantity k ls + (if k = i then sgn mv * q else 0)"
    and "list_all2 shrinks ls ls'"
    and "zero_clean ls \<Longrightarrow> zero_clean ls'"
proof -
  have i: "Lot_InstrumentID (ls ! j) = i" using c by (simp add: closable_def opposite_def)
  show "lot_cash ls' = lot_cash ls - releasedOpeningCash L (ls ! j) q"
    using j by (simp add: lot_cash_def ls' sum_where_update closeLot_cash [OF c])
  show "lot_quantity k ls' = lot_quantity k ls + (if k = i then sgn mv * q else 0)"
    using j i by (simp add: lot_quantity_def ls' sum_where_update)
  show "list_all2 shrinks ls ls'"
    using j closeLot_shrinks [OF c]
    by (auto simp: ls' list_all2_conv_all_nth nth_list_update)
  show "zero_clean ls'" if "zero_clean ls"
    using that j closeLot_clean
    by (auto simp: zero_clean_def ls' list_all_length nth_list_update)
qed

lemma shrinks_list_trans: "list_all2 shrinks xs ys \<Longrightarrow> list_all2 shrinks ys zs \<Longrightarrow> list_all2 shrinks xs zs"
  by (rule list_all2_trans [OF shrinks_trans])

lemma shrinks_list_refl [simp]: "list_all2 shrinks xs xs"
  by (simp add: list_all2_conv_all_nth)

lemma one_sided_shrinks: "list_all2 shrinks ls ls' \<Longrightarrow> one_sided ls \<Longrightarrow> one_sided ls'"
  unfolding one_sided_def list_all2_conv_all_nth shrinks_def all_set_conv_all_nth
  by (metis)

lemma allocate_conserves:
  "allocateProjectionAmount L amount q tot rc rq final = (allocated, rc', rq') \<Longrightarrow> allocated + rc' = rc"
  by (auto simp: allocateProjectionAmount_def Let_def split: if_splits)

abbreviation same_accounts :: "'d projectionState \<Rightarrow> 'd projectionState \<Rightarrow> bool" where
  "same_accounts s s' \<equiv> activity s' = activity s \<and> cash s' = cash s \<and> netCapital s' = netCapital s \<and>
     fees s' = fees s \<and> rebates s' = rebates s"

lemma applySegments_spec:
  assumes "applySegments L t m i mv ec d n s rc rq idx segs = (s', rc')"
    and "distinct (map fst segs)"
    and "\<And>x. x \<in> set segs \<Longrightarrow> fst x < length (lots s) \<and> closable i mv (lots s ! fst x) (snd x)"
  shows "same_accounts s s' \<and>
    realized s' + lot_cash (lots s') + rc' = realized s + lot_cash (lots s) + rc \<and>
    list_all2 shrinks (lots s) (lots s') \<and> (zero_clean (lots s) \<longrightarrow> zero_clean (lots s')) \<and>
    (\<forall>k. lot_quantity k (lots s') = lot_quantity k (lots s) + (if k = i then sgn mv * sum_list (map snd segs) else 0)) \<and>
    (\<forall>j < length (lots s). j \<notin> fst ` set segs \<longrightarrow> lots s' ! j = lots s ! j) \<and>
    (\<forall>x \<in> set segs. Lot_RemainingQuantity (lots s' ! fst x) = Lot_RemainingQuantity (lots s ! fst x) + sgn mv * snd x) \<and>
    (idx + length segs = n \<longrightarrow> segs \<noteq> [] \<longrightarrow> rc' = 0)"
  using assms
proof (induction segs arbitrary: s rc rq idx)
  case (Cons x segs)
  obtain j q where x: "x = (j, q)" by fastforce
  define lot where "lot = lots s ! j"
  obtain cc rc1 rq1 where alloc: "allocateProjectionAmount L ec q \<bar>mv\<bar> rc rq (idx = n - 1) = (cc, rc1, rq1)"
    by (metis prod_cases3)
  define oc where "oc = releasedOpeningCash L lot q"
  define s1 where "s1 = s\<lparr>lots := (lots s)[j := closeLot lot mv q oc], realized := realized s + (oc + cc),
      matches := matches s @ [newMatch L t m i idx lot q oc cc (oc + cc) d]\<rparr>"
  from Cons.prems(1) have run: "applySegments L t m i mv ec d n s1 rc1 rq1 (Suc idx) segs = (s', rc')"
    using alloc by (simp add: x Let_def lot_def oc_def s1_def)
  have j: "j < length (lots s)" and c: "closable i mv lot q" using Cons.prems(3) [of x] by (auto simp: x lot_def)
  note upd = close_update [where L = L, OF j c [unfolded lot_def] refl, folded lot_def, folded oc_def]
  have lots1: "lots s1 = (lots s)[j := closeLot lot mv q oc]" by (simp add: s1_def)
  have other: "fst y \<noteq> j" if "y \<in> set segs" for y using that Cons.prems(2) by (force simp: x)
  have "fst y < length (lots s1) \<and> closable i mv (lots s1 ! fst y) (snd y)" if "y \<in> set segs" for y
    using Cons.prems(3) [of y] other [OF that] that by (simp add: lots1)
  note IH = Cons.IH [OF run _ this]
  have d: "distinct (map fst segs)" using Cons.prems(2) by simp
  have pres: "lots s' ! j = closeLot lot mv q oc"
  proof -
    have "j \<notin> fst ` set segs" using other by auto
    with IH [OF d] j show ?thesis by (simp add: lots1)
  qed
  have "realized s' + lot_cash (lots s') + rc' = realized s + lot_cash (lots s) + rc"
    using IH [OF d] upd(1) allocate_conserves [OF alloc] by (simp add: lots1 s1_def algebra_simps)
  moreover have "list_all2 shrinks (lots s) (lots s')"
    using IH [OF d] upd(3) shrinks_list_trans by (auto simp: lots1)
  moreover have "zero_clean (lots s) \<longrightarrow> zero_clean (lots s')"
    using IH [OF d] upd(4) by (auto simp: lots1)
  moreover have "lot_quantity k (lots s') =
      lot_quantity k (lots s) + (if k = i then sgn mv * sum_list (map snd (x # segs)) else 0)" for k
    using IH [OF d] upd(2) [of k] by (simp add: lots1 x algebra_simps)
  moreover have "lots s' ! k = lots s ! k" if "k < length (lots s)" "k \<notin> fst ` set (x # segs)" for k
    using IH [OF d] that by (simp add: lots1 x)
  moreover have "Lot_RemainingQuantity (lots s' ! fst y) = Lot_RemainingQuantity (lots s ! fst y) + sgn mv * snd y"
    if "y \<in> set (x # segs)" for y
  proof (cases "y = x")
    case True
    with pres show ?thesis by (simp add: x lot_def)
  next
    case False
    with that have y: "y \<in> set segs" by simp
    with IH [OF d] other [OF y] show ?thesis by (simp add: lots1)
  qed
  moreover have "rc' = 0" if "idx + length (x # segs) = n"
  proof (cases "segs = []")
    case True
    with that alloc have "rc1 = 0" by (auto simp: allocateProjectionAmount_def)
    with run True show ?thesis by simp
  next
    case False
    with IH [OF d] that show ?thesis by simp
  qed
  ultimately show ?case using IH [OF d] by (simp add: s1_def)
qed simp

section \<open>One movement\<close>

definition book_value :: "('d::linordered_idom) projectionState \<Rightarrow> 'd" where
  "book_value s = realized s + lot_cash (lots s)"

definition lots_ok :: "('d::linordered_idom) projectionState \<Rightarrow> bool" where
  "lots_ok s \<longleftrightarrow> zero_clean (lots s) \<and> one_sided (lots s) \<and> Lot_InstrumentID ` set (lots s) \<subseteq> set (activity s) \<and>
     distinct (activity s)"

lemma shrinks_instruments:
  "list_all2 shrinks ls ls' \<Longrightarrow> Lot_InstrumentID ` set ls' = Lot_InstrumentID ` set ls"
proof -
  assume "list_all2 shrinks ls ls'"
  then have "map Lot_InstrumentID ls' = map Lot_InstrumentID ls"
    by (induction rule: list_all2_induct) (auto simp: shrinks_def)
  then show ?thesis by (metis list.set_map)
qed

lemma add_activity_sel [simp]:
  "lots (add_activity i s) = lots s" "realized (add_activity i s) = realized s" "cash (add_activity i s) = cash s"
  "netCapital (add_activity i s) = netCapital s" "fees (add_activity i s) = fees s"
  "rebates (add_activity i s) = rebates s" "matches (add_activity i s) = matches s"
  "set (activity (add_activity i s)) = insert i (set (activity s))"
  "distinct (activity (add_activity i s)) = distinct (activity s)"
  by (simp_all add: add_activity_def)

lemma openLot_effect:
  "realized (openLot L s t m i q c k) = realized s" "cash (openLot L s t m i q c k) = cash s"
  "netCapital (openLot L s t m i q c k) = netCapital s" "fees (openLot L s t m i q c k) = fees s"
  "rebates (openLot L s t m i q c k) = rebates s" "activity (openLot L s t m i q c k) = activity s"
  "\<exists>l. lots (openLot L s t m i q c k) = lots s @ [l] \<and> Lot_InstrumentID l = i \<and> Lot_RemainingQuantity l = q \<and>
     Lot_RemainingOpeningCash l = c"
  by (simp_all add: openLot_def Let_def)

lemma lot_sums_append [simp]:
  "lot_cash (ls @ ls') = lot_cash ls + lot_cash ls'"
  "lot_quantity k (ls @ ls') = lot_quantity k ls + lot_quantity k ls'"
  by (simp_all add: lot_cash_def lot_quantity_def)

text \<open>A new lot keeps the sides apart when every lot of its instrument is empty or on its side.\<close>

lemma one_sided_snoc:
  assumes "one_sided ls" and "\<And>l'. l' \<in> set ls \<Longrightarrow> Lot_InstrumentID l' = Lot_InstrumentID l \<Longrightarrow>
      Lot_RemainingQuantity l' = 0 \<or> sgn (Lot_RemainingQuantity l') = sgn (Lot_RemainingQuantity l)"
  shows "one_sided (ls @ [l])"
proof -
  have "(\<forall>l' \<in> set (ls @ [l]). lot_of k l' \<longrightarrow> 0 \<le> Lot_RemainingQuantity l') \<or>
        (\<forall>l' \<in> set (ls @ [l]). lot_of k l' \<longrightarrow> Lot_RemainingQuantity l' \<le> 0)" for k
  proof (cases "k = Lot_InstrumentID l")
    case True
    have side: "0 < Lot_RemainingQuantity l \<Longrightarrow> 0 \<le> Lot_RemainingQuantity l'"
      "Lot_RemainingQuantity l \<le> 0 \<Longrightarrow> Lot_RemainingQuantity l' \<le> 0"
      if "l' \<in> set ls" "lot_of k l'" for l'
      using assms(2) [of l'] that True by (auto simp: sgn_if split: if_splits)
    show ?thesis
    proof (cases "0 < Lot_RemainingQuantity l")
      case True
      then show ?thesis using side(1) by auto
    next
      case False
      then show ?thesis using side(2) by auto
    qed
  next
    case False
    with assms(1) show ?thesis by (auto simp: one_sided_def)
  qed
  then show ?thesis by (simp add: one_sided_def)
qed

lemma applyMovement_split:
  assumes "applyMovement L s t m i mv ec mul d ex = Inr s'"
  obtains segs rest closed rc where "mv \<noteq> 0" and "0 < mul"
    and "closeSegments i mv mv 0 (lots s) = (segs, rest)"
    and "applySegments L t m i mv ec d (length segs + (if rest \<noteq> 0 then 1 else 0)) s ec \<bar>mv\<bar> 0 segs = (closed, rc)"
    and "segs \<noteq> [] \<or> rest \<noteq> 0" and "ex \<longrightarrow> rest = 0"
    and "s' = add_activity i (if rest \<noteq> 0 then openLot L closed t m i rest rc mul else closed)"
  using assms
  by (auto simp: applyMovement_def Let_def split: if_splits prod.splits)

lemma closeSegments_top:
  assumes "closeSegments i mv mv 0 ls = (segs, rest)" and "mv \<noteq> 0"
  shows "\<And>x. x \<in> set segs \<Longrightarrow> fst x < length ls \<and> closable i mv (ls ! fst x) (snd x)"
    and "distinct (map fst segs)" and "rest + sgn mv * sum_list (map snd segs) = mv" and "rest = 0 \<or> sgn rest = sgn mv"
    and "\<And>k. rest \<noteq> 0 \<Longrightarrow> k < length ls \<Longrightarrow> opposite i mv (ls ! k) \<Longrightarrow> (k, \<bar>Lot_RemainingQuantity (ls ! k)\<bar>) \<in> set segs"
  using closeSegments_spec [OF assms assms(2) refl] by auto

lemma opposite_closed: "opposite i mv lot \<Longrightarrow> mv \<noteq> 0 \<Longrightarrow> Lot_RemainingQuantity lot + sgn mv * \<bar>Lot_RemainingQuantity lot\<bar> = 0"
  by (auto simp: opposite_def sgn_if split: if_splits)

text \<open>When part of the movement is left over, every lot of the instrument is closed or on its side.\<close>

lemma closed_side:
  assumes segs: "closeSegments i mv mv 0 (lots s) = (segs, rest)"
    and run: "applySegments L t m i mv ec d n s ec \<bar>mv\<bar> 0 segs = (s1, rc)"
    and mv: "mv \<noteq> 0" and nz: "rest \<noteq> 0" and l': "l' \<in> set (lots s1)" "Lot_InstrumentID l' = i"
  shows "Lot_RemainingQuantity l' = 0 \<or> sgn (Lot_RemainingQuantity l') = sgn rest"
proof -
  note top = closeSegments_top [OF segs mv]
  note spec = applySegments_spec [OF run top(2,1)]
  have len: "length (lots s1) = length (lots s)" using spec by (metis list_all2_lengthD)
  from l' obtain k where k: "k < length (lots s)" "l' = lots s1 ! k" by (metis in_set_conv_nth len)
  have ik: "Lot_InstrumentID (lots s ! k) = i"
    using spec k l' by (simp add: list_all2_conv_all_nth shrinks_def)
  show ?thesis
  proof (cases "opposite i mv (lots s ! k)")
    case True
    have "(k, \<bar>Lot_RemainingQuantity (lots s ! k)\<bar>) \<in> set segs" by (rule top(5) [OF nz k(1) True])
    with spec have "Lot_RemainingQuantity l' = 0" using opposite_closed [OF True mv] by (fastforce simp: k)
    then show ?thesis ..
  next
    case False
    then have "k \<notin> fst ` set segs" using top(1) by (auto simp: closable_def)
    with spec k have "l' = lots s ! k" by simp
    with False ik top(4) nz show ?thesis by (auto simp: opposite_def)
  qed
qed

lemma applyMovement_spec:
  assumes run: "applyMovement L s t m i mv ec mul d ex = Inr s'" and ok: "lots_ok s"
  shows "lots_ok s'" and "book_value s' = book_value s + ec"
    and "lot_quantity k (lots s') = lot_quantity k (lots s) + (if k = i then mv else 0)"
    and "cash s' = cash s" and "netCapital s' = netCapital s" and "fees s' = fees s" and "rebates s' = rebates s"
proof -
  from run obtain segs rest closed rc where mv: "mv \<noteq> 0"
    and segs: "closeSegments i mv mv 0 (lots s) = (segs, rest)"
    and closed: "applySegments L t m i mv ec d (length segs + (if rest \<noteq> 0 then 1 else 0)) s ec \<bar>mv\<bar> 0 segs = (closed, rc)"
    and ne: "segs \<noteq> [] \<or> rest \<noteq> 0"
    and s': "s' = add_activity i (if rest \<noteq> 0 then openLot L closed t m i rest rc mul else closed)"
    by (rule applyMovement_split)
  note top = closeSegments_top [OF segs mv]
  note spec = applySegments_spec [OF closed top(2,1)]
  have clean: "zero_clean (lots closed)" and sided: "one_sided (lots closed)"
    using spec ok one_sided_shrinks by (auto simp: lots_ok_def)
  have instr: "Lot_InstrumentID ` set (lots closed) = Lot_InstrumentID ` set (lots s)"
    using spec shrinks_instruments by blast
  obtain l where l: "rest \<noteq> 0 \<Longrightarrow> lots s' = lots closed @ [l]" and li: "Lot_InstrumentID l = i"
      "Lot_RemainingQuantity l = rest" "Lot_RemainingOpeningCash l = rc"
    using openLot_effect(7) [of L closed t m i rest rc mul] s' by auto
  have keep: "rest = 0 \<Longrightarrow> lots s' = lots closed" by (simp add: s')
  note left = closed_side [OF segs closed mv]
  have "one_sided (lots s')"
  proof (cases "rest = 0")
    case False
    show ?thesis unfolding l [OF False] by (rule one_sided_snoc [OF sided]) (use left [OF False] li in auto)
  qed (simp add: keep sided)
  moreover have "zero_clean (lots s')" using clean l keep li by (cases "rest = 0") (auto simp: zero_clean_def)
  moreover have "Lot_InstrumentID ` set (lots s') \<subseteq> set (activity s')" "distinct (activity s')"
    using ok spec instr l keep li by (cases "rest = 0"; auto simp: lots_ok_def s' openLot_effect)+
  ultimately show "lots_ok s'" by (simp add: lots_ok_def)
  show "book_value s' = book_value s + ec"
    using spec ne l keep li by (cases "rest = 0") (auto simp: book_value_def s' openLot_effect lot_cash_def algebra_simps)
  show "lot_quantity k (lots s') = lot_quantity k (lots s) + (if k = i then mv else 0)"
    using spec top(3) l keep li by (cases "rest = 0") (auto simp: lot_quantity_def algebra_simps)
  show "cash s' = cash s" "netCapital s' = netCapital s" "fees s' = fees s" "rebates s' = rebates s"
    using spec by (simp_all add: s' openLot_effect)
qed

section \<open>Physical delivery\<close>

lemma transferLots_spec:
  assumes "transferLots L t m mv s rem tc ord idxs = (s', rem', tc')" and "mv \<noteq> 0" and "rem \<noteq> 0" and "sgn rem = sgn mv"
    and "\<And>j. j \<in> set idxs \<Longrightarrow> j < length (lots s)"
  shows "same_accounts s s' \<and> realized s' = realized s \<and>
    lot_cash (lots s') + tc' = lot_cash (lots s) + tc \<and>
    list_all2 shrinks (lots s) (lots s') \<and> (zero_clean (lots s) \<longrightarrow> zero_clean (lots s')) \<and>
    (\<forall>k. lot_quantity k (lots s') = lot_quantity k (lots s) + (if k = Mechanics_InstrumentID m then rem - rem' else 0))"
  using assms
proof (induction idxs arbitrary: s rem tc ord)
  case (Cons j idxs)
  define lot where "lot = lots s ! j"
  let ?i = "Mechanics_InstrumentID m"
  have j: "j < length (lots s)" using Cons.prems(5) by simp
  show ?case
  proof (cases "opposite ?i mv lot")
    case False
    then have "transferLots L t m mv s rem tc ord idxs = (s', rem', tc')"
      using Cons.prems(1) by (auto simp: opposite_def lot_def Let_def split: if_splits)
    then show ?thesis using Cons.IH Cons.prems(2-5) by simp
  next
    case True
    define q where "q = min \<bar>Lot_RemainingQuantity lot\<bar> \<bar>rem\<bar>"
    define oc where "oc = releasedOpeningCash L lot q"
    define s1 where "s1 = s\<lparr>lots := (lots s)[j := closeLot lot mv q oc],
        matches := matches s @ [newMatch L t m ?i ord lot q oc (- oc) 0 ''basis_transfer'']\<rparr>"
    define rem1 where "rem1 = rem - sgn mv * q"
    have c: "closable ?i mv lot q"
      using True Cons.prems(2,3) by (auto simp: closable_def opposite_def q_def)
    have sgn1: "rem1 = 0 \<or> sgn rem1 = sgn mv"
      using Cons.prems(2-4) by (auto simp: rem1_def q_def sgn_if min_def abs_if split: if_splits)
    note upd = close_update [where L = L, OF j c [unfolded lot_def] refl, folded lot_def, folded oc_def]
    have step: "(if rem1 = 0 then (s1, rem1, tc + oc) else transferLots L t m mv s1 rem1 (tc + oc) (Suc ord) idxs)
        = (s', rem', tc')"
      using Cons.prems(1) True unfolding s1_def rem1_def oc_def q_def lot_def
      by (simp add: opposite_def Let_def)
    have lots1: "lots s1 = (lots s)[j := closeLot lot mv q oc]" by (simp add: s1_def)
    show ?thesis
    proof (cases "rem1 = 0")
      case True
      with step upd show ?thesis by (auto simp: s1_def rem1_def algebra_simps)
    next
      case False
      then have "transferLots L t m mv s1 rem1 (tc + oc) (Suc ord) idxs = (s', rem', tc')" using step by simp
      note IH = Cons.IH [OF this Cons.prems(2) False]
      have "same_accounts s1 s' \<and> realized s' = realized s1 \<and> lot_cash (lots s') + tc' = lot_cash (lots s1) + (tc + oc) \<and>
          list_all2 shrinks (lots s1) (lots s') \<and> (zero_clean (lots s1) \<longrightarrow> zero_clean (lots s')) \<and>
          (\<forall>k. lot_quantity k (lots s') = lot_quantity k (lots s1) + (if k = ?i then rem1 - rem' else 0))"
        using sgn1 False Cons.prems(5) by (intro IH) (auto simp: lots1)
      with upd shrinks_list_trans show ?thesis by (auto simp: s1_def rem1_def algebra_simps)
    qed
  qed
qed simp

text \<open>The change of an instrument's quantity that the mechanics of a transaction stand for.\<close>

definition underlying_movement :: "('d::linordered_idom) ProjectionMechanics \<Rightarrow> 'd" where
  "underlying_movement m =
    (let product = the (Mechanics_PositionQuantity m) * the (Mechanics_DeliverableQuantity m)
     in if Mechanics_OptionContractType m = OptionContractPut then - product else product)"

definition mechanics_movement :: "uuid \<Rightarrow> ('d::linordered_idom) ProjectionMechanics \<Rightarrow> 'd" where
  "mechanics_movement k m =
    (let primary = (if k = Mechanics_InstrumentID m then 1 else 0);
         secondary = (if k = Mechanics_SecondaryInstrumentID m then 1 else 0)
     in case Mechanics_EventType m of
          EconomicEventFillBuy \<Rightarrow> primary * the (Mechanics_Quantity m)
        | EconomicEventFillSell \<Rightarrow> - (primary * the (Mechanics_Quantity m))
        | EconomicEventOptionCashSettlement \<Rightarrow> - (primary * the (Mechanics_PositionQuantity m))
        | EconomicEventOptionExpiration \<Rightarrow> - (primary * the (Mechanics_PositionQuantity m))
        | EconomicEventPredictionPayout \<Rightarrow> - (primary * the (Mechanics_PositionQuantity m))
        | EconomicEventOptionExercise \<Rightarrow>
            secondary * underlying_movement m - primary * the (Mechanics_PositionQuantity m)
        | EconomicEventOptionAssignment \<Rightarrow>
            secondary * underlying_movement m - primary * the (Mechanics_PositionQuantity m)
        | _ \<Rightarrow> 0)"

text \<open>What applying one economic event with cash \<open>ec\<close> and quantity change \<open>dq\<close> does to the state.\<close>

definition event_effect ::
    "('d::linordered_idom) projectionState \<Rightarrow> 'd \<Rightarrow> (uuid \<Rightarrow> 'd) \<Rightarrow> 'd projectionState \<Rightarrow> bool" where
  "event_effect s ec dq s' \<longleftrightarrow> lots_ok s' \<and> book_value s' = book_value s + ec \<and>
     (\<forall>k. lot_quantity k (lots s') = lot_quantity k (lots s) + dq k) \<and>
     cash s' = cash s \<and> netCapital s' = netCapital s \<and> fees s' = fees s \<and> rebates s' = rebates s"

lemma applyMovement_effect:
  "applyMovement L s t m i mv ec mul d ex = Inr s' \<Longrightarrow> lots_ok s \<Longrightarrow>
   event_effect s ec (\<lambda>k. if k = i then mv else 0) s'"
  by (simp add: event_effect_def applyMovement_spec)

text \<open>What each successful application amounts to.\<close>

lemma applyFillE:
  assumes "applyFill L s t m ec = Inr s'"
  obtains q price mv where "Mechanics_Quantity m = Some q" and "Mechanics_Price m = Some price" and "\<bar>mv\<bar> = q"
    and "Mechanics_EventType m = EconomicEventFillBuy \<longrightarrow> 0 < mv" and "Mechanics_EventType m = EconomicEventFillSell \<longrightarrow> mv < 0"
    and "applyMovement L s t m (Mechanics_InstrumentID m) mv ec (Mechanics_PrimaryMultiplier m) ''trade'' False = Inr s'"
proof -
  obtain q price where "Mechanics_Quantity m = Some q" "Mechanics_Price m = Some price"
    using assms by (cases "Mechanics_Quantity m"; cases "Mechanics_Price m") (auto simp: applyFill_def Let_def)
  with assms that show thesis by (auto simp: applyFill_def Let_def)
qed

lemma applySettlementE:
  assumes "applySettlement L s t m ec = Inr s'"
  obtains p price where "Mechanics_PositionQuantity m = Some p" and "Mechanics_SettlementPrice m = Some price"
    and "applyMovement L s t m (Mechanics_InstrumentID m) (- p) ec (Mechanics_PrimaryMultiplier m) ''settlement'' True = Inr s'"
proof -
  obtain p price where "Mechanics_PositionQuantity m = Some p" "Mechanics_SettlementPrice m = Some price"
    using assms by (cases "Mechanics_PositionQuantity m"; cases "Mechanics_SettlementPrice m")
      (auto simp: applySettlement_def split: if_splits)
  with assms that show thesis by (auto simp: applySettlement_def split: if_splits)
qed

lemma applyCostE:
  assumes "applyCost s t m ec = Inr s'"
  obtains "s' = s\<lparr>realized := realized s + ec\<rparr>"
  using assms by (cases "Mechanics_CostAmount m") (auto simp: applyCost_def)

lemma applyPhysicalOptionE:
  assumes "applyPhysicalOption L s t m ec = Inr s'"
  obtains p dlv strike s1 tc where "Mechanics_PositionQuantity m = Some p" and "Mechanics_DeliverableQuantity m = Some dlv"
    and "Mechanics_StrikePrice m = Some strike"
    and "transferLots L t m (- p) s (- p) 0 0 [0..<length (lots s)] = (s1, 0, tc)"
    and "applyMovement L (add_activity (Mechanics_InstrumentID m) s1) t m (Mechanics_SecondaryInstrumentID m)
        (underlying_movement m) (ec + tc) (Mechanics_SecondaryMultiplier m) ''physical_delivery'' False = Inr s'"
proof -
  obtain p dlv strike where m: "Mechanics_PositionQuantity m = Some p" "Mechanics_DeliverableQuantity m = Some dlv"
      "Mechanics_StrikePrice m = Some strike"
    using assms by (cases "Mechanics_PositionQuantity m"; cases "Mechanics_DeliverableQuantity m"; cases "Mechanics_StrikePrice m")
      (auto simp: applyPhysicalOption_def)
  with assms that show thesis
    by (auto simp: applyPhysicalOption_def underlying_movement_def Let_def split: if_splits prod.splits)
qed

lemma applyFill_effect:
  assumes "applyFill L s t m ec = Inr s'" and "lots_ok s" and "Mechanics_EventType m \<in> {EconomicEventFillBuy, EconomicEventFillSell}"
  shows "event_effect s ec (\<lambda>k. mechanics_movement k m) s'"
  using assms(1)
proof (cases rule: applyFillE)
  case (1 q price mv)
  then have "mechanics_movement k m = (if k = Mechanics_InstrumentID m then mv else 0)" for k
    using assms(3) by (auto simp: mechanics_movement_def)
  then show ?thesis using applyMovement_effect [OF 1(6) assms(2)] by simp
qed

lemma applySettlement_effect:
  assumes "applySettlement L s t m ec = Inr s'" and "lots_ok s"
    and "Mechanics_EventType m \<in> {EconomicEventOptionCashSettlement, EconomicEventOptionExpiration, EconomicEventPredictionPayout}"
  shows "event_effect s ec (\<lambda>k. mechanics_movement k m) s'"
  using assms(1)
proof (cases rule: applySettlementE)
  case (1 p price)
  then have "mechanics_movement k m = (if k = Mechanics_InstrumentID m then - p else 0)" for k
    using assms(3) by (auto simp: mechanics_movement_def)
  then show ?thesis using applyMovement_effect [OF 1(3) assms(2)] by simp
qed

lemma applyCost_effect:
  assumes "applyCost s t m ec = Inr s'" and "lots_ok s" and "Mechanics_EventType m \<in> {EconomicEventFee, EconomicEventRebate}"
  shows "event_effect s ec (\<lambda>k. mechanics_movement k m) s'"
  using assms(1)
proof (cases rule: applyCostE)
  case 1
  moreover have "mechanics_movement k m = 0" for k using assms(3) by (auto simp: mechanics_movement_def)
  ultimately show ?thesis using assms(2) by (simp add: event_effect_def lots_ok_def book_value_def)
qed

lemma applyPhysicalOption_effect:
  assumes run: "applyPhysicalOption L s t m ec = Inr s'" and ok: "lots_ok s"
    and kind: "Mechanics_EventType m \<in> {EconomicEventOptionExercise, EconomicEventOptionAssignment}"
    and nz: "Mechanics_PositionQuantity m \<noteq> Some 0"
  shows "event_effect s ec (\<lambda>k. mechanics_movement k m) s'"
  using run
proof (cases rule: applyPhysicalOptionE)
  case (1 p dlv strike s1 tc)
  let ?i = "Mechanics_InstrumentID m"
  have p: "- p \<noteq> 0" using nz 1 by simp
  have spec: "same_accounts s s1" "realized s1 = realized s" "lot_cash (lots s1) + tc = lot_cash (lots s)"
      "list_all2 shrinks (lots s) (lots s1)" "zero_clean (lots s) \<Longrightarrow> zero_clean (lots s1)"
      "\<And>k. lot_quantity k (lots s1) = lot_quantity k (lots s) + (if k = ?i then - p else 0)"
    using transferLots_spec [OF 1(4) p p refl] by auto
  have "lots_ok (add_activity ?i s1)"
    using ok spec one_sided_shrinks [OF spec(4)] shrinks_instruments [OF spec(4)] by (auto simp: lots_ok_def)
  note eff = applyMovement_effect [OF 1(5) this]
  have "book_value (add_activity ?i s1) + (ec + tc) = book_value s + ec"
    using spec by (simp add: book_value_def algebra_simps)
  moreover have "mechanics_movement k m = (if k = Mechanics_SecondaryInstrumentID m then underlying_movement m else 0)
      + (if k = ?i then - p else 0)" for k
    using kind 1 by (auto simp: mechanics_movement_def)
  ultimately show ?thesis using eff spec by (auto simp: event_effect_def algebra_simps)
qed

text \<open>The shape check of the mechanics gives every field the replay dereferences.\<close>

lemma mechanics_fields:
  assumes "ProjectionMechanics_Validate L m = None"
  shows "Mechanics_EventType m \<in> {EconomicEventFillBuy, EconomicEventFillSell} \<Longrightarrow>
      (\<exists>q. Mechanics_Quantity m = Some q) \<and> (\<exists>p. Mechanics_Price m = Some p)"
    and "Mechanics_EventType m \<in> {EconomicEventFee, EconomicEventRebate} \<Longrightarrow> \<exists>c. Mechanics_CostAmount m = Some c"
    and "Mechanics_EventType m \<in> {EconomicEventOptionCashSettlement, EconomicEventOptionExpiration, EconomicEventPredictionPayout} \<Longrightarrow>
      (\<exists>q. Mechanics_PositionQuantity m = Some q) \<and> (\<exists>p. Mechanics_SettlementPrice m = Some p)"
    and "Mechanics_EventType m \<in> {EconomicEventOptionExercise, EconomicEventOptionAssignment} \<Longrightarrow>
      (\<exists>q. Mechanics_PositionQuantity m = Some q \<and> q \<noteq> 0) \<and> (\<exists>d. Mechanics_DeliverableQuantity m = Some d) \<and>
      (\<exists>p. Mechanics_StrikePrice m = Some p)"
proof -
  from assms have shape: "mechanics_shape m = None" by (simp add: ProjectionMechanics_Validate_def)
  show "Mechanics_EventType m \<in> {EconomicEventFillBuy, EconomicEventFillSell} \<Longrightarrow>
      (\<exists>q. Mechanics_Quantity m = Some q) \<and> (\<exists>p. Mechanics_Price m = Some p)"
    using shape by (auto simp: mechanics_shape_def)
  show "Mechanics_EventType m \<in> {EconomicEventFee, EconomicEventRebate} \<Longrightarrow> \<exists>c. Mechanics_CostAmount m = Some c"
    using shape by (auto simp: mechanics_shape_def)
  show "Mechanics_EventType m \<in> {EconomicEventOptionCashSettlement, EconomicEventOptionExpiration, EconomicEventPredictionPayout} \<Longrightarrow>
      (\<exists>q. Mechanics_PositionQuantity m = Some q) \<and> (\<exists>p. Mechanics_SettlementPrice m = Some p)"
    using shape by (auto simp: mechanics_shape_def)
  show "Mechanics_EventType m \<in> {EconomicEventOptionExercise, EconomicEventOptionAssignment} \<Longrightarrow>
      (\<exists>q. Mechanics_PositionQuantity m = Some q \<and> q \<noteq> 0) \<and> (\<exists>d. Mechanics_DeliverableQuantity m = Some d) \<and>
      (\<exists>p. Mechanics_StrikePrice m = Some p)"
    using shape by (auto simp: mechanics_shape_def)
qed

lemma applyEconomicTransaction_effect:
  assumes run: "applyEconomicTransaction L s t m ec = Inr s'" and ok: "lots_ok s" and v: "ProjectionMechanics_Validate L m = None"
  shows "event_effect s ec (\<lambda>k. mechanics_movement k m) s'"
  using run
  by (cases "Mechanics_EventType m")
    (use ok mechanics_fields(4) [OF v] in \<open>auto simp: applyEconomicTransaction_def
      intro: applyFill_effect applyCost_effect applySettlement_effect applyPhysicalOption_effect\<close>)

end
