(* ===== verification/String_Lemmas.thy ===== *)
theory String_Lemmas
  imports Go_Prelude
begin

text \<open>
  Strings that \<open>strings.TrimSpace\<close> and \<open>strings.ToLower\<close> leave alone, and the digits of a count.  They are used where the
  code builds an identifier from fixed text and numbers and a constructor then normalizes it.
\<close>

section \<open>Trimming\<close>

lemma drop_prefixes_hd:
  assumes "s \<noteq> [] \<Longrightarrow> hd s \<notin> hd ` (set ws - {[]})"
  shows "drop_prefixes ws s = s"
proof (rule drop_prefixes_id)
  show "find (\<lambda>w. w \<noteq> [] \<and> prefix w s) ws = None"
    using assms by (force simp: find_None_iff prefix_def hd_append)
qed

lemma TrimSpace_id:
  assumes "s \<noteq> [] \<Longrightarrow> hd s \<notin> hd ` set unicode_spaces \<and> last s \<notin> last ` set unicode_spaces"
  shows "TrimSpace s = s"
proof -
  have front: "drop_prefixes unicode_spaces s = s" by (rule drop_prefixes_hd) (use assms in auto)
  have "drop_prefixes (map rev unicode_spaces) (rev s) = rev s"
  proof (rule drop_prefixes_hd)
    assume "rev s \<noteq> []"
    then show "hd (rev s) \<notin> hd ` (set (map rev unicode_spaces) - {[]})" using assms by (auto simp: hd_rev)
  qed
  with front show ?thesis by (simp add: TrimSpace_def)
qed

text \<open>No ASCII character from \<open>!\<close> on begins or ends a space of Unicode.\<close>

definition plain :: "char \<Rightarrow> bool" where
  "plain c \<longleftrightarrow> 32 < (of_char c :: nat) \<and> (of_char c :: nat) < 128"

lemma plain_not_space:
  "list_all (\<lambda>w. w \<noteq> [] \<and> \<not> plain (hd w) \<and> \<not> plain (last w)) unicode_spaces"
  by code_simp

lemma TrimSpace_plain_ends:
  assumes "s \<noteq> [] \<Longrightarrow> plain (hd s) \<and> plain (last s)"
  shows "TrimSpace s = s"
  using plain_not_space assms by (intro TrimSpace_id) (auto simp: list_all_iff)

lemma TrimSpace_plain: "list_all plain s \<Longrightarrow> TrimSpace s = s"
  by (rule TrimSpace_plain_ends) (auto simp: list_all_iff)

section \<open>Digits\<close>

lemma itoa_not_Nil [simp]: "itoa n \<noteq> []"
  by (subst itoa.simps) simp

lemma last_itoa: "last (itoa n) = char_of (48 + n mod 10)"
  by (subst itoa.simps) simp

lemma plain_last_itoa [simp]: "plain (last (itoa n))"
  by (simp add: last_itoa plain_def)

section \<open>Case\<close>

lemma ToLower_id: "ascii s \<Longrightarrow> list_all (\<lambda>c. ascii_lower c = c) s \<Longrightarrow> ToLower L s = s"
  by (simp add: ToLower_def list_all_iff map_idI)

end
