(* ===== verification/Ledger_Balance.thy ===== *)
theory Ledger_Balance
  imports Ledger_Normalization Demo_Library String_Lemmas
begin

text \<open>
  What the posting builders of \<open>economic_normalization.go\<close> guarantee: the contract shared by the
  four builders (locale \<open>posting_builder\<close>), the cash and inventory effect of each event type, and
  what the comparison of two ledger aggregates establishes.
\<close>

section \<open>The contract of a posting builder\<close>

fun opposite_pairs :: "('d::linordered_idom) PostingInput list \<Rightarrow> bool" where
  "opposite_pairs [] = True"
| "opposite_pairs [p] = False"
| "opposite_pairs (p # q # ps) \<longleftrightarrow>
     PostingInput_UnitKind q = PostingInput_UnitKind p \<and> PostingInput_Unit q = PostingInput_Unit p \<and>
     PostingInput_Amount q = - PostingInput_Amount p \<and> PostingInput_Amount p \<noteq> 0 \<and> opposite_pairs ps"

definition input_unit_total :: "UnitKind \<Rightarrow> string \<Rightarrow> 'd PostingInput list \<Rightarrow> 'd::linordered_idom" where
  "input_unit_total kind unit ps =
     sum_where (\<lambda>p. PostingInput_UnitKind p = kind \<and> PostingInput_Unit p = unit) PostingInput_Amount ps"

definition input_account_total :: "string \<Rightarrow> 'd PostingInput list \<Rightarrow> 'd::linordered_idom" where
  "input_account_total account ps =
     sum_where (\<lambda>p. PostingInput_LedgerAccount p = account) PostingInput_Amount ps"

lemma opposite_pairs_append: "opposite_pairs ps \<Longrightarrow> opposite_pairs qs \<Longrightarrow> opposite_pairs (ps @ qs)"
  by (induction ps rule: opposite_pairs.induct) auto

lemma opposite_pairs_total: "opposite_pairs ps \<Longrightarrow> input_unit_total kind unit ps = 0"
  by (induction ps rule: opposite_pairs.induct) (auto simp: input_unit_total_def)

lemma opposite_pairs_nonzero: "opposite_pairs ps \<Longrightarrow> p \<in> set ps \<Longrightarrow> PostingInput_Amount p \<noteq> 0"
  by (induction ps rule: opposite_pairs.induct) auto

lemma opposite_pairs_length: "opposite_pairs ps \<Longrightarrow> ps \<noteq> [] \<Longrightarrow> 2 \<le> length ps"
  by (cases ps rule: opposite_pairs.cases) auto

lemma materializePostings_total:
  "materializePostings L tid pid t i ps = Inr qs \<Longrightarrow> opposite_pairs ps \<Longrightarrow> unit_total kind unit qs = 0"
proof (induction ps arbitrary: i qs rule: opposite_pairs.induct)
  case (3 p q ps)
  then show ?case by (fastforce simp: unit_total_def Let_def split: option.splits)
qed (auto simp: unit_total_def)

lemma materializePostings_amounts:
  "materializePostings L tid pid t i ps = Inr qs \<Longrightarrow> map Posting_Amount qs = map PostingInput_Amount ps"
  by (induction L tid pid t i ps arbitrary: qs rule: materializePostings.induct)
    (auto simp: Let_def split: option.splits)

lemma materializePostings_keys:
  "materializePostings L tid pid t i ps = Inr qs \<Longrightarrow>
   map Posting_IdempotencyKey qs = map (TrimSpace \<circ> PostingInput_IdempotencyKey) ps"
  by (induction L tid pid t i ps arbitrary: qs rule: materializePostings.induct)
    (auto simp: Let_def split: option.splits)

lemma checkPostings_duplicate:
  "checkPostings L tid keys balances ps = Inl PostingDuplicateKey \<Longrightarrow>
   \<not> (distinct (map Posting_IdempotencyKey ps) \<and> Posting_IdempotencyKey ` set ps \<inter> set keys = {})"
  by (induction L tid keys balances ps rule: checkPostings.induct)
    (auto simp: ensure_def Posting_checks_def split: option.splits dest!: first_err_Some_mem)

lemma checkPostings_zero:
  "checkPostings L tid keys balances ps = Inl PostingAmountZero \<Longrightarrow> \<exists>p \<in> set ps. Posting_Amount p = 0"
  by (induction L tid keys balances ps rule: checkPostings.induct)
    (auto simp: ensure_def Posting_checks_def split: option.splits dest!: first_err_Some_mem)

lemma checkPostings_not:
  "checkPostings L tid keys balances ps = Inl e \<Longrightarrow> e \<noteq> PostingsUnbalanced \<and> e \<noteq> LedgerTooFewPostings"
  by (induction L tid keys balances ps rule: checkPostings.induct)
    (auto simp: ensure_def Posting_checks_def split: option.splits dest!: first_err_Some_mem)

definition posting_errors :: "ledger_error list" where
  "posting_errors = [LedgerTooFewPostings, PostingDuplicateKey, PostingAmountZero, PostingsUnbalanced]"

lemma Transaction_Validate_posting_errors:
  assumes "distinct (map Posting_IdempotencyKey (Transaction_Postings t))"
    and "\<And>p. p \<in> set (Transaction_Postings t) \<Longrightarrow> Posting_Amount p \<noteq> 0"
    and "2 \<le> length (Transaction_Postings t)"
    and "\<And>kind unit. unit_total kind unit (Transaction_Postings t) = 0"
    and "Transaction_Validate L t = Some e"
  shows "e \<notin> set posting_errors"
proof
  assume e: "e \<in> set posting_errors"
  have zero: "list_all (\<lambda>(u, balance). balance = 0) balances"
    if "checkPostings L (Transaction_ID t) [] [] (Transaction_Postings t) = Inr balances" for balances
    using checkPostings_balances [OF that] checkPostings_distinct_units [OF that] assms(4)
    by (auto simp: map_get_all_zero)
  have "checkPostings L (Transaction_ID t) [] [] (Transaction_Postings t) = Inl e"
    using e assms(3,5) zero
    by (auto simp: Transaction_Validate_def posting_errors_def dest!: first_err_Some_mem split: sum.splits)
  with e assms(1,2) show False
    by (auto simp: posting_errors_def dest: checkPostings_duplicate checkPostings_zero checkPostings_not)
qed

lemma materializePostings_Inl: "materializePostings L tid pid t i ps = Inl x \<Longrightarrow> x = PostingMetadataNotObject"
  by (induction L tid pid t i ps rule: materializePostings.induct)
    (auto simp: Let_def and_then_def split: option.splits sum.splits)

lemma materializeTransaction_Inl:
  assumes "materializeTransaction L now input tid pid dflt = Inl e"
  obtains "e = LedgerMetadataNotObject" | "e = PostingMetadataNotObject"
  | qs t where "materializePostings L tid pid (utc_micros now) 0 (TransactionInput_Postings input) = Inr qs"
      and "Transaction_Postings t = qs" and "Transaction_Validate L t = Some e"
proof (cases "normalizeJSONObject L (TransactionInput_Metadata input)")
  case None
  with assms that(1) show thesis by (simp add: materializeTransaction_def Let_def)
next
  case (Some metadata)
  show thesis
  proof (cases "materializePostings L tid pid (utc_micros now) 0 (TransactionInput_Postings input)")
    case (Inl x)
    with assms Some have "x = e" by (simp add: materializeTransaction_def Let_def and_then_def)
    with that(2) materializePostings_Inl [OF Inl] show thesis by simp
  next
    case (Inr qs)
    with assms Some obtain t where "Transaction_Postings t = qs" "ensure (Transaction_Validate L t) (Inr t) = Inl e"
      by (force simp: materializeTransaction_def Let_def)
    with that(3) [OF Inr] show thesis by (auto simp: ensure_def split: option.splits)
  qed
qed

text \<open>
  A builder returns a non-empty list of pairs, each a non-zero amount and its opposite in the same
  unit, under pairwise different posting keys.
\<close>

locale posting_builder =
  fixes build :: "('d::linordered_idom) lib \<Rightarrow> 'd EconomicNormalization \<Rightarrow> norm_error + 'd PostingInput list"
  assumes build_pairs: "build L n = Inr ps \<Longrightarrow> opposite_pairs ps"
    and build_keys: "build L n = Inr ps \<Longrightarrow> distinct (map (TrimSpace \<circ> PostingInput_IdempotencyKey) ps)"
    and build_nonempty: "build L n = Inr ps \<Longrightarrow> ps \<noteq> []"
begin

lemma build_balanced: "build L n = Inr ps \<Longrightarrow> input_unit_total kind unit ps = 0"
  by (rule opposite_pairs_total [OF build_pairs])

lemma build_materialize:
  assumes "build L n = Inr (TransactionInput_Postings input)"
    and "materializeTransaction L now input tid pid dflt = Inl e"
  shows "e \<notin> set posting_errors"
proof -
  let ?ps = "TransactionInput_Postings input"
  note pairs = build_pairs [OF assms(1)]
  have "\<And>p. p \<in> set qs \<Longrightarrow> Posting_Amount p \<noteq> 0" "2 \<le> length qs"
    "distinct (map Posting_IdempotencyKey qs)" "unit_total kind unit qs = 0"
    if run: "materializePostings L tid pid t 0 ?ps = Inr qs" for qs t kind unit
  proof -
    note amounts = materializePostings_amounts [OF run]
    show "Posting_Amount p \<noteq> 0" if "p \<in> set qs" for p
    proof -
      from that have "Posting_Amount p \<in> set (map PostingInput_Amount ?ps)"
        unfolding amounts [symmetric] by simp
      then show ?thesis using opposite_pairs_nonzero [OF pairs] by auto
    qed
    show "2 \<le> length qs"
      using map_eq_imp_length_eq [OF amounts] opposite_pairs_length [OF pairs build_nonempty [OF assms(1)]] by simp
    show "distinct (map Posting_IdempotencyKey qs)"
      using materializePostings_keys [OF run] build_keys [OF assms(1)] by simp
    show "unit_total kind unit qs = 0" by (rule materializePostings_total [OF run pairs])
  qed
  note ok = this
  from assms(2) show ?thesis
  proof (cases rule: materializeTransaction_Inl)
    case (3 qs t)
    from 3(2,3) ok [OF 3(1)] show ?thesis by (intro Transaction_Validate_posting_errors [of t]) auto
  qed (simp_all add: posting_errors_def)
qed

end

section \<open>The four builders\<close>

lemma postingInput_sel [simp]:
  "PostingInput_IdempotencyKey (postingInput key account kind unit amount) = key"
  "PostingInput_LedgerAccount (postingInput key account kind unit amount) = account"
  "PostingInput_UnitKind (postingInput key account kind unit amount) = kind"
  "PostingInput_Unit (postingInput key account kind unit amount) = unit"
  "PostingInput_Amount (postingInput key account kind unit amount) = amount"
  by (simp_all add: postingInput_def)

lemma validatePositiveEconomicDecimal_None [simp]:
  "validatePositiveEconomicDecimal L label v = None \<longleftrightarrow> 0 < v \<and> decimal_shape L v = None"
  by (simp add: validatePositiveEconomicDecimal_def validateEconomicDecimalShape_def)

lemma posting_key_plain [simp]:
  "TrimSpace ''inventory'' = ''inventory''"
  "TrimSpace ''clearing-inventory'' = ''clearing-inventory''"
  "TrimSpace ''gross-cash'' = ''gross-cash''"
  "TrimSpace ''clearing-gross-cash'' = ''clearing-gross-cash''"
  "TrimSpace ''fee-expense'' = ''fee-expense''"
  "TrimSpace ''fee-cash'' = ''fee-cash''"
  "TrimSpace ''rebate-cash'' = ''rebate-cash''"
  "TrimSpace ''rebate-income'' = ''rebate-income''"
  "TrimSpace ''inventory-settlement'' = ''inventory-settlement''"
  "TrimSpace ''clearing-inventory-settlement'' = ''clearing-inventory-settlement''"
  "TrimSpace ''settlement-cash'' = ''settlement-cash''"
  "TrimSpace ''clearing-settlement-cash'' = ''clearing-settlement-cash''"
  "TrimSpace ''option-close'' = ''option-close''"
  "TrimSpace ''clearing-option-close'' = ''clearing-option-close''"
  "TrimSpace ''underlying-delivery'' = ''underlying-delivery''"
  "TrimSpace ''clearing-underlying-delivery'' = ''clearing-underlying-delivery''"
  "TrimSpace ''strike-cash'' = ''strike-cash''"
  "TrimSpace ''clearing-strike-cash'' = ''clearing-strike-cash''"
  by (rule TrimSpace_plain, simp add: plain_def)+

text \<open>What each builder returns, with the facts its checks established.\<close>

lemma requiredCostPostings_ok:
  assumes "requiredCostPostings L n = Inr ps"
  obtains costAmount where "Normalization_CostAmount n = Some costAmount" and "0 < costAmount"
    and "ps = (if Normalization_CostKind n = CostKindFee then
        [postingInput ''fee-expense'' ''expense:fees'' UnitKindCurrency (Normalization_CashCurrency n) costAmount,
         postingInput ''fee-cash'' ''asset:cash'' UnitKindCurrency (Normalization_CashCurrency n) (- costAmount)]
      else
        [postingInput ''rebate-cash'' ''asset:cash'' UnitKindCurrency (Normalization_CashCurrency n) costAmount,
         postingInput ''rebate-income'' ''income:rebates'' UnitKindCurrency (Normalization_CashCurrency n)
           (- costAmount)])"
  using assms by (auto simp: requiredCostPostings_def split: option.splits if_splits)

lemma optionalCostPostings_ok:
  "optionalCostPostings L n = Inr ps \<Longrightarrow>
   Normalization_CostAmount n = None \<and> ps = [] \<or> requiredCostPostings L n = Inr ps"
  by (auto simp: optionalCostPostings_def split: if_splits)

definition fill_direction :: "'d EconomicNormalization \<Rightarrow> 'd::linordered_idom" where
  "fill_direction n = (if Normalization_EventType n = EconomicEventFillSell then - 1 else 1)"

lemma fillPostings_ok:
  assumes "fillPostings L n = Inr ps"
  obtains i contract quantity price inventoryAccount costs
  where "Normalization_Instrument n = Some i" and "Normalization_VenueContract n = Some contract"
    and "Normalization_Quantity n = Some quantity" and "Normalization_Price n = Some price"
    and "fill_checks L n i contract quantity price = None"
    and "inventoryLedgerAccount (Instrument_AssetClass i) = Inr inventoryAccount"
    and "optionalCostPostings L n = Inr costs"
    and "ps =
      [postingInput ''inventory'' inventoryAccount UnitKindInstrument (uuid_String L (Instrument_ID i))
         (quantity * fill_direction n),
       postingInput ''clearing-inventory'' ''clearing:execution'' UnitKindInstrument
         (uuid_String L (Instrument_ID i)) (- (quantity * fill_direction n))] @
      (let gross = price * quantity * VenueContract_Multiplier contract in
       if gross = 0 then [] else
         [postingInput ''gross-cash'' ''asset:cash'' UnitKindCurrency (Normalization_CashCurrency n)
            (- (gross * fill_direction n)),
          postingInput ''clearing-gross-cash'' ''clearing:execution'' UnitKindCurrency
            (Normalization_CashCurrency n) (gross * fill_direction n)]) @ costs"
proof -
  from assms obtain i contract quantity price where parts:
    "Normalization_Instrument n = Some i" "Normalization_VenueContract n = Some contract"
    "Normalization_Quantity n = Some quantity" "Normalization_Price n = Some price"
    by (auto simp: fillPostings_def split: option.splits)
  from assms parts have checks: "fill_checks L n i contract quantity price = None"
    by (simp add: fillPostings_def)
  from assms parts obtain inventoryAccount costs where
    account: "inventoryLedgerAccount (Instrument_AssetClass i) = Inr inventoryAccount" and
    costs: "optionalCostPostings L n = Inr costs"
    by (auto simp: fillPostings_def Let_def)
  show thesis
    by (rule that [OF parts checks account costs])
      (use assms parts checks account costs in \<open>auto simp: fillPostings_def fill_direction_def Let_def\<close>)
qed

lemma cost_pairs:
  "requiredCostPostings L n = Inr ps \<Longrightarrow> opposite_pairs ps"
  by (auto elim!: requiredCostPostings_ok split: if_splits)

lemma cost_key_names:
  "requiredCostPostings L n = Inr ps \<Longrightarrow>
   map PostingInput_IdempotencyKey ps \<in> {[''fee-expense'', ''fee-cash''], [''rebate-cash'', ''rebate-income'']}"
  by (auto elim!: requiredCostPostings_ok split: if_splits)

interpretation cost_builder: posting_builder costPostings
proof
  fix L :: "'a lib" and n ps
  assume "costPostings L n = Inr ps"
  then have req: "requiredCostPostings L n = Inr ps" by (simp add: costPostings_def Let_def)
  show "opposite_pairs ps" by (rule cost_pairs [OF req])
  show "distinct (map (TrimSpace \<circ> PostingInput_IdempotencyKey) ps)" "ps \<noteq> []"
    using cost_key_names [OF req] by (auto simp: map_map [symmetric] simp del: map_map)
qed

abbreviation builder_contract :: "('d::linordered_idom) PostingInput list \<Rightarrow> bool" where
  "builder_contract ps \<equiv>
     opposite_pairs ps \<and> distinct (map (TrimSpace \<circ> PostingInput_IdempotencyKey) ps) \<and> ps \<noteq> []"

lemma fillPostings_contract:
  assumes "fillPostings L n = Inr ps"
  shows "builder_contract ps"
  using assms
proof (cases rule: fillPostings_ok)
  case (1 i contract quantity price inventoryAccount costs)
  have "0 < quantity" using 1(5) by (simp add: fill_checks_def)
  have "opposite_pairs costs"
    using optionalCostPostings_ok [OF 1(7)] cost_pairs by auto
  moreover have "costs = [] \<or>
    map PostingInput_IdempotencyKey costs \<in> {[''fee-expense'', ''fee-cash''], [''rebate-cash'', ''rebate-income'']}"
    using optionalCostPostings_ok [OF 1(7)] cost_key_names by auto
  ultimately show ?thesis
    using \<open>0 < quantity\<close> unfolding 1(8)
    by (auto simp: fill_direction_def Let_def map_map [symmetric] simp del: map_map)
qed

interpretation fill_builder: posting_builder fillPostings
  by unfold_locales (auto dest: fillPostings_contract)

lemma cashSettlementPostings_ok:
  assumes "cashSettlementPostings L n = Inr ps"
  obtains i contract position price inventoryAccount
  where "Normalization_Instrument n = Some i" and "Normalization_VenueContract n = Some contract"
    and "Normalization_PositionQuantity n = Some position" and "Normalization_SettlementPrice n = Some price"
    and "position \<noteq> 0" and "settlement_mechanics n i contract price = None"
    and "inventoryLedgerAccount (Instrument_AssetClass i) = Inr inventoryAccount"
    and "ps =
      [postingInput ''inventory-settlement'' inventoryAccount UnitKindInstrument
         (uuid_String L (Instrument_ID i)) (- position),
       postingInput ''clearing-inventory-settlement'' ''clearing:settlement'' UnitKindInstrument
         (uuid_String L (Instrument_ID i)) position] @
      (let payout = position * price * VenueContract_Multiplier contract in
       if payout = 0 then [] else
         [postingInput ''settlement-cash'' ''asset:cash'' UnitKindCurrency (Normalization_CashCurrency n) payout,
          postingInput ''clearing-settlement-cash'' ''clearing:settlement'' UnitKindCurrency
            (Normalization_CashCurrency n) (- payout)])"
proof -
  from assms obtain i contract position price where parts:
    "Normalization_Instrument n = Some i" "Normalization_VenueContract n = Some contract"
    "Normalization_PositionQuantity n = Some position" "Normalization_SettlementPrice n = Some price"
    by (auto simp: cashSettlementPostings_def split: option.splits)
  from assms parts have checks: "position \<noteq> 0" "settlement_mechanics n i contract price = None"
    by (simp_all add: cashSettlementPostings_def)
  from assms parts obtain inventoryAccount where
    account: "inventoryLedgerAccount (Instrument_AssetClass i) = Inr inventoryAccount"
    by (auto simp: cashSettlementPostings_def Let_def)
  show thesis
    by (rule that [OF parts checks account])
      (use assms parts account in \<open>auto simp: cashSettlementPostings_def Let_def\<close>)
qed

lemma cashSettlementPostings_contract:
  assumes "cashSettlementPostings L n = Inr ps"
  shows "builder_contract ps"
  using assms by (cases rule: cashSettlementPostings_ok) (simp add: Let_def)

interpretation cash_settlement_builder: posting_builder cashSettlementPostings
  by unfold_locales (auto dest: cashSettlementPostings_contract)

definition delivered_quantity :: "('d::linordered_idom) OptionContractTerms \<Rightarrow> 'd \<Rightarrow> 'd" where
  "delivered_quantity terms position =
     (if OptionContractTerms_ContractType terms = OptionContractPut
      then - (position * OptionContractTerms_DeliverableQuantity terms)
      else position * OptionContractTerms_DeliverableQuantity terms)"

lemma physicalOptionPostings_ok:
  assumes "physicalOptionPostings L n = Inr ps"
  obtains opt underlying contract terms position source underlyingAccount
  where "Normalization_Instrument n = Some opt" and "Normalization_SecondaryInstrument n = Some underlying"
    and "Normalization_VenueContract n = Some contract" and "Normalization_OptionTerms n = Some terms"
    and "Normalization_PositionQuantity n = Some position"
    and "physical_checks L n opt underlying contract terms position source = None"
    and "ps =
      [postingInput ''option-close'' ''asset:option_inventory'' UnitKindInstrument
         (uuid_String L (Instrument_ID opt)) (- position),
       postingInput ''clearing-option-close'' ''clearing:settlement'' UnitKindInstrument
         (uuid_String L (Instrument_ID opt)) position,
       postingInput ''underlying-delivery'' underlyingAccount UnitKindInstrument
         (uuid_String L (Instrument_ID underlying)) (delivered_quantity terms position),
       postingInput ''clearing-underlying-delivery'' ''clearing:settlement'' UnitKindInstrument
         (uuid_String L (Instrument_ID underlying)) (- delivered_quantity terms position),
       postingInput ''strike-cash'' ''asset:cash'' UnitKindCurrency (Normalization_CashCurrency n)
         (- (delivered_quantity terms position * OptionContractTerms_StrikePrice terms)),
       postingInput ''clearing-strike-cash'' ''clearing:settlement'' UnitKindCurrency
         (Normalization_CashCurrency n) (delivered_quantity terms position * OptionContractTerms_StrikePrice terms)]"
    and "inventoryLedgerAccount (Instrument_AssetClass underlying) = Inr underlyingAccount"
proof -
  from assms obtain opt underlying contract terms position source where parts:
    "Normalization_Instrument n = Some opt" "Normalization_SecondaryInstrument n = Some underlying"
    "Normalization_VenueContract n = Some contract" "Normalization_OptionTerms n = Some terms"
    "Normalization_PositionQuantity n = Some position" and source: "Normalization_SourceEvent n = Some source"
    by (auto simp: physicalOptionPostings_def split: option.splits)
  from assms parts source have checks: "physical_checks L n opt underlying contract terms position source = None"
    by (simp add: physicalOptionPostings_def)
  from assms parts source obtain underlyingAccount where
    account: "inventoryLedgerAccount (Instrument_AssetClass underlying) = Inr underlyingAccount"
    by (auto simp: physicalOptionPostings_def Let_def)
  show thesis
    by (rule that [OF parts checks _ account])
      (use assms parts source account in \<open>auto simp: physicalOptionPostings_def delivered_quantity_def Let_def\<close>)
qed

lemma physicalOptionPostings_contract:
  assumes "physicalOptionPostings L n = Inr ps"
  shows "builder_contract ps"
  using assms
proof (cases rule: physicalOptionPostings_ok)
  case (1 opt underlying contract terms position source underlyingAccount)
  then have "position \<noteq> 0" "0 < OptionContractTerms_DeliverableQuantity terms"
    "0 < OptionContractTerms_StrikePrice terms"
    by (auto simp: physical_checks_def OptionContractTerms_Validate_def)
  then show ?thesis unfolding 1(7) by (simp add: delivered_quantity_def)
qed

interpretation physical_option_builder: posting_builder physicalOptionPostings
  by unfold_locales (auto dest: physicalOptionPostings_contract)

interpretation expected_builder: posting_builder expectedPostings
proof
  fix L :: "'a lib" and n ps
  assume "expectedPostings L n = Inr ps"
  then consider "fillPostings L n = Inr ps" | "costPostings L n = Inr ps" | "cashSettlementPostings L n = Inr ps"
    | "physicalOptionPostings L n = Inr ps"
    by (auto simp: expectedPostings_def split: EconomicEventType.splits)
  then have "builder_contract ps"
    by cases (auto dest: fillPostings_contract cashSettlementPostings_contract physicalOptionPostings_contract
        cost_builder.build_pairs cost_builder.build_keys cost_builder.build_nonempty)
  then show "opposite_pairs ps" "distinct (map (TrimSpace \<circ> PostingInput_IdempotencyKey) ps)" "ps \<noteq> []"
    by auto
qed

section \<open>Cash and inventory effects\<close>

definition cost_cash :: "('d::linordered_idom) EconomicNormalization \<Rightarrow> 'd" where
  "cost_cash n =
     (case Normalization_CostAmount n of
        None \<Rightarrow> 0
      | Some amount \<Rightarrow> if Normalization_CostKind n = CostKindFee then - amount else amount)"

lemma inventoryLedgerAccount_names:
  "inventoryLedgerAccount c = Inr a \<Longrightarrow>
   a \<in> {''asset:security_inventory'', ''asset:crypto_inventory'', ''asset:option_inventory'',
        ''asset:event_contract_inventory''}"
  by (auto simp: inventoryLedgerAccount_def split: AssetClass.splits)

lemma cost_account_total:
  "requiredCostPostings L n = Inr ps \<Longrightarrow> input_account_total ''asset:cash'' ps = cost_cash n"
  by (auto simp: input_account_total_def cost_cash_def elim!: requiredCostPostings_ok split: if_splits)

lemma cost_accounts:
  "requiredCostPostings L n = Inr ps \<Longrightarrow> p \<in> set ps \<Longrightarrow>
   PostingInput_LedgerAccount p \<in> {''asset:cash'', ''expense:fees'', ''income:rebates''}"
  by (auto elim!: requiredCostPostings_ok split: if_splits)

lemma optional_cost_account_total:
  "optionalCostPostings L n = Inr ps \<Longrightarrow> input_account_total ''asset:cash'' ps = cost_cash n"
  using optionalCostPostings_ok [of L n ps] cost_account_total [of L n ps]
  by (auto simp: cost_cash_def input_account_total_def)

lemma optional_cost_inventory_total:
  assumes "optionalCostPostings L n = Inr ps" and "inventoryLedgerAccount c = Inr a"
  shows "input_account_total a ps = 0"
proof -
  have "PostingInput_LedgerAccount p \<noteq> a" if "p \<in> set ps" for p
    using optionalCostPostings_ok [OF assms(1)] inventoryLedgerAccount_names [OF assms(2)] cost_accounts that
    by fastforce
  then show ?thesis by (auto simp: input_account_total_def intro: sum_where_none)
qed

lemma input_account_total_simps [simp]:
  "input_account_total a [] = 0"
  "input_account_total a (p # ps) =
     (if PostingInput_LedgerAccount p = a then PostingInput_Amount p else 0) + input_account_total a ps"
  "input_account_total a (ps @ qs) = input_account_total a ps + input_account_total a qs"
  by (simp_all add: input_account_total_def)

lemma fill_effect:
  assumes "fillPostings L n = Inr ps"
    and "Normalization_Instrument n = Some i" and "Normalization_VenueContract n = Some contract"
    and "Normalization_Quantity n = Some quantity" and "Normalization_Price n = Some price"
  shows "input_account_total ''asset:cash'' ps =
      cost_cash n - fill_direction n * (price * quantity * VenueContract_Multiplier contract)"
    and "inventoryLedgerAccount (Instrument_AssetClass i) = Inr a \<Longrightarrow>
      input_account_total a ps = fill_direction n * quantity"
proof -
  from assms(1) show "input_account_total ''asset:cash'' ps =
      cost_cash n - fill_direction n * (price * quantity * VenueContract_Multiplier contract)"
    by (cases rule: fillPostings_ok)
      (use assms(2-) in \<open>auto simp: Let_def optional_cost_account_total dest!: inventoryLedgerAccount_names\<close>)
  from assms(1) show "input_account_total a ps = fill_direction n * quantity"
    if a: "inventoryLedgerAccount (Instrument_AssetClass i) = Inr a"
  proof (cases rule: fillPostings_ok)
    case (1 i' contract' quantity' price' inventoryAccount costs)
    with assms(2-) a have "i' = i" "quantity' = quantity" "inventoryAccount = a" by auto
    with 1(8) optional_cost_inventory_total [OF 1(7) a] inventoryLedgerAccount_names [OF a] show ?thesis
      by (auto simp: Let_def)
  qed
qed

lemma cash_settlement_effect:
  assumes "cashSettlementPostings L n = Inr ps"
    and "Normalization_VenueContract n = Some contract"
    and "Normalization_PositionQuantity n = Some position" and "Normalization_SettlementPrice n = Some price"
  shows "input_account_total ''asset:cash'' ps = position * price * VenueContract_Multiplier contract"
  using assms(1)
  by (cases rule: cashSettlementPostings_ok)
    (use assms(2-) in \<open>auto simp: Let_def dest!: inventoryLedgerAccount_names\<close>)

lemma physical_option_effect:
  assumes "physicalOptionPostings L n = Inr ps"
    and "Normalization_OptionTerms n = Some terms" and "Normalization_PositionQuantity n = Some position"
  shows "input_account_total ''asset:cash'' ps =
    - (delivered_quantity terms position * OptionContractTerms_StrikePrice terms)"
  using assms(1)
  by (cases rule: physicalOptionPostings_ok)
    (use assms(2-) in \<open>auto dest!: inventoryLedgerAccount_names\<close>)

section \<open>Comparison of two ledger aggregates\<close>

definition posting_core :: "'d Posting \<Rightarrow> uuid \<times> uuid \<times> string \<times> string \<times> UnitKind \<times> string \<times> 'd" where
  "posting_core p =
     (Posting_ID p, Posting_TransactionID p, Posting_IdempotencyKey p, Posting_LedgerAccount p,
      Posting_UnitKind p, Posting_Unit p, Posting_Amount p)"

lemma postings_by_key_mem:
  "postings_by_key ps k = Some p \<Longrightarrow> p \<in> set ps \<and> Posting_IdempotencyKey p = k"
  unfolding postings_by_key_def by (auto dest: map_of_SomeD)

lemma sameEconomicTransaction_core_subset:
  "sameEconomicTransaction L (Some l) (Some r) \<Longrightarrow>
   posting_core ` set (Transaction_Postings l) \<subseteq> posting_core ` set (Transaction_Postings r)"
proof
  fix c assume same: "sameEconomicTransaction L (Some l) (Some r)" and "c \<in> posting_core ` set (Transaction_Postings l)"
  then obtain p where p: "p \<in> set (Transaction_Postings l)" "c = posting_core p" by blast
  with same obtain q where "postings_by_key (Transaction_Postings r) (Posting_IdempotencyKey p) = Some q"
    and "same_posting L p q"
    by (auto simp: sameEconomicTransaction_def list_all_iff split: option.splits)
  with postings_by_key_mem p have "q \<in> set (Transaction_Postings r)" "posting_core q = c"
    by (fastforce simp: posting_core_def same_posting_def)+
  then show "c \<in> posting_core ` set (Transaction_Postings r)" by blast
qed

lemma distinct_core: "distinct (map Posting_IdempotencyKey ps) \<Longrightarrow> distinct (map posting_core ps)"
  by (auto simp: distinct_map posting_core_def inj_on_def)

lemma sameEconomicTransaction_mset:
  assumes same: "sameEconomicTransaction L (Some l) (Some r)"
    and "distinct (map Posting_IdempotencyKey (Transaction_Postings l))"
    and "distinct (map Posting_IdempotencyKey (Transaction_Postings r))"
  shows "mset (map posting_core (Transaction_Postings l)) = mset (map posting_core (Transaction_Postings r))"
proof -
  let ?l = "map posting_core (Transaction_Postings l)" and ?r = "map posting_core (Transaction_Postings r)"
  have dl: "distinct ?l" by (rule distinct_core [OF assms(2)])
  have dr: "distinct ?r" by (rule distinct_core [OF assms(3)])
  have len: "length ?l = length ?r" using same by (simp add: sameEconomicTransaction_def)
  have "set ?l \<subseteq> set ?r" using sameEconomicTransaction_core_subset [OF same] by simp
  moreover have "card (set ?l) = card (set ?r)" using dl dr len by (simp only: distinct_card)
  ultimately have "set ?l = set ?r" by (metis card_subset_eq List.finite_set)
  with dl dr show ?thesis by (simp only: set_eq_iff_mset_eq_distinct)
qed

lemma expectedTransaction_valid:
  assumes "expectedTransaction L now n = Inr t"
  shows "Transaction_Validate L t = None"
proof -
  from assms obtain input tid pid where "materializeTransaction L now input tid pid False = Inr t"
    by (auto simp: expectedTransaction_def newDeterministicTransaction_def split: option.splits)
  then show ?thesis by (auto simp: materializeTransaction_def Let_def split: option.splits)
qed

lemma sum_where_mset:
  fixes f :: "'a \<Rightarrow> 'b::comm_monoid_add"
  assumes "mset (map core ps) = mset (map core qs)"
    and "\<And>p. P p = P' (core p)" and "\<And>p. f p = f' (core p)"
  shows "sum_where P f ps = sum_where P f qs"
proof -
  have "sum_where P f xs = sum_mset (image_mset f' (filter_mset P' (mset (map core xs))))" for xs
    by (induction xs) (simp_all add: assms(2,3))
  with assms(1) show ?thesis by simp
qed

lemma unit_total_core:
  assumes "mset (map posting_core ps) = mset (map posting_core qs)"
  shows "unit_total kind unit ps = unit_total kind unit qs"
  unfolding unit_total_def
  by (rule sum_where_mset [OF assms, where f' = "\<lambda>(i, t, k, a, kd, u, x). x"
        and P' = "\<lambda>(i, t, k, a, kd, u, x). kd = kind \<and> u = unit"])
    (simp_all add: posting_core_def)

section \<open>Materialized effects\<close>

definition account_total :: "string \<Rightarrow> 'd Posting list \<Rightarrow> 'd::linordered_idom" where
  "account_total account ps = sum_where (\<lambda>p. Posting_LedgerAccount p = account) Posting_Amount ps"

definition plain_text :: "string \<Rightarrow> bool" where
  "plain_text s \<longleftrightarrow> list_all plain s"

lemma plain_accounts [simp]:
  "plain_text ''asset:cash''" "plain_text ''clearing:execution''" "plain_text ''expense:fees''"
  "plain_text ''income:rebates''" "plain_text ''asset:security_inventory''" "plain_text ''asset:crypto_inventory''"
  "plain_text ''asset:option_inventory''" "plain_text ''asset:event_contract_inventory''"
  by (simp_all add: plain_text_def plain_def)

lemma materializePostings_account_total:
  assumes "materializePostings L tid pid t i ps = Inr qs"
    and "list_all (\<lambda>p. plain_text (PostingInput_LedgerAccount p)) ps"
  shows "account_total account qs = input_account_total account ps"
  using assms
  by (induction L tid pid t i ps arbitrary: qs rule: materializePostings.induct)
    (auto simp: account_total_def plain_text_def Let_def TrimSpace_plain split: option.splits)

lemma cost_accounts_plain:
  "optionalCostPostings L n = Inr ps \<Longrightarrow> list_all (\<lambda>p. plain_text (PostingInput_LedgerAccount p)) ps"
  by (auto dest!: optionalCostPostings_ok elim!: requiredCostPostings_ok)

lemma inventory_account_plain: "inventoryLedgerAccount c = Inr a \<Longrightarrow> plain_text a"
  by (auto dest!: inventoryLedgerAccount_names)

lemma fill_accounts_plain:
  assumes "fillPostings L n = Inr ps"
  shows "list_all (\<lambda>p. plain_text (PostingInput_LedgerAccount p)) ps"
  using assms
  by (cases rule: fillPostings_ok) (simp add: Let_def inventory_account_plain cost_accounts_plain)

lemma materializeTransaction_Inr:
  assumes "materializeTransaction L now input tid pid dflt = Inr t"
  shows "materializePostings L tid pid (utc_micros now) 0 (TransactionInput_Postings input) = Inr (Transaction_Postings t)"
  using assms by (auto simp: materializeTransaction_def Let_def split: option.splits)

lemma expectedTransaction_postings:
  assumes "expectedTransaction L now n = Inr t"
  obtains ps tid pid where "expectedPostings L n = Inr ps"
    and "materializePostings L tid pid (utc_micros now) 0 ps = Inr (Transaction_Postings t)"
proof -
  from assms obtain ps source where "expectedPostings L n = Inr ps" "Normalization_SourceEvent n = Some source"
    by (auto simp: expectedTransaction_def split: option.splits)
  with assms that show thesis
    by (auto simp: expectedTransaction_def newDeterministicTransaction_def dest!: materializeTransaction_Inr)
qed

lemma materializeAndValidate_ok:
  assumes "materializeAndValidate L clock n = Inr n'"
  obtains t where "n' = n\<lparr>Normalization_Transaction := Some t\<rparr>" and "expectedTransaction L (clock 1) n = Inr t"
    and "EconomicNormalization_Validate L (clock 2) n' = None"
  using assms by (auto simp: materializeAndValidate_def Let_def)

lemma expectedTransaction_fill_cash:
  assumes "expectedTransaction L now n = Inr t"
    and "Normalization_EventType n \<in> {EconomicEventFillBuy, EconomicEventFillSell}"
    and "Normalization_Instrument n = Some i" and "Normalization_VenueContract n = Some contract"
    and "Normalization_Quantity n = Some quantity" and "Normalization_Price n = Some price"
  shows "account_total ''asset:cash'' (Transaction_Postings t) =
    cost_cash n - fill_direction n * (price * quantity * VenueContract_Multiplier contract)"
proof -
  from assms(1) obtain ps tid pid where ps: "expectedPostings L n = Inr ps"
    and mat: "materializePostings L tid pid (utc_micros now) 0 ps = Inr (Transaction_Postings t)"
    by (rule expectedTransaction_postings)
  from ps assms(2) have fill: "fillPostings L n = Inr ps" by (auto simp: expectedPostings_def)
  show ?thesis
    using materializePostings_account_total [OF mat fill_accounts_plain [OF fill]] fill_effect(1) [OF fill assms(3-)]
    by simp
qed

section \<open>Concrete values\<close>

definition demo_source_event :: EconomicSourceEvent where
  "demo_source_event =
    \<lparr>EconomicSourceEvent_ID = 3237178, EconomicSourceEvent_AccountID = 7,
     EconomicSourceEvent_Source = ''alpaca'',
     EconomicSourceEvent_SourceNamespace = ''fills'', EconomicSourceEvent_SourceEventID = ''e1'',
     EconomicSourceEvent_SourceRevision = [], EconomicSourceEvent_ObservedAt = demo_time 20,
     EconomicSourceEvent_RawPayload = ''{}'',
     EconomicSourceEvent_PayloadSHA256 = ''000000000000000000000000007d7b2e2e2e2e2e2e2e2e2e2e2e2e2e2e2e2e2e'',
     EconomicSourceEvent_CreatedAt = demo_time 21\<rparr>"

definition demo_normalization :: "EconomicEventType \<Rightarrow> int EconomicNormalization" where
  "demo_normalization kind =
    \<lparr>Normalization_ID = 3241530, Normalization_SourceEvent = Some demo_source_event,
     Normalization_Account = Some (demo_account AccountEnvironmentPaperScored ''paper_scored/a'' MarginProfileCash),
     Normalization_EventType = kind, Normalization_NormalizerVersion = ''v1'',
     Normalization_ExecutionOriginType = ExecutionOriginOperator, Normalization_ExecutionOriginID = ''op'',
     Normalization_ReferenceType = ''fill'', Normalization_ReferenceID = ''f1'', Normalization_Venue = ''alpaca'',
     Normalization_Instrument = Some demo_instrument, Normalization_SecondaryInstrument = None,
     Normalization_VenueContract = Some demo_contract, Normalization_OptionTerms = None,
     Normalization_EffectiveAt = demo_time 19, Normalization_CashCurrency = ''USD'',
     Normalization_Quantity = None, Normalization_Price = None, Normalization_CostKind = CostKindUnset,
     Normalization_CostCurrency = [], Normalization_CostAmount = None, Normalization_PositionQuantity = None,
     Normalization_SettlementPrice = None, Normalization_Transaction = None, Normalization_CreatedAt = demo_time 22\<rparr>"

definition demo_base :: "int EconomicNormalizationBaseInput" where
  "demo_base =
    \<lparr>BaseInput_SourceEvent = Some demo_source_event,
     BaseInput_Account = Some (demo_account AccountEnvironmentPaperScored ''paper_scored/a'' MarginProfileCash),
     BaseInput_NormalizerVersion = ''v1'', BaseInput_ExecutionOriginType = ExecutionOriginOperator,
     BaseInput_ExecutionOriginID = ''op'', BaseInput_ReferenceType = ''fill'', BaseInput_ReferenceID = ''f1'',
     BaseInput_EffectiveAt = demo_time 19\<rparr>"

definition demo_fill_input :: "int FillEconomicEventInput" where
  "demo_fill_input =
    \<lparr>FillEvent_Base = demo_base, FillEvent_Instrument = demo_instrument, FillEvent_VenueContract = demo_contract,
     FillEvent_Side = FillSideSell, FillEvent_Quantity = 10, FillEvent_Price = 25,
     FillEvent_Cost = Some \<lparr>CostComponent_Kind = CostKindFee, CostComponent_Currency = ''usd'',
                             CostComponent_Amount = 3\<rparr>\<rparr>"
section \<open>Properties\<close>

text \<open>
  C1: double entry.  The single pass of \<open>Transaction.Validate\<close> over its map of balances accepts a
  transaction only if the postings sum to exactly zero in every unit, there are at least two of
  them, none has a zero amount, all belong to the transaction, and their idempotency keys are
  pairwise different.
\<close>

theorem validated_transaction_balances:
  assumes "Transaction_Validate L t = None"
  shows "unit_total kind unit (Transaction_Postings t) = 0 \<and> 2 \<le> length (Transaction_Postings t) \<and>
    list_all (\<lambda>p. Posting_Amount p \<noteq> 0 \<and> Posting_TransactionID p = Transaction_ID t) (Transaction_Postings t) \<and>
    distinct (map Posting_IdempotencyKey (Transaction_Postings t))"
proof -
  have "2 \<le> length (Transaction_Postings t)" using assms by (simp add: Transaction_Validate_def not_less)
  moreover have "list_all (\<lambda>p. Posting_Amount p \<noteq> 0 \<and> Posting_TransactionID p = Transaction_ID t)
      (Transaction_Postings t)"
    using assms by (rule Transaction_Validate_checkPostings) (auto simp: list_all_iff dest: checkPostings_nonzero)
  ultimately show ?thesis
    using Transaction_Validate_balanced [OF assms] Transaction_Validate_distinct_keys [OF assms] by blast
qed

definition demo_posting :: "uuid \<Rightarrow> string \<Rightarrow> string \<Rightarrow> int \<Rightarrow> int Posting" where
  "demo_posting i key account amount =
    \<lparr>Posting_ID = i, Posting_TransactionID = 40, Posting_IdempotencyKey = key, Posting_LedgerAccount = account,
     Posting_UnitKind = UnitKindCurrency, Posting_Unit = ''USD'', Posting_Amount = amount, Posting_Metadata = ''{}'',
     Posting_CreatedAt = demo_time 5\<rparr>"

definition demo_transaction :: "int Posting list \<Rightarrow> int Transaction" where
  "demo_transaction ps =
    \<lparr>Transaction_ID = 40, Transaction_AccountID = 7, Transaction_EventType = ''cost.fee'',
     Transaction_IdempotencyKey = ''k'', Transaction_OriginType = ''o'', Transaction_OriginID = ''i'',
     Transaction_ReferenceType = [], Transaction_ReferenceID = [], Transaction_EffectiveAt = demo_time 4,
     Transaction_ObservedAt = demo_time 4, Transaction_Metadata = ''{}'', Transaction_Postings = ps,
     Transaction_CreatedAt = demo_time 5\<rparr>"

definition demo_fee :: "int Posting" where
  "demo_fee = demo_posting 41 ''fee-expense'' ''expense:fees'' 3"

definition demo_fee_cash :: "int Posting" where
  "demo_fee_cash = demo_posting 42 ''fee-cash'' ''asset:cash'' (- 3)"

lemma validated_transaction_balances_witness:
  "Transaction_Validate demo_lib (demo_transaction [demo_fee, demo_fee_cash]) = None \<and>
   unit_total UnitKindCurrency ''USD'' (Transaction_Postings (demo_transaction [demo_fee, demo_fee_cash])) = 0"
proof -
  have "Transaction_Validate demo_lib (demo_transaction [demo_fee, demo_fee_cash]) = None" by code_simp
  with validated_transaction_balances [OF this, of UnitKindCurrency "''USD''"] show ?thesis by blast
qed

lemma Some_eq_map_option [simp]: "Some y = map_option f x \<longleftrightarrow> (\<exists>z. x = Some z \<and> y = f z)"
  by (cases x) auto

text \<open>None of the builders' own errors is an error of the ledger transaction.\<close>

lemma economic_decimal_error [simp]:
  "validateEconomicDecimalShape L label v \<noteq> Some (NormTransaction e)"
  "validatePositiveEconomicDecimal L label v \<noteq> Some (NormTransaction e)"
  "validateNonnegativeEconomicDecimal L label v \<noteq> Some (NormTransaction e)"
  by (auto simp: validateEconomicDecimalShape_def validatePositiveEconomicDecimal_def
      validateNonnegativeEconomicDecimal_def dest!: first_err_Some_mem)

lemmas economic_decimal_error_sym [simp] = economic_decimal_error [THEN not_sym]

lemma reference_check_error [simp]:
  "fill_checks L n i contract quantity price \<noteq> Some (NormTransaction e)"
  "validateSettlementReferences L n i contract \<noteq> Some (NormTransaction e)"
  "settlement_mechanics n i contract price \<noteq> Some (NormTransaction e)"
  "physical_checks L n opt underlying contract terms position source \<noteq> Some (NormTransaction e)"
  "inventoryLedgerAccount c \<noteq> Inl (NormTransaction e)"
  by (auto simp: fill_checks_def validateSettlementReferences_def settlement_mechanics_def physical_checks_def
      inventoryLedgerAccount_def dest!: first_err_Some_mem split: EconomicEventType.splits AssetClass.splits)

lemmas reference_check_error_sym [simp] = reference_check_error [THEN not_sym]

lemma cost_error [simp]:
  "requiredCostPostings L n \<noteq> Inl (NormTransaction e)" "optionalCostPostings L n \<noteq> Inl (NormTransaction e)"
  by (auto simp: requiredCostPostings_def optionalCostPostings_def dest!: first_err_Some_mem
      split: option.splits if_splits)

lemma builder_error:
  "fillPostings L n \<noteq> Inl (NormTransaction e)" "costPostings L n \<noteq> Inl (NormTransaction e)"
  "cashSettlementPostings L n \<noteq> Inl (NormTransaction e)" "physicalOptionPostings L n \<noteq> Inl (NormTransaction e)"
  by (auto simp: fillPostings_def costPostings_def cashSettlementPostings_def physicalOptionPostings_def Let_def
      dest!: first_err_Some_mem split: option.splits)

lemma expectedPostings_error: "expectedPostings L n \<noteq> Inl (NormTransaction e)"
  by (auto simp: expectedPostings_def builder_error split: EconomicEventType.splits)

text \<open>
  C2: the postings the normalizer derives from typed facts are balanced by construction: building
  the expected transaction never fails because postings are missing, unbalanced, zero or share a
  key, for any event type, any facts and any implementation of the libraries.
\<close>

theorem expectedTransaction_postings_sound:
  "expectedTransaction L now n \<noteq> Inl (NormTransaction PostingsUnbalanced) \<and>
   expectedTransaction L now n \<noteq> Inl (NormTransaction PostingDuplicateKey) \<and>
   expectedTransaction L now n \<noteq> Inl (NormTransaction PostingAmountZero) \<and>
   expectedTransaction L now n \<noteq> Inl (NormTransaction LedgerTooFewPostings)"
proof -
  have "e \<notin> set posting_errors" if err: "expectedTransaction L now n = Inl (NormTransaction e)" for e
  proof -
    from err expectedPostings_error obtain ps source where ps: "expectedPostings L n = Inr ps"
      and source: "Normalization_SourceEvent n = Some source"
      by (auto simp: expectedTransaction_def split: option.splits)
    with err obtain seed version input where
      tx: "newDeterministicTransaction L now seed version input = Inl e"
      and input: "TransactionInput_Postings input = ps"
      by (force simp: expectedTransaction_def wrap_def split: sum.splits)
    from tx have "e \<in> {DeterministicSeedRequired, DeterministicVersion, DeterministicObservedRequired} \<or>
        (\<exists>tid pid. materializeTransaction L now input tid pid False = Inl e)"
      by (auto simp: newDeterministicTransaction_def dest!: first_err_Some_mem)
    with expected_builder.build_materialize [of L n input now] ps input show ?thesis
      by (auto simp: posting_errors_def)
  qed
  from this [of PostingsUnbalanced] this [of PostingDuplicateKey] this [of PostingAmountZero]
    this [of LedgerTooFewPostings]
  show ?thesis by (auto simp: posting_errors_def)
qed
lemma newEconomicNormalization_fields:
  "newEconomicNormalization L clock input kind = Inr n \<Longrightarrow>
   Normalization_EventType n = kind \<and> Normalization_CostAmount n = None"
  by (auto simp: newEconomicNormalization_def Let_def split: option.splits)

lemma fill_constructor_fields:
  assumes "NewFillEconomicNormalization L clock input = Inr n"
  obtains m where "materializeAndValidate L clock m = Inr n"
    and "Normalization_EventType m =
      (if FillEvent_Side input = FillSideSell then EconomicEventFillSell else EconomicEventFillBuy)"
    and "Normalization_Instrument m = Some (FillEvent_Instrument input)"
    and "Normalization_VenueContract m = Some (FillEvent_VenueContract input)"
    and "Normalization_Quantity m = Some (FillEvent_Quantity input)"
    and "Normalization_Price m = Some (FillEvent_Price input)"
    and "cost_cash m = (case FillEvent_Cost input of
         None \<Rightarrow> 0
       | Some c \<Rightarrow> if CostComponent_Kind c = CostKindFee then - CostComponent_Amount c else CostComponent_Amount c)"
proof -
  from assms obtain k where k: "newEconomicNormalization L clock (FillEvent_Base input)
      (if FillEvent_Side input = FillSideSell then EconomicEventFillSell else EconomicEventFillBuy) = Inr k"
    and "materializeAndValidate L clock (fill_fields L input k) = Inr n"
    by (auto simp: NewFillEconomicNormalization_def Let_def split: if_splits)
  then show thesis
    using newEconomicNormalization_fields [OF k]
    by (intro that [of "fill_fields L input k"])
      (auto simp: fill_fields_def cost_cash_def Let_def split: option.splits)
qed

text \<open>
  C3: the cash effect of a fill.  When \<open>NewFillEconomicNormalization\<close> succeeds, the ledger
  transaction it attaches is valid, balanced in every unit, and changes the cash account by exactly
  the signed gross value (price times quantity times venue multiplier, paid on a buy and received
  on a sell) less the fee or plus the rebate.
\<close>

theorem fill_constructor_effect:
  assumes "NewFillEconomicNormalization L clock input = Inr n"
  shows "\<exists>t. Normalization_Transaction n = Some t \<and> Transaction_Validate L t = None \<and>
    (\<forall>kind unit. unit_total kind unit (Transaction_Postings t) = 0) \<and>
    account_total ''asset:cash'' (Transaction_Postings t) =
      (if FillEvent_Side input = FillSideSell then 1 else - 1) *
        (FillEvent_Price input * FillEvent_Quantity input * VenueContract_Multiplier (FillEvent_VenueContract input)) +
      (case FillEvent_Cost input of
         None \<Rightarrow> 0
       | Some c \<Rightarrow> if CostComponent_Kind c = CostKindFee then - CostComponent_Amount c else CostComponent_Amount c)"
proof -
  from assms obtain m where m: "materializeAndValidate L clock m = Inr n"
    and kind: "Normalization_EventType m = (if FillEvent_Side input = FillSideSell then EconomicEventFillSell else EconomicEventFillBuy)"
    and parts: "Normalization_Instrument m = Some (FillEvent_Instrument input)"
      "Normalization_VenueContract m = Some (FillEvent_VenueContract input)"
      "Normalization_Quantity m = Some (FillEvent_Quantity input)"
      "Normalization_Price m = Some (FillEvent_Price input)"
    and cost: "cost_cash m = (case FillEvent_Cost input of
         None \<Rightarrow> 0
       | Some c \<Rightarrow> if CostComponent_Kind c = CostKindFee then - CostComponent_Amount c else CostComponent_Amount c)"
    by (rule fill_constructor_fields)
  from m obtain t where n: "n = m\<lparr>Normalization_Transaction := Some t\<rparr>"
    and t: "expectedTransaction L (clock 1) m = Inr t"
    by (rule materializeAndValidate_ok)
  from kind have direction: "fill_direction m = (if FillEvent_Side input = FillSideSell then - 1 else 1)"
    by (simp add: fill_direction_def)
  from kind have "Normalization_EventType m \<in> {EconomicEventFillBuy, EconomicEventFillSell}" by simp
  from expectedTransaction_fill_cash [OF t this parts] expectedTransaction_valid [OF t]
    Transaction_Validate_balanced [OF expectedTransaction_valid [OF t]] n
  show ?thesis by (auto simp: direction cost)
qed

lemma demo_fill_normalized:
  obtains n where "NewFillEconomicNormalization demo_lib (\<lambda>i. demo_time 22) demo_fill_input = Inr n"
proof -
  have "\<not> isl (NewFillEconomicNormalization demo_lib (\<lambda>i. demo_time 22) demo_fill_input)" by code_simp
  with that show thesis by (metis sum.collapse(2))
qed

lemma fill_constructor_effect_witness:
  "\<exists>n t. NewFillEconomicNormalization demo_lib (\<lambda>i. demo_time 22) demo_fill_input = Inr n \<and>
     Normalization_Transaction n = Some t \<and> account_total ''asset:cash'' (Transaction_Postings t) = 247"
proof -
  obtain n where n: "NewFillEconomicNormalization demo_lib (\<lambda>i. demo_time 22) demo_fill_input = Inr n" by (rule demo_fill_normalized)
  from fill_constructor_effect [OF n] n show ?thesis
    by (auto simp: demo_fill_input_def demo_contract_def)
qed

text \<open>
  C4: the cash effect of a settlement.  A cash settlement pays exactly position times settlement price
  times venue multiplier; an expiration pays nothing; and a prediction payout of a position is zero
  or its full notional.
\<close>

theorem cash_settlement_payout:
  assumes "cashSettlementPostings L n = Inr ps"
    and "Normalization_VenueContract n = Some contract"
    and "Normalization_PositionQuantity n = Some position" and "Normalization_SettlementPrice n = Some price"
  shows "input_account_total ''asset:cash'' ps = position * price * VenueContract_Multiplier contract \<and>
    (Normalization_EventType n = EconomicEventOptionExpiration \<longrightarrow> input_account_total ''asset:cash'' ps = 0) \<and>
    (Normalization_EventType n = EconomicEventPredictionPayout \<longrightarrow>
       input_account_total ''asset:cash'' ps \<in> {0, position * VenueContract_Multiplier contract})"
proof -
  have "settlement_mechanics n i contract price = None" if "Normalization_Instrument n = Some i" for i
    using assms(1) by (rule cashSettlementPostings_ok) (use assms(2-) that in auto)
  moreover obtain i where "Normalization_Instrument n = Some i"
    using assms(1) by (rule cashSettlementPostings_ok)
  ultimately have "settlement_mechanics n i contract price = None" by simp
  then have "Normalization_EventType n = EconomicEventOptionExpiration \<Longrightarrow> price = 0"
    "Normalization_EventType n = EconomicEventPredictionPayout \<Longrightarrow> price \<in> {0, 1}"
    by (auto simp: settlement_mechanics_def)
  with cash_settlement_effect [OF assms] show ?thesis by auto
qed

definition demo_prediction :: "int Instrument" where
  "demo_prediction = demo_instrument
    \<lparr>Instrument_AssetClass := AssetClassPredictionContract, Instrument_SettlementMethod := SettlementBinary\<rparr>"

definition demo_payout :: "int EconomicNormalization" where
  "demo_payout = (demo_normalization EconomicEventPredictionPayout)
    \<lparr>Normalization_Instrument := Some demo_prediction,
     Normalization_VenueContract := Some (demo_contract\<lparr>VenueContract_SettlementMethod := SettlementBinary\<rparr>),
     Normalization_PositionQuantity := Some (- 8), Normalization_SettlementPrice := Some 1\<rparr>"

lemma cash_settlement_payout_witness:
  "\<exists>ps. cashSettlementPostings demo_lib demo_payout = Inr ps \<and> input_account_total ''asset:cash'' ps = - 8"
proof -
  have "\<not> isl (cashSettlementPostings demo_lib demo_payout)" by code_simp
  then obtain ps where ps: "cashSettlementPostings demo_lib demo_payout = Inr ps"
    by (metis sum.collapse(2))
  from cash_settlement_payout [OF ps, of "demo_contract\<lparr>VenueContract_SettlementMethod := SettlementBinary\<rparr>" "- 8" 1] ps
  show ?thesis by (auto simp: demo_payout_def demo_contract_def)
qed

text \<open>
  C5: physical delivery.  The cash leg of an option exercise or assignment is exactly the strike price
  times the quantity of the underlying delivered, with the opposite sign: a long call and a short
  put receive the underlying and pay, a short call and a long put deliver it and are paid.
\<close>

theorem physical_option_delivery:
  assumes "physicalOptionPostings L n = Inr ps"
    and "Normalization_OptionTerms n = Some terms" and "Normalization_PositionQuantity n = Some position"
    and "Normalization_EventType n \<in> {EconomicEventOptionExercise, EconomicEventOptionAssignment}"
  shows "input_account_total ''asset:cash'' ps =
      - (delivered_quantity terms position * OptionContractTerms_StrikePrice terms) \<and>
    (0 < delivered_quantity terms position \<longleftrightarrow>
       (OptionContractTerms_ContractType terms = OptionContractCall) =
       (Normalization_EventType n = EconomicEventOptionExercise)) \<and>
    (0 < input_account_total ''asset:cash'' ps \<longleftrightarrow> delivered_quantity terms position < 0)"
  using assms(1)
proof (cases rule: physicalOptionPostings_ok)
  case (1 opt underlying contract terms' position' source underlyingAccount)
  with assms(2,3) have checks: "physical_checks L n opt underlying contract terms position source = None" by simp
  then have pos: "0 < OptionContractTerms_DeliverableQuantity terms" "0 < OptionContractTerms_StrikePrice terms"
    and kind: "OptionContractTerms_ContractType terms = OptionContractCall \<or>
      OptionContractTerms_ContractType terms = OptionContractPut"
    and sign: "Normalization_EventType n = EconomicEventOptionExercise \<longrightarrow> 0 < position"
      "Normalization_EventType n = EconomicEventOptionAssignment \<longrightarrow> position < 0"
    by (auto simp: physical_checks_def OptionContractTerms_Validate_def)
  have "0 < delivered_quantity terms position \<longleftrightarrow>
      (OptionContractTerms_ContractType terms = OptionContractCall) =
      (Normalization_EventType n = EconomicEventOptionExercise)"
    using pos kind sign assms(4)
    by (auto simp: delivered_quantity_def zero_less_mult_iff mult_less_0_iff)
  with physical_option_effect [OF assms(1-3)] pos show ?thesis by (auto simp: mult_less_0_iff)
qed

definition demo_exercise :: "int EconomicNormalization" where
  "demo_exercise = (demo_normalization EconomicEventOptionExercise)
    \<lparr>Normalization_Instrument := Some demo_option, Normalization_SecondaryInstrument := Some demo_instrument,
     Normalization_VenueContract := Some demo_option_contract,
     Normalization_OptionTerms := Some (demo_terms OptionContractPut),
     Normalization_PositionQuantity := Some 2\<rparr>"

lemma physical_option_delivery_witness:
  "\<exists>ps. physicalOptionPostings demo_lib demo_exercise = Inr ps \<and> input_account_total ''asset:cash'' ps = 18000"
proof -
  have "\<not> isl (physicalOptionPostings demo_lib demo_exercise)" by code_simp
  then obtain ps where ps: "physicalOptionPostings demo_lib demo_exercise = Inr ps"
    by (metis sum.collapse(2))
  from physical_option_delivery [OF ps, of "demo_terms OptionContractPut" 2] ps
  show ?thesis by (auto simp: demo_exercise_def demo_normalization_def demo_terms_def delivered_quantity_def)
qed

text \<open>
  What the comparison of ledger aggregates establishes.  If the comparison accepts two
  transactions whose posting keys are pairwise different within each, they have the same postings
  up to order, metadata spelling and creation time, hence the same total in every unit and account.
\<close>

theorem same_transaction_same_postings:
  assumes "sameEconomicTransaction L (Some l) (Some r)"
    and "distinct (map Posting_IdempotencyKey (Transaction_Postings l))"
    and "distinct (map Posting_IdempotencyKey (Transaction_Postings r))"
  shows "mset (map posting_core (Transaction_Postings l)) = mset (map posting_core (Transaction_Postings r)) \<and>
    unit_total kind unit (Transaction_Postings l) = unit_total kind unit (Transaction_Postings r)"
  using sameEconomicTransaction_mset [OF assms] unit_total_core by blast

text \<open>The expected transaction does not depend on the attached one.\<close>

lemma normalization_fields:
  "Normalization_ID (n\<lparr>Normalization_Transaction := t\<rparr>) = Normalization_ID n"
  "Normalization_SourceEvent (n\<lparr>Normalization_Transaction := t\<rparr>) = Normalization_SourceEvent n"
  "Normalization_Account (n\<lparr>Normalization_Transaction := t\<rparr>) = Normalization_Account n"
  "Normalization_EventType (n\<lparr>Normalization_Transaction := t\<rparr>) = Normalization_EventType n"
  "Normalization_NormalizerVersion (n\<lparr>Normalization_Transaction := t\<rparr>) = Normalization_NormalizerVersion n"
  "Normalization_ExecutionOriginType (n\<lparr>Normalization_Transaction := t\<rparr>) = Normalization_ExecutionOriginType n"
  "Normalization_ExecutionOriginID (n\<lparr>Normalization_Transaction := t\<rparr>) = Normalization_ExecutionOriginID n"
  "Normalization_ReferenceType (n\<lparr>Normalization_Transaction := t\<rparr>) = Normalization_ReferenceType n"
  "Normalization_ReferenceID (n\<lparr>Normalization_Transaction := t\<rparr>) = Normalization_ReferenceID n"
  "Normalization_Venue (n\<lparr>Normalization_Transaction := t\<rparr>) = Normalization_Venue n"
  "Normalization_Instrument (n\<lparr>Normalization_Transaction := t\<rparr>) = Normalization_Instrument n"
  "Normalization_SecondaryInstrument (n\<lparr>Normalization_Transaction := t\<rparr>) = Normalization_SecondaryInstrument n"
  "Normalization_VenueContract (n\<lparr>Normalization_Transaction := t\<rparr>) = Normalization_VenueContract n"
  "Normalization_OptionTerms (n\<lparr>Normalization_Transaction := t\<rparr>) = Normalization_OptionTerms n"
  "Normalization_EffectiveAt (n\<lparr>Normalization_Transaction := t\<rparr>) = Normalization_EffectiveAt n"
  "Normalization_CashCurrency (n\<lparr>Normalization_Transaction := t\<rparr>) = Normalization_CashCurrency n"
  "Normalization_Quantity (n\<lparr>Normalization_Transaction := t\<rparr>) = Normalization_Quantity n"
  "Normalization_Price (n\<lparr>Normalization_Transaction := t\<rparr>) = Normalization_Price n"
  "Normalization_CostKind (n\<lparr>Normalization_Transaction := t\<rparr>) = Normalization_CostKind n"
  "Normalization_CostCurrency (n\<lparr>Normalization_Transaction := t\<rparr>) = Normalization_CostCurrency n"
  "Normalization_CostAmount (n\<lparr>Normalization_Transaction := t\<rparr>) = Normalization_CostAmount n"
  "Normalization_PositionQuantity (n\<lparr>Normalization_Transaction := t\<rparr>) = Normalization_PositionQuantity n"
  "Normalization_SettlementPrice (n\<lparr>Normalization_Transaction := t\<rparr>) = Normalization_SettlementPrice n"
  "Normalization_CreatedAt (n\<lparr>Normalization_Transaction := t\<rparr>) = Normalization_CreatedAt n"
  by simp_all

lemma postings_transaction:
  fixes n :: "('d::linordered_idom) EconomicNormalization" and t :: "'d Transaction option"
  defines "n' \<equiv> n\<lparr>Normalization_Transaction := t\<rparr>"
  shows "fillPostings L n' = fillPostings L n" and "costPostings L n' = costPostings L n"
    and "cashSettlementPostings L n' = cashSettlementPostings L n" and "physicalOptionPostings L n' = physicalOptionPostings L n"
    and "normalization_metadata L n' source = normalization_metadata L n source"
  unfolding n'_def fillPostings_def costPostings_def cashSettlementPostings_def physicalOptionPostings_def fill_checks_def
    requiredCostPostings_def optionalCostPostings_def validateSettlementReferences_def settlement_mechanics_def physical_checks_def
    normalization_metadata_def normalization_fields
  by (rule refl)+

lemma expectedTransaction_transaction:
  "expectedTransaction L now (n\<lparr>Normalization_Transaction := t\<rparr>) = expectedTransaction L now n"
  unfolding expectedTransaction_def expectedPostings_def postings_transaction normalization_fields by (rule refl)

text \<open>Any list of the right length drawn from the postings of an accepted transaction is accepted in their place.\<close>

lemma sameEconomicTransaction_drawn:
  assumes "sameEconomicTransaction L (Some l) (Some r)" and "set ps \<subseteq> set (Transaction_Postings l)"
    and "length ps = length (Transaction_Postings l)"
  shows "sameEconomicTransaction L (Some (l\<lparr>Transaction_Postings := ps\<rparr>)) (Some r)"
  using assms by (auto simp: sameEconomicTransaction_def list_all_iff)

lemma sameEconomicTransaction_amount:
  assumes "sameEconomicTransaction L (Some l) (Some r)" and "Transaction_Validate L r = None" and "p \<in> set (Transaction_Postings l)"
  shows "Posting_Amount p \<noteq> 0"
proof -
  from assms(3) have "posting_core p \<in> posting_core ` set (Transaction_Postings l)" by (rule imageI)
  with sameEconomicTransaction_core_subset [OF assms(1)] obtain q where
    q: "q \<in> set (Transaction_Postings r)" "posting_core p = posting_core q" by (blast elim: imageE)
  from assms(2) have "list_all (\<lambda>q. Posting_Amount q \<noteq> 0) (Transaction_Postings r)"
    by (rule Transaction_Validate_checkPostings) (auto simp: list_all_iff dest: checkPostings_nonzero)
  with q show ?thesis by (auto simp: posting_core_def list_all_iff)
qed

lemma unit_total_replicate:
  "unit_total (Posting_UnitKind p) (Posting_Unit p) (replicate k p) = of_nat k * Posting_Amount p"
  by (induction k) (simp_all add: unit_total_def algebra_simps)

text \<open>
  C25: without that distinctness the comparison is too weak.  It looks every posting of the left transaction up by key on the right
  and compares the counts, so one posting may stand in the place of every other.  In every normalization that
  \<open>EconomicNormalization.Validate\<close> accepts, all postings of the attached transaction can be replaced by copies of any one of them:
  the normalization is still accepted, although the attached transaction does not balance and \<open>Transaction.Validate\<close> rejects it.
\<close>

theorem normalization_accepts_repeated_posting:
  fixes t :: "('d::linordered_idom) Transaction" and p :: "'d Posting"
  defines "t' \<equiv> t\<lparr>Transaction_Postings := replicate (length (Transaction_Postings t)) p\<rparr>"
  assumes "EconomicNormalization_Validate L now n = None" and "Normalization_Transaction n = Some t" and "p \<in> set (Transaction_Postings t)"
  shows "EconomicNormalization_Validate L now (n\<lparr>Normalization_Transaction := Some t'\<rparr>) = None \<and>
    unit_total (Posting_UnitKind p) (Posting_Unit p) (Transaction_Postings t') \<noteq> 0 \<and> Transaction_Validate L t' \<noteq> None"
proof -
  from assms(2,3) obtain r where r: "expectedTransaction L now n = Inr r" "sameEconomicTransaction L (Some t) (Some r)"
    by (auto simp: EconomicNormalization_Validate_def split: option.splits sum.splits)
  have same: "sameEconomicTransaction L (Some t') (Some r)"
    unfolding t'_def by (rule sameEconomicTransaction_drawn [OF r(2)]) (use assms(4) in \<open>auto simp: set_replicate_conv_if\<close>)
  have "expectedTransaction L now (n\<lparr>Normalization_Transaction := Some t'\<rparr>) = Inr r"
    using r(1) by (simp add: expectedTransaction_transaction)
  with same r assms(2,3) have "EconomicNormalization_Validate L now (n\<lparr>Normalization_Transaction := Some t'\<rparr>) = None"
    by (auto simp: EconomicNormalization_Validate_def split: option.splits)
  moreover from assms(4) have "Transaction_Postings t \<noteq> []" by auto
  with sameEconomicTransaction_amount [OF r(2) expectedTransaction_valid [OF r(1)] assms(4)]
  have total: "unit_total (Posting_UnitKind p) (Posting_Unit p) (Transaction_Postings t') \<noteq> 0"
    by (simp add: t'_def unit_total_replicate)
  moreover from total have "Transaction_Validate L t' \<noteq> None" using Transaction_Validate_balanced by blast
  ultimately show ?thesis by blast
qed

lemma normalization_accepts_repeated_posting_witness:
  "\<exists>n t. EconomicNormalization_Validate demo_lib (demo_time 22) n = None \<and> Normalization_Transaction n = Some t \<and>
     Transaction_Validate demo_lib t \<noteq> None"
proof -
  obtain n where n: "NewFillEconomicNormalization demo_lib (\<lambda>i. demo_time 22) demo_fill_input = Inr n" by (rule demo_fill_normalized)
  then obtain m where "materializeAndValidate demo_lib (\<lambda>i. demo_time 22) m = Inr n" by (rule fill_constructor_fields)
  then obtain t where t: "Normalization_Transaction n = Some t" "EconomicNormalization_Validate demo_lib (demo_time 22) n = None"
    "Transaction_Validate demo_lib t = None"
    by (rule materializeAndValidate_ok) (simp add: expectedTransaction_valid)
  from t(3) have "Transaction_Postings t \<noteq> []" by (auto simp: Transaction_Validate_def)
  then obtain p where "p \<in> set (Transaction_Postings t)" by (cases "Transaction_Postings t") auto
  from normalization_accepts_repeated_posting [OF t(2,1) this] show ?thesis by (intro exI conjI) auto
qed

end
