(* ===== verification/Projection_Correctness.thy ===== *)
theory Projection_Correctness
  imports Projection_Invariants Ledger_Balance
begin

text \<open>
  The portfolio rebuild as a whole: the accounting identity holds in every state the replay
  reaches, positions and cash are the sums of what the transactions say, the internal checks of
  \<open>finalize\<close> cannot fail, and the result does not depend on rows outside the projection.
\<close>

section \<open>One transaction\<close>

text \<open>Profit booked so far plus the opening cash still in lots is the cash that is not capital.\<close>

definition projection_invar :: "('d::linordered_idom) projectionState \<Rightarrow> bool" where
  "projection_invar s \<longleftrightarrow> lots_ok s \<and> book_value s = cash s - netCapital s"

definition mechanics_valid_for ::
    "('d::linordered_idom) lib \<Rightarrow> (uuid \<times> 'd ProjectionMechanics) list \<Rightarrow> 'd Transaction \<Rightarrow> bool" where
  "mechanics_valid_for L mech t \<longleftrightarrow>
     opt_all (\<lambda>m. ProjectionMechanics_Validate L m = None) (map_of mech (Transaction_ID t))"

text \<open>What a transaction means for a position, for cash, fees and rebates, read off its data alone.\<close>

definition transaction_movement ::
    "(uuid \<times> ('d::linordered_idom) ProjectionMechanics) list \<Rightarrow> uuid \<Rightarrow> 'd Transaction \<Rightarrow> 'd" where
  "transaction_movement mech k t =
    (case map_of mech (Transaction_ID t) of None \<Rightarrow> 0 | Some m \<Rightarrow> mechanics_movement k m)"

abbreviation posted :: "string \<Rightarrow> ('d::linordered_idom) Transaction \<Rightarrow> 'd" where
  "posted a t \<equiv> account_total a (Transaction_Postings t)"

lemma cashAndCosts_spec:
  "cashAndCosts currency c f r ps = Inr (c', f', r') \<Longrightarrow>
     c' = c + sum_where (\<lambda>p. Posting_LedgerAccount p = ''asset:cash'') Posting_Amount ps \<and>
     f' = f + sum_where (\<lambda>p. Posting_LedgerAccount p = ''expense:fees'') Posting_Amount ps \<and>
     r' = r - sum_where (\<lambda>p. Posting_LedgerAccount p = ''income:rebates'') Posting_Amount ps"
  by (induction currency c f r ps rule: cashAndCosts.induct) (auto simp: Let_def split: if_splits)

lemma projectionCashAndCosts_spec:
  "projectionCashAndCosts t currency = Inr (c, f, r) \<Longrightarrow>
     c = posted ''asset:cash'' t \<and> f = posted ''expense:fees'' t \<and> r = - posted ''income:rebates'' t"
  using cashAndCosts_spec [of currency 0 0 0 "Transaction_Postings t" c f r]
  by (simp add: projectionCashAndCosts_def account_total_def)

lemma projectTransaction_effect:
  assumes run: "projectTransaction L currency mech s t = Inr s'" and inv: "projection_invar s"
    and valid: "mechanics_valid_for L mech t"
  shows "projection_invar s'"
    and "lot_quantity k (lots s') = lot_quantity k (lots s) + transaction_movement mech k t"
    and "cash s' = cash s + posted ''asset:cash'' t"
    and "fees s' = fees s + posted ''expense:fees'' t"
    and "rebates s' = rebates s + - posted ''income:rebates'' t"
proof -
  obtain c f r where pc: "projectionCashAndCosts t currency = Inr (c, f, r)"
    using run by (auto simp: projectTransaction_def)
  note sums = projectionCashAndCosts_spec [OF pc]
  define s1 where "s1 = s\<lparr>cash := cash s + c, fees := fees s + f, rebates := rebates s + r\<rparr>"
  let ?capital = "Transaction_EventType t = ''capital_flow.deposit'' \<or> Transaction_EventType t = ''capital_flow.withdrawal''"
  have "projection_invar s' \<and> lot_quantity k (lots s') = lot_quantity k (lots s) + transaction_movement mech k t \<and>
      cash s' = cash s + c \<and> fees s' = fees s + f \<and> rebates s' = rebates s + r"
  proof (cases ?capital)
    case True
    with run pc have "map_of mech (Transaction_ID t) = None" "s' = s1\<lparr>netCapital := netCapital s1 + c\<rparr>"
      by (auto simp: projectTransaction_def s1_def Let_def)
    then show ?thesis using inv
      by (simp add: projection_invar_def lots_ok_def book_value_def s1_def transaction_movement_def)
  next
    case False
    with run pc obtain m where m: "map_of mech (Transaction_ID t) = Some m"
      and ap: "applyEconomicTransaction L s1 t m c = Inr s'"
      by (auto simp: projectTransaction_def s1_def Let_def split: option.splits)
    have "lots_ok s1" using inv by (simp add: projection_invar_def lots_ok_def s1_def)
    then have "event_effect s1 c (\<lambda>k. mechanics_movement k m) s'"
      by (rule applyEconomicTransaction_effect [OF ap]) (use valid m in \<open>simp add: mechanics_valid_for_def\<close>)
    then show ?thesis using inv m
      by (simp add: projection_invar_def event_effect_def book_value_def s1_def transaction_movement_def algebra_simps)
  qed
  then show "projection_invar s'" "lot_quantity k (lots s') = lot_quantity k (lots s) + transaction_movement mech k t"
    "cash s' = cash s + posted ''asset:cash'' t" "fees s' = fees s + posted ''expense:fees'' t"
    "rebates s' = rebates s + - posted ''income:rebates'' t"
    using sums by simp_all
qed

section \<open>The replay\<close>

lemma projection_invar_empty: "projection_invar empty_state"
  by (simp add: projection_invar_def lots_ok_def zero_clean_def one_sided_def book_value_def empty_state_def lot_cash_def)

interpretation projection_replay: event_sourced
  "projectTransaction L currency mech" empty_state "mechanics_valid_for L mech" projection_invar for L currency mech
  by unfold_locales (simp_all add: projection_invar_empty projectTransaction_effect(1))

interpretation quantity_view: additive_view
  "projectTransaction L currency mech" empty_state "mechanics_valid_for L mech" projection_invar
  "\<lambda>s. lot_quantity k (lots s)" "transaction_movement mech k" for L currency mech k
  by unfold_locales (simp add: empty_state_def lot_quantity_def, rule projectTransaction_effect(2))

interpretation cash_view: additive_view
  "projectTransaction L currency mech" empty_state "mechanics_valid_for L mech" projection_invar
  cash "posted ''asset:cash''" for L currency mech
  by unfold_locales (simp_all add: projectTransaction_effect(3) empty_state_def)

interpretation fees_view: additive_view
  "projectTransaction L currency mech" empty_state "mechanics_valid_for L mech" projection_invar
  fees "posted ''expense:fees''" for L currency mech
  by unfold_locales (simp_all add: projectTransaction_effect(4) empty_state_def)

interpretation rebates_view: additive_view
  "projectTransaction L currency mech" empty_state "mechanics_valid_for L mech" projection_invar
  rebates "\<lambda>t. - posted ''income:rebates'' t" for L currency mech
  by unfold_locales (simp_all add: projectTransaction_effect(5) empty_state_def)

lemma collectMechanics_valid:
  assumes "collectMechanics L ids acc ms = Inr mech" and "\<And>k m. (k, m) \<in> set acc \<Longrightarrow> ProjectionMechanics_Validate L m = None"
    and "(k, m) \<in> set mech"
  shows "ProjectionMechanics_Validate L m = None"
  using assms
proof (induction L ids acc ms rule: collectMechanics.induct)
  case (2 L ids acc m' ms)
  show ?case
  proof (cases "Mechanics_TransactionID m' \<in> set ids")
    case True
    with "2.prems" have "collectMechanics L ids ((Mechanics_TransactionID m', m') # acc) ms = Inr mech"
      "ProjectionMechanics_Validate L m' = None" by auto
    with "2.IH"(2) "2.prems" True show ?thesis by force
  qed (use 2 in auto)
qed simp

lemma eligibleProjectionMechanics_valid:
  assumes "eligibleProjectionMechanics L ms ts = Inr mech"
  shows "mechanics_valid_for L mech t"
  using assms collectMechanics_valid [of L _ "[]" ms mech]
  by (auto simp: mechanics_valid_for_def eligibleProjectionMechanics_def opt_all_def dest: map_of_SomeD split: option.splits)

text \<open>What a successful replay of an input consists of.\<close>

lemma projectionReplayE:
  assumes "projectionReplay L request currency input = Inr (ts, mech, s)"
  obtains eligible where "eligibleTransactions L request (Input_Transactions input) = Inr eligible"
    and "ts = sort_by (projectionTransactionLess L) eligible" and "ts \<noteq> []"
    and "eligibleProjectionMechanics L (Input_Mechanics input) ts = Inr mech"
    and "replay (projectTransaction L currency mech) empty_state ts = Inr s"
    and "list_all (mechanics_valid_for L mech) ts"
  using assms eligibleProjectionMechanics_valid [of L "Input_Mechanics input"]
  by (auto simp: projectionReplay_def Let_def list_all_iff)

lemma projectionReplay_invar:
  "projectionReplay L request currency input = Inr (ts, mech, s) \<Longrightarrow> projection_invar s"
  by (elim projectionReplayE) (rule projection_replay.invar_replay)

section \<open>The totals\<close>

text \<open>A closed position has no open lot, so no opening cash is left in it.\<close>

lemma closed_position_empty:
  assumes "one_sided ls" and "lot_quantity i ls = 0" and "l \<in> set ls" and "Lot_InstrumentID l = i"
  shows "Lot_RemainingQuantity l = 0"
proof -
  have sums: "sum_list (map Lot_RemainingQuantity (filter (lot_of i) ls)) = 0"
    using assms(2) by (simp add: lot_quantity_def sum_where_def)
  have mem: "Lot_RemainingQuantity l \<in> set (map Lot_RemainingQuantity (filter (lot_of i) ls))"
    using assms(3,4) by simp
  from assms(1) consider "\<And>x. x \<in> set (map Lot_RemainingQuantity (filter (lot_of i) ls)) \<Longrightarrow> 0 \<le> x"
    | "\<And>x. x \<in> set (map Lot_RemainingQuantity (filter (lot_of i) ls)) \<Longrightarrow> x \<le> 0"
    unfolding one_sided_def by fastforce
  then show ?thesis
  proof cases
    case 1
    then show ?thesis using sum_list_nonneg_eq_0_iff [of "map Lot_RemainingQuantity (filter (lot_of i) ls)"] sums mem by blast
  next
    case 2
    have "sum_list (map uminus (map Lot_RemainingQuantity (filter (lot_of i) ls))) = 0"
      using sums uminus_sum_list_map [of Lot_RemainingQuantity "filter (lot_of i) ls"] by (simp add: o_def)
    moreover have "- Lot_RemainingQuantity l \<in> set (map uminus (map Lot_RemainingQuantity (filter (lot_of i) ls)))"
      using mem by fastforce
    ultimately have "- Lot_RemainingQuantity l = 0"
      using 2 sum_list_nonneg_eq_0_iff [of "map uminus (map Lot_RemainingQuantity (filter (lot_of i) ls))"] by fastforce
    then show ?thesis by simp
  qed
qed

definition instrument_cash :: "uuid \<Rightarrow> ('d::linordered_idom) ProjectionLot list \<Rightarrow> 'd" where
  "instrument_cash i ls = sum_where (lot_of i) Lot_RemainingOpeningCash ls"

lemma closed_position_cash:
  assumes "zero_clean ls" and "one_sided ls" and "lot_quantity i ls = 0"
  shows "instrument_cash i ls = 0"
proof -
  have "Lot_RemainingOpeningCash l = 0" if "l \<in> set ls" "lot_of i l" for l
    using closed_position_empty [OF assms(2,3) that] assms(1) that by (auto simp: zero_clean_def list_all_iff)
  then have "sum_where (lot_of i) Lot_RemainingOpeningCash ls = sum_where (lot_of i) (\<lambda>l. 0) ls"
    by (intro sum_where_cong) auto
  then show ?thesis by (simp add: instrument_cash_def sum_where_def)
qed

lemma instrument_cash_partition:
  assumes "distinct ids" and "Lot_InstrumentID ` set ls \<subseteq> set ids"
  shows "sum_list (map (\<lambda>i. instrument_cash i ls) ids) = lot_cash ls"
  using assms(2)
proof (induction ls)
  case Nil
  then show ?case by (simp add: instrument_cash_def lot_cash_def)
next
  case (Cons l ls)
  have "sum_list (map (\<lambda>i. if Lot_InstrumentID l = i then Lot_RemainingOpeningCash l else 0) ids) = Lot_RemainingOpeningCash l"
    using assms(1) Cons.prems by (subst sum_list_distinct_conv_sum_set) (auto simp: if_distrib cong: if_cong)
  then show ?case using Cons by (simp add: instrument_cash_def lot_cash_def sum_list_addf)
qed

lemma positionLoop_unrealized:
  assumes "positionLoop s selected ids = Inr (marks, positions, mv, un)" and "lots_ok s"
  shows "un = mv + sum_list (map (\<lambda>i. instrument_cash i (lots s)) ids)"
  using assms(1)
proof (induction ids arbitrary: marks positions mv un)
  case (Cons i ids)
  show ?case
  proof (cases "Position_Open (position_of s i)")
    case True
    with Cons.prems obtain m marks' positions' mv' un' where "map_of selected i = Some m"
      and "positionLoop s selected ids = Inr (marks', positions', mv', un')"
      and "mv = Position_MarketValue (marked_position s (position_of s i) m) + mv'"
      and "un = Position_UnrealizedPnL (marked_position s (position_of s i) m) + un'"
      by (auto simp: Let_def split: option.splits)
    with Cons.IH show ?thesis
      by (simp add: marked_position_def position_of_def instrument_cash_def Let_def algebra_simps)
  next
    case False
    then have "instrument_cash i (lots s) = 0"
      using assms(2) by (intro closed_position_cash) (auto simp: lots_ok_def position_of_def lot_quantity_def Let_def)
    moreover from False Cons.prems obtain marks' positions' where "positionLoop s selected ids = Inr (marks', positions', mv, un)"
      by (auto simp: Let_def)
    ultimately show ?thesis using Cons.IH by simp
  qed
qed simp

text \<open>The check at the end of \<open>finalize\<close> holds in every state that satisfies the invariant.\<close>

lemma finalize_equation:
  assumes "positionLoop s selected ids = Inr (marks, positions, mv, un)" and "projection_invar s"
    and "distinct ids" and "set ids = set (activity s)"
  shows "realized s + un = cash s + mv - netCapital s"
proof -
  have "un = mv + lot_cash (lots s)"
    using assms instrument_cash_partition [of ids "lots s"]
    by (simp add: positionLoop_unrealized [OF assms(1)] projection_invar_def lots_ok_def)
  then show ?thesis using assms(2) by (simp add: projection_invar_def book_value_def algebra_simps)
qed

lemma positionLoop_errors: "positionLoop s selected ids = Inl e \<Longrightarrow> e = NoFreshMark"
  by (induction ids) (auto simp: Let_def split: if_splits option.splits)

lemma selectMarks_errors:
  "selectMarks L request currency selected ms = Inl e \<Longrightarrow> e = ProjectionMarkNil \<or> (\<exists>x. e = ProjectionMarkInvalid x)"
  by (induction L request currency selected ms rule: selectMarks.induct) (auto split: if_splits option.splits)

lemma finalize_no_internal_error:
  assumes "projection_invar s"
  shows "finalize L s request currency ms \<noteq> Inl PnLEquation" and "finalize L s request currency ms \<noteq> Inl NilDereference"
proof -
  let ?ids = "sort_by (\<lambda>x y. uuid_String L x < uuid_String L y) (activity s)"
  have ids: "distinct ?ids" "set ?ids = set (activity s)" using assms by (simp_all add: projection_invar_def lots_ok_def)
  show "finalize L s request currency ms \<noteq> Inl PnLEquation"
    using finalize_equation [OF _ assms ids]
    by (auto simp: finalize_def Let_def dest!: positionLoop_errors selectMarks_errors)
  show "finalize L s request currency ms \<noteq> Inl NilDereference"
    by (auto simp: finalize_def Let_def dest!: positionLoop_errors selectMarks_errors)
qed

section \<open>Errors\<close>

text \<open>Two results would be defects of the rebuild itself: a nil dereference and a failed profit equation.\<close>

definition internal_error :: "projection_error \<Rightarrow> bool" where
  "internal_error e \<longleftrightarrow> e = NilDereference \<or> e = PnLEquation"

lemma internal_error_simps [simp]: "internal_error NilDereference" "internal_error PnLEquation"
  by (simp_all add: internal_error_def)

lemma applyMovement_errors: "applyMovement L s t m i mv ec mul d ex = Inl e \<Longrightarrow> \<not> internal_error e"
  by (auto simp: applyMovement_def Let_def internal_error_def split: if_splits prod.splits)

lemma projectionInstrumentMovement_errors: "projectionInstrumentMovement L t key i = Inl e \<Longrightarrow> \<not> internal_error e"
  by (auto simp: projectionInstrumentMovement_def internal_error_def split: if_splits option.splits)

lemma cashAndCosts_errors: "cashAndCosts currency c f r ps = Inl e \<Longrightarrow> \<not> internal_error e"
  by (induction currency c f r ps rule: cashAndCosts.induct) (auto simp: Let_def internal_error_def split: if_splits)

lemmas step_errors = applyMovement_errors projectionInstrumentMovement_errors cashAndCosts_errors

lemma applyFill_errors:
  "applyFill L s t m ec = Inl e \<Longrightarrow> Mechanics_Quantity m = Some q \<Longrightarrow> Mechanics_Price m = Some p \<Longrightarrow> \<not> internal_error e"
  by (auto simp: applyFill_def Let_def dest: step_errors) (auto simp: internal_error_def)

lemma applyCost_errors:
  "applyCost s t m ec = Inl e \<Longrightarrow> Mechanics_CostAmount m = Some c \<Longrightarrow> \<not> internal_error e"
  by (auto simp: applyCost_def internal_error_def dest!: first_err_Some_mem)

lemma applySettlement_errors:
  "applySettlement L s t m ec = Inl e \<Longrightarrow> Mechanics_PositionQuantity m = Some q \<Longrightarrow>
   Mechanics_SettlementPrice m = Some p \<Longrightarrow> \<not> internal_error e"
  by (auto simp: applySettlement_def dest: step_errors split: if_splits) (auto simp: internal_error_def)

lemma applyPhysicalOption_errors:
  assumes "applyPhysicalOption L s t m ec = Inl e" and "Mechanics_PositionQuantity m = Some q"
    and "Mechanics_DeliverableQuantity m = Some d" and "Mechanics_StrikePrice m = Some p"
  shows "\<not> internal_error e"
proof -
  obtain s1 rest tc where "transferLots L t m (- q) s (- q) 0 0 [0..<length (lots s)] = (s1, rest, tc)" by (metis prod_cases3)
  then show ?thesis using assms
    by (auto simp: applyPhysicalOption_def Let_def dest: step_errors split: if_splits) (auto simp: internal_error_def)
qed

lemma applyEconomicTransaction_errors:
  assumes "applyEconomicTransaction L s t m ec = Inl e" and v: "ProjectionMechanics_Validate L m = None"
  shows "\<not> internal_error e"
  using assms(1)
  by (cases "Mechanics_EventType m")
    (use mechanics_fields [OF v] in \<open>auto simp: applyEconomicTransaction_def internal_error_def
      dest: applyFill_errors applyCost_errors applySettlement_errors applyPhysicalOption_errors\<close>)

lemma projectTransaction_errors:
  assumes "projectTransaction L currency mech s t = Inl e" and "mechanics_valid_for L mech t"
  shows "\<not> internal_error e"
proof (cases "map_of mech (Transaction_ID t)")
  case None
  with assms(1) show ?thesis
    by (auto simp: projectTransaction_def Let_def projectionCashAndCosts_def dest: step_errors dest!: first_err_Some_mem split: if_splits)
      (auto simp: internal_error_def)
next
  case (Some m)
  with assms(2) have v: "ProjectionMechanics_Validate L m = None" by (simp add: mechanics_valid_for_def)
  show ?thesis using assms(1) Some
    by (auto simp: projectTransaction_def Let_def projectionCashAndCosts_def dest: step_errors
        applyEconomicTransaction_errors [OF _ v] dest!: first_err_Some_mem split: if_splits)
      (auto simp: internal_error_def)
qed

lemma eligibleTransactions_errors: "eligibleTransactions L request ts = Inl e \<Longrightarrow> \<not> internal_error e"
  by (induction L request ts rule: eligibleTransactions.induct)
    (auto simp: internal_error_def dest!: first_err_Some_mem split: if_splits)

lemma collectMechanics_errors: "collectMechanics L ids acc ms = Inl e \<Longrightarrow> \<not> internal_error e"
  by (induction L ids acc ms rule: collectMechanics.induct)
    (auto simp: internal_error_def dest!: first_err_Some_mem split: if_splits)

lemma traverse_errors: "traverse f xs = Inl e \<Longrightarrow> (\<And>x. f x = Inl e \<Longrightarrow> P) \<Longrightarrow> P"
  by (induction xs) auto

lemma canonicalJSON_errors: "canonicalJSON L raw = Inl e \<Longrightarrow> \<not> internal_error e"
  by (auto simp: canonicalJSON_def internal_error_def split: decoded.splits if_splits)

lemma canonical_rows_errors:
  "canonicalProjectionMarks L marks = Inl e \<Longrightarrow> \<not> internal_error e"
  "traverse (canonicalTransaction L) ts = Inl e \<Longrightarrow> \<not> internal_error e"
  by (auto simp: canonicalProjectionMarks_def canonicalMark_def canonicalTransaction_def canonicalPosting_def
      elim!: traverse_errors dest!: canonicalJSON_errors)

lemma projectionReplay_errors:
  assumes "projectionReplay L request currency input = Inl e"
  shows "\<not> internal_error e"
proof
  assume int: "internal_error e"
  obtain ts mech where m: "eligibleProjectionMechanics L (Input_Mechanics input) ts = Inr mech"
    and r: "replay (projectTransaction L currency mech) empty_state ts = Inl e"
    using assms int by (auto simp: projectionReplay_def Let_def eligibleProjectionMechanics_def internal_error_def
      dest!: eligibleTransactions_errors collectMechanics_errors)
  have "replay (projectTransaction L currency mech) empty_state ts \<noteq> Inl e"
    using int eligibleProjectionMechanics_valid [OF m]
    by (intro replay_not_Inl [where good = "\<lambda>t. mechanics_valid_for L mech t"])
      (auto simp: list_all_iff dest!: projectTransaction_errors)
  with r show False by contradiction
qed

lemma BuildPortfolioProjection_errors:
  assumes "BuildPortfolioProjection L input = Inl e"
  shows "\<not> internal_error e"
proof
  assume int: "internal_error e"
  obtain request currency ts mech s where r: "projectionReplay L request currency input = Inr (ts, mech, s)"
    and f: "finalize L s request currency (Input_Marks input) = Inl e"
    using assms int
    by (auto simp: BuildPortfolioProjection_def projectionInputChecksum_def marshalProjectionPayload_def Let_def
        normalizeProjectionBoundary_def internal_error_def
        dest!: projectionReplay_errors canonical_rows_errors first_err_Some_mem)
  from finalize_no_internal_error [OF projectionReplay_invar [OF r]] f int show False
    by (auto simp: internal_error_def)
qed

section \<open>Order of rows\<close>

lemma sorted_wrt_unique:
  assumes "sorted_wrt R xs" and "sorted_wrt R ys" and "mset xs = mset ys"
    and "\<And>x y. x \<in> set xs \<Longrightarrow> y \<in> set xs \<Longrightarrow> R x y \<Longrightarrow> R y x \<Longrightarrow> x = y"
  shows "xs = ys"
  using assms
proof (induction xs arbitrary: ys)
  case (Cons x xs)
  then obtain y ys' where ys: "ys = y # ys'" by (cases ys) auto
  have set: "set (x # xs) = set ys" using Cons.prems(3) by (metis set_mset_mset)
  have xy: "x = y"
  proof (rule ccontr)
    assume ne: "x \<noteq> y"
    with set ys have mem: "x \<in> set ys'" "y \<in> set xs" by auto
    with Cons.prems(1,2) ys have "R y x" "R x y" by auto
    with Cons.prems(4) mem ne show False by auto
  qed
  with Cons.prems(3) ys have "mset xs = mset ys'" by simp
  moreover have "sorted_wrt R xs" "sorted_wrt R ys'" using Cons.prems(1,2) ys by simp_all
  ultimately show ?case using Cons.IH [of ys'] Cons.prems(4) xy ys by auto
qed simp

lemma projectionTransactionLess_order:
  "projectionTransactionLess L x y \<Longrightarrow> \<not> projectionTransactionLess L z y \<Longrightarrow> projectionTransactionLess L x z"
  "projectionTransactionLess L x y \<Longrightarrow> \<not> projectionTransactionLess L y x"
  by (auto simp: projectionTransactionLess_def time_defs split: if_splits)

lemma projectionTransactionLess_total:
  "uuid_String L (Transaction_ID x) \<noteq> uuid_String L (Transaction_ID y) \<Longrightarrow>
   projectionTransactionLess L x y \<or> projectionTransactionLess L y x"
  by (auto simp: projectionTransactionLess_def time_defs)

abbreviation transaction_key :: "'d lib \<Rightarrow> 'd Transaction \<Rightarrow> string" where
  "transaction_key L t \<equiv> uuid_String L (Transaction_ID t)"

lemma sort_transactions_sorted:
  "sorted_wrt (\<lambda>a b. \<not> projectionTransactionLess L b a) (sort_by (projectionTransactionLess L) ts)"
  by (rule sorted_sort_by) (blast intro: projectionTransactionLess_order dest: projectionTransactionLess_order(2))+

lemma sort_transactions_perm:
  assumes "mset xs = mset ys" and "distinct (map (transaction_key L) xs)"
  shows "sort_by (projectionTransactionLess L) xs = sort_by (projectionTransactionLess L) ys"
proof (rule sorted_wrt_unique [OF sort_transactions_sorted sort_transactions_sorted])
  fix x y
  assume mem: "x \<in> set (sort_by (projectionTransactionLess L) xs)" "y \<in> set (sort_by (projectionTransactionLess L) xs)"
    and "\<not> projectionTransactionLess L y x" "\<not> projectionTransactionLess L x y"
  then have "transaction_key L x = transaction_key L y" using projectionTransactionLess_total by blast
  with mem assms(2) show "x = y" by (simp add: distinct_map inj_on_def)
qed (simp add: assms(1))

text \<open>The transactions of a projection, as a condition on the rows.\<close>

definition in_projection :: "ProjectionRequest \<Rightarrow> 'd Transaction \<Rightarrow> bool" where
  "in_projection request t \<longleftrightarrow>
     \<not> After (Transaction_EffectiveAt t) (Request_AsOf request) \<and> \<not> After (Transaction_ObservedAt t) (Request_AsOf request)"

lemma eligibleTransactions_iff:
  "eligibleTransactions L request ts = Inr xs \<longleftrightarrow>
     None \<notin> set ts \<and> xs = filter (in_projection request) (map the ts) \<and>
     list_all (\<lambda>t. Transaction_Validate L t = None \<and> Transaction_AccountID t = Request_AccountID request) xs"
  by (induction L request ts arbitrary: xs rule: eligibleTransactions.induct) (auto simp: in_projection_def)

lemma eligibleTransactions_perm:
  assumes "eligibleTransactions L request ts = Inr xs" and "mset ts' = mset ts"
  shows "\<exists>ys. eligibleTransactions L request ts' = Inr ys \<and> mset ys = mset xs"
proof -
  have "set ts' = set ts" using assms(2) by (metis set_mset_mset)
  moreover have "mset (filter (in_projection request) (map the ts')) = mset (filter (in_projection request) (map the ts))"
    using assms(2) by simp
  moreover then have "set (filter (in_projection request) (map the ts')) = set (filter (in_projection request) (map the ts))"
    by (metis set_mset_mset)
  ultimately show ?thesis using assms(1) by (auto simp: eligibleTransactions_iff list_all_iff)
qed

lemma map_the_filter: "None \<notin> set xs \<Longrightarrow> map the xs = List.map_filter id xs"
  by (induction xs) (auto simp: List.map_filter_def, metis option.exhaust)

lemma projectionReplay_perm:
  assumes "projectionReplay L request currency input = Inr r" and "mset ts' = mset (Input_Transactions input)"
    and "distinct (map (transaction_key L) (List.map_filter id (Input_Transactions input)))"
  shows "projectionReplay L request currency (input\<lparr>Input_Transactions := ts'\<rparr>) = Inr r"
proof -
  from assms(1) obtain xs where xs: "eligibleTransactions L request (Input_Transactions input) = Inr xs"
    by (auto simp: projectionReplay_def)
  obtain ys where ys: "eligibleTransactions L request ts' = Inr ys" "mset ys = mset xs"
    using eligibleTransactions_perm [OF xs assms(2)] by blast
  have "map the (Input_Transactions input) = List.map_filter id (Input_Transactions input)"
    using xs by (intro map_the_filter) (simp add: eligibleTransactions_iff)
  with assms(3) xs have "distinct (map (transaction_key L) xs)"
    by (auto simp: eligibleTransactions_iff distinct_map_filter)
  then have "sort_by (projectionTransactionLess L) xs = sort_by (projectionTransactionLess L) ys"
    using ys(2) by (intro sort_transactions_perm) simp_all
  moreover have "xs = [] \<longleftrightarrow> ys = []" using ys(2) by (metis mset_zero_iff)
  ultimately show ?thesis using assms(1) xs ys(1) by (simp add: projectionReplay_def)
qed

section \<open>First in, first out\<close>

text \<open>A lot is closed only after every earlier lot on the other side of its instrument.\<close>

lemma closeSegments_fifo:
  assumes "closeSegments i mv rem idx ls = (segs, rest)" and "(idx + k, q) \<in> set segs" and "k' < k" and "opposite i mv (ls ! k')"
    and "mv \<noteq> 0" and "rem \<noteq> 0" and "sgn rem = sgn mv"
  shows "(idx + k', \<bar>Lot_RemainingQuantity (ls ! k')\<bar>) \<in> set segs"
  using assms
proof (induction i mv rem idx ls arbitrary: segs rest k k' rule: closeSegments.induct)
  case (2 i mv rem idx lot ls)
  show ?case
  proof (cases "opposite i mv lot")
    case False
    then have skip: "Lot_InstrumentID lot \<noteq> i \<or> Lot_RemainingQuantity lot = 0 \<or> sgn (Lot_RemainingQuantity lot) = sgn mv"
      by (auto simp: opposite_def)
    with "2.prems" have rec: "closeSegments i mv rem (Suc idx) ls = (segs, rest)" by auto
    obtain k1' where k': "k' = Suc k1'" using "2.prems"(4) False by (cases k') auto
    with "2.prems"(3) obtain k1 where k: "k = Suc k1" "k1' < k1" by (cases k) auto
    from "2.IH"(1) [OF skip rec, of k1 k1'] "2.prems" k k' show ?thesis by simp
  next
    case True
    then have noskip: "\<not> (Lot_InstrumentID lot \<noteq> i \<or> Lot_RemainingQuantity lot = 0 \<or> sgn (Lot_RemainingQuantity lot) = sgn mv)"
      by (auto simp: opposite_def)
    define c where "c = min \<bar>Lot_RemainingQuantity lot\<bar> \<bar>rem\<bar>"
    define rem' where "rem' = rem - sgn mv * c"
    have nz: "rem' \<noteq> 0"
      using "2.prems"(1-3) noskip by (auto simp: Let_def c_def rem'_def split: if_splits)
    have full: "c = \<bar>Lot_RemainingQuantity lot\<bar>" and sg: "sgn rem' = sgn mv"
      using nz "2.prems"(5-7) by (auto simp: rem'_def c_def sgn_if min_def abs_if split: if_splits)
    obtain segs' rest' where rec: "closeSegments i mv rem' (Suc idx) ls = (segs', rest')" by fastforce
    with "2.prems"(1) noskip nz have segs: "segs = (idx, c) # segs'" by (auto simp: Let_def c_def rem'_def split: if_splits)
    obtain k1 where k: "k = Suc k1" using "2.prems"(3) by (cases k) auto
    then have mem: "(Suc idx + k1, q) \<in> set segs'" using "2.prems"(2) segs by auto
    show ?thesis
    proof (cases k')
      case 0
      then show ?thesis using segs full by simp
    next
      case (Suc k1')
      then show ?thesis
        using "2.IH"(2) [OF noskip c_def rem'_def nz rec mem, of k1'] "2.prems" nz sg k segs by simp
    qed
  qed
qed simp

lemma applyMovement_fifo:
  assumes run: "applyMovement L s t m i mv ec mul d ex = Inr s'" and "j < k" and "k < length (lots s)"
    and opp: "opposite i mv (lots s ! j)" and changed: "lots s' ! k \<noteq> lots s ! k"
  shows "Lot_RemainingQuantity (lots s' ! j) = 0"
proof -
  from run obtain segs rest s1 rc where mv: "mv \<noteq> 0"
    and segs: "closeSegments i mv mv 0 (lots s) = (segs, rest)"
    and run1: "applySegments L t m i mv ec d (length segs + (if rest \<noteq> 0 then 1 else 0)) s ec \<bar>mv\<bar> 0 segs = (s1, rc)"
    and s': "s' = add_activity i (if rest \<noteq> 0 then openLot L s1 t m i rest rc mul else s1)"
    by (rule applyMovement_split)
  note top = closeSegments_top [OF segs mv]
  note spec = applySegments_spec [OF run1 top(2,1)]
  have "length (lots s1) = length (lots s)" using spec by (metis list_all2_lengthD)
  then have nth: "lots s' ! n = lots s1 ! n" if "n < length (lots s)" for n
    using that openLot_effect(7) [of L s1 t m i rest rc mul] by (auto simp: s' nth_append)
  have "k \<in> fst ` set segs" using spec changed assms(3) nth [OF assms(3)] by metis
  then obtain q where "(0 + k, q) \<in> set segs" by auto
  from closeSegments_fifo [OF segs this assms(2) opp mv mv refl]
  have "(j, \<bar>Lot_RemainingQuantity (lots s ! j)\<bar>) \<in> set segs" by simp
  with spec have "Lot_RemainingQuantity (lots s1 ! j) = 0" using opposite_closed [OF opp mv] by fastforce
  with nth [of j] assms(2,3) show ?thesis by simp
qed

text \<open>The lots stand in the list in the order in which they were opened.\<close>

definition opened_extends :: "time \<Rightarrow> ('d::linordered_idom) projectionState \<Rightarrow> 'd projectionState \<Rightarrow> bool" where
  "opened_extends t s s' \<longleftrightarrow> (\<exists>n. map Lot_OpenedAt (lots s') = map Lot_OpenedAt (lots s) @ replicate n t)"

lemma opened_extends_same: "map Lot_OpenedAt (lots s') = map Lot_OpenedAt (lots s) \<Longrightarrow> opened_extends t s s'"
  unfolding opened_extends_def by (rule exI [of _ 0]) simp

lemma closeLot_opened [simp]: "map Lot_OpenedAt (ls[j := closeLot (ls ! j) mv q oc]) = map Lot_OpenedAt ls"
  by (simp add: map_update closeLot_def Let_def) (metis list_update_beyond list_update_id length_map map_update not_le nth_map)

lemma applySegments_opened:
  "applySegments L t m i mv ec d n s rc rq idx segs = (s', rc') \<Longrightarrow> map Lot_OpenedAt (lots s') = map Lot_OpenedAt (lots s)"
  by (induction segs arbitrary: s rc rq idx) (auto simp: Let_def split: prod.splits)

lemma transferLots_opened:
  "transferLots L t m mv s rem tc ord idxs = (s', rem', tc') \<Longrightarrow> map Lot_OpenedAt (lots s') = map Lot_OpenedAt (lots s)"
  by (induction idxs arbitrary: s rem tc ord) (auto simp: Let_def split: if_splits)

lemma applyMovement_opened:
  assumes "applyMovement L s t m i mv ec mul d ex = Inr s'"
  shows "opened_extends (Transaction_EffectiveAt t) s s'"
proof -
  from assms obtain segs rest s1 rc where "applySegments L t m i mv ec d (length segs + (if rest \<noteq> 0 then 1 else 0)) s ec \<bar>mv\<bar> 0 segs = (s1, rc)"
    and s': "s' = add_activity i (if rest \<noteq> 0 then openLot L s1 t m i rest rc mul else s1)"
    by (rule applyMovement_split)
  then have "map Lot_OpenedAt (lots s1) = map Lot_OpenedAt (lots s)" by (simp add: applySegments_opened)
  then have "map Lot_OpenedAt (lots s') = map Lot_OpenedAt (lots s) @ replicate (if rest \<noteq> 0 then 1 else 0) (Transaction_EffectiveAt t)"
    by (simp add: s' openLot_def Let_def)
  then show ?thesis unfolding opened_extends_def by blast
qed

lemma opened_extends_from:
  "opened_extends x s2 s' \<Longrightarrow> map Lot_OpenedAt (lots s2) = map Lot_OpenedAt (lots s) \<Longrightarrow> opened_extends x s s'"
  by (simp add: opened_extends_def)

lemma applyEconomicTransaction_opened:
  assumes "applyEconomicTransaction L s t m ec = Inr s'"
  shows "opened_extends (Transaction_EffectiveAt t) s s'"
proof -
  have "opened_extends (Transaction_EffectiveAt t) s s'" if "applyFill L s t m ec = Inr s'"
    using that by (rule applyFillE) (rule applyMovement_opened)
  moreover have "opened_extends (Transaction_EffectiveAt t) s s'" if "applySettlement L s t m ec = Inr s'"
    using that by (rule applySettlementE) (rule applyMovement_opened)
  moreover have "opened_extends (Transaction_EffectiveAt t) s s'" if "applyCost s t m ec = Inr s'"
    using that by (rule applyCostE) (simp add: opened_extends_same)
  moreover have "opened_extends (Transaction_EffectiveAt t) s s'" if "applyPhysicalOption L s t m ec = Inr s'"
    using that by (rule applyPhysicalOptionE) (drule applyMovement_opened, erule opened_extends_from, simp add: transferLots_opened)
  ultimately show ?thesis
    using assms by (auto simp: applyEconomicTransaction_def split: EconomicEventType.splits)
qed

lemma projectTransaction_opened:
  assumes "projectTransaction L currency mech s t = Inr s'"
  shows "opened_extends (Transaction_EffectiveAt t) s s'"
proof -
  obtain c f r where pc: "projectionCashAndCosts t currency = Inr (c, f, r)"
    using assms by (auto simp: projectTransaction_def)
  define s1 where "s1 = s\<lparr>cash := cash s + c, fees := fees s + f, rebates := rebates s + r\<rparr>"
  consider "s' = s1\<lparr>netCapital := netCapital s1 + c\<rparr>" | m where "applyEconomicTransaction L s1 t m c = Inr s'"
    using assms pc by (auto simp: projectTransaction_def Let_def s1_def split: if_splits option.splits)
  then show ?thesis
  proof cases
    case 1
    then show ?thesis by (intro opened_extends_same) (simp add: s1_def)
  next
    case 2
    show ?thesis by (rule opened_extends_from [OF applyEconomicTransaction_opened [OF 2]]) (simp add: s1_def)
  qed
qed

lemma replay_opened_sorted:
  assumes "replay (projectTransaction L currency mech) s ts = Inr s'"
    and "sorted_wrt (\<lambda>a b. instant (Transaction_EffectiveAt a) \<le> instant (Transaction_EffectiveAt b)) ts"
    and "sorted (map (\<lambda>l. instant (Lot_OpenedAt l)) (lots s))"
    and "\<And>l t. l \<in> set (lots s) \<Longrightarrow> t \<in> set ts \<Longrightarrow> instant (Lot_OpenedAt l) \<le> instant (Transaction_EffectiveAt t)"
  shows "sorted (map (\<lambda>l. instant (Lot_OpenedAt l)) (lots s'))"
  using assms
proof (induction ts arbitrary: s)
  case (Cons t ts)
  then obtain s1 where s1: "projectTransaction L currency mech s t = Inr s1"
    and rec: "replay (projectTransaction L currency mech) s1 ts = Inr s'" by auto
  from projectTransaction_opened [OF s1] obtain n
    where "map Lot_OpenedAt (lots s1) = map Lot_OpenedAt (lots s) @ replicate n (Transaction_EffectiveAt t)"
    by (auto simp: opened_extends_def)
  from arg_cong [OF this, of "map instant"]
  have times: "map (\<lambda>l. instant (Lot_OpenedAt l)) (lots s1) =
      map (\<lambda>l. instant (Lot_OpenedAt l)) (lots s) @ replicate n (instant (Transaction_EffectiveAt t))"
    by (simp add: o_def)
  have "sorted (map (\<lambda>l. instant (Lot_OpenedAt l)) (lots s1))"
    using Cons.prems(3,4) by (auto simp: times sorted_append)
  moreover have "instant (Lot_OpenedAt l) \<le> instant (Transaction_EffectiveAt u)" if l: "l \<in> set (lots s1)" and u: "u \<in> set ts" for l u
  proof -
    have "instant (Lot_OpenedAt l) \<in> set (map (\<lambda>l. instant (Lot_OpenedAt l)) (lots s1))" using l by simp
    then consider l' where "l' \<in> set (lots s)" "instant (Lot_OpenedAt l) = instant (Lot_OpenedAt l')"
      | "instant (Lot_OpenedAt l) = instant (Transaction_EffectiveAt t)"
      unfolding times by (auto split: if_splits)
    then show ?thesis using Cons.prems(2,4) u by cases auto
  qed
  ultimately show ?case using Cons.IH [OF rec] Cons.prems(2) by simp
qed simp

lemma projectionReplay_lots_sorted:
  assumes "projectionReplay L request currency input = Inr (ts, mech, s)"
  shows "sorted (map (\<lambda>l. instant (Lot_OpenedAt l)) (lots s))"
  using assms
proof (cases rule: projectionReplayE)
  case (1 eligible)
  have "sorted_wrt (\<lambda>a b. instant (Transaction_EffectiveAt a) \<le> instant (Transaction_EffectiveAt b)) ts"
    unfolding 1(2) by (rule sorted_wrt_mono_rel [OF _ sort_transactions_sorted])
      (auto simp: projectionTransactionLess_def time_defs split: if_splits)
  then show ?thesis by (rule replay_opened_sorted [OF 1(5)]) (simp_all add: empty_state_def)
qed

section \<open>The ledger behind the quantities\<close>

text \<open>
  The rows a rebuild may use, read off the input alone: those that took effect and were observed by the requested time.
\<close>

definition rows_until :: "time \<Rightarrow> 'd Transaction option list \<Rightarrow> 'd Transaction list" where
  "rows_until asOf rows =
    filter (\<lambda>t. \<not> After (Transaction_EffectiveAt t) asOf \<and> \<not> After (Transaction_ObservedAt t) asOf) (List.map_filter id rows)"

lemma eligibleTransactions_rows:
  assumes "eligibleTransactions L request rows = Inr ts"
  shows "ts = rows_until (Request_AsOf request) rows"
    and "\<forall>t \<in> set ts. Transaction_Validate L t = None \<and> Transaction_AccountID t = Request_AccountID request"
  using assms
  by (induction L request rows arbitrary: ts rule: eligibleTransactions.induct)
    (auto simp: rows_until_def List.map_filter_simps split: if_splits)

text \<open>
  The inventory a transaction books for an instrument: the amount of the posting with the key that the event type names.
\<close>

definition booked :: "'d lib \<Rightarrow> 'd Transaction \<Rightarrow> string \<Rightarrow> uuid \<Rightarrow> ('d::linordered_idom)" where
  "booked L t key i = (case projectionInstrumentMovement L t key i of Inl e \<Rightarrow> 0 | Inr amount \<Rightarrow> amount)"

definition booked_movement :: "'d lib \<Rightarrow> uuid \<Rightarrow> 'd Transaction \<Rightarrow> 'd ProjectionMechanics \<Rightarrow> ('d::linordered_idom)" where
  "booked_movement L k t m =
    (let primary = (\<lambda>key. if k = Mechanics_InstrumentID m then booked L t key k else 0);
         secondary = (\<lambda>key. if k = Mechanics_SecondaryInstrumentID m then booked L t key k else 0)
     in case Mechanics_EventType m of
          EconomicEventFillBuy \<Rightarrow> primary ''inventory''
        | EconomicEventFillSell \<Rightarrow> primary ''inventory''
        | EconomicEventOptionCashSettlement \<Rightarrow> primary ''inventory-settlement''
        | EconomicEventOptionExpiration \<Rightarrow> primary ''inventory-settlement''
        | EconomicEventPredictionPayout \<Rightarrow> primary ''inventory-settlement''
        | EconomicEventOptionExercise \<Rightarrow> primary ''option-close'' + secondary ''underlying-delivery''
        | EconomicEventOptionAssignment \<Rightarrow> primary ''option-close'' + secondary ''underlying-delivery''
        | _ \<Rightarrow> 0)"

lemma applyFill_booked:
  assumes "applyFill L s t m ec = Inr s'"
  shows "booked L t ''inventory'' (Mechanics_InstrumentID m) \<in> {the (Mechanics_Quantity m), - the (Mechanics_Quantity m)}"
    and "Mechanics_EventType m = EconomicEventFillBuy \<Longrightarrow> 0 < booked L t ''inventory'' (Mechanics_InstrumentID m)"
    and "Mechanics_EventType m = EconomicEventFillSell \<Longrightarrow> booked L t ''inventory'' (Mechanics_InstrumentID m) < 0"
    and "0 \<le> the (Mechanics_Quantity m)"
  using assms
  by (cases "Mechanics_Quantity m"; auto simp: applyFill_def booked_def Let_def abs_if split: if_splits)+

lemma applySettlement_booked:
  assumes "applySettlement L s t m ec = Inr s'"
  shows "booked L t ''inventory-settlement'' (Mechanics_InstrumentID m) = - the (Mechanics_PositionQuantity m)"
  using assms by (cases "Mechanics_PositionQuantity m") (auto simp: applySettlement_def booked_def split: if_splits)

lemma applyPhysicalOption_booked:
  assumes "applyPhysicalOption L s t m ec = Inr s'"
  shows "booked L t ''option-close'' (Mechanics_InstrumentID m) = - the (Mechanics_PositionQuantity m)"
    and "booked L t ''underlying-delivery'' (Mechanics_SecondaryInstrumentID m) = underlying_movement m"
  using assms
  by (cases "Mechanics_PositionQuantity m"; cases "Mechanics_DeliverableQuantity m"; cases "Mechanics_StrikePrice m";
      auto simp: applyPhysicalOption_def booked_def underlying_movement_def Let_def split: if_splits prod.splits)+

lemma applyEconomicTransaction_booked:
  assumes "applyEconomicTransaction L s t m ec = Inr s'"
  shows "booked_movement L k t m = mechanics_movement k m"
proof (cases "Mechanics_EventType m")
  case EconomicEventFillBuy
  with assms have "applyFill L s t m ec = Inr s'" by (simp add: applyEconomicTransaction_def)
  from applyFill_booked [OF this] EconomicEventFillBuy show ?thesis by (auto simp: booked_movement_def mechanics_movement_def)
next
  case EconomicEventFillSell
  with assms have "applyFill L s t m ec = Inr s'" by (simp add: applyEconomicTransaction_def)
  from applyFill_booked [OF this] EconomicEventFillSell show ?thesis by (auto simp: booked_movement_def mechanics_movement_def)
qed (use assms applySettlement_booked [of L s t m ec s'] applyPhysicalOption_booked [of L s t m ec s'] in
    \<open>auto simp: applyEconomicTransaction_def booked_movement_def mechanics_movement_def Let_def\<close>)

definition transaction_booked ::
    "'d lib \<Rightarrow> (uuid \<times> ('d::linordered_idom) ProjectionMechanics) list \<Rightarrow> uuid \<Rightarrow> 'd Transaction \<Rightarrow> 'd" where
  "transaction_booked L mech k t =
    (case map_of mech (Transaction_ID t) of None \<Rightarrow> 0 | Some m \<Rightarrow> booked_movement L k t m)"

lemma projectTransaction_booked:
  assumes "projectTransaction L currency mech s t = Inr s'"
  shows "transaction_booked L mech k t = transaction_movement mech k t"
proof (cases "map_of mech (Transaction_ID t)")
  case (Some m)
  with assms obtain s1 c where "applyEconomicTransaction L s1 t m c = Inr s'"
    by (auto simp: projectTransaction_def Let_def split: if_splits)
  from applyEconomicTransaction_booked [OF this] Some show ?thesis by (simp add: transaction_booked_def transaction_movement_def)
qed (simp add: transaction_booked_def transaction_movement_def)

interpretation booked_view: additive_view
  "projectTransaction L currency mech" empty_state "mechanics_valid_for L mech" projection_invar
  "\<lambda>s. lot_quantity k (lots s)" "transaction_booked L mech k" for L currency mech k
  by unfold_locales (simp add: empty_state_def lot_quantity_def, simp add: projectTransaction_booked projectTransaction_effect(2))

text \<open>A quantity of the mechanics of a transaction, summed over the mechanics of the input that name it.\<close>

definition of_mechanics ::
    "('d Transaction \<Rightarrow> 'd ProjectionMechanics \<Rightarrow> 'd) \<Rightarrow> 'd ProjectionMechanics list \<Rightarrow> 'd Transaction \<Rightarrow> ('d::linordered_idom)" where
  "of_mechanics f ms t = (\<Sum>m \<leftarrow> filter (\<lambda>m. Mechanics_TransactionID m = Transaction_ID t) ms. f t m)"

lemma collectMechanics_sum:
  assumes "collectMechanics L ids acc ms = Inr mech" and "k \<in> set ids"
  shows "(case map_of mech k of None \<Rightarrow> 0 | Some m \<Rightarrow> f m) =
    (case map_of acc k of None \<Rightarrow> 0 | Some m \<Rightarrow> f m) + (\<Sum>m \<leftarrow> filter (\<lambda>m. Mechanics_TransactionID m = k) ms. (f m :: 'd::linordered_idom))"
  using assms
proof (induction L ids acc ms rule: collectMechanics.induct)
  case (2 L ids acc m ms)
  show ?case
  proof (cases "Mechanics_TransactionID m \<in> set ids")
    case False
    with "2.prems" "2.IH"(1) show ?thesis by auto
  next
    case True
    with "2.prems" have c: "collectMechanics L ids ((Mechanics_TransactionID m, m) # acc) ms = Inr mech"
      "map_of acc (Mechanics_TransactionID m) = None" by auto
    from "2.IH"(2) [OF _ c(1) "2.prems"(2)] True c(2) show ?thesis by auto
  qed
qed simp

lemma eligibleProjectionMechanics_sum:
  assumes "eligibleProjectionMechanics L ms ts = Inr mech" and "t \<in> set ts"
  shows "transaction_movement mech k t = of_mechanics (\<lambda>t. mechanics_movement k) ms t"
    and "transaction_booked L mech k t = of_mechanics (booked_movement L k) ms t"
  using assms collectMechanics_sum [of L "map Transaction_ID ts" "[]" ms mech "Transaction_ID t"]
  by (simp_all add: eligibleProjectionMechanics_def transaction_movement_def transaction_booked_def of_mechanics_def)

end
