(* ===== verification/Projection_Properties.thy ===== *)
theory Projection_Properties
  imports Projection_Correctness
begin

text \<open>
  The properties of the portfolio rebuild, each with a concrete ledger on which it is evaluated: a
  deposit of 100, a purchase of 5 units at 10, a sale of 2 units at 12 and a mark at 11.
\<close>

section \<open>A concrete ledger\<close>

definition demo_entry :: "uuid \<Rightarrow> uuid \<Rightarrow> string \<Rightarrow> string \<Rightarrow> UnitKind \<Rightarrow> string \<Rightarrow> int \<Rightarrow> int Posting" where
  "demo_entry tid i key account kind unit amount =
    \<lparr>Posting_ID = i, Posting_TransactionID = tid, Posting_IdempotencyKey = key, Posting_LedgerAccount = account,
     Posting_UnitKind = kind, Posting_Unit = unit, Posting_Amount = amount, Posting_Metadata = ''{}'',
     Posting_CreatedAt = demo_time 9\<rparr>"

definition demo_row :: "uuid \<Rightarrow> string \<Rightarrow> string \<Rightarrow> int \<Rightarrow> int Posting list \<Rightarrow> int Transaction" where
  "demo_row tid kind reference n ps =
    \<lparr>Transaction_ID = tid, Transaction_AccountID = 7, Transaction_EventType = kind,
     Transaction_IdempotencyKey = ''k'', Transaction_OriginType = ''o'', Transaction_OriginID = ''i'',
     Transaction_ReferenceType = ''order'', Transaction_ReferenceID = reference, Transaction_EffectiveAt = demo_time n,
     Transaction_ObservedAt = demo_time n, Transaction_Metadata = ''{}'', Transaction_Postings = ps,
     Transaction_CreatedAt = demo_time 9\<rparr>"

definition demo_deposit :: "int Transaction" where
  "demo_deposit = demo_row 40 ''capital_flow.deposit'' ''d'' 2
    [demo_entry 40 60 ''cash'' ''asset:cash'' UnitKindCurrency ''USD'' 100,
     demo_entry 40 61 ''capital'' ''equity:capital'' UnitKindCurrency ''USD'' (- 100)]"

definition demo_trade :: "uuid \<Rightarrow> string \<Rightarrow> string \<Rightarrow> int \<Rightarrow> int \<Rightarrow> int \<Rightarrow> int Transaction" where
  "demo_trade tid kind reference n quantity amount = demo_row tid kind reference n
    [demo_entry tid 62 ''inventory'' ''asset:inventory'' UnitKindInstrument ''3'' quantity,
     demo_entry tid 63 ''inventory-clearing'' ''clearing:inventory'' UnitKindInstrument ''3'' (- quantity),
     demo_entry tid 64 ''cash'' ''asset:cash'' UnitKindCurrency ''USD'' amount,
     demo_entry tid 65 ''cash-clearing'' ''clearing:cash'' UnitKindCurrency ''USD'' (- amount)]"

definition demo_buy :: "int Transaction" where
  "demo_buy = demo_trade 3241530 ''fill.buy'' ''b'' 4 5 (- 50)"

definition demo_sell :: "int Transaction" where
  "demo_sell = demo_trade 3307066 ''fill.sell'' ''s'' 6 (- 2) 24"

definition demo_mechanics :: "uuid \<Rightarrow> EconomicEventType \<Rightarrow> string \<Rightarrow> string \<Rightarrow> int \<Rightarrow> int \<Rightarrow> int ProjectionMechanics" where
  "demo_mechanics tid kind version reference quantity price =
    \<lparr>Mechanics_NormalizationID = tid, Mechanics_SourceEventID = 50, Mechanics_TransactionID = tid,
     Mechanics_EventType = kind, Mechanics_NormalizerVersion = version,
     Mechanics_ExecutionOriginType = ExecutionOriginOperator, Mechanics_ExecutionOriginID = ''x'',
     Mechanics_ReferenceType = ''order'', Mechanics_ReferenceID = reference, Mechanics_Venue = ''v'',
     Mechanics_InstrumentID = 3, Mechanics_SecondaryInstrumentID = 0, Mechanics_VenueContractID = 4,
     Mechanics_OptionTermsID = 0, Mechanics_CashCurrency = ''USD'', Mechanics_Quantity = Some quantity,
     Mechanics_Price = Some price, Mechanics_CostKind = CostKindUnset, Mechanics_CostCurrency = [],
     Mechanics_CostAmount = None, Mechanics_PositionQuantity = None, Mechanics_SettlementPrice = None,
     Mechanics_OptionContractType = OptionContractUnset, Mechanics_StrikePrice = None,
     Mechanics_DeliverableQuantity = None, Mechanics_PrimaryMultiplier = 1, Mechanics_SecondaryMultiplier = 0\<rparr>"

definition demo_request :: ProjectionRequest where
  "demo_request = \<lparr>Request_AccountID = 7, Request_AsOf = demo_time 8, Request_MarkSource = ''s'',
     Request_MarkNamespace = ''n'', Request_MaxMarkAge = 5000\<rparr>"

definition demo_mark :: "int MarkObservation" where
  "demo_mark = \<lparr>MarkObservation_ID = 7420465, MarkObservation_InstrumentID = 3, MarkObservation_Price = 11,
     MarkObservation_PriceCurrency = ''USD'', MarkObservation_Source = ''s'', MarkObservation_SourceNamespace = ''n'',
     MarkObservation_SourceObservationID = ''q'', MarkObservation_SourceRevision = ''r'',
     MarkObservation_EffectiveAt = demo_time 7, MarkObservation_ObservedAt = demo_time 7,
     MarkObservation_Metadata = ''{}'', MarkObservation_CreatedAt = demo_time 9\<rparr>"

definition demo_input :: "int ProjectionInput" where
  "demo_input = \<lparr>Input_Request = demo_request, Input_BaseCurrency = ''USD'',
     Input_Transactions = [Some demo_sell, Some demo_deposit, Some demo_buy],
     Input_Mechanics = [demo_mechanics 3241530 EconomicEventFillBuy ''v1'' ''b'' 5 10,
                        demo_mechanics 3307066 EconomicEventFillSell ''v2'' ''s'' 2 12],
     Input_Marks = [Some demo_mark]\<rparr>"

text \<open>
  C6: the internal checks of the rebuild cannot fail.  Whatever the rows and marks are, and however the
  decimal library rounds and divides, \<open>BuildPortfolioProjection\<close> never dereferences a nil amount and
  never reports that realized plus unrealized profit differ from equity minus net capital: the cash
  allocated to closed lots, the opening cash left in open lots and the remainder given to the last
  segment always add up exactly.
\<close>

theorem projection_checks_never_fail:
  "BuildPortfolioProjection L input \<noteq> Inl PnLEquation \<and> BuildPortfolioProjection L input \<noteq> Inl NilDereference"
  using BuildPortfolioProjection_errors [of L input] by auto

text \<open>What a projection consists of.\<close>

lemma BuildPortfolioProjectionE:
  assumes "BuildPortfolioProjection L input = Inr p"
  obtains request currency ts mech s where
    "normalizeProjectionBoundary L (Input_Request input) (Input_BaseCurrency input) = Inr (request, currency)"
    and "projectionReplay L request currency input = Inr (ts, mech, s)"
    and "finalize L s request currency (Input_Marks input) = Inr (Projection_Marks p, Projection_Positions p, Projection_Totals p)"
    and "Projection_Lots p = lots s" and "Projection_Matches p = matches s" and "Projection_TransactionCount p = length ts"
  using assms by (auto simp: BuildPortfolioProjection_def newProjection_def Let_def)

lemma positionLoop_positions:
  "positionLoop s selected ids = Inr (marks, positions, mv, un) \<Longrightarrow>
     map (\<lambda>x. (Position_InstrumentID x, Position_Quantity x)) positions = map (\<lambda>i. (i, lot_quantity i (lots s))) ids"
proof (induction ids arbitrary: marks positions mv un)
  case (Cons i ids)
  then show ?case
    by (auto simp: Let_def position_of_def marked_position_def lot_quantity_def split: if_splits option.splits)
qed simp

lemma finalize_positions:
  assumes "finalize L s request currency ms = Inr (marks, positions, totals)"
  shows "x \<in> set positions \<Longrightarrow> Position_Quantity x = lot_quantity (Position_InstrumentID x) (lots s)"
    and "Position_InstrumentID ` set positions = set (activity s)"
    and "Totals_Cash totals = cash s" and "Totals_Fees totals = fees s" and "Totals_Rebates totals = rebates s"
proof -
  from assms obtain selected marks' mv un where
    "positionLoop s selected (sort_by (\<lambda>x y. uuid_String L x < uuid_String L y) (activity s)) = Inr (marks', positions, mv, un)"
    by (auto simp: finalize_def Let_def)
  note pos = positionLoop_positions [OF this]
  from pos have "set (map (\<lambda>x. (Position_InstrumentID x, Position_Quantity x)) positions) =
      (\<lambda>i. (i, lot_quantity i (lots s))) ` set (activity s)" by simp
  then show "x \<in> set positions \<Longrightarrow> Position_Quantity x = lot_quantity (Position_InstrumentID x) (lots s)"
    and "Position_InstrumentID ` set positions = set (activity s)"
    by (auto 0 3)
  show "Totals_Cash totals = cash s" "Totals_Fees totals = fees s" "Totals_Rebates totals = rebates s"
    using assms by (auto simp: finalize_def Let_def)
qed

text \<open>
  C7: the projection is the sum of the ledger rows up to the requested time.  The rebuild uses exactly the rows of the input that took
  effect and were observed by then, all of them valid and of the account.  The quantity of every position is the sum of the
  quantity changes that the mechanics of the input state for these rows, which is the sum of the inventory postings of the rows;
  an instrument without a position has a zero sum.  Cash, fees and rebates are the sums of the postings to their accounts.
  The lots and matches of the FIFO rebuild only divide these sums.
\<close>

theorem projection_positions_are_ledger_sums:
  fixes input :: "('d::linordered_idom) ProjectionInput"
  defines "ts \<equiv> rows_until (utc_micros (Request_AsOf (Input_Request input))) (Input_Transactions input)"
    and "stated \<equiv> \<lambda>i. of_mechanics (\<lambda>t. mechanics_movement i) (Input_Mechanics input)"
    and "posted_inventory \<equiv> \<lambda>L i. of_mechanics (booked_movement L i) (Input_Mechanics input)"
  assumes "BuildPortfolioProjection L input = Inr p"
  shows "Projection_TransactionCount p = length ts \<and>
    (\<forall>t \<in> set ts. Transaction_Validate L t = None \<and> Transaction_AccountID t = Request_AccountID (Input_Request input)) \<and>
    (\<forall>x \<in> set (Projection_Positions p). Position_Quantity x = (\<Sum>t \<leftarrow> ts. stated (Position_InstrumentID x) t) \<and>
       Position_Quantity x = (\<Sum>t \<leftarrow> ts. posted_inventory L (Position_InstrumentID x) t)) \<and>
    (\<forall>i. i \<notin> Position_InstrumentID ` set (Projection_Positions p) \<longrightarrow>
       (\<Sum>t \<leftarrow> ts. stated i t) = 0 \<and> (\<Sum>t \<leftarrow> ts. posted_inventory L i t) = 0) \<and>
    Totals_Cash (Projection_Totals p) = (\<Sum>t \<leftarrow> ts. posted ''asset:cash'' t) \<and>
    Totals_Fees (Projection_Totals p) = (\<Sum>t \<leftarrow> ts. posted ''expense:fees'' t) \<and>
    Totals_Rebates (Projection_Totals p) = - (\<Sum>t \<leftarrow> ts. posted ''income:rebates'' t)"
  using assms(4)
proof (cases rule: BuildPortfolioProjectionE)
  case (1 request currency sorted mech s)
  from 1(2) obtain eligible where el: "eligibleTransactions L request (Input_Transactions input) = Inr eligible"
      "sorted = sort_by (projectionTransactionLess L) eligible"
    and mech: "eligibleProjectionMechanics L (Input_Mechanics input) sorted = Inr mech"
    and run: "replay (projectTransaction L currency mech) empty_state sorted = Inr s"
    and good: "list_all (mechanics_valid_for L mech) sorted"
    by (rule projectionReplayE)
  have request: "Request_AsOf request = utc_micros (Request_AsOf (Input_Request input))"
    "Request_AccountID request = Request_AccountID (Input_Request input)"
    using 1(1) by (auto simp: normalizeProjectionBoundary_def Let_def)
  have ts: "eligible = ts" "mset sorted = mset ts"
    using eligibleTransactions_rows(1) [OF el(1)] el(2) by (simp_all add: ts_def request)
  then have sums: "(\<Sum>t \<leftarrow> sorted. f t) = (\<Sum>t \<leftarrow> ts. f t)" for f :: "'d Transaction \<Rightarrow> 'd"
    by (metis mset_map sum_mset_sum_list)
  have stated: "lot_quantity i (lots s) = (\<Sum>t \<leftarrow> ts. stated i t)" for i
    using quantity_view.view_replay [OF run good, of i] eligibleProjectionMechanics_sum(1) [OF mech, of _ i]
    by (simp add: stated_def sums [symmetric] cong: map_cong)
  have booked: "lot_quantity i (lots s) = (\<Sum>t \<leftarrow> ts. posted_inventory L i t)" for i
    using booked_view.view_replay [OF run good, of i] eligibleProjectionMechanics_sum(2) [OF mech, of _ i]
    by (simp add: posted_inventory_def sums [symmetric] cong: map_cong)
  have idle: "lot_quantity i (lots s) = 0" if "i \<notin> set (activity s)" for i
    using that projectionReplay_invar [OF 1(2)] unfolding lot_quantity_def
    by (intro sum_where_none) (auto simp: projection_invar_def lots_ok_def)
  note final = finalize_positions [OF 1(3)]
  have "\<forall>x \<in> set (Projection_Positions p). Position_Quantity x = (\<Sum>t \<leftarrow> ts. stated (Position_InstrumentID x) t) \<and>
       Position_Quantity x = (\<Sum>t \<leftarrow> ts. posted_inventory L (Position_InstrumentID x) t)"
    using final(1) stated booked by metis
  moreover have "\<forall>i. i \<notin> Position_InstrumentID ` set (Projection_Positions p) \<longrightarrow>
       (\<Sum>t \<leftarrow> ts. stated i t) = 0 \<and> (\<Sum>t \<leftarrow> ts. posted_inventory L i t) = 0"
    using final(2) idle stated booked by metis
  moreover have "Projection_TransactionCount p = length ts" using 1(6) ts(2) by (metis size_mset)
  moreover have "\<forall>t \<in> set ts. Transaction_Validate L t = None \<and> Transaction_AccountID t = Request_AccountID (Input_Request input)"
    using eligibleTransactions_rows(2) [OF el(1)] ts(1) request(2) by simp
  moreover have "Totals_Cash (Projection_Totals p) = (\<Sum>t \<leftarrow> ts. posted ''asset:cash'' t)"
    "Totals_Fees (Projection_Totals p) = (\<Sum>t \<leftarrow> ts. posted ''expense:fees'' t)"
    "Totals_Rebates (Projection_Totals p) = - (\<Sum>t \<leftarrow> ts. posted ''income:rebates'' t)"
    using final(3-5) cash_view.view_replay [OF run good] fees_view.view_replay [OF run good] rebates_view.view_replay [OF run good]
    by (simp_all add: sums uminus_sum_list_map o_def)
  ultimately show ?thesis by blast
qed

definition demo_projected :: "int PortfolioProjection \<Rightarrow> bool" where
  "demo_projected p \<longleftrightarrow> Totals_Cash (Projection_Totals p) = 74 \<and> Totals_RealizedPnL (Projection_Totals p) = 4 \<and>
     Totals_UnrealizedPnL (Projection_Totals p) = 3 \<and> Totals_TotalPnL (Projection_Totals p) = 7 \<and>
     map (\<lambda>x. (Position_InstrumentID x, Position_Quantity x)) (Projection_Positions p) = [(3, 3)]"

text \<open>The rows of the concrete ledger are valid, and the replay of them.\<close>

lemma demo_ledger_valid:
  "Transaction_Validate demo_lib demo_deposit = None \<and> Transaction_Validate demo_lib demo_buy = None \<and>
   Transaction_Validate demo_lib demo_sell = None \<and>
   ProjectionMechanics_Validate demo_lib (demo_mechanics 3241530 EconomicEventFillBuy ''v1'' ''b'' 5 10) = None \<and>
   ProjectionMechanics_Validate demo_lib (demo_mechanics 3307066 EconomicEventFillSell ''v2'' ''s'' 2 12) = None \<and>
   MarkObservation_Validate demo_lib demo_mark = None \<and>
   normalizeProjectionBoundary demo_lib demo_request ''USD'' = Inr (demo_request, ''USD'')"
  by code_simp

lemma demo_rows_valid [simp]:
  "Transaction_Validate demo_lib demo_deposit = None" "Transaction_Validate demo_lib demo_buy = None"
  "Transaction_Validate demo_lib demo_sell = None"
  "ProjectionMechanics_Validate demo_lib (demo_mechanics 3241530 EconomicEventFillBuy ''v1'' ''b'' 5 10) = None"
  "ProjectionMechanics_Validate demo_lib (demo_mechanics 3307066 EconomicEventFillSell ''v2'' ''s'' 2 12) = None"
  "MarkObservation_Validate demo_lib demo_mark = None"
  using demo_ledger_valid by blast+

lemma demo_boundary: "normalizeProjectionBoundary demo_lib demo_request ''USD'' = Inr (demo_request, ''USD'')"
  using demo_ledger_valid by blast

lemma demo_times [simp]:
  "Transaction_EffectiveAt demo_deposit = demo_time 2" "Transaction_ObservedAt demo_deposit = demo_time 2"
  "Transaction_EffectiveAt demo_buy = demo_time 4" "Transaction_ObservedAt demo_buy = demo_time 4"
  "Transaction_EffectiveAt demo_sell = demo_time 6" "Transaction_ObservedAt demo_sell = demo_time 6"
  by (simp_all add: demo_deposit_def demo_buy_def demo_sell_def demo_trade_def demo_row_def)

lemma demo_identities [simp]:
  "Transaction_ID demo_deposit = 40" "Transaction_ID demo_buy = 3241530" "Transaction_ID demo_sell = 3307066"
  "Transaction_AccountID demo_deposit = 7" "Transaction_AccountID demo_buy = 7" "Transaction_AccountID demo_sell = 7"
  by (simp_all add: demo_deposit_def demo_buy_def demo_sell_def demo_trade_def demo_row_def)

lemma demo_eligible:
  "eligibleTransactions demo_lib demo_request (Input_Transactions demo_input) = Inr [demo_sell, demo_deposit, demo_buy]"
  by (simp add: demo_input_def demo_request_def After_def demo_time_def)

lemma demo_sorted:
  "sort_by (projectionTransactionLess demo_lib) [demo_sell, demo_deposit, demo_buy] = [demo_deposit, demo_buy, demo_sell]"
  by (simp add: sort_by_def projectionTransactionLess_def time_defs demo_time_def)

abbreviation demo_found :: "(uuid \<times> int ProjectionMechanics) list" where
  "demo_found \<equiv> [(3307066, demo_mechanics 3307066 EconomicEventFillSell ''v2'' ''s'' 2 12),
                 (3241530, demo_mechanics 3241530 EconomicEventFillBuy ''v1'' ''b'' 5 10)]"

lemma demo_found:
  "eligibleProjectionMechanics demo_lib (Input_Mechanics demo_input) [demo_deposit, demo_buy, demo_sell] = Inr demo_found"
  by (simp add: eligibleProjectionMechanics_def demo_input_def)
    (simp add: demo_mechanics_def)

lemma demo_uuid_3 [simp]: "uuid_String demo_lib 3 = ''3''"
  by code_simp

lemma demo_lib_sel [simp]:
  "decimal_Round demo_lib x n = x" "decimal_Div demo_lib x y = x div y"
  "json_Decode demo_lib ''{}'' = Decoded (JObject []) []" "json_Decode demo_lib [] = EOF"
  by (simp_all add: demo_lib_def)

definition demo_bought :: "int projectionState" where
  "demo_bought = openLot demo_lib (empty_state\<lparr>cash := 50, netCapital := 100, activity := [3]\<rparr>) demo_buy
     (demo_mechanics 3241530 EconomicEventFillBuy ''v1'' ''b'' 5 10) 3 5 (- 50) 1"

lemmas demo_row_defs = demo_deposit_def demo_buy_def demo_sell_def demo_trade_def demo_row_def demo_entry_def

lemma demo_cash:
  "projectionCashAndCosts demo_deposit ''USD'' = Inr (100, 0, 0)"
  "projectionCashAndCosts demo_buy ''USD'' = Inr (- 50, 0, 0)"
  "projectionCashAndCosts demo_sell ''USD'' = Inr (24, 0, 0)"
  by (simp_all add: projectionCashAndCosts_def demo_row_defs)

lemma demo_kinds:
  "Transaction_EventType demo_deposit = ''capital_flow.deposit''" "Transaction_EventType demo_buy = ''fill.buy''"
  "Transaction_EventType demo_sell = ''fill.sell''" "\<not> projectionHasAssetInventory demo_deposit"
  "Transaction_ReferenceType demo_buy = ''order''" "Transaction_ReferenceID demo_buy = ''b''"
  "Transaction_ReferenceType demo_sell = ''order''" "Transaction_ReferenceID demo_sell = ''s''"
  by (simp_all add: demo_row_defs projectionHasAssetInventory_def)

lemma demo_movements:
  "projectionInstrumentMovement demo_lib demo_buy ''inventory'' 3 = Inr 5"
  "projectionInstrumentMovement demo_lib demo_sell ''inventory'' 3 = Inr (- 2)"
  by (simp_all add: projectionInstrumentMovement_def demo_row_defs HasPrefix_def)

lemmas demo_facts = demo_cash demo_kinds demo_movements

lemma demo_step_deposit:
  "projectTransaction demo_lib ''USD'' demo_found empty_state demo_deposit =
   Inr (empty_state\<lparr>cash := 100, netCapital := 100\<rparr>)"
  by (simp add: projectTransaction_def demo_facts Let_def) (simp add: empty_state_def)

lemma demo_step_buy:
  "projectTransaction demo_lib ''USD'' demo_found (empty_state\<lparr>cash := 100, netCapital := 100\<rparr>) demo_buy = Inr demo_bought"
  by (simp add: projectTransaction_def applyEconomicTransaction_def applyFill_def applyMovement_def demo_facts
      demo_mechanics_def Let_def empty_state_def demo_bought_def openLot_def add_activity_def)

definition demo_sold_lot :: "int ProjectionLot" where
  "demo_sold_lot = (lots demo_bought ! 0)\<lparr>Lot_RemainingQuantity := 3, Lot_RemainingOpeningCash := - 30\<rparr>"

definition demo_sold :: "int projectionState" where
  "demo_sold = demo_bought\<lparr>lots := [demo_sold_lot], cash := 74, realized := 4,
     matches := [newMatch demo_lib demo_sell (demo_mechanics 3307066 EconomicEventFillSell ''v2'' ''s'' 2 12) 3 0
       (lots demo_bought ! 0) 2 (- 20) 24 4 ''trade'']\<rparr>"

lemma demo_step_sell:
  "projectTransaction demo_lib ''USD'' demo_found demo_bought demo_sell = Inr demo_sold"
  by (simp add: projectTransaction_def applyEconomicTransaction_def applyFill_def applyMovement_def demo_facts
      demo_mechanics_def Let_def empty_state_def demo_bought_def openLot_def add_activity_def demo_sold_def demo_sold_lot_def
      allocateProjectionAmount_def releasedOpeningCash_def closeLot_def)

lemma demo_replay:
  "projectionReplay demo_lib demo_request ''USD'' demo_input = Inr ([demo_deposit, demo_buy, demo_sell], demo_found, demo_sold)"
  by (simp add: projectionReplay_def demo_eligible demo_sorted demo_found demo_step_deposit demo_step_buy demo_step_sell Let_def)

lemma demo_select:
  "selectMarks demo_lib demo_request ''USD'' [] [Some demo_mark] = Inr [(3, demo_mark)]"
proof -
  have "\<not> mark_ineligible demo_request ''USD'' demo_mark"
    by (simp add: mark_ineligible_def demo_mark_def demo_request_def demo_time_def After_def time_Sub_def)
  moreover have "MarkObservation_InstrumentID demo_mark = 3" by (simp add: demo_mark_def)
  ultimately show ?thesis by simp
qed

lemma demo_finalize:
  "finalize demo_lib demo_sold demo_request ''USD'' [Some demo_mark] = Inr
    ([projectionMarkFromObservation demo_mark],
     [marked_position demo_sold (position_of demo_sold 3) demo_mark],
     \<lparr>Totals_Cash = 74, Totals_NetCapital = 100, Totals_Fees = 0, Totals_Rebates = 0, Totals_RealizedPnL = 4,
      Totals_UnrealizedPnL = 3, Totals_MarketValue = 33, Totals_Equity = 107, Totals_TotalPnL = 7\<rparr>)"
  by (simp add: finalize_def demo_select sort_by_def Let_def del: selectMarks.simps)
    (simp add: demo_sold_def demo_sold_lot_def demo_bought_def openLot_def empty_state_def position_of_def marked_position_def
      demo_mark_def Let_def)

lemma traverse_ok: "(\<And>x. x \<in> set xs \<Longrightarrow> \<exists>y. f x = Inr y) \<Longrightarrow> \<exists>ys. traverse f xs = Inr ys"
  by (induction xs) fastforce+

lemma canonicalJSON_demo: "canonicalJSON demo_lib ''{}'' = Inr (JObject [])"
  by (simp add: canonicalJSON_def)

lemma canonicalTransaction_demo:
  assumes "Transaction_Metadata t = ''{}''" and "\<And>p. p \<in> set (Transaction_Postings t) \<Longrightarrow> Posting_Metadata p = ''{}''"
  shows "\<exists>v. canonicalTransaction demo_lib t = Inr v"
proof -
  have "\<exists>ps. traverse (canonicalPosting demo_lib) (sort_by (posting_less demo_lib) (Transaction_Postings t)) = Inr ps"
    by (rule traverse_ok) (simp add: assms(2) canonicalPosting_def canonicalJSON_demo)
  then show ?thesis using assms(1) by (auto simp: canonicalTransaction_def canonicalJSON_demo)
qed

lemma projection_built:
  assumes "normalizeProjectionBoundary L (Input_Request input) (Input_BaseCurrency input) = Inr (request, currency)"
    and "projectionReplay L request currency input = Inr (ts, mech, s)"
    and "finalize L s request currency (Input_Marks input) = Inr (marks, positions, totals)"
    and "\<exists>rows. traverse (canonicalTransaction L) ts = Inr rows" and "\<exists>ms. canonicalProjectionMarks L marks = Inr ms"
  shows "\<exists>p. BuildPortfolioProjection L input = Inr p \<and> Projection_Positions p = positions \<and> Projection_Totals p = totals"
  using assms
  by (auto simp: BuildPortfolioProjection_def projectionInputChecksum_def marshalProjectionPayload_def newProjection_def Let_def)

lemma demo_projection: "\<exists>p. BuildPortfolioProjection demo_lib demo_input = Inr p \<and> demo_projected p"
proof -
  have input: "Input_Request demo_input = demo_request" "Input_BaseCurrency demo_input = ''USD''"
    "Input_Marks demo_input = [Some demo_mark]" by (simp_all add: demo_input_def)
  have rows: "\<exists>rows. traverse (canonicalTransaction demo_lib) [demo_deposit, demo_buy, demo_sell] = Inr rows"
    by (rule traverse_ok, rule canonicalTransaction_demo) (auto simp: demo_row_defs)
  have ms: "\<exists>ms. canonicalProjectionMarks demo_lib [projectionMarkFromObservation demo_mark] = Inr ms"
    by (simp add: canonicalProjectionMarks_def canonicalMark_def projectionMarkFromObservation_def demo_mark_def canonicalJSON_demo)
  have fin: "finalize demo_lib demo_sold demo_request ''USD'' (Input_Marks demo_input) = Inr
    ([projectionMarkFromObservation demo_mark],
     [marked_position demo_sold (position_of demo_sold 3) demo_mark],
     \<lparr>Totals_Cash = 74, Totals_NetCapital = 100, Totals_Fees = 0, Totals_Rebates = 0, Totals_RealizedPnL = 4,
      Totals_UnrealizedPnL = 3, Totals_MarketValue = 33, Totals_Equity = 107, Totals_TotalPnL = 7\<rparr>)"
    unfolding input by (rule demo_finalize)
  have bnd: "normalizeProjectionBoundary demo_lib (Input_Request demo_input) (Input_BaseCurrency demo_input) = Inr (demo_request, ''USD'')"
    unfolding input by (rule demo_boundary)
  from projection_built [OF bnd demo_replay fin rows ms] obtain p where "BuildPortfolioProjection demo_lib demo_input = Inr p"
    "Projection_Positions p = [marked_position demo_sold (position_of demo_sold 3) demo_mark]"
    "Projection_Totals p = \<lparr>Totals_Cash = 74, Totals_NetCapital = 100, Totals_Fees = 0, Totals_Rebates = 0,
      Totals_RealizedPnL = 4, Totals_UnrealizedPnL = 3, Totals_MarketValue = 33, Totals_Equity = 107, Totals_TotalPnL = 7\<rparr>"
    by blast
  then show ?thesis
    by (simp add: demo_projected_def marked_position_def position_of_def demo_sold_def demo_sold_lot_def demo_bought_def
        openLot_def empty_state_def Let_def)
qed

lemma projection_positions_are_ledger_sums_witness:
  "(\<Sum>t \<leftarrow> rows_until (utc_micros (Request_AsOf (Input_Request demo_input))) (Input_Transactions demo_input).
      of_mechanics (booked_movement demo_lib 3) (Input_Mechanics demo_input) t) = 3"
proof -
  obtain p where p: "BuildPortfolioProjection demo_lib demo_input = Inr p" "demo_projected p" using demo_projection by blast
  then obtain x where x: "x \<in> set (Projection_Positions p)" "Position_InstrumentID x = 3" "Position_Quantity x = 3"
    by (auto simp: demo_projected_def)
  from projection_positions_are_ledger_sums [OF p(1)] x show ?thesis by auto
qed

text \<open>
  C8: the order of the rows does not matter.  If the transaction identifiers print differently, the
  database may return the transactions of a projection in any order: the lots, matches, positions,
  totals, checksums and the payload are the same.
\<close>

theorem projection_row_order_irrelevant:
  assumes "BuildPortfolioProjection L input = Inr p" and "mset ts = mset (Input_Transactions input)"
    and "distinct (map (transaction_key L) (List.map_filter id (Input_Transactions input)))"
  shows "BuildPortfolioProjection L (input\<lparr>Input_Transactions := ts\<rparr>) = Inr p"
  using assms(1) projectionReplay_perm [OF _ assms(2,3)] by (fastforce simp: BuildPortfolioProjection_def)

lemma projection_row_order_irrelevant_witness:
  "\<exists>p. BuildPortfolioProjection demo_lib demo_input = Inr p \<and>
     BuildPortfolioProjection demo_lib (demo_input\<lparr>Input_Transactions := [Some demo_buy, Some demo_sell, Some demo_deposit]\<rparr>) = Inr p"
proof -
  obtain p where p: "BuildPortfolioProjection demo_lib demo_input = Inr p" using demo_projection by blast
  have keys: "map (transaction_key demo_lib) (List.map_filter id (Input_Transactions demo_input)) = [''3307066'', ''40'', ''3241530'']"
    by code_simp
  have "BuildPortfolioProjection demo_lib (demo_input\<lparr>Input_Transactions := [Some demo_buy, Some demo_sell, Some demo_deposit]\<rparr>) = Inr p"
    by (rule projection_row_order_irrelevant [OF p]) (simp_all add: keys, simp add: demo_input_def)
  with p show ?thesis by blast
qed

lemma eligibleTransactions_skip:
  assumes "After (Transaction_EffectiveAt t) (Request_AsOf request) \<or> After (Transaction_ObservedAt t) (Request_AsOf request)"
  shows "eligibleTransactions L request (xs @ Some t # ys) = eligibleTransactions L request (xs @ ys)"
proof (induction xs)
  case (Cons x xs)
  then show ?case by (cases x) auto
qed (use assms in auto)

lemma selectMarks_skip:
  assumes "mark_ineligible request currency m" and "MarkObservation_Validate L m = None"
  shows "selectMarks L request currency selected (us @ Some m # vs) = selectMarks L request currency selected (us @ vs)"
proof (induction us arbitrary: selected)
  case (Cons u us)
  then show ?case by (cases u) (simp_all split: option.splits)
qed (use assms in auto)

lemma selectMarks_invalid:
  assumes "MarkObservation_Validate L m \<noteq> None"
  shows "isl (selectMarks L request currency selected (us @ Some m # vs))"
proof (induction us arbitrary: selected)
  case (Cons u us)
  then show ?case by (cases u; cases "map_option ProjectionMarkInvalid (MarkObservation_Validate L (the u))") (auto simp: ensure_def)
qed (use assms in \<open>auto simp: ensure_def\<close>)

text \<open>
  C9: no look-ahead in the rebuild.  A transaction that takes effect or was observed after the requested time changes nothing,
  wherever it stands in the input: it may even be invalid or belong to another account.  A valid mark after that time changes
  nothing either.  Marks are validated before the cut, so with an invalid mark, however late, the rebuild fails.
\<close>

theorem projection_ignores_later_rows:
  fixes input :: "('d::linordered_idom) ProjectionInput"
  defines "late \<equiv> \<lambda>t. After t (utc_micros (Request_AsOf (Input_Request input)))"
  shows "(late (Transaction_EffectiveAt t) \<or> late (Transaction_ObservedAt t) \<longrightarrow>
      BuildPortfolioProjection L (input\<lparr>Input_Transactions := xs @ Some t # ys\<rparr>) =
      BuildPortfolioProjection L (input\<lparr>Input_Transactions := xs @ ys\<rparr>)) \<and>
    ((late (MarkObservation_EffectiveAt m) \<or> late (MarkObservation_ObservedAt m)) \<and> MarkObservation_Validate L m = None \<longrightarrow>
      BuildPortfolioProjection L (input\<lparr>Input_Marks := us @ Some m # vs\<rparr>) =
      BuildPortfolioProjection L (input\<lparr>Input_Marks := us @ vs\<rparr>)) \<and>
    (MarkObservation_Validate L m \<noteq> None \<longrightarrow> isl (BuildPortfolioProjection L (input\<lparr>Input_Marks := us @ Some m # vs\<rparr>)))"
proof -
  have asOf: "Request_AsOf request = utc_micros (Request_AsOf (Input_Request input))"
    if "normalizeProjectionBoundary L (Input_Request input) (Input_BaseCurrency input) = Inr (request, currency)" for request currency
    using that by (auto simp: normalizeProjectionBoundary_def Let_def)
  have replay: "projectionReplay L request currency (input\<lparr>Input_Transactions := xs @ Some t # ys\<rparr>) =
      projectionReplay L request currency (input\<lparr>Input_Transactions := xs @ ys\<rparr>)"
    if "late (Transaction_EffectiveAt t) \<or> late (Transaction_ObservedAt t)"
      "normalizeProjectionBoundary L (Input_Request input) (Input_BaseCurrency input) = Inr (request, currency)"
    for request currency
    using that(1) asOf [OF that(2)] eligibleTransactions_skip [of t request L xs ys] by (simp add: projectionReplay_def late_def)
  have marks: "finalize L s request currency (us @ Some m # vs) = finalize L s request currency (us @ vs)"
    if "late (MarkObservation_EffectiveAt m) \<or> late (MarkObservation_ObservedAt m)" "MarkObservation_Validate L m = None"
      "normalizeProjectionBoundary L (Input_Request input) (Input_BaseCurrency input) = Inr (request, currency)"
    for s request currency
  proof -
    have "mark_ineligible request currency m" using that(1) asOf [OF that(3)] by (auto simp: mark_ineligible_def late_def)
    from selectMarks_skip [OF this that(2)] show ?thesis by (simp add: finalize_def)
  qed
  have invalid: "isl (finalize L s request currency (us @ Some m # vs))" if "MarkObservation_Validate L m \<noteq> None" for s request currency
    using selectMarks_invalid [OF that, of request currency "[]" us vs] by (auto simp: finalize_def and_then_def split: sum.splits)
  have same: "projectionReplay L request currency (input\<lparr>Input_Marks := ms\<rparr>) = projectionReplay L request currency input"
    for request currency ms by (simp add: projectionReplay_def)
  have "isl (BuildPortfolioProjection L (input\<lparr>Input_Marks := us @ Some m # vs\<rparr>))" if "MarkObservation_Validate L m \<noteq> None"
  proof (rule ccontr)
    assume "\<not> ?thesis"
    then obtain p where "BuildPortfolioProjection L (input\<lparr>Input_Marks := us @ Some m # vs\<rparr>) = Inr p" by (metis sum.collapse(2))
    then show False by (rule BuildPortfolioProjectionE) (use invalid [OF that] in \<open>simp, metis sum.disc(2)\<close>)
  qed
  moreover have "BuildPortfolioProjection L (input\<lparr>Input_Transactions := xs @ Some t # ys\<rparr>) =
      BuildPortfolioProjection L (input\<lparr>Input_Transactions := xs @ ys\<rparr>)"
    if "late (Transaction_EffectiveAt t) \<or> late (Transaction_ObservedAt t)"
    using replay [OF that] by (auto simp: BuildPortfolioProjection_def and_then_def split: sum.splits)
  moreover have "BuildPortfolioProjection L (input\<lparr>Input_Marks := us @ Some m # vs\<rparr>) =
      BuildPortfolioProjection L (input\<lparr>Input_Marks := us @ vs\<rparr>)"
    if "late (MarkObservation_EffectiveAt m) \<or> late (MarkObservation_ObservedAt m)" "MarkObservation_Validate L m = None"
    using marks [OF that] by (auto simp: BuildPortfolioProjection_def same and_then_def split: sum.splits)
  ultimately show ?thesis by blast
qed

lemma projection_ignores_later_rows_witness:
  "BuildPortfolioProjection demo_lib (demo_input\<lparr>Input_Transactions := [Some demo_buy, Some (demo_row 9 [] [] 20 [])]\<rparr>) =
   BuildPortfolioProjection demo_lib (demo_input\<lparr>Input_Transactions := [Some demo_buy]\<rparr>) \<and>
   isl (BuildPortfolioProjection demo_lib (demo_input\<lparr>Input_Marks := [Some (demo_mark\<lparr>MarkObservation_ID := uuid_Nil\<rparr>)]\<rparr>))"
  using projection_ignores_later_rows [of "demo_row 9 [] [] 20 []" demo_input demo_lib "[Some demo_buy]" "[]"
      "demo_mark\<lparr>MarkObservation_ID := uuid_Nil\<rparr>" "[]" "[]"]
  by (simp add: demo_row_def demo_input_def demo_request_def time_defs demo_time_def MarkObservation_Validate_def)

text \<open>
  C10: first in, first out.  Whenever a movement touches a lot, every lot before it in the list that is
  on the other side of the movement is completely closed.
\<close>

theorem movement_closes_lots_in_order:
  assumes "applyMovement L s t m i mv ec mul d ex = Inr s'" and "j < k" and "k < length (lots s)"
    and "opposite i mv (lots s ! j)" and "lots s' ! k \<noteq> lots s ! k"
  shows "Lot_RemainingQuantity (lots s' ! j) = 0"
  using assms by (rule applyMovement_fifo)

definition demo_two_lots :: "int projectionState" where
  "demo_two_lots = demo_bought\<lparr>lots := [lots demo_bought ! 0, lots demo_bought ! 0]\<rparr>"

lemma movement_closes_lots_in_order_witness:
  "\<exists>s'. applyMovement demo_lib demo_two_lots demo_sell (demo_mechanics 3307066 EconomicEventFillSell ''v2'' ''s'' 2 12) 3
      (- 7) 84 1 ''trade'' False = Inr s' \<and> Lot_RemainingQuantity (lots s' ! 0) = 0 \<and> Lot_RemainingQuantity (lots s' ! 1) = 3"
proof -
  obtain s' where run: "applyMovement demo_lib demo_two_lots demo_sell
      (demo_mechanics 3307066 EconomicEventFillSell ''v2'' ''s'' 2 12) 3 (- 7) 84 1 ''trade'' False = Inr s'"
    and second: "Lot_RemainingQuantity (lots s' ! 1) = 3"
    by (simp add: applyMovement_def demo_two_lots_def demo_bought_def openLot_def empty_state_def Let_def
        allocateProjectionAmount_def releasedOpeningCash_def closeLot_def add_activity_def)
  have "opposite 3 (- 7) (lots demo_two_lots ! 0)" "length (lots demo_two_lots) = 2" "lots s' ! 1 \<noteq> lots demo_two_lots ! 1"
    using second by (auto simp: demo_two_lots_def demo_bought_def openLot_def empty_state_def Let_def opposite_def)
  then have "Lot_RemainingQuantity (lots s' ! 0) = 0"
    by (intro movement_closes_lots_in_order [OF run, of 0 1]) simp_all
  with run second show ?thesis by blast
qed

text \<open>
  C11: lots stay in the order in which they were opened, never hold both sides of one instrument, and
  a closed lot holds no cash.
\<close>

theorem projection_lots_well_formed:
  assumes "BuildPortfolioProjection L input = Inr p"
  shows "sorted (map (\<lambda>l. instant (Lot_OpenedAt l)) (Projection_Lots p)) \<and> one_sided (Projection_Lots p) \<and>
    zero_clean (Projection_Lots p)"
  using assms
proof (cases rule: BuildPortfolioProjectionE)
  case (1 request currency ts mech s)
  with projectionReplay_lots_sorted [OF 1(2)] projectionReplay_invar [OF 1(2)] show ?thesis
    by (simp add: projection_invar_def lots_ok_def)
qed

lemma projection_lots_well_formed_witness:
  "\<exists>p. BuildPortfolioProjection demo_lib demo_input = Inr p \<and> zero_clean (Projection_Lots p)"
  using demo_projection projection_lots_well_formed by blast

end
