(* ===== verification/Lifecycle_Model.thy ===== *)
theory Lifecycle_Model
  imports Ledger_Normalization Market_Data
begin

text \<open>
  \<open>internal/execution/lifecycle\<close>: \<open>types.go\<close>, \<open>intent.go\<close>, \<open>order.go\<close> and the data of \<open>fill.go\<close>.
  The immutable facts of one execution (intent, order, binding, fill, event), their validation and
  retry equality.  A Go string type with named constants is a datatype with one constructor per
  constant, one for the empty string where the code tests for it, and \<open>Other\<dots>\<close> for the rest.
  A deep clone (\<open>cloneOrder\<close>, \<open>cloneEvent\<close>, \<dots>) is the value itself.
\<close>

section \<open>Data\<close>

datatype State =
    StateNone  \<comment> \<open>the empty string\<close>
  | StateProposed
  | StateAllocated
  | StateRiskApproved
  | StateRiskRejected
  | StateRouted
  | StateWorking
  | StatePartiallyFilled
  | StateFilled
  | StateCancelled
  | StateExpired
  | StateRejected
  | StateFailedReconciliation
  | OtherState string

datatype EventKind =
    EventKindUnset  \<comment> \<open>the empty string\<close>
  | EventIntentProposed
  | EventIntentAllocated
  | EventRiskApproved
  | EventRiskRejected
  | EventOrderRouted
  | EventOrderWorking
  | EventCancelRequested
  | EventFillAcknowledged
  | EventFillRecorded
  | EventOrderCancelled
  | EventOrderExpired
  | EventOrderRejected
  | EventUnknownVenueState
  | EventContradictoryVenueState
  | EventFillCorrectionObserved
  | EventFillBustObserved
  | OtherEventKind string

datatype ObservationClass =
    ObservationUnset  \<comment> \<open>the empty string\<close>
  | ObservationOrdinary
  | ObservationCorrection
  | ObservationBust
  | OtherObservation string

fun ObservationClass_string :: "ObservationClass \<Rightarrow> string" where
  "ObservationClass_string ObservationUnset = []"
| "ObservationClass_string ObservationOrdinary = ''ordinary''"
| "ObservationClass_string ObservationCorrection = ''correction''"
| "ObservationClass_string ObservationBust = ''bust''"
| "ObservationClass_string (OtherObservation s) = s"

datatype PolicyKind = PolicyUnset | PolicySimulation | PolicyVenue | OtherPolicyKind string

datatype Side = SideBuy | SideSell | OtherSide string

datatype OrderType = OrderMarket | OrderLimit | OrderStop | OrderStopLimit | OtherOrderType string

datatype TimeInForce =
    TimeInForceDay | TimeInForceGTC | TimeInForceIOC | TimeInForceFOK | TimeInForceGTD | OtherTimeInForce string

record EventInput =
  EventInput_Source :: string
  EventInput_SourceNamespace :: string
  EventInput_SourceEventID :: string
  EventInput_SourceRevision :: string
  EventInput_ObservationClass :: ObservationClass
  EventInput_ObservationDiscriminator :: string
  EventInput_SourceAt :: time
  EventInput_ReceivedAt :: time
  EventInput_Actor :: string
  EventInput_ReasonCode :: string
  EventInput_Reason :: string
  EventInput_Evidence :: string
  EventInput_OriginalFillID :: "uuid option"
  EventInput_OriginalSourceEventID :: string

record 'd Event =
  Event_ID :: uuid
  Event_IngestSequence :: int
  Event_IntentID :: uuid
  Event_OrderID :: "uuid option"
  Event_BindingID :: "uuid option"
  Event_FillID :: "uuid option"
  Event_Kind :: EventKind
  Event_ObservationClass :: ObservationClass
  Event_ObservationDiscriminator :: string
  Event_PriorState :: State
  Event_NextState :: State
  Event_AccountID :: uuid
  Event_Environment :: AccountEnvironment
  Event_OriginType :: ExecutionOriginType
  Event_OriginID :: string
  Event_StrategyVersionID :: string
  Event_PolicyKind :: PolicyKind
  Event_PolicyVersion :: string
  Event_QuantityDelta :: "'d option"
  Event_CumulativeFillQuantity :: "'d option"
  Event_QuoteSnapshotID :: "uuid option"
  Event_Source :: string
  Event_SourceNamespace :: string
  Event_SourceEventID :: string
  Event_SourceRevision :: string
  Event_SourceAt :: time
  Event_ReceivedAt :: time
  Event_Actor :: string
  Event_ReasonCode :: string
  Event_Reason :: string
  Event_Evidence :: string
  Event_EvidenceSHA256 :: string
  Event_OriginalFillID :: "uuid option"
  Event_OriginalSourceEventID :: string
  Event_CreatedAt :: time

record 'd Intent =
  Intent_ID :: uuid
  Intent_AccountID :: uuid
  Intent_Environment :: AccountEnvironment
  Intent_InstrumentID :: uuid
  Intent_IdempotencyKey :: string
  Intent_DesiredQuantityDelta :: 'd
  Intent_DecisionQuoteSnapshotID :: uuid
  Intent_DecisionAt :: time
  Intent_OriginType :: ExecutionOriginType
  Intent_OriginID :: string
  Intent_StrategyVersionID :: string
  Intent_Metadata :: string
  Intent_CreatedAt :: time

record 'd Order =
  Order_ID :: uuid
  Order_IntentID :: uuid
  Order_AccountID :: uuid
  Order_InstrumentID :: uuid
  Order_IdempotencyKey :: string
  Order_ClientOrderID :: string
  Order_Side :: Side
  Order_OrderType :: OrderType
  Order_TimeInForce :: TimeInForce
  Order_Quantity :: 'd
  Order_LimitPrice :: "'d option"
  Order_StopPrice :: "'d option"
  Order_Venue :: string
  Order_VenueContractID :: uuid
  Order_RouteQuoteSnapshotID :: uuid
  Order_RoutedAt :: time
  Order_PolicyKind :: PolicyKind
  Order_PolicyVersion :: string
  Order_CreatedAt :: time

record OrderBinding =
  Binding_ID :: uuid
  Binding_OrderID :: uuid
  Binding_AccountID :: uuid
  Binding_Venue :: string
  Binding_ExternalOrderID :: string
  Binding_CreatedAt :: time

record 'd Fill =
  Fill_ID :: uuid
  Fill_IntentID :: uuid
  Fill_OrderID :: uuid
  Fill_AccountID :: uuid
  Fill_InstrumentID :: uuid
  Fill_VenueContractID :: uuid
  Fill_EconomicSourceEventID :: uuid
  Fill_NormalizationID :: uuid
  Fill_LedgerTransactionID :: uuid
  Fill_Side :: Side
  Fill_Quantity :: 'd
  Fill_Price :: 'd
  Fill_Source :: string
  Fill_SourceNamespace :: string
  Fill_SourceEventID :: string
  Fill_SourceRevision :: string
  Fill_EffectiveAt :: time
  Fill_ReceivedAt :: time
  Fill_CreatedAt :: time

record 'd Aggregate =
  Aggregate_Intent :: "'d Intent"
  Aggregate_State :: State
  Aggregate_AllocatedQuantity :: "'d option"
  Aggregate_Order :: "'d Order option"
  Aggregate_Binding :: "OrderBinding option"
  Aggregate_Fills :: "'d Fill list"
  Aggregate_Events :: "'d Event list"

record 'd ProposeInput =
  Propose_Account :: "'d Account"
  Propose_Instrument :: "'d Instrument"
  Propose_DecisionSnapshot :: "'d QuoteSnapshot"
  Propose_IdempotencyKey :: string
  Propose_DesiredQuantityDelta :: 'd
  Propose_DecisionAt :: time
  Propose_OriginType :: ExecutionOriginType
  Propose_OriginID :: string
  Propose_StrategyVersionID :: string
  Propose_Metadata :: string
  Propose_Event :: EventInput
  Propose_CreatedAt :: time

record 'd RouteInput =
  Route_OrderIdempotencyKey :: string
  Route_Instrument :: "'d Instrument"
  Route_VenueContract :: "'d VenueContract"
  Route_RouteSnapshot :: "'d QuoteSnapshot"
  Route_QuoteRequirements :: QuoteRequirements
  Route_OrderType :: OrderType
  Route_TimeInForce :: TimeInForce
  Route_LimitPrice :: "'d option"
  Route_StopPrice :: "'d option"
  Route_PolicyKind :: PolicyKind
  Route_PolicyVersion :: string
  Route_Event :: EventInput
  Route_RoutedAt :: time
  Route_CreatedAt :: time

record 'd FillInput =
  FillInput_Normalization :: "'d EconomicNormalization option"
  FillInput_ExternalOrderID :: string
  FillInput_Event :: EventInput
  FillInput_CreatedAt :: time

datatype event_error =
    EventSourceRequired
  | EventActorRequired
  | EventTimesRequired
  | EventSourceAfterReceive
  | EventEvidence
  | EventOrdinaryWithCorrection
  | EventClassInvalid
  | EventCorrectionIncomplete
  | EventRevisionDiscriminator
  | EventIdentityRequired
  | EventKindStateOrigin
  | EventSourceNotNormalized
  | EventActorNotNormalized
  | EventTimestamps
  | EventCreationTime
  | EventEvidenceHash
  | EventClassKindMismatch
  | EventCumulativePresence
  | EventIdentityMismatch

datatype intent_error =
    IntentIDsRequired
  | IntentEnvironment
  | IntentKey
  | IntentQuantity
  | IntentDecisionTime
  | IntentOrigin
  | IntentStrategyVersion
  | IntentMetadata
  | IntentCreationTime
  | IntentIdentity

datatype order_error =
    OrderIDsRequired
  | OrderIdentity
  | OrderSide
  | OrderQuantityOrTimeInForce
  | OrderTypeOrVenue
  | OrderPolicy
  | OrderTimestamps
  | OrderPrice
  | OrderIdentityMismatch
  | OrderTypeInvalid
  | OrderPriceOffTick
  | OrderMarketPrices
  | OrderLimitPrices
  | OrderStopPrices
  | OrderStopLimitPrices

datatype binding_error =
    ExternalOrderIDRequired
  | BindingIdentity
  | BindingCreationTime
  | BindingIdentityMismatch

datatype fill_record_error =
    FillIDsRequired
  | FillSideQuantityPrice
  | FillSource
  | FillTimes
  | FillEffectiveAfterReceive
  | FillIdentity

section \<open>Helpers\<close>

definition intentIDDomain :: string where "intentIDDomain = ''execution-intent''"
definition eventIDDomain :: string where "eventIDDomain = ''execution-lifecycle-event''"
definition orderIDDomain :: string where "orderIDDomain = ''execution-order''"
definition bindingIDDomain :: string where "bindingIDDomain = ''execution-order-binding''"
definition fillIDDomain :: string where "fillIDDomain = ''execution-fill''"

fun validOrigin :: "ExecutionOriginType \<Rightarrow> bool" where
  "validOrigin ExecutionOriginStrategyVersion = True"
| "validOrigin ExecutionOriginCopySubscription = True"
| "validOrigin ExecutionOriginPortfolioRebalance = True"
| "validOrigin ExecutionOriginRiskReduction = True"
| "validOrigin ExecutionOriginOperator = True"
| "validOrigin ExecutionOriginSettlement = True"
| "validOrigin ExecutionOriginReconciliation = True"
| "validOrigin _ = False"

definition validExactDecimal :: "('d::linordered_idom) lib \<Rightarrow> 'd \<Rightarrow> bool \<Rightarrow> bool" where
  "validExactDecimal L value allowZero =
    (if \<not> allowZero \<and> value = 0 \<or> value \<noteq> decimal_Round L value 12 then False
     else \<bar>value\<bar> < 10 ^ 26)"

text \<open>Decoding into \<open>map[string]any\<close> succeeds with a non-nil map exactly on a JSON object.\<close>

definition validateJSONObject :: "'d lib \<Rightarrow> string \<Rightarrow> bool" where
  "validateJSONObject L value =
    (value \<noteq> [] \<and>
     (case json_Decode L value of
        Decoded (JObject kvs) rest \<Rightarrow> json_Decode L rest = EOF
      | _ \<Rightarrow> False))"

definition jsonObjectEqual :: "'d lib \<Rightarrow> string \<Rightarrow> string \<Rightarrow> bool" where
  "jsonObjectEqual L left right =
    (case (json_Decode L left, json_Decode L right) of
       (Decoded l restl, Decoded r restr) \<Rightarrow> l = r
     | _ \<Rightarrow> False)"

definition normalizeTime :: "time \<Rightarrow> time" where
  "normalizeTime value = (if IsZero value then time_zero else utc_micros value)"

text \<open>The timestamp test that every \<open>Validate\<close> of the package repeats.\<close>

definition normalized_time :: "time \<Rightarrow> bool" where
  "normalized_time t \<longleftrightarrow> \<not> IsZero t \<and> loc t = UTC \<and> time_Equal t (Truncate t Microsecond)"

text \<open>A zero creation time is replaced by the clock.\<close>

definition creation_time :: "time \<Rightarrow> time \<Rightarrow> time" where
  "creation_time now createdAt =
    (let t = normalizeTime createdAt in if IsZero t then utc_micros now else t)"

definition eventIdentitySourceEventID :: "ObservationClass \<Rightarrow> string \<Rightarrow> string \<Rightarrow> string" where
  "eventIdentitySourceEventID observationClass sourceEventID originalSourceEventID =
    (if observationClass = ObservationOrdinary then sourceEventID else originalSourceEventID)"

definition event_components :: "'d lib \<Rightarrow> 'd Event \<Rightarrow> string list" where
  "event_components L e =
    [uuid_String L (Event_IntentID e), ObservationClass_string (Event_ObservationClass e), Event_Source e,
     Event_SourceNamespace e,
     eventIdentitySourceEventID (Event_ObservationClass e) (Event_SourceEventID e) (Event_OriginalSourceEventID e),
     Event_ObservationDiscriminator e]"

definition correction_revision_bad :: "string \<Rightarrow> string \<Rightarrow> bool" where
  "correction_revision_bad discriminator revision \<longleftrightarrow>
     HasPrefix discriminator ''revision:'' \<and> (revision = [] \<or> discriminator \<noteq> ''revision:'' @ revision)"

section \<open>Events\<close>

definition newEvent ::
    "'d lib \<Rightarrow> time \<Rightarrow> 'd Intent \<Rightarrow> EventKind \<Rightarrow> State \<Rightarrow> State \<Rightarrow> EventInput \<Rightarrow> time \<Rightarrow> event_error + 'd Event" where
  "newEvent L now intent kind prior next_state input createdAt =
    (let observationClass =
           (if EventInput_ObservationClass input = ObservationUnset then ObservationOrdinary
            else EventInput_ObservationClass input);
         source = ToLower L (TrimSpace (EventInput_Source input));
         namespace = TrimSpace (EventInput_SourceNamespace input);
         sourceEventID = TrimSpace (EventInput_SourceEventID input);
         revision = TrimSpace (EventInput_SourceRevision input);
         discriminator = TrimSpace (EventInput_ObservationDiscriminator input);
         actor = TrimSpace (EventInput_Actor input);
         reasonCode = ToLower L (TrimSpace (EventInput_ReasonCode input));
         originalSourceEventID = TrimSpace (EventInput_OriginalSourceEventID input);
         sourceAt = normalizeTime (EventInput_SourceAt input);
         receivedAt = normalizeTime (EventInput_ReceivedAt input);
         evidence = EventInput_Evidence input
     in ensure (first_err
          [guard (source = [] \<or> namespace = [] \<or> sourceEventID = []) EventSourceRequired,
           guard (actor = [] \<or> reasonCode = []) EventActorRequired,
           guard (IsZero (EventInput_SourceAt input) \<or> IsZero (EventInput_ReceivedAt input)) EventTimesRequired,
           guard (After sourceAt receivedAt) EventSourceAfterReceive,
           guard (\<not> validateJSONObject L evidence) EventEvidence,
           (if observationClass = ObservationOrdinary then
              guard (discriminator \<noteq> [] \<or> EventInput_OriginalFillID input \<noteq> None \<or> originalSourceEventID \<noteq> [])
                EventOrdinaryWithCorrection
            else first_err
              [guard (observationClass \<noteq> ObservationCorrection \<and> observationClass \<noteq> ObservationBust) EventClassInvalid,
               guard (discriminator = [] \<or> \<not> opt_holds (\<lambda>i. i \<noteq> uuid_Nil) (EventInput_OriginalFillID input) \<or>
                      originalSourceEventID = []) EventCorrectionIncomplete,
               guard (correction_revision_bad discriminator revision) EventRevisionDiscriminator])])
        (let event =
           \<lparr>Event_ID = uuid_Nil, Event_IngestSequence = 0, Event_IntentID = Intent_ID intent, Event_OrderID = None,
            Event_BindingID = None, Event_FillID = None, Event_Kind = kind, Event_ObservationClass = observationClass,
            Event_ObservationDiscriminator = discriminator, Event_PriorState = prior, Event_NextState = next_state,
            Event_AccountID = Intent_AccountID intent, Event_Environment = Intent_Environment intent,
            Event_OriginType = Intent_OriginType intent, Event_OriginID = Intent_OriginID intent,
            Event_StrategyVersionID = Intent_StrategyVersionID intent, Event_PolicyKind = PolicyUnset,
            Event_PolicyVersion = [], Event_QuantityDelta = None, Event_CumulativeFillQuantity = None,
            Event_QuoteSnapshotID = None, Event_Source = source, Event_SourceNamespace = namespace,
            Event_SourceEventID = sourceEventID, Event_SourceRevision = revision, Event_SourceAt = sourceAt,
            Event_ReceivedAt = receivedAt, Event_Actor = actor, Event_ReasonCode = reasonCode,
            Event_Reason = TrimSpace (EventInput_Reason input), Event_Evidence = evidence,
            Event_EvidenceSHA256 = hex_EncodeToString (sha256_Sum256 L evidence),
            Event_OriginalFillID = EventInput_OriginalFillID input,
            Event_OriginalSourceEventID = originalSourceEventID, Event_CreatedAt = creation_time now createdAt\<rparr>
         in Inr (event\<lparr>Event_ID := DeterministicUUID L eventIDDomain (event_components L event)\<rparr>)))"

definition event_class_checks :: "'d Event \<Rightarrow> event_error option" where
  "event_class_checks e =
    (case Event_ObservationClass e of
       ObservationOrdinary \<Rightarrow>
         guard (Event_ObservationDiscriminator e \<noteq> [] \<or> Event_OriginalFillID e \<noteq> None \<or>
                Event_OriginalSourceEventID e \<noteq> []) EventOrdinaryWithCorrection
     | ObservationUnset \<Rightarrow> Some EventClassInvalid
     | OtherObservation s \<Rightarrow> Some EventClassInvalid
     | observationClass \<Rightarrow> first_err
         [guard (\<not> isNormalizedRequired (Event_ObservationDiscriminator e) \<or>
                 \<not> opt_holds (\<lambda>i. i \<noteq> uuid_Nil) (Event_OriginalFillID e) \<or>
                 \<not> isNormalizedRequired (Event_OriginalSourceEventID e)) EventCorrectionIncomplete,
          guard (correction_revision_bad (Event_ObservationDiscriminator e) (Event_SourceRevision e))
            EventRevisionDiscriminator,
          guard ((observationClass = ObservationCorrection) \<noteq> (Event_Kind e = EventFillCorrectionObserved) \<or>
                 (observationClass = ObservationBust) \<noteq> (Event_Kind e = EventFillBustObserved))
            EventClassKindMismatch])"

definition is_fill_kind :: "EventKind \<Rightarrow> bool" where
  "is_fill_kind kind \<longleftrightarrow> kind = EventFillAcknowledged \<or> kind = EventFillRecorded"

definition Event_Validate :: "'d lib \<Rightarrow> 'd Event \<Rightarrow> event_error option" where
  [valid_defs]: "Event_Validate L e = first_err
    [guard (Event_ID e = uuid_Nil \<or> Event_IntentID e = uuid_Nil \<or> Event_AccountID e = uuid_Nil) EventIdentityRequired,
     guard (Event_Kind e = EventKindUnset \<or> Event_NextState e = StateNone \<or>
            \<not> AccountEnvironment_IsValid (Event_Environment e) \<or> \<not> validOrigin (Event_OriginType e)) EventKindStateOrigin,
     guard (Event_Source e = [] \<or> Event_Source e \<noteq> ToLower L (TrimSpace (Event_Source e)) \<or>
            \<not> isNormalizedRequired (Event_SourceNamespace e) \<or> \<not> isNormalizedRequired (Event_SourceEventID e) \<or>
            Event_SourceRevision e \<noteq> TrimSpace (Event_SourceRevision e)) EventSourceNotNormalized,
     guard (\<not> isNormalizedRequired (Event_Actor e) \<or> Event_ReasonCode e = [] \<or>
            Event_ReasonCode e \<noteq> ToLower L (TrimSpace (Event_ReasonCode e)) \<or>
            Event_Reason e \<noteq> TrimSpace (Event_Reason e)) EventActorNotNormalized,
     guard (\<not> normalized_time (Event_SourceAt e) \<or> \<not> normalized_time (Event_ReceivedAt e) \<or>
            After (Event_SourceAt e) (Event_ReceivedAt e)) EventTimestamps,
     guard (\<not> normalized_time (Event_CreatedAt e)) EventCreationTime,
     guard (\<not> validateJSONObject L (Event_Evidence e)) EventEvidence,
     guard (Event_EvidenceSHA256 e \<noteq> hex_EncodeToString (sha256_Sum256 L (Event_Evidence e))) EventEvidenceHash,
     event_class_checks e,
     guard (is_fill_kind (Event_Kind e) \<noteq> (Event_CumulativeFillQuantity e \<noteq> None)) EventCumulativePresence,
     guard (Event_ID e \<noteq> DeterministicUUID L eventIDDomain (event_components L e)) EventIdentityMismatch]"

definition SameEventPayload :: "'d Event option \<Rightarrow> 'd Event option \<Rightarrow> bool" where
  [same_defs]: "SameEventPayload left right =
    (case (left, right) of
       (Some l, Some r) \<Rightarrow>
         Event_ID l = Event_ID r \<and> Event_IntentID l = Event_IntentID r \<and> Event_OrderID l = Event_OrderID r \<and>
         Event_BindingID l = Event_BindingID r \<and> Event_FillID l = Event_FillID r \<and> Event_Kind l = Event_Kind r \<and>
         Event_ObservationClass l = Event_ObservationClass r \<and>
         Event_ObservationDiscriminator l = Event_ObservationDiscriminator r \<and>
         Event_PriorState l = Event_PriorState r \<and> Event_NextState l = Event_NextState r \<and>
         Event_AccountID l = Event_AccountID r \<and> Event_Environment l = Event_Environment r \<and>
         Event_OriginType l = Event_OriginType r \<and> Event_OriginID l = Event_OriginID r \<and>
         Event_StrategyVersionID l = Event_StrategyVersionID r \<and> Event_PolicyKind l = Event_PolicyKind r \<and>
         Event_PolicyVersion l = Event_PolicyVersion r \<and> Event_QuantityDelta l = Event_QuantityDelta r \<and>
         Event_CumulativeFillQuantity l = Event_CumulativeFillQuantity r \<and>
         Event_QuoteSnapshotID l = Event_QuoteSnapshotID r \<and> Event_Source l = Event_Source r \<and>
         Event_SourceNamespace l = Event_SourceNamespace r \<and> Event_SourceEventID l = Event_SourceEventID r \<and>
         Event_SourceRevision l = Event_SourceRevision r \<and> time_Equal (Event_SourceAt l) (Event_SourceAt r) \<and>
         time_Equal (Event_ReceivedAt l) (Event_ReceivedAt r) \<and> Event_Actor l = Event_Actor r \<and>
         Event_ReasonCode l = Event_ReasonCode r \<and> Event_Reason l = Event_Reason r \<and>
         Event_EvidenceSHA256 l = Event_EvidenceSHA256 r \<and> Event_Evidence l = Event_Evidence r \<and>
         Event_OriginalFillID l = Event_OriginalFillID r \<and>
         Event_OriginalSourceEventID l = Event_OriginalSourceEventID r
     | _ \<Rightarrow> False)"

section \<open>Intents\<close>

definition Intent_Validate :: "('d::linordered_idom) lib \<Rightarrow> 'd Intent \<Rightarrow> intent_error option" where
  [valid_defs]: "Intent_Validate L i = first_err
    [guard (Intent_ID i = uuid_Nil \<or> Intent_AccountID i = uuid_Nil \<or> Intent_InstrumentID i = uuid_Nil \<or>
            Intent_DecisionQuoteSnapshotID i = uuid_Nil) IntentIDsRequired,
     guard (\<not> AccountEnvironment_IsValid (Intent_Environment i)) IntentEnvironment,
     guard (TrimSpace (Intent_IdempotencyKey i) = [] \<or> Intent_IdempotencyKey i \<noteq> TrimSpace (Intent_IdempotencyKey i))
       IntentKey,
     guard (\<not> validExactDecimal L (Intent_DesiredQuantityDelta i) False) IntentQuantity,
     guard (\<not> normalized_time (Intent_DecisionAt i)) IntentDecisionTime,
     guard (\<not> validOrigin (Intent_OriginType i) \<or> \<not> isNormalizedRequired (Intent_OriginID i)) IntentOrigin,
     guard (Intent_StrategyVersionID i \<noteq> TrimSpace (Intent_StrategyVersionID i) \<or>
            Intent_OriginType i = ExecutionOriginStrategyVersion \<and> Intent_StrategyVersionID i \<noteq> Intent_OriginID i)
       IntentStrategyVersion,
     guard (\<not> validateJSONObject L (Intent_Metadata i)) IntentMetadata,
     guard (\<not> normalized_time (Intent_CreatedAt i)) IntentCreationTime,
     guard (Intent_ID i \<noteq> DeterministicUUID L intentIDDomain
              [uuid_String L (Intent_AccountID i), Intent_IdempotencyKey i]) IntentIdentity]"

definition SameIntentPayload :: "'d lib \<Rightarrow> 'd Intent option \<Rightarrow> 'd Intent option \<Rightarrow> bool" where
  [same_defs]: "SameIntentPayload L left right =
    (case (left, right) of
       (Some l, Some r) \<Rightarrow>
         Intent_ID l = Intent_ID r \<and> Intent_AccountID l = Intent_AccountID r \<and>
         Intent_Environment l = Intent_Environment r \<and> Intent_InstrumentID l = Intent_InstrumentID r \<and>
         Intent_IdempotencyKey l = Intent_IdempotencyKey r \<and>
         Intent_DesiredQuantityDelta l = Intent_DesiredQuantityDelta r \<and>
         Intent_DecisionQuoteSnapshotID l = Intent_DecisionQuoteSnapshotID r \<and>
         time_Equal (Intent_DecisionAt l) (Intent_DecisionAt r) \<and> Intent_OriginType l = Intent_OriginType r \<and>
         Intent_OriginID l = Intent_OriginID r \<and> Intent_StrategyVersionID l = Intent_StrategyVersionID r \<and>
         jsonObjectEqual L (Intent_Metadata l) (Intent_Metadata r)
     | _ \<Rightarrow> False)"

section \<open>Orders and bindings\<close>

definition validOrderType :: "OrderType \<Rightarrow> bool" where
  "validOrderType value \<longleftrightarrow> value = OrderMarket \<or> value = OrderLimit \<or> value = OrderStop \<or> value = OrderStopLimit"

fun validTimeInForce :: "TimeInForce \<Rightarrow> bool" where
  "validTimeInForce (OtherTimeInForce s) = False"
| "validTimeInForce _ = True"

definition lifecycle_isExactMultiple :: "('d::linordered_idom) lib \<Rightarrow> 'd \<Rightarrow> 'd \<Rightarrow> bool" where
  "lifecycle_isExactMultiple L value step \<longleftrightarrow> step > 0 \<and> decimal_Mod L value step = 0"

definition sideForDelta :: "('d::linordered_idom) \<Rightarrow> Side" where
  "sideForDelta value = (if value < 0 then SideSell else SideBuy)"

definition validateOrderPrices ::
    "('d::linordered_idom) lib \<Rightarrow> OrderType \<Rightarrow> 'd option \<Rightarrow> 'd option \<Rightarrow> 'd \<Rightarrow> order_error option" where
  "validateOrderPrices L orderType limitPrice stopPrice tick = first_err
    [guard (\<not> validOrderType orderType) OrderTypeInvalid,
     guard (\<not> list_all (opt_all (\<lambda>price. validExactDecimal L price True \<and> \<not> price < 0 \<and> lifecycle_isExactMultiple L price tick))
              [limitPrice, stopPrice]) OrderPriceOffTick,
     (case orderType of
        OrderMarket \<Rightarrow> guard (limitPrice \<noteq> None \<or> stopPrice \<noteq> None) OrderMarketPrices
      | OrderLimit \<Rightarrow> guard (limitPrice = None \<or> stopPrice \<noteq> None) OrderLimitPrices
      | OrderStop \<Rightarrow> guard (stopPrice = None \<or> limitPrice \<noteq> None) OrderStopPrices
      | OrderStopLimit \<Rightarrow> guard (limitPrice = None \<or> stopPrice = None) OrderStopLimitPrices
      | OtherOrderType s \<Rightarrow> None)]"

definition Order_Validate :: "('d::linordered_idom) lib \<Rightarrow> 'd Order \<Rightarrow> order_error option" where
  [valid_defs]: "Order_Validate L order = first_err
    [guard (Order_ID order = uuid_Nil \<or> Order_IntentID order = uuid_Nil \<or> Order_AccountID order = uuid_Nil \<or>
            Order_InstrumentID order = uuid_Nil \<or> Order_VenueContractID order = uuid_Nil \<or>
            Order_RouteQuoteSnapshotID order = uuid_Nil) OrderIDsRequired,
     guard (\<not> isNormalizedRequired (Order_IdempotencyKey order) \<or>
            Order_ClientOrderID order \<noteq> uuid_String L (Order_ID order)) OrderIdentity,
     guard (Order_Side order \<noteq> SideBuy \<and> Order_Side order \<noteq> SideSell) OrderSide,
     guard (\<not> validExactDecimal L (Order_Quantity order) False \<or> \<not> Order_Quantity order > 0 \<or>
            \<not> validTimeInForce (Order_TimeInForce order)) OrderQuantityOrTimeInForce,
     guard (\<not> validOrderType (Order_OrderType order) \<or> Order_Venue order = [] \<or>
            Order_Venue order \<noteq> ToLower L (TrimSpace (Order_Venue order))) OrderTypeOrVenue,
     guard (Order_PolicyKind order \<noteq> PolicySimulation \<and> Order_PolicyKind order \<noteq> PolicyVenue \<or>
            \<not> isNormalizedRequired (Order_PolicyVersion order)) OrderPolicy,
     guard (\<not> normalized_time (Order_RoutedAt order) \<or> \<not> normalized_time (Order_CreatedAt order)) OrderTimestamps,
     guard (\<not> list_all (opt_all (\<lambda>price. validExactDecimal L price True \<and> \<not> price < 0))
              [Order_LimitPrice order, Order_StopPrice order]) OrderPrice,
     guard (Order_ID order \<noteq> DeterministicUUID L orderIDDomain
              [uuid_String L (Order_IntentID order), Order_IdempotencyKey order]) OrderIdentityMismatch]"

definition SameOrderPayload :: "'d Order option \<Rightarrow> 'd Order option \<Rightarrow> bool" where
  [same_defs]: "SameOrderPayload left right =
    (case (left, right) of
       (Some l, Some r) \<Rightarrow>
         Order_ID l = Order_ID r \<and> Order_IntentID l = Order_IntentID r \<and> Order_AccountID l = Order_AccountID r \<and>
         Order_InstrumentID l = Order_InstrumentID r \<and> Order_IdempotencyKey l = Order_IdempotencyKey r \<and>
         Order_ClientOrderID l = Order_ClientOrderID r \<and> Order_Side l = Order_Side r \<and>
         Order_OrderType l = Order_OrderType r \<and> Order_TimeInForce l = Order_TimeInForce r \<and>
         Order_Quantity l = Order_Quantity r \<and> Order_LimitPrice l = Order_LimitPrice r \<and>
         Order_StopPrice l = Order_StopPrice r \<and> Order_Venue l = Order_Venue r \<and>
         Order_VenueContractID l = Order_VenueContractID r \<and>
         Order_RouteQuoteSnapshotID l = Order_RouteQuoteSnapshotID r \<and>
         time_Equal (Order_RoutedAt l) (Order_RoutedAt r) \<and> Order_PolicyKind l = Order_PolicyKind r \<and>
         Order_PolicyVersion l = Order_PolicyVersion r
     | _ \<Rightarrow> False)"

definition OrderBinding_Validate :: "'d lib \<Rightarrow> OrderBinding \<Rightarrow> binding_error option" where
  [valid_defs]: "OrderBinding_Validate L b = first_err
    [guard (Binding_ID b = uuid_Nil \<or> Binding_OrderID b = uuid_Nil \<or> Binding_AccountID b = uuid_Nil \<or>
            Binding_Venue b = [] \<or> Binding_Venue b \<noteq> ToLower L (TrimSpace (Binding_Venue b)) \<or>
            \<not> isNormalizedRequired (Binding_ExternalOrderID b)) BindingIdentity,
     guard (\<not> normalized_time (Binding_CreatedAt b)) BindingCreationTime,
     guard (Binding_ID b \<noteq> DeterministicUUID L bindingIDDomain [uuid_String L (Binding_OrderID b)])
       BindingIdentityMismatch]"

definition newOrderBinding ::
    "'d lib \<Rightarrow> 'd Aggregate \<Rightarrow> 'd Order \<Rightarrow> string \<Rightarrow> time \<Rightarrow> binding_error + OrderBinding" where
  "newOrderBinding L aggregate order externalOrderID createdAt =
    (let external = TrimSpace externalOrderID;
         binding =
           \<lparr>Binding_ID = DeterministicUUID L bindingIDDomain [uuid_String L (Order_ID order)],
            Binding_OrderID = Order_ID order, Binding_AccountID = Intent_AccountID (Aggregate_Intent aggregate),
            Binding_Venue = Order_Venue order, Binding_ExternalOrderID = external, Binding_CreatedAt = createdAt\<rparr>
     in ensure (guard (external = []) ExternalOrderIDRequired)
          (ensure (OrderBinding_Validate L binding) (Inr binding)))"

section \<open>Fills\<close>

definition FillID :: "'d lib \<Rightarrow> uuid \<Rightarrow> uuid \<Rightarrow> uuid" where
  "FillID L orderID economicSourceEventID =
     DeterministicUUID L fillIDDomain [uuid_String L orderID, uuid_String L economicSourceEventID]"

definition Fill_Validate :: "('d::linordered_idom) lib \<Rightarrow> 'd Fill \<Rightarrow> fill_record_error option" where
  [valid_defs]: "Fill_Validate L f = first_err
    [guard (Fill_ID f = uuid_Nil \<or> Fill_IntentID f = uuid_Nil \<or> Fill_OrderID f = uuid_Nil \<or>
            Fill_AccountID f = uuid_Nil \<or> Fill_InstrumentID f = uuid_Nil \<or> Fill_VenueContractID f = uuid_Nil \<or>
            Fill_EconomicSourceEventID f = uuid_Nil \<or> Fill_NormalizationID f = uuid_Nil \<or>
            Fill_LedgerTransactionID f = uuid_Nil) FillIDsRequired,
     guard (Fill_Side f \<noteq> SideBuy \<and> Fill_Side f \<noteq> SideSell \<or> \<not> Fill_Quantity f > 0 \<or> Fill_Price f < 0 \<or>
            \<not> validExactDecimal L (Fill_Quantity f) False \<or> \<not> validExactDecimal L (Fill_Price f) True)
       FillSideQuantityPrice,
     guard (Fill_Source f = [] \<or> Fill_Source f \<noteq> ToLower L (TrimSpace (Fill_Source f)) \<or>
            \<not> isNormalizedRequired (Fill_SourceNamespace f) \<or> \<not> isNormalizedRequired (Fill_SourceEventID f) \<or>
            Fill_SourceRevision f \<noteq> TrimSpace (Fill_SourceRevision f)) FillSource,
     guard (\<not> list_all normalized_time [Fill_EffectiveAt f, Fill_ReceivedAt f, Fill_CreatedAt f]) FillTimes,
     guard (After (Fill_EffectiveAt f) (Fill_ReceivedAt f)) FillEffectiveAfterReceive,
     guard (Fill_ID f \<noteq> FillID L (Fill_OrderID f) (Fill_EconomicSourceEventID f)) FillIdentity]"

definition SameFillPayload :: "'d Fill option \<Rightarrow> 'd Fill option \<Rightarrow> bool" where
  [same_defs]: "SameFillPayload left right =
    (case (left, right) of
       (Some l, Some r) \<Rightarrow>
         Fill_ID l = Fill_ID r \<and> Fill_IntentID l = Fill_IntentID r \<and> Fill_OrderID l = Fill_OrderID r \<and>
         Fill_AccountID l = Fill_AccountID r \<and> Fill_InstrumentID l = Fill_InstrumentID r \<and>
         Fill_VenueContractID l = Fill_VenueContractID r \<and>
         Fill_EconomicSourceEventID l = Fill_EconomicSourceEventID r \<and>
         Fill_NormalizationID l = Fill_NormalizationID r \<and> Fill_LedgerTransactionID l = Fill_LedgerTransactionID r \<and>
         Fill_Side l = Fill_Side r \<and> Fill_Quantity l = Fill_Quantity r \<and> Fill_Price l = Fill_Price r \<and>
         Fill_Source l = Fill_Source r \<and> Fill_SourceNamespace l = Fill_SourceNamespace r \<and>
         Fill_SourceEventID l = Fill_SourceEventID r \<and> Fill_SourceRevision l = Fill_SourceRevision r \<and>
         time_Equal (Fill_EffectiveAt l) (Fill_EffectiveAt r) \<and> time_Equal (Fill_ReceivedAt l) (Fill_ReceivedAt r)
     | _ \<Rightarrow> False)"

definition sumFillQuantity :: "('d::linordered_idom) Fill list \<Rightarrow> 'd" where
  "sumFillQuantity fills = foldl (\<lambda>t f. t + Fill_Quantity f) 0 fills"

end
