(* ===== verification/Lifecycle_Aggregate.thy ===== *)
theory Lifecycle_Aggregate
  imports Lifecycle_Model Event_Sourcing
begin

text \<open>
  \<open>internal/execution/lifecycle\<close>: the commands (\<open>Propose\<close>, \<open>Allocate\<close>, \<open>ApproveRisk\<close>, \<open>RejectRisk\<close>,
  \<open>Route\<close>, \<open>Acknowledge\<close>, \<open>RecordFill\<close>, \<open>RequestCancel\<close>, \<open>ObserveOrderTerminal\<close>,
  \<open>FailReconciliation\<close>), the check and application of a transition and the replay of a lifecycle.
  A command returns a \<open>Transition\<close>; \<open>now\<close> is the result of \<open>time.Now()\<close>, used when the caller gives no
  creation time.  A nil dereference is the error \<open>LifecyclePanic\<close>.
\<close>

record 'd Transition =
  Transition_Event :: "'d Event"
  Transition_Order :: "'d Order option"
  Transition_Binding :: "OrderBinding option"
  Transition_Fill :: "'d Fill option"
  Transition_Normalization :: "'d EconomicNormalization option"

datatype propose_error =
    ProposeAccount account_error
  | ProposeAccountInactive
  | ProposeInstrument instrument_error
  | ProposeInstrumentInactive
  | ProposeSnapshot quote_error
  | ProposeSnapshotInstrument
  | ProposeDecisionTime
  | ProposeExpired
  | ProposeAvailabilityRequired
  | ProposeNotAvailable
  | ProposeQuantity
  | ProposeKey
  | ProposeOrigin
  | ProposeStrategy
  | ProposeMetadata

datatype route_error =
    RouteState
  | RouteInstrumentMismatch
  | RouteInstrument
  | RouteContract contract_error
  | RouteTime
  | RouteQuote assess_error
  | RouteAssessmentIdentity
  | RouteLot
  | RoutePrices order_error
  | RouteTimeInForce
  | RoutePolicyKind
  | RouteKeyAndPolicy

datatype record_error =
    FillLifecycleRequired
  | FillState
  | FillNormalizationRequired
  | FillNormalization norm_error
  | FillSourceEventRequired
  | FillContext
  | FillMechanics
  | FillObservationClass
  | FillEvidence
  | FillPayload
  | FillExceedsOrder
  | FillUnexpectedBinding
  | FillNoBinding
  | FillExternalID

datatype command_error =
    AllocateState
  | AllocateQuantity
  | RiskState
  | AcknowledgeState
  | CancelState
  | TerminalLifecycleRequired
  | TerminalKind
  | TerminalTransition
  | TerminalNoBinding
  | FailState
  | FailCorrectionClass
  | FailBustClass
  | FailOrdinaryClass
  | FailKind
  | FailNoFill

datatype apply_error =
    ApplyNil
  | ApplyContext
  | ApplyPreRouteContext
  | ApplyPolicyContext
  | ApplyStale
  | ApplyIllegal
  | ApplyChildren
  | ApplyAllocation
  | ApplyRiskQuantity
  | ApplyRouted
  | ApplyBinding
  | ApplyCancelBinding
  | ApplyTerminalBinding
  | ApplyPreAckBinding
  | ApplyFillMismatch
  | ApplyFillLinks
  | ApplyFillCumulative
  | ApplyImmediateBinding
  | ApplyFillBinding
  | ApplyCorrection

datatype replay_error =
    ReplayAccount
  | ReplayEmpty
  | ReplayProposed
  | ReplayDuplicate
  | ReplaySequence

datatype lifecycle_error =
    LifecyclePanic
  | LifecycleIntent intent_error
  | LifecycleEvent event_error
  | LifecycleOrder order_error
  | LifecycleBinding binding_error
  | LifecycleFill fill_record_error
  | InPropose propose_error
  | InRoute route_error
  | InRecord record_error
  | InCommand command_error
  | InApply apply_error
  | InReplay replay_error

section \<open>The state machine\<close>

definition validEventTransition :: "EventKind \<Rightarrow> ObservationClass \<Rightarrow> State \<Rightarrow> State \<Rightarrow> bool" where
  "validEventTransition kind observationClass prior next_state =
    (if observationClass = ObservationCorrection \<or> observationClass = ObservationBust then
       (kind = EventFillCorrectionObserved \<or> kind = EventFillBustObserved) \<and>
       prior \<noteq> StateNone \<and> prior \<noteq> StateFailedReconciliation \<and> next_state = StateFailedReconciliation
     else if observationClass \<noteq> ObservationOrdinary then False
     else (case kind of
       EventIntentProposed \<Rightarrow> prior = StateNone \<and> next_state = StateProposed
     | EventIntentAllocated \<Rightarrow> prior = StateProposed \<and> next_state = StateAllocated
     | EventRiskApproved \<Rightarrow> prior = StateAllocated \<and> next_state = StateRiskApproved
     | EventRiskRejected \<Rightarrow> prior = StateAllocated \<and> next_state = StateRiskRejected
     | EventOrderRouted \<Rightarrow> prior = StateRiskApproved \<and> next_state = StateRouted
     | EventOrderWorking \<Rightarrow> prior = StateRouted \<and> next_state = StateWorking
     | EventCancelRequested \<Rightarrow> (prior = StateWorking \<or> prior = StatePartiallyFilled) \<and> next_state = prior
     | EventFillAcknowledged \<Rightarrow>
         prior = StateRouted \<and> (next_state = StatePartiallyFilled \<or> next_state = StateFilled)
     | EventFillRecorded \<Rightarrow>
         (prior = StateWorking \<or> prior = StatePartiallyFilled) \<and>
         (next_state = StatePartiallyFilled \<or> next_state = StateFilled)
     | EventOrderCancelled \<Rightarrow>
         (prior = StateRouted \<or> prior = StateWorking \<or> prior = StatePartiallyFilled) \<and> next_state = StateCancelled
     | EventOrderExpired \<Rightarrow>
         (prior = StateRouted \<or> prior = StateWorking \<or> prior = StatePartiallyFilled) \<and> next_state = StateExpired
     | EventOrderRejected \<Rightarrow>
         (prior = StateRouted \<or> prior = StateWorking \<or> prior = StatePartiallyFilled) \<and> next_state = StateRejected
     | EventUnknownVenueState \<Rightarrow>
         prior \<noteq> StateNone \<and> prior \<noteq> StateFailedReconciliation \<and> next_state = StateFailedReconciliation
     | EventContradictoryVenueState \<Rightarrow>
         prior \<noteq> StateNone \<and> prior \<noteq> StateFailedReconciliation \<and> next_state = StateFailedReconciliation
     | _ \<Rightarrow> False))"

definition hasFill :: "'d Aggregate \<Rightarrow> uuid \<Rightarrow> string \<Rightarrow> bool" where
  "hasFill aggregate fid sourceEventID =
     list_ex (\<lambda>fill. Fill_ID fill = fid \<and> Fill_SourceEventID fill = sourceEventID) (Aggregate_Fills aggregate)"

definition RecoveryEligible :: "'d Aggregate option \<Rightarrow> bool" where
  "RecoveryEligible aggregate =
    (case aggregate of
       None \<Rightarrow> False
     | Some a \<Rightarrow> Aggregate_Order a \<noteq> None \<and>
         (Aggregate_State a = StateRouted \<or> Aggregate_State a = StateWorking \<or> Aggregate_State a = StatePartiallyFilled))"

section \<open>Applying a transition\<close>

text \<open>A fill can only be checked against an order; the first test dereferences the source event.\<close>

definition validateFillNormalization ::
    "('d::linordered_idom) lib \<Rightarrow> 'd Aggregate \<Rightarrow> 'd Order \<Rightarrow> uuid \<Rightarrow> 'd EconomicNormalization \<Rightarrow> lifecycle_error option" where
  "validateFillNormalization L a order fillID n =
    (let intent = Aggregate_Intent a in
     case Normalization_SourceEvent n of
       None \<Rightarrow> Some LifecyclePanic
     | Some source \<Rightarrow> first_err
        [guard (EconomicSourceEvent_AccountID source \<noteq> Intent_AccountID intent \<or>
                \<not> opt_holds (\<lambda>x. Account_ID x = Intent_AccountID intent) (Normalization_Account n) \<or>
                \<not> opt_holds (\<lambda>x. Instrument_ID x = Intent_InstrumentID intent) (Normalization_Instrument n) \<or>
                \<not> opt_holds (\<lambda>x. VenueContract_ID x = Order_VenueContractID order) (Normalization_VenueContract n) \<or>
                Normalization_Venue n \<noteq> Order_Venue order \<or>
                Normalization_ExecutionOriginType n \<noteq> Intent_OriginType intent \<or>
                Normalization_ExecutionOriginID n \<noteq> Intent_OriginID intent \<or>
                Normalization_ReferenceType n \<noteq> ''execution_fill'' \<or>
                Normalization_ReferenceID n \<noteq> uuid_String L fillID \<or> Normalization_Transaction n = None) (InRecord FillContext),
         guard (Normalization_EventType n \<noteq>
                  (if Order_Side order = SideSell then EconomicEventFillSell else EconomicEventFillBuy) \<or>
                \<not> opt_holds (\<lambda>q. q > 0 \<and> validExactDecimal L q False) (Normalization_Quantity n) \<or>
                \<not> opt_holds (\<lambda>p. \<not> p < 0 \<and> validExactDecimal L p True) (Normalization_Price n)) (InRecord FillMechanics)])"

definition has_children :: "'d Transition \<Rightarrow> bool" where
  "has_children t \<longleftrightarrow> Transition_Order t \<noteq> None \<or> Transition_Binding t \<noteq> None \<or> Transition_Fill t \<noteq> None \<or>
     Transition_Normalization t \<noteq> None"

definition applyAllocated ::
    "('d::linordered_idom) lib \<Rightarrow> 'd Aggregate \<Rightarrow> 'd Transition \<Rightarrow> lifecycle_error + 'd Aggregate" where
  "applyAllocated L a t =
    (let e = Transition_Event t; desired = Intent_DesiredQuantityDelta (Aggregate_Intent a) in
     ensure (first_err
       [guard (has_children t) (InApply ApplyChildren),
        guard (\<not> opt_holds (\<lambda>q. validExactDecimal L q False \<and> sgn q = sgn desired \<and> \<not> \<bar>q\<bar> > \<bar>desired\<bar>)
                 (Event_QuantityDelta e)) (InApply ApplyAllocation)])
       (Inr (a\<lparr>Aggregate_AllocatedQuantity := Event_QuantityDelta e\<rparr>)))"

definition applyRisk :: "'d Aggregate \<Rightarrow> 'd Transition \<Rightarrow> lifecycle_error + 'd Aggregate" where
  "applyRisk a t =
    ensure (first_err
      [guard (has_children t) (InApply ApplyChildren),
       guard (Aggregate_AllocatedQuantity a = None \<or> Event_QuantityDelta (Transition_Event t) = None \<or>
              Event_QuantityDelta (Transition_Event t) \<noteq> Aggregate_AllocatedQuantity a) (InApply ApplyRiskQuantity)])
      (Inr a)"

definition applyRouted ::
    "('d::linordered_idom) lib \<Rightarrow> 'd Aggregate \<Rightarrow> 'd Transition \<Rightarrow> lifecycle_error + 'd Aggregate" where
  "applyRouted L a t =
    (let e = Transition_Event t; intent = Aggregate_Intent a in
     case Transition_Order t of
       None \<Rightarrow> Inl (InApply ApplyRouted)
     | Some order \<Rightarrow>
        ensure (first_err
          [guard (Aggregate_Order a \<noteq> None \<or> Event_OrderID e \<noteq> Some (Order_ID order) \<or>
                  Transition_Binding t \<noteq> None \<or> Transition_Fill t \<noteq> None \<or> Transition_Normalization t \<noteq> None \<or>
                  Order_IntentID order \<noteq> Intent_ID intent \<or> Order_AccountID order \<noteq> Intent_AccountID intent \<or>
                  Order_InstrumentID order \<noteq> Intent_InstrumentID intent \<or>
                  \<not> opt_holds (\<lambda>q. Order_Quantity order = \<bar>q\<bar> \<and> Order_Side order = sideForDelta q)
                    (Aggregate_AllocatedQuantity a) \<or>
                  Event_PolicyKind e \<noteq> Order_PolicyKind order \<or> Event_PolicyVersion e \<noteq> Order_PolicyVersion order \<or>
                  Event_QuoteSnapshotID e \<noteq> Some (Order_RouteQuoteSnapshotID order)) (InApply ApplyRouted),
           map_option LifecycleOrder (Order_Validate L order)])
        (Inr (a\<lparr>Aggregate_Order := Some order\<rparr>)))"

definition applyWorking :: "'d lib \<Rightarrow> 'd Aggregate \<Rightarrow> 'd Transition \<Rightarrow> lifecycle_error + 'd Aggregate" where
  "applyWorking L a t =
    (case (Aggregate_Order a, Transition_Binding t) of
       (Some order, Some binding) \<Rightarrow>
         ensure (first_err
           [guard (Aggregate_Binding a \<noteq> None \<or> Transition_Order t \<noteq> None \<or> Transition_Fill t \<noteq> None \<or>
                   Transition_Normalization t \<noteq> None \<or>
                   Event_BindingID (Transition_Event t) \<noteq> Some (Binding_ID binding) \<or>
                   Binding_OrderID binding \<noteq> Order_ID order \<or>
                   Binding_AccountID binding \<noteq> Intent_AccountID (Aggregate_Intent a) \<or>
                   Binding_Venue binding \<noteq> Order_Venue order) (InApply ApplyBinding),
            map_option LifecycleBinding (OrderBinding_Validate L binding)])
         (Inr (a\<lparr>Aggregate_Binding := Some binding\<rparr>))
     | _ \<Rightarrow> Inl (InApply ApplyBinding))"

text \<open>The event names the binding of the aggregate.\<close>

definition bound_to :: "'d Aggregate \<Rightarrow> 'd Event \<Rightarrow> bool" where
  "bound_to a e \<longleftrightarrow> opt_holds (\<lambda>b. Event_BindingID e = Some (Binding_ID b)) (Aggregate_Binding a)"

definition applyCancelRequested :: "'d Aggregate \<Rightarrow> 'd Transition \<Rightarrow> lifecycle_error + 'd Aggregate" where
  "applyCancelRequested a t =
    ensure (guard (\<not> bound_to a (Transition_Event t) \<or> has_children t) (InApply ApplyCancelBinding)) (Inr a)"

definition applyTerminal :: "'d Aggregate \<Rightarrow> 'd Transition \<Rightarrow> lifecycle_error + 'd Aggregate" where
  "applyTerminal a t =
    (let e = Transition_Event t;
         working = (Aggregate_State a = StateWorking \<or> Aggregate_State a = StatePartiallyFilled)
     in ensure (first_err
          [guard (has_children t) (InApply ApplyChildren),
           guard (working \<and> \<not> bound_to a e) (InApply ApplyTerminalBinding),
           guard (\<not> working \<and> Aggregate_State a = StateRouted \<and> Event_BindingID e \<noteq> None) (InApply ApplyPreAckBinding)])
        (Inr a))"

definition fill_links ::
    "'d Event \<Rightarrow> 'd Fill \<Rightarrow> 'd EconomicNormalization \<Rightarrow> EconomicSourceEvent \<Rightarrow> 'd Transaction \<Rightarrow> bool" where
  "fill_links e fill n source transaction \<longleftrightarrow>
     Fill_EconomicSourceEventID fill = EconomicSourceEvent_ID source \<and> Fill_NormalizationID fill = Normalization_ID n \<and>
     Fill_LedgerTransactionID fill = Transaction_ID transaction \<and>
     Event_Source e = Fill_Source fill \<and> Event_SourceNamespace e = Fill_SourceNamespace fill \<and>
     Event_SourceEventID e = Fill_SourceEventID fill \<and> Event_SourceRevision e = Fill_SourceRevision fill \<and>
     time_Equal (Event_ReceivedAt e) (Fill_ReceivedAt fill)"

definition fill_binding ::
    "'d lib \<Rightarrow> 'd Aggregate \<Rightarrow> 'd Order \<Rightarrow> 'd Transition \<Rightarrow> lifecycle_error + OrderBinding option" where
  "fill_binding L a order t =
    (let e = Transition_Event t in
     if Event_Kind e = EventFillAcknowledged then
       (case Transition_Binding t of
          None \<Rightarrow> Inl (InApply ApplyImmediateBinding)
        | Some binding \<Rightarrow>
            ensure (first_err
              [guard (Aggregate_State a \<noteq> StateRouted \<or> Aggregate_Binding a \<noteq> None \<or>
                      Event_BindingID e \<noteq> Some (Binding_ID binding) \<or> Binding_OrderID binding \<noteq> Order_ID order)
                 (InApply ApplyImmediateBinding),
               map_option LifecycleBinding (OrderBinding_Validate L binding)])
            (Inr (Some binding)))
     else ensure (guard (\<not> bound_to a e \<or> Transition_Binding t \<noteq> None) (InApply ApplyFillBinding)) (Inr (Aggregate_Binding a)))"

definition applyFillEvent ::
    "('d::linordered_idom) lib \<Rightarrow> 'd Aggregate \<Rightarrow> 'd Transition \<Rightarrow> lifecycle_error + 'd Aggregate" where
  "applyFillEvent L a t =
    (let e = Transition_Event t; intent = Aggregate_Intent a in
     case (Aggregate_Order a, Transition_Fill t, Transition_Normalization t) of
       (Some order, Some fill, Some n) \<Rightarrow>
         ensure (first_err
           [guard (Event_FillID e \<noteq> Some (Fill_ID fill) \<or> Transition_Order t \<noteq> None \<or>
                   Fill_IntentID fill \<noteq> Intent_ID intent \<or> Fill_OrderID fill \<noteq> Order_ID order \<or>
                   Fill_AccountID fill \<noteq> Intent_AccountID intent \<or> Fill_InstrumentID fill \<noteq> Intent_InstrumentID intent \<or>
                   Fill_VenueContractID fill \<noteq> Order_VenueContractID order) (InApply ApplyFillMismatch),
            map_option LifecycleFill (Fill_Validate L fill),
            validateFillNormalization L a order (Fill_ID fill) n])
         (case (Normalization_SourceEvent n, Normalization_Transaction n) of
            (Some source, Some transaction) \<Rightarrow>
              (let cumulative = sumFillQuantity (Aggregate_Fills a) + Fill_Quantity fill in
               ensure (first_err
                 [guard (\<not> fill_links e fill n source transaction) (InApply ApplyFillLinks),
                  guard (cumulative > Order_Quantity order \<or> Event_CumulativeFillQuantity e \<noteq> Some cumulative \<or>
                         (Event_NextState e = StateFilled) \<noteq> (cumulative = Order_Quantity order)) (InApply ApplyFillCumulative)])
               (and_then (fill_binding L a order t) (\<lambda>binding.
                  Inr (a\<lparr>Aggregate_Binding := binding, Aggregate_Fills := Aggregate_Fills a @ [fill]\<rparr>))))
          | _ \<Rightarrow> Inl LifecyclePanic)
     | _ \<Rightarrow> Inl (InApply ApplyFillMismatch))"

definition applyCorrection :: "'d Aggregate \<Rightarrow> 'd Transition \<Rightarrow> lifecycle_error + 'd Aggregate" where
  "applyCorrection a t =
    ensure (guard (has_children t \<or>
                   \<not> opt_holds (\<lambda>i. hasFill a i (Event_OriginalSourceEventID (Transition_Event t)))
                     (Event_OriginalFillID (Transition_Event t))) (InApply ApplyCorrection))
      (Inr a)"

definition applyVenueFailure :: "'d Aggregate \<Rightarrow> 'd Transition \<Rightarrow> lifecycle_error + 'd Aggregate" where
  "applyVenueFailure a t = ensure (guard (has_children t) (InApply ApplyChildren)) (Inr a)"

text \<open>The switch over the event kind; a kind without a case keeps the facts.\<close>

definition apply_children ::
    "('d::linordered_idom) lib \<Rightarrow> 'd Aggregate \<Rightarrow> 'd Transition \<Rightarrow> lifecycle_error + 'd Aggregate" where
  "apply_children L a t =
    (case Event_Kind (Transition_Event t) of
       EventIntentAllocated \<Rightarrow> applyAllocated L a t
     | EventRiskApproved \<Rightarrow> applyRisk a t
     | EventRiskRejected \<Rightarrow> applyRisk a t
     | EventOrderRouted \<Rightarrow> applyRouted L a t
     | EventOrderWorking \<Rightarrow> applyWorking L a t
     | EventCancelRequested \<Rightarrow> applyCancelRequested a t
     | EventOrderCancelled \<Rightarrow> applyTerminal a t
     | EventOrderExpired \<Rightarrow> applyTerminal a t
     | EventOrderRejected \<Rightarrow> applyTerminal a t
     | EventFillAcknowledged \<Rightarrow> applyFillEvent L a t
     | EventFillRecorded \<Rightarrow> applyFillEvent L a t
     | EventFillCorrectionObserved \<Rightarrow> applyCorrection a t
     | EventFillBustObserved \<Rightarrow> applyCorrection a t
     | EventUnknownVenueState \<Rightarrow> applyVenueFailure a t
     | EventContradictoryVenueState \<Rightarrow> applyVenueFailure a t
     | _ \<Rightarrow> Inr a)"

definition event_context :: "'d Intent \<Rightarrow> 'd Event \<Rightarrow> bool" where
  "event_context intent e \<longleftrightarrow>
     Event_IntentID e = Intent_ID intent \<and> Event_AccountID e = Intent_AccountID intent \<and>
     Event_Environment e = Intent_Environment intent \<and> Event_OriginType e = Intent_OriginType intent \<and>
     Event_OriginID e = Intent_OriginID intent \<and> Event_StrategyVersionID e = Intent_StrategyVersionID intent"

definition order_context :: "'d Aggregate \<Rightarrow> 'd Event \<Rightarrow> lifecycle_error option" where
  "order_context a e =
    (if Event_Kind e = EventOrderRouted then None
     else case Aggregate_Order a of
        None \<Rightarrow> guard (Event_OrderID e \<noteq> None \<or> Event_PolicyKind e \<noteq> PolicyUnset \<or> Event_PolicyVersion e \<noteq> [])
                  (InApply ApplyPreRouteContext)
      | Some order \<Rightarrow> guard (Event_OrderID e \<noteq> Some (Order_ID order) \<or> Event_PolicyKind e \<noteq> Order_PolicyKind order \<or>
                             Event_PolicyVersion e \<noteq> Order_PolicyVersion order) (InApply ApplyPolicyContext))"

definition apply_transition ::
    "('d::linordered_idom) lib \<Rightarrow> 'd Aggregate \<Rightarrow> 'd Transition \<Rightarrow> lifecycle_error + 'd Aggregate" where
  "apply_transition L a t =
    (let e = Transition_Event t in
     ensure (first_err
       [map_option LifecycleEvent (Event_Validate L e),
        guard (\<not> event_context (Aggregate_Intent a) e) (InApply ApplyContext),
        order_context a e,
        guard (Event_PriorState e \<noteq> Aggregate_State a) (InApply ApplyStale),
        guard (\<not> validEventTransition (Event_Kind e) (Event_ObservationClass e) (Event_PriorState e) (Event_NextState e))
          (InApply ApplyIllegal)])
     (and_then (apply_children L a t) (\<lambda>next.
        Inr (next\<lparr>Aggregate_State := Event_NextState e, Aggregate_Events := Aggregate_Events next @ [e]\<rparr>))))"

definition ApplyTransition ::
    "('d::linordered_idom) lib \<Rightarrow> 'd Aggregate option \<Rightarrow> 'd Transition option \<Rightarrow> lifecycle_error + 'd Aggregate" where
  "ApplyTransition L aggregate transition =
    (case (aggregate, transition) of
       (Some a, Some t) \<Rightarrow> apply_transition L a t
     | _ \<Rightarrow> Inl (InApply ApplyNil))"

section \<open>Replay\<close>

definition valid_proposal :: "'d Intent \<Rightarrow> 'd Transition \<Rightarrow> bool" where
  "valid_proposal intent t \<longleftrightarrow>
    (let e = Transition_Event t in
     \<not> has_children t \<and> Event_Kind e = EventIntentProposed \<and> Event_ObservationClass e = ObservationOrdinary \<and>
     Event_PriorState e = StateNone \<and> Event_NextState e = StateProposed \<and> event_context intent e \<and>
     Event_QuantityDelta e = Some (Intent_DesiredQuantityDelta intent) \<and>
     Event_QuoteSnapshotID e = Some (Intent_DecisionQuoteSnapshotID intent) \<and> Event_OrderID e = None \<and>
     Event_BindingID e = None \<and> Event_FillID e = None \<and> Event_PolicyKind e = PolicyUnset \<and> Event_PolicyVersion e = [])"

text \<open>The loop carries the aggregate, the event identifiers seen and the last ingest sequence.\<close>

type_synonym 'd replay_state = "'d Aggregate \<times> uuid list \<times> int"

definition replay_step ::
    "('d::linordered_idom) lib \<Rightarrow> 'd replay_state \<Rightarrow> 'd Transition \<Rightarrow> lifecycle_error + 'd replay_state" where
  "replay_step L = (\<lambda>(a, seen, lastSequence) t.
    let e = Transition_Event t;
        sequenced = (Event_IngestSequence e > 0 \<or> lastSequence > 0)
    in ensure (first_err
         [guard (Event_ID e \<in> set seen) (InReplay ReplayDuplicate),
          guard (sequenced \<and> Event_IngestSequence e \<le> lastSequence) (InReplay ReplaySequence)])
       (and_then (ApplyTransition L (Some a) (Some t)) (\<lambda>next.
          Inr (next, Event_ID e # seen, if sequenced then Event_IngestSequence e else lastSequence))))"

definition Replay ::
    "('d::linordered_idom) lib \<Rightarrow> uuid \<Rightarrow> 'd Intent \<Rightarrow> 'd Transition list \<Rightarrow> lifecycle_error + 'd Aggregate" where
  "Replay L accountID intent transitions =
    ensure (first_err
      [guard (accountID = uuid_Nil \<or> Intent_AccountID intent \<noteq> accountID) (InReplay ReplayAccount),
       map_option LifecycleIntent (Intent_Validate L intent)])
    (case transitions of
       [] \<Rightarrow> Inl (InReplay ReplayEmpty)
     | initial # rest \<Rightarrow>
         (let e = Transition_Event initial;
              aggregate = \<lparr>Aggregate_Intent = intent, Aggregate_State = StateProposed, Aggregate_AllocatedQuantity = None,
                           Aggregate_Order = None, Aggregate_Binding = None, Aggregate_Fills = [], Aggregate_Events = [e]\<rparr>
          in ensure (first_err
               [guard (\<not> valid_proposal intent initial) (InReplay ReplayProposed),
                map_option LifecycleEvent (Event_Validate L e)])
             (and_then (replay (replay_step L) (aggregate, [Event_ID e], Event_IngestSequence e) rest)
               (\<lambda>(final, seen, lastSequence). Inr final))))"

end
