(* ===== verification/Lifecycle_Commands.thy ===== *)
theory Lifecycle_Commands
  imports Lifecycle_Aggregate
begin

text \<open>
  The commands of \<open>internal/execution/lifecycle\<close>.  Each checks its precondition, builds the event with
  \<open>newEvent\<close>, fills in the order context and validates the event; the result is a transition that the
  caller applies and persists.
\<close>

definition transition_of :: "'d Event \<Rightarrow> 'd Transition" where
  "transition_of e = \<lparr>Transition_Event = e, Transition_Order = None, Transition_Binding = None,
     Transition_Fill = None, Transition_Normalization = None\<rparr>"

text \<open>The tail every command shares: validate the event and return the transition.\<close>

definition emit :: "'d lib \<Rightarrow> 'd Transition \<Rightarrow> lifecycle_error + 'd Transition" where
  "emit L t = ensure (map_option LifecycleEvent (Event_Validate L (Transition_Event t))) (Inr t)"

section \<open>Propose\<close>

definition propose_checks :: "('d::linordered_idom) lib \<Rightarrow> 'd ProposeInput \<Rightarrow> propose_error option" where
  "propose_checks L input =
    (let account = Propose_Account input; reference = Propose_Instrument input; snapshot = Propose_DecisionSnapshot input;
         decisionAt = normalizeTime (Propose_DecisionAt input);
         originID = TrimSpace (Propose_OriginID input)
     in first_err
       [map_option ProposeAccount (Account_Validate L account),
        guard (Account_Status account \<noteq> AccountStatusActive) ProposeAccountInactive,
        map_option ProposeInstrument (Instrument_Validate L reference),
        guard (Instrument_Status reference \<noteq> StatusActive) ProposeInstrumentInactive,
        map_option ProposeSnapshot (QuoteSnapshot_Validate L snapshot),
        guard (QuoteSnapshot_InstrumentID snapshot \<noteq> Instrument_ID reference) ProposeSnapshotInstrument,
        guard (IsZero decisionAt) ProposeDecisionTime,
        guard (opt_holds (\<lambda>expiration. \<not> Before decisionAt expiration) (Instrument_Expiration reference)) ProposeExpired,
        guard (QuoteSnapshot_AvailableAt snapshot = None) ProposeAvailabilityRequired,
        guard (opt_holds (\<lambda>availableAt. After availableAt decisionAt) (QuoteSnapshot_AvailableAt snapshot)) ProposeNotAvailable,
        guard (\<not> validExactDecimal L (Propose_DesiredQuantityDelta input) False) ProposeQuantity,
        guard (TrimSpace (Propose_IdempotencyKey input) = []) ProposeKey,
        guard (\<not> validOrigin (Propose_OriginType input) \<or> originID = []) ProposeOrigin,
        guard (Propose_OriginType input = ExecutionOriginStrategyVersion \<and>
               TrimSpace (Propose_StrategyVersionID input) \<noteq> originID) ProposeStrategy,
        guard (\<not> validateJSONObject L (Propose_Metadata input)) ProposeMetadata])"

definition proposed_intent :: "'d lib \<Rightarrow> time \<Rightarrow> 'd ProposeInput \<Rightarrow> 'd Intent" where
  "proposed_intent L createdAt input =
    (let key = TrimSpace (Propose_IdempotencyKey input); account = Propose_Account input in
     \<lparr>Intent_ID = DeterministicUUID L intentIDDomain [uuid_String L (Account_ID account), key],
      Intent_AccountID = Account_ID account,
      Intent_Environment = Account_Environment account,
      Intent_InstrumentID = Instrument_ID (Propose_Instrument input),
      Intent_IdempotencyKey = key,
      Intent_DesiredQuantityDelta = Propose_DesiredQuantityDelta input,
      Intent_DecisionQuoteSnapshotID = QuoteSnapshot_ID (Propose_DecisionSnapshot input),
      Intent_DecisionAt = normalizeTime (Propose_DecisionAt input),
      Intent_OriginType = Propose_OriginType input,
      Intent_OriginID = TrimSpace (Propose_OriginID input),
      Intent_StrategyVersionID = TrimSpace (Propose_StrategyVersionID input),
      Intent_Metadata = Propose_Metadata input,
      Intent_CreatedAt = createdAt\<rparr>)"

definition Propose ::
    "('d::linordered_idom) lib \<Rightarrow> time \<Rightarrow> 'd ProposeInput \<Rightarrow> lifecycle_error + 'd Aggregate" where
  "Propose L now input =
    ensure (map_option InPropose (propose_checks L input))
    (let createdAt = creation_time now (Propose_CreatedAt input);
         intent = proposed_intent L createdAt input
     in ensure (map_option LifecycleIntent (Intent_Validate L intent))
        (and_then (wrap LifecycleEvent
            (newEvent L now intent EventIntentProposed StateNone StateProposed (Propose_Event input) createdAt))
          (\<lambda>event0.
           let event = event0\<lparr>Event_QuantityDelta := Some (Intent_DesiredQuantityDelta intent),
                              Event_QuoteSnapshotID := Some (Intent_DecisionQuoteSnapshotID intent)\<rparr>
           in ensure (map_option LifecycleEvent (Event_Validate L event))
              (Inr \<lparr>Aggregate_Intent = intent, Aggregate_State = StateProposed, Aggregate_AllocatedQuantity = None,
                    Aggregate_Order = None, Aggregate_Binding = None, Aggregate_Fills = [], Aggregate_Events = [event]\<rparr>))))"

section \<open>Allocation and risk\<close>

definition Allocate ::
    "('d::linordered_idom) lib \<Rightarrow> time \<Rightarrow> 'd Aggregate option \<Rightarrow> 'd \<Rightarrow> EventInput \<Rightarrow> time \<Rightarrow> lifecycle_error + 'd Transition" where
  "Allocate L now aggregate quantity input createdAt =
    (case aggregate of
       None \<Rightarrow> Inl (InCommand AllocateState)
     | Some a \<Rightarrow>
        (let desired = Intent_DesiredQuantityDelta (Aggregate_Intent a) in
         ensure (first_err
           [guard (Aggregate_State a \<noteq> StateProposed) (InCommand AllocateState),
            guard (\<not> validExactDecimal L quantity False \<or> sgn quantity \<noteq> sgn desired \<or> \<bar>quantity\<bar> > \<bar>desired\<bar>)
              (InCommand AllocateQuantity)])
         (and_then (wrap LifecycleEvent
             (newEvent L now (Aggregate_Intent a) EventIntentAllocated StateProposed StateAllocated input createdAt))
           (\<lambda>event. emit L (transition_of (event\<lparr>Event_QuantityDelta := Some quantity\<rparr>))))))"

definition riskTransition ::
    "'d lib \<Rightarrow> time \<Rightarrow> 'd Aggregate option \<Rightarrow> bool \<Rightarrow> EventInput \<Rightarrow> time \<Rightarrow> lifecycle_error + 'd Transition" where
  "riskTransition L now aggregate approved input createdAt =
    (case aggregate of
       None \<Rightarrow> Inl (InCommand RiskState)
     | Some a \<Rightarrow>
         ensure (guard (Aggregate_State a \<noteq> StateAllocated \<or> Aggregate_AllocatedQuantity a = None) (InCommand RiskState))
         (and_then (wrap LifecycleEvent
             (newEvent L now (Aggregate_Intent a) (if approved then EventRiskApproved else EventRiskRejected) StateAllocated
                (if approved then StateRiskApproved else StateRiskRejected) input createdAt))
           (\<lambda>event. emit L (transition_of (event\<lparr>Event_QuantityDelta := Aggregate_AllocatedQuantity a\<rparr>)))))"

definition ApproveRisk ::
    "'d lib \<Rightarrow> time \<Rightarrow> 'd Aggregate option \<Rightarrow> EventInput \<Rightarrow> time \<Rightarrow> lifecycle_error + 'd Transition" where
  "ApproveRisk L now aggregate input createdAt = riskTransition L now aggregate True input createdAt"

definition RejectRisk ::
    "'d lib \<Rightarrow> time \<Rightarrow> 'd Aggregate option \<Rightarrow> EventInput \<Rightarrow> time \<Rightarrow> lifecycle_error + 'd Transition" where
  "RejectRisk L now aggregate input createdAt = riskTransition L now aggregate False input createdAt"

section \<open>Route and acknowledge\<close>

definition route_checks ::
    "('d::linordered_idom) lib \<Rightarrow> 'd Aggregate \<Rightarrow> 'd \<Rightarrow> 'd RouteInput \<Rightarrow> route_error option" where
  "route_checks L a allocated input =
    (let reference = Route_Instrument input; contract = Route_VenueContract input; snapshot = Route_RouteSnapshot input;
         routedAt = normalizeTime (Route_RoutedAt input)
     in first_err
       [guard (Instrument_ID reference \<noteq> Intent_InstrumentID (Aggregate_Intent a)) RouteInstrumentMismatch,
        guard (Instrument_Validate L reference \<noteq> None \<or> Instrument_Status reference \<noteq> StatusActive) RouteInstrument,
        map_option RouteContract (VenueContract_Validate L contract),
        guard (IsZero routedAt) RouteTime,
        (case AssessForExecution L snapshot routedAt (Route_QuoteRequirements input) reference contract of
           Inl e \<Rightarrow> Some (RouteQuote e)
         | Inr assessment \<Rightarrow>
             guard (QuoteAssessment_SnapshotID assessment \<noteq> QuoteSnapshot_ID snapshot \<or>
                    QuoteAssessment_VenueContractID assessment \<noteq> Some (VenueContract_ID contract) \<or>
                    \<not> time_Equal (QuoteAssessment_EvaluatedAt assessment) routedAt) RouteAssessmentIdentity),
        guard (\<not> lifecycle_isExactMultiple L \<bar>allocated\<bar> (VenueContract_LotSize contract)) RouteLot,
        map_option RoutePrices
          (validateOrderPrices L (Route_OrderType input) (Route_LimitPrice input) (Route_StopPrice input)
             (VenueContract_TickSize contract)),
        guard (\<not> validTimeInForce (Route_TimeInForce input)) RouteTimeInForce,
        guard (Route_PolicyKind input \<noteq> PolicySimulation \<and> Route_PolicyKind input \<noteq> PolicyVenue) RoutePolicyKind,
        guard (TrimSpace (Route_PolicyVersion input) = [] \<or> TrimSpace (Route_OrderIdempotencyKey input) = [])
          RouteKeyAndPolicy])"

definition routed_order ::
    "('d::linordered_idom) lib \<Rightarrow> time \<Rightarrow> 'd Aggregate \<Rightarrow> 'd \<Rightarrow> 'd RouteInput \<Rightarrow> 'd Order" where
  "routed_order L createdAt a allocated input =
    (let intent = Aggregate_Intent a; contract = Route_VenueContract input;
         orderKey = TrimSpace (Route_OrderIdempotencyKey input);
         orderID = DeterministicUUID L orderIDDomain [uuid_String L (Intent_ID intent), orderKey]
     in \<lparr>Order_ID = orderID,
         Order_IntentID = Intent_ID intent,
         Order_AccountID = Intent_AccountID intent,
         Order_InstrumentID = Intent_InstrumentID intent,
         Order_IdempotencyKey = orderKey,
         Order_ClientOrderID = uuid_String L orderID,
         Order_Side = sideForDelta allocated,
         Order_OrderType = Route_OrderType input,
         Order_TimeInForce = Route_TimeInForce input,
         Order_Quantity = \<bar>allocated\<bar>,
         Order_LimitPrice = Route_LimitPrice input,
         Order_StopPrice = Route_StopPrice input,
         Order_Venue = VenueContract_Venue contract,
         Order_VenueContractID = VenueContract_ID contract,
         Order_RouteQuoteSnapshotID = QuoteSnapshot_ID (Route_RouteSnapshot input),
         Order_RoutedAt = normalizeTime (Route_RoutedAt input),
         Order_PolicyKind = Route_PolicyKind input,
         Order_PolicyVersion = TrimSpace (Route_PolicyVersion input),
         Order_CreatedAt = createdAt\<rparr>)"

definition Route ::
    "('d::linordered_idom) lib \<Rightarrow> time \<Rightarrow> 'd Aggregate option \<Rightarrow> 'd RouteInput \<Rightarrow> lifecycle_error + 'd Transition" where
  "Route L now aggregate input =
    (case aggregate of
       None \<Rightarrow> Inl (InRoute RouteState)
     | Some a \<Rightarrow>
        (case Aggregate_AllocatedQuantity a of
           None \<Rightarrow> Inl (InRoute RouteState)
         | Some allocated \<Rightarrow>
            ensure (first_err
              [guard (Aggregate_State a \<noteq> StateRiskApproved \<or> Aggregate_Order a \<noteq> None) (InRoute RouteState),
               map_option InRoute (route_checks L a allocated input)])
            (let createdAt = creation_time now (Route_CreatedAt input);
                 order = routed_order L createdAt a allocated input
             in ensure (map_option LifecycleOrder (Order_Validate L order))
                (and_then (wrap LifecycleEvent
                    (newEvent L now (Aggregate_Intent a) EventOrderRouted StateRiskApproved StateRouted (Route_Event input)
                       createdAt))
                  (\<lambda>event. emit L ((transition_of
                     (event\<lparr>Event_OrderID := Some (Order_ID order), Event_PolicyKind := Order_PolicyKind order,
                            Event_PolicyVersion := Order_PolicyVersion order,
                            Event_QuantityDelta := Aggregate_AllocatedQuantity a,
                            Event_QuoteSnapshotID := Some (Order_RouteQuoteSnapshotID order)\<rparr>))
                     \<lparr>Transition_Order := Some order\<rparr>))))))"

definition Acknowledge ::
    "'d lib \<Rightarrow> time \<Rightarrow> 'd Aggregate option \<Rightarrow> string \<Rightarrow> EventInput \<Rightarrow> time \<Rightarrow> lifecycle_error + 'd Transition" where
  "Acknowledge L now aggregate externalOrderID input createdAt0 =
    (case aggregate of
       None \<Rightarrow> Inl (InCommand AcknowledgeState)
     | Some a \<Rightarrow>
        (case Aggregate_Order a of
           None \<Rightarrow> Inl (InCommand AcknowledgeState)
         | Some order \<Rightarrow>
            ensure (guard (Aggregate_State a \<noteq> StateRouted \<or> Aggregate_Binding a \<noteq> None) (InCommand AcknowledgeState))
            (let createdAt = creation_time now createdAt0 in
             and_then (wrap LifecycleBinding (newOrderBinding L a order externalOrderID createdAt)) (\<lambda>binding.
             and_then (wrap LifecycleEvent
                 (newEvent L now (Aggregate_Intent a) EventOrderWorking StateRouted StateWorking input createdAt))
               (\<lambda>event. emit L ((transition_of
                  (event\<lparr>Event_OrderID := Some (Order_ID order), Event_BindingID := Some (Binding_ID binding),
                         Event_PolicyKind := Order_PolicyKind order, Event_PolicyVersion := Order_PolicyVersion order,
                         Event_QuantityDelta := Aggregate_AllocatedQuantity a\<rparr>))
                  \<lparr>Transition_Binding := Some binding\<rparr>))))))"

section \<open>Fills\<close>

definition fill_evidence_matches :: "'d lib \<Rightarrow> EconomicSourceEvent \<Rightarrow> EventInput \<Rightarrow> bool" where
  "fill_evidence_matches L source input \<longleftrightarrow>
     EconomicSourceEvent_Source source = ToLower L (TrimSpace (EventInput_Source input)) \<and>
     EconomicSourceEvent_SourceNamespace source = TrimSpace (EventInput_SourceNamespace input) \<and>
     EconomicSourceEvent_SourceEventID source = TrimSpace (EventInput_SourceEventID input) \<and>
     EconomicSourceEvent_SourceRevision source = TrimSpace (EventInput_SourceRevision input) \<and>
     time_Equal (EconomicSourceEvent_ObservedAt source) (normalizeTime (EventInput_ReceivedAt input)) \<and>
     EconomicSourceEvent_RawPayload source = EventInput_Evidence input"

definition recorded_fill ::
    "'d lib \<Rightarrow> time \<Rightarrow> 'd Aggregate \<Rightarrow> 'd Order \<Rightarrow> 'd EconomicNormalization \<Rightarrow> EconomicSourceEvent \<Rightarrow> 'd Transaction \<Rightarrow>
     'd \<Rightarrow> 'd \<Rightarrow> 'd Fill" where
  "recorded_fill L createdAt a order n source transaction quantity price =
    \<lparr>Fill_ID = FillID L (Order_ID order) (EconomicSourceEvent_ID source),
     Fill_IntentID = Intent_ID (Aggregate_Intent a),
     Fill_OrderID = Order_ID order,
     Fill_AccountID = Intent_AccountID (Aggregate_Intent a),
     Fill_InstrumentID = Intent_InstrumentID (Aggregate_Intent a),
     Fill_VenueContractID = Order_VenueContractID order,
     Fill_EconomicSourceEventID = EconomicSourceEvent_ID source,
     Fill_NormalizationID = Normalization_ID n,
     Fill_LedgerTransactionID = Transaction_ID transaction,
     Fill_Side = Order_Side order,
     Fill_Quantity = quantity,
     Fill_Price = price,
     Fill_Source = EconomicSourceEvent_Source source,
     Fill_SourceNamespace = EconomicSourceEvent_SourceNamespace source,
     Fill_SourceEventID = EconomicSourceEvent_SourceEventID source,
     Fill_SourceRevision = EconomicSourceEvent_SourceRevision source,
     Fill_EffectiveAt = Normalization_EffectiveAt n,
     Fill_ReceivedAt = EconomicSourceEvent_ObservedAt source,
     Fill_CreatedAt = createdAt\<rparr>"

text \<open>The binding a fill is recorded under: a new one for the first observation after the route.\<close>

definition record_binding ::
    "'d lib \<Rightarrow> 'd Aggregate \<Rightarrow> 'd Order \<Rightarrow> string \<Rightarrow> time \<Rightarrow> lifecycle_error + (OrderBinding option \<times> OrderBinding)" where
  "record_binding L a order externalOrderID createdAt =
    (if Aggregate_State a = StateRouted then
       ensure (guard (Aggregate_Binding a \<noteq> None) (InRecord FillUnexpectedBinding))
       (and_then (wrap LifecycleBinding (newOrderBinding L a order externalOrderID createdAt))
         (\<lambda>binding. Inr (Some binding, binding)))
     else
       (case Aggregate_Binding a of
          None \<Rightarrow> Inl (InRecord FillNoBinding)
        | Some bound \<Rightarrow>
            (let externalID = TrimSpace externalOrderID in
             ensure (guard (externalID \<noteq> [] \<and> externalID \<noteq> Binding_ExternalOrderID bound) (InRecord FillExternalID))
               (Inr (None, bound)))))"

text \<open>The part of \<open>RecordFill\<close> after the normalization has been accepted.\<close>

definition record_accepted ::
    "('d::linordered_idom) lib \<Rightarrow> (nat \<Rightarrow> time) \<Rightarrow> 'd Aggregate \<Rightarrow> 'd Order \<Rightarrow> 'd EconomicNormalization \<Rightarrow>
     EconomicSourceEvent \<Rightarrow> 'd Transaction \<Rightarrow> 'd \<Rightarrow> 'd \<Rightarrow> 'd FillInput \<Rightarrow> lifecycle_error + 'd Transition" where
  "record_accepted L clock a order n source transaction quantity price input =
    (let ev = FillInput_Event input;
         createdAt = creation_time (clock 2) (FillInput_CreatedAt input);
         fill = recorded_fill L createdAt a order n source transaction quantity price;
         cumulative = sumFillQuantity (Aggregate_Fills a) + Fill_Quantity fill;
         nextState = (if cumulative = Order_Quantity order then StateFilled else StatePartiallyFilled);
         kind = (if Aggregate_State a = StateRouted then EventFillAcknowledged else EventFillRecorded)
     in ensure (first_err
          [guard (EventInput_ObservationClass ev \<noteq> ObservationUnset \<and> EventInput_ObservationClass ev \<noteq> ObservationOrdinary)
             (InRecord FillObservationClass),
           guard (\<not> fill_evidence_matches L source ev) (InRecord FillEvidence),
           guard (\<not> validateJSONObject L (EconomicSourceEvent_RawPayload source)) (InRecord FillPayload),
           map_option LifecycleFill (Fill_Validate L fill),
           guard (cumulative > Order_Quantity order) (InRecord FillExceedsOrder)])
        (and_then (record_binding L a order (FillInput_ExternalOrderID input) createdAt) (\<lambda>(new_binding, binding).
         and_then (wrap LifecycleEvent
             (newEvent L (clock 3) (Aggregate_Intent a) kind (Aggregate_State a) nextState ev createdAt))
           (\<lambda>event. emit L
              \<lparr>Transition_Event = event\<lparr>Event_OrderID := Some (Order_ID order), Event_BindingID := Some (Binding_ID binding),
                                         Event_FillID := Some (Fill_ID fill), Event_PolicyKind := Order_PolicyKind order,
                                         Event_PolicyVersion := Order_PolicyVersion order,
                                         Event_QuantityDelta := Aggregate_AllocatedQuantity a,
                                         Event_CumulativeFillQuantity := Some cumulative\<rparr>,
               Transition_Order = None, Transition_Binding = new_binding, Transition_Fill = Some fill,
               Transition_Normalization = Some n\<rparr>))))"

definition RecordFill ::
    "('d::linordered_idom) lib \<Rightarrow> (nat \<Rightarrow> time) \<Rightarrow> 'd Aggregate option \<Rightarrow> 'd FillInput \<Rightarrow> lifecycle_error + 'd Transition" where
  "RecordFill L clock aggregate input =
    (case aggregate of
       None \<Rightarrow> Inl (InRecord FillLifecycleRequired)
     | Some a \<Rightarrow>
        (case (Aggregate_Order a, Aggregate_AllocatedQuantity a) of
           (Some order, Some allocated) \<Rightarrow>
             ensure (guard (Aggregate_State a \<noteq> StateRouted \<and> Aggregate_State a \<noteq> StateWorking \<and>
                            Aggregate_State a \<noteq> StatePartiallyFilled) (InRecord FillState))
             (case FillInput_Normalization input of
                None \<Rightarrow> Inl (InRecord FillNormalizationRequired)
              | Some n \<Rightarrow>
                 ensure (map_option (\<lambda>e. InRecord (FillNormalization e)) (EconomicNormalization_Validate L (clock 1) n))
                 (case Normalization_SourceEvent n of
                    None \<Rightarrow> Inl (InRecord FillSourceEventRequired)
                  | Some source \<Rightarrow>
                     ensure (first_err
                       [guard (EconomicSourceEvent_ID source = uuid_Nil) (InRecord FillSourceEventRequired),
                        validateFillNormalization L a order (FillID L (Order_ID order) (EconomicSourceEvent_ID source)) n])
                     (case (Normalization_Transaction n, Normalization_Quantity n, Normalization_Price n) of
                        (Some transaction, Some quantity, Some price) \<Rightarrow>
                          record_accepted L clock a order n source transaction quantity price input
                      | _ \<Rightarrow> Inl LifecyclePanic)))
         | _ \<Rightarrow> Inl (InRecord FillLifecycleRequired)))"

section \<open>Cancellation, terminal observations and failures\<close>

definition newOrderContextEvent ::
    "'d lib \<Rightarrow> time \<Rightarrow> 'd Aggregate \<Rightarrow> 'd Order \<Rightarrow> EventKind \<Rightarrow> State \<Rightarrow> EventInput \<Rightarrow> time \<Rightarrow> event_error + 'd Event" where
  "newOrderContextEvent L now a order kind next_state input createdAt =
    and_then (newEvent L now (Aggregate_Intent a) kind (Aggregate_State a) next_state input createdAt) (\<lambda>event.
      Inr (event\<lparr>Event_OrderID := Some (Order_ID order), Event_PolicyKind := Order_PolicyKind order,
                 Event_PolicyVersion := Order_PolicyVersion order,
                 Event_QuantityDelta := Aggregate_AllocatedQuantity a\<rparr>))"

definition RequestCancel ::
    "'d lib \<Rightarrow> time \<Rightarrow> 'd Aggregate option \<Rightarrow> EventInput \<Rightarrow> time \<Rightarrow> lifecycle_error + 'd Transition" where
  "RequestCancel L now aggregate input createdAt =
    (case aggregate of
       None \<Rightarrow> Inl (InCommand CancelState)
     | Some a \<Rightarrow>
        (case (Aggregate_Order a, Aggregate_Binding a) of
           (Some order, Some binding) \<Rightarrow>
             ensure (guard (Aggregate_State a \<noteq> StateWorking \<and> Aggregate_State a \<noteq> StatePartiallyFilled) (InCommand CancelState))
             (and_then (wrap LifecycleEvent
                 (newOrderContextEvent L now a order EventCancelRequested (Aggregate_State a) input createdAt))
               (\<lambda>event. emit L (transition_of (event\<lparr>Event_BindingID := Some (Binding_ID binding)\<rparr>))))
         | _ \<Rightarrow> Inl (InCommand CancelState)))"

fun terminal_state :: "EventKind \<Rightarrow> State option" where
  "terminal_state EventOrderCancelled = Some StateCancelled"
| "terminal_state EventOrderExpired = Some StateExpired"
| "terminal_state EventOrderRejected = Some StateRejected"
| "terminal_state _ = None"

definition ObserveOrderTerminal ::
    "'d lib \<Rightarrow> time \<Rightarrow> 'd Aggregate option \<Rightarrow> EventKind \<Rightarrow> EventInput \<Rightarrow> time \<Rightarrow> lifecycle_error + 'd Transition" where
  "ObserveOrderTerminal L now aggregate kind input createdAt =
    (case aggregate of
       None \<Rightarrow> Inl (InCommand TerminalLifecycleRequired)
     | Some a \<Rightarrow>
        (case Aggregate_Order a of
           None \<Rightarrow> Inl (InCommand TerminalLifecycleRequired)
         | Some order \<Rightarrow>
            (case terminal_state kind of
               None \<Rightarrow> Inl (InCommand TerminalKind)
             | Some next_state \<Rightarrow>
                ensure (first_err
                  [guard (\<not> validEventTransition kind ObservationOrdinary (Aggregate_State a) next_state) (InCommand TerminalTransition),
                   guard ((Aggregate_State a = StateWorking \<or> Aggregate_State a = StatePartiallyFilled) \<and>
                          Aggregate_Binding a = None) (InCommand TerminalNoBinding)])
                (and_then (wrap LifecycleEvent (newOrderContextEvent L now a order kind next_state input createdAt))
                  (\<lambda>event. emit L (transition_of
                     (event\<lparr>Event_BindingID := map_option Binding_ID (Aggregate_Binding a)\<rparr>)))))))"

definition fail_class_check :: "EventKind \<Rightarrow> EventInput \<Rightarrow> command_error option" where
  "fail_class_check kind input =
    (case kind of
       EventFillCorrectionObserved \<Rightarrow>
         guard (EventInput_ObservationClass input \<noteq> ObservationCorrection) FailCorrectionClass
     | EventFillBustObserved \<Rightarrow> guard (EventInput_ObservationClass input \<noteq> ObservationBust) FailBustClass
     | EventUnknownVenueState \<Rightarrow>
         guard (EventInput_ObservationClass input \<noteq> ObservationUnset \<and>
                EventInput_ObservationClass input \<noteq> ObservationOrdinary) FailOrdinaryClass
     | EventContradictoryVenueState \<Rightarrow>
         guard (EventInput_ObservationClass input \<noteq> ObservationUnset \<and>
                EventInput_ObservationClass input \<noteq> ObservationOrdinary) FailOrdinaryClass
     | _ \<Rightarrow> Some FailKind)"

definition FailReconciliation ::
    "'d lib \<Rightarrow> time \<Rightarrow> 'd Aggregate option \<Rightarrow> EventKind \<Rightarrow> EventInput \<Rightarrow> time \<Rightarrow> lifecycle_error + 'd Transition" where
  "FailReconciliation L now aggregate kind input createdAt =
    (case aggregate of
       None \<Rightarrow> Inl (InCommand FailState)
     | Some a \<Rightarrow>
        ensure (first_err
          [guard (Aggregate_State a = StateNone \<or> Aggregate_State a = StateFailedReconciliation) (InCommand FailState),
           map_option InCommand (fail_class_check kind input)])
        (and_then (wrap LifecycleEvent
            (newEvent L now (Aggregate_Intent a) kind (Aggregate_State a) StateFailedReconciliation input createdAt))
          (\<lambda>event0.
           let event = event0\<lparr>Event_QuantityDelta := Aggregate_AllocatedQuantity a,
                 Event_OrderID := map_option Order_ID (Aggregate_Order a),
                 Event_PolicyKind := (case Aggregate_Order a of None \<Rightarrow> PolicyUnset | Some order \<Rightarrow> Order_PolicyKind order),
                 Event_PolicyVersion := (case Aggregate_Order a of None \<Rightarrow> [] | Some order \<Rightarrow> Order_PolicyVersion order),
                 Event_BindingID := map_option Binding_ID (Aggregate_Binding a)\<rparr>
           in ensure (guard ((kind = EventFillCorrectionObserved \<or> kind = EventFillBustObserved) \<and>
                             \<not> opt_holds (\<lambda>i. hasFill a i (Event_OriginalSourceEventID event)) (Event_OriginalFillID event))
                        (InCommand FailNoFill))
              (emit L (transition_of event)))))"

end
