(* ===== verification/Lifecycle_Correctness.thy ===== *)
theory Lifecycle_Correctness
  imports Lifecycle_Commands
begin

text \<open>
  Proofs about the order lifecycle: it refines a small abstract state machine, every replayed
  aggregate satisfies an invariant that rules out over-filling and orders without risk approval,
  facts are append-only, and every command builds a transition that \<open>ApplyTransition\<close> accepts.
\<close>

section \<open>The abstract machine\<close>

abbreviation working_states :: "State set" where
  "working_states \<equiv> {StateRouted, StateWorking, StatePartiallyFilled}"

abbreviation closed_states :: "State set" where
  "closed_states \<equiv> {StateCancelled, StateExpired, StateRejected}"

inductive lifecycle_step :: "State \<Rightarrow> State \<Rightarrow> bool" where
  allocate: "lifecycle_step StateProposed StateAllocated"
| approve: "lifecycle_step StateAllocated StateRiskApproved"
| reject: "lifecycle_step StateAllocated StateRiskRejected"
| route: "lifecycle_step StateRiskApproved StateRouted"
| work: "lifecycle_step StateRouted StateWorking"
| request_cancel: "s \<in> {StateWorking, StatePartiallyFilled} \<Longrightarrow> lifecycle_step s s"
| fill: "s \<in> working_states \<Longrightarrow> s' \<in> {StatePartiallyFilled, StateFilled} \<Longrightarrow> lifecycle_step s s'"
| close: "s \<in> working_states \<Longrightarrow> s' \<in> closed_states \<Longrightarrow> lifecycle_step s s'"
| fail: "s \<noteq> StateNone \<Longrightarrow> s \<noteq> StateFailedReconciliation \<Longrightarrow> lifecycle_step s StateFailedReconciliation"

inductive_cases step_from_filled: "lifecycle_step StateFilled s"
inductive_cases step_from_cancelled: "lifecycle_step StateCancelled s"
inductive_cases step_from_expired: "lifecycle_step StateExpired s"
inductive_cases step_from_rejected: "lifecycle_step StateRejected s"
inductive_cases step_from_risk_rejected: "lifecycle_step StateRiskRejected s"
inductive_cases step_from_failed: "lifecycle_step StateFailedReconciliation s"

lemmas step_from_final = step_from_filled step_from_cancelled step_from_expired step_from_rejected
  step_from_risk_rejected step_from_failed

lemma validEventTransition_step:
  "validEventTransition kind oc s s' \<Longrightarrow> s \<noteq> StateNone \<Longrightarrow> lifecycle_step s s'"
  by (auto simp: validEventTransition_def split: if_splits EventKind.splits intro: lifecycle_step.intros)

section \<open>What an applied transition does\<close>

lemma sumFillQuantity_append [simp]: "sumFillQuantity (fs @ [f]) = sumFillQuantity fs + Fill_Quantity f"
  by (simp add: sumFillQuantity_def)

lemma sumFillQuantity_Nil [simp]: "sumFillQuantity [] = 0"
  by (simp add: sumFillQuantity_def)

definition allocation_within :: "('d::linordered_idom) lib \<Rightarrow> 'd Intent \<Rightarrow> 'd \<Rightarrow> bool" where
  "allocation_within L intent q \<longleftrightarrow>
     validExactDecimal L q False \<and> sgn q = sgn (Intent_DesiredQuantityDelta intent) \<and>
     \<bar>q\<bar> \<le> \<bar>Intent_DesiredQuantityDelta intent\<bar>"

definition order_of_allocation :: "('d::linordered_idom) Order \<Rightarrow> 'd \<Rightarrow> bool" where
  "order_of_allocation order q \<longleftrightarrow> Order_Quantity order = \<bar>q\<bar> \<and> Order_Side order = sideForDelta q \<and> 0 < Order_Quantity order"

text \<open>The effects of the event kinds on the facts, as the cases of one relation.\<close>

inductive applied ::
    "('d::linordered_idom) lib \<Rightarrow> 'd Aggregate \<Rightarrow> 'd Transition \<Rightarrow> 'd Aggregate \<Rightarrow> bool" for L a t where
  allocated: "Event_Kind (Transition_Event t) = EventIntentAllocated \<Longrightarrow> allocation_within L (Aggregate_Intent a) q \<Longrightarrow>
    Event_QuantityDelta (Transition_Event t) = Some q \<Longrightarrow>
    applied L a t (a\<lparr>Aggregate_AllocatedQuantity := Some q\<rparr>)"
| kept: "Event_Kind (Transition_Event t) \<notin>
      {EventIntentAllocated, EventOrderRouted, EventOrderWorking, EventFillAcknowledged, EventFillRecorded} \<Longrightarrow>
    \<not> has_children t \<Longrightarrow>
    (Event_Kind (Transition_Event t) = EventRiskApproved \<Longrightarrow>
      Event_QuantityDelta (Transition_Event t) = Aggregate_AllocatedQuantity a) \<Longrightarrow> applied L a t a"
| routed: "Event_Kind (Transition_Event t) = EventOrderRouted \<Longrightarrow> Aggregate_Order a = None \<Longrightarrow>
    Aggregate_AllocatedQuantity a = Some q \<Longrightarrow> order_of_allocation order q \<Longrightarrow>
    applied L a t (a\<lparr>Aggregate_Order := Some order\<rparr>)"
| working: "Event_Kind (Transition_Event t) = EventOrderWorking \<Longrightarrow> Aggregate_Order a = Some order \<Longrightarrow>
    Aggregate_Binding a = None \<Longrightarrow> Binding_OrderID binding = Order_ID order \<Longrightarrow>
    applied L a t (a\<lparr>Aggregate_Binding := Some binding\<rparr>)"
| filled: "is_fill_kind (Event_Kind (Transition_Event t)) \<Longrightarrow> Aggregate_Order a = Some order \<Longrightarrow>
    Transition_Fill t = Some f \<Longrightarrow> Event_FillID (Transition_Event t) = Some (Fill_ID f) \<Longrightarrow>
    Event_CumulativeFillQuantity (Transition_Event t) = Some (sumFillQuantity (Aggregate_Fills a) + Fill_Quantity f) \<Longrightarrow>
    Fill_OrderID f = Order_ID order \<Longrightarrow> 0 < Fill_Quantity f \<Longrightarrow>
    sumFillQuantity (Aggregate_Fills a) + Fill_Quantity f \<le> Order_Quantity order \<Longrightarrow>
    (Event_NextState (Transition_Event t) = StateFilled) =
      (sumFillQuantity (Aggregate_Fills a) + Fill_Quantity f = Order_Quantity order) \<Longrightarrow>
    Binding_OrderID binding = Order_ID order \<Longrightarrow> Aggregate_Binding a \<in> {None, Some binding} \<Longrightarrow>
    applied L a t (a\<lparr>Aggregate_Binding := Some binding, Aggregate_Fills := Aggregate_Fills a @ [f]\<rparr>)"

definition binding_ok :: "'d Aggregate \<Rightarrow> bool" where
  "binding_ok a \<longleftrightarrow> opt_all (\<lambda>b. opt_holds (\<lambda>order. Binding_OrderID b = Order_ID order) (Aggregate_Order a)) (Aggregate_Binding a)"

lemma fill_binding_ok:
  "fill_binding L a order t = Inr b \<Longrightarrow> Aggregate_Order a = Some order \<Longrightarrow> binding_ok a \<Longrightarrow>
   \<exists>binding. b = Some binding \<and> Binding_OrderID binding = Order_ID order \<and> Aggregate_Binding a \<in> {None, Some binding}"
  by (cases "Transition_Binding t"; cases "Aggregate_Binding a")
    (auto simp: fill_binding_def bound_to_def binding_ok_def Let_def split: if_splits dest!: sym [of "Some _"])

lemma applyFillEvent_applied:
  assumes "applyFillEvent L a t = Inr a'" and "is_fill_kind (Event_Kind (Transition_Event t))" and "binding_ok a"
  shows "applied L a t a'"
proof -
  obtain order f n where o: "Aggregate_Order a = Some order" "Transition_Fill t = Some f" "Transition_Normalization t = Some n"
    using assms(1) by (cases "Aggregate_Order a"; cases "Transition_Fill t"; cases "Transition_Normalization t")
      (auto simp: applyFillEvent_def Let_def)
  obtain source transaction where n: "Normalization_SourceEvent n = Some source" "Normalization_Transaction n = Some transaction"
    using assms(1) o by (cases "Normalization_SourceEvent n"; cases "Normalization_Transaction n")
      (auto simp: applyFillEvent_def Let_def)
  from assms(1) o n obtain b where b: "fill_binding L a order t = Inr b"
    and a': "a' = a\<lparr>Aggregate_Binding := b, Aggregate_Fills := Aggregate_Fills a @ [f]\<rparr>"
    and e: "Event_FillID (Transition_Event t) = Some (Fill_ID f)"
      "Event_CumulativeFillQuantity (Transition_Event t) = Some (sumFillQuantity (Aggregate_Fills a) + Fill_Quantity f)"
    and f: "Fill_OrderID f = Order_ID order" "Fill_Validate L f = None"
    and c: "sumFillQuantity (Aggregate_Fills a) + Fill_Quantity f \<le> Order_Quantity order"
      "(Event_NextState (Transition_Event t) = StateFilled) =
        (sumFillQuantity (Aggregate_Fills a) + Fill_Quantity f = Order_Quantity order)"
    by (auto simp: applyFillEvent_def Let_def not_less)
  obtain binding where "b = Some binding" "Binding_OrderID binding = Order_ID order" "Aggregate_Binding a \<in> {None, Some binding}"
    using fill_binding_ok [OF b o(1) assms(3)] by blast
  moreover have "0 < Fill_Quantity f" using f(2) by (simp add: Fill_Validate_def)
  ultimately show ?thesis unfolding a' using applied.filled [OF assms(2) o(1,2) e f(1) _ c] by blast
qed

lemma apply_children_applied:
  assumes "apply_children L a t = Inr a'" and "binding_ok a"
    and "validEventTransition (Event_Kind (Transition_Event t)) oc s s'" and "s \<noteq> StateNone"
  shows "applied L a t a'"
proof (cases "is_fill_kind (Event_Kind (Transition_Event t))")
  case True
  with assms(1) have "applyFillEvent L a t = Inr a'" by (auto simp: apply_children_def is_fill_kind_def)
  with True assms(2) show ?thesis by (blast intro: applyFillEvent_applied)
next
  case False
  show ?thesis
  proof (cases "Event_Kind (Transition_Event t) \<in> {EventIntentAllocated, EventOrderRouted, EventOrderWorking}")
    case True
    then show ?thesis
    proof (elim insertE emptyE)
      assume k: "Event_Kind (Transition_Event t) = EventIntentAllocated"
      with assms(1) obtain q where "Event_QuantityDelta (Transition_Event t) = Some q"
        "allocation_within L (Aggregate_Intent a) q" "a' = a\<lparr>Aggregate_AllocatedQuantity := Some q\<rparr>"
        by (auto simp: apply_children_def applyAllocated_def allocation_within_def Let_def not_less)
      with k show ?thesis by (auto intro: applied.allocated)
    next
      assume k: "Event_Kind (Transition_Event t) = EventOrderRouted"
      with assms(1) obtain order q where "Aggregate_Order a = None" "Aggregate_AllocatedQuantity a = Some q"
        "Order_Quantity order = \<bar>q\<bar>" "Order_Side order = sideForDelta q" "Order_Validate L order = None"
        "a' = a\<lparr>Aggregate_Order := Some order\<rparr>"
        by (auto simp: apply_children_def applyRouted_def Let_def split: option.splits)
      moreover from this have "order_of_allocation order q" by (simp add: order_of_allocation_def Order_Validate_def)
      ultimately show ?thesis using k by (auto intro: applied.routed)
    next
      assume k: "Event_Kind (Transition_Event t) = EventOrderWorking"
      with assms(1) obtain order binding where "Aggregate_Order a = Some order" "Aggregate_Binding a = None"
        "Binding_OrderID binding = Order_ID order" "a' = a\<lparr>Aggregate_Binding := Some binding\<rparr>"
        by (auto simp: apply_children_def applyWorking_def split: option.splits)
      with k show ?thesis by (auto intro: applied.working)
    qed
  next
    case keep: False
    have "a' = a \<and> \<not> has_children t \<and> (Event_Kind (Transition_Event t) = EventRiskApproved \<longrightarrow>
        Event_QuantityDelta (Transition_Event t) = Aggregate_AllocatedQuantity a)"
      using assms(1,3,4) keep False
      by (cases "Event_Kind (Transition_Event t)")
        (auto simp: apply_children_def applyRisk_def applyCancelRequested_def applyTerminal_def applyCorrection_def
          applyVenueFailure_def is_fill_kind_def validEventTransition_def Let_def split: if_splits)
    with keep False show ?thesis by (auto simp: is_fill_kind_def intro!: applied.kept)
  qed
qed

text \<open>Every accepted transition: its event fits the state machine and its facts have one of the effects above.\<close>

lemma apply_transitionE:
  assumes "apply_transition L a t = Inr a'" and "binding_ok a" and "Aggregate_State a \<noteq> StateNone"
  obtains b where "applied L a t b"
    and "a' = b\<lparr>Aggregate_State := Event_NextState (Transition_Event t),
                Aggregate_Events := Aggregate_Events b @ [Transition_Event t]\<rparr>"
    and "validEventTransition (Event_Kind (Transition_Event t)) (Event_ObservationClass (Transition_Event t))
           (Aggregate_State a) (Event_NextState (Transition_Event t))"
    and "Event_Validate L (Transition_Event t) = None" and "Event_PriorState (Transition_Event t) = Aggregate_State a"
proof -
  from assms(1) obtain b where b: "apply_children L a t = Inr b"
    and rest: "a' = b\<lparr>Aggregate_State := Event_NextState (Transition_Event t),
        Aggregate_Events := Aggregate_Events b @ [Transition_Event t]\<rparr>"
      "validEventTransition (Event_Kind (Transition_Event t)) (Event_ObservationClass (Transition_Event t))
         (Aggregate_State a) (Event_NextState (Transition_Event t))"
      "Event_Validate L (Transition_Event t) = None" "Event_PriorState (Transition_Event t) = Aggregate_State a"
    by (auto simp: apply_transition_def Let_def)
  from that [OF apply_children_applied [OF b assms(2) rest(2) assms(3)] rest] show thesis .
qed

section \<open>The invariant of a lifecycle\<close>

text \<open>The facts that each state stands for.\<close>

fun state_facts :: "State \<Rightarrow> ('d::linordered_idom) Aggregate \<Rightarrow> bool" where
  "state_facts StateProposed a \<longleftrightarrow> Aggregate_AllocatedQuantity a = None \<and> Aggregate_Order a = None \<and> Aggregate_Fills a = []"
| "state_facts StateAllocated a \<longleftrightarrow> Aggregate_AllocatedQuantity a \<noteq> None \<and> Aggregate_Order a = None \<and> Aggregate_Fills a = []"
| "state_facts StateRiskApproved a \<longleftrightarrow> Aggregate_AllocatedQuantity a \<noteq> None \<and> Aggregate_Order a = None \<and> Aggregate_Fills a = []"
| "state_facts StateRiskRejected a \<longleftrightarrow> Aggregate_AllocatedQuantity a \<noteq> None \<and> Aggregate_Order a = None \<and> Aggregate_Fills a = []"
| "state_facts StateRouted a \<longleftrightarrow> Aggregate_Order a \<noteq> None \<and> Aggregate_Binding a = None \<and> Aggregate_Fills a = []"
| "state_facts StateWorking a \<longleftrightarrow> Aggregate_Order a \<noteq> None \<and> Aggregate_Binding a \<noteq> None \<and> Aggregate_Fills a = []"
| "state_facts StatePartiallyFilled a \<longleftrightarrow> Aggregate_Binding a \<noteq> None \<and> Aggregate_Fills a \<noteq> [] \<and>
     opt_holds (\<lambda>order. sumFillQuantity (Aggregate_Fills a) < Order_Quantity order) (Aggregate_Order a)"
| "state_facts StateFilled a \<longleftrightarrow> Aggregate_Binding a \<noteq> None \<and>
     opt_holds (\<lambda>order. sumFillQuantity (Aggregate_Fills a) = Order_Quantity order) (Aggregate_Order a)"
| "state_facts StateCancelled a \<longleftrightarrow> opt_holds (\<lambda>order. sumFillQuantity (Aggregate_Fills a) < Order_Quantity order) (Aggregate_Order a)"
| "state_facts StateExpired a \<longleftrightarrow> opt_holds (\<lambda>order. sumFillQuantity (Aggregate_Fills a) < Order_Quantity order) (Aggregate_Order a)"
| "state_facts StateRejected a \<longleftrightarrow> opt_holds (\<lambda>order. sumFillQuantity (Aggregate_Fills a) < Order_Quantity order) (Aggregate_Order a)"
| "state_facts StateFailedReconciliation a \<longleftrightarrow> True"
| "state_facts _ a \<longleftrightarrow> False"

text \<open>The running totals of a list of fills.\<close>

fun fill_totals :: "('d::linordered_idom) \<Rightarrow> 'd Fill list \<Rightarrow> 'd list" where
  "fill_totals s [] = []"
| "fill_totals s (f # fs) = (s + Fill_Quantity f) # fill_totals (s + Fill_Quantity f) fs"

lemma fill_totals_snoc: "fill_totals s (fs @ [f]) = fill_totals s fs @ [foldl (\<lambda>t f. t + Fill_Quantity f) s fs + Fill_Quantity f]"
  by (induction fs arbitrary: s) simp_all

text \<open>The events of a lifecycle form a path of the state machine.\<close>

fun event_path :: "State \<Rightarrow> 'd Event list \<Rightarrow> State \<Rightarrow> bool" where
  "event_path s [] s' \<longleftrightarrow> s = s'"
| "event_path s (e # es) s' \<longleftrightarrow> Event_PriorState e = s \<and>
     validEventTransition (Event_Kind e) (Event_ObservationClass e) s (Event_NextState e) \<and> event_path (Event_NextState e) es s'"

lemma event_path_append: "event_path s (es @ es') s' \<longleftrightarrow> (\<exists>m. event_path s es m \<and> event_path m es' s')"
  by (induction es arbitrary: s) auto

lemma event_path_not_none: "event_path s es s' \<Longrightarrow> s \<noteq> StateNone \<Longrightarrow> s' \<noteq> StateNone"
  by (induction es arbitrary: s) (force simp: validEventTransition_def split: if_splits EventKind.splits)+

definition fill_events :: "'d Aggregate \<Rightarrow> 'd Event list" where
  "fill_events a = filter (is_fill_kind \<circ> Event_Kind) (tl (Aggregate_Events a))"

definition approved :: "'d Aggregate \<Rightarrow> bool" where
  "approved a \<longleftrightarrow> list_ex (\<lambda>e. Event_Kind e = EventRiskApproved \<and> Event_QuantityDelta e = Aggregate_AllocatedQuantity a) (Aggregate_Events a)"

definition lifecycle_invar :: "('d::linordered_idom) lib \<Rightarrow> 'd Aggregate \<Rightarrow> bool" where
  "lifecycle_invar L a \<longleftrightarrow>
     Aggregate_Events a \<noteq> [] \<and> event_path StateProposed (tl (Aggregate_Events a)) (Aggregate_State a) \<and>
     state_facts (Aggregate_State a) a \<and> binding_ok a \<and>
     opt_all (allocation_within L (Aggregate_Intent a)) (Aggregate_AllocatedQuantity a) \<and>
     opt_all (\<lambda>order. opt_holds (order_of_allocation order) (Aggregate_AllocatedQuantity a) \<and>
                sumFillQuantity (Aggregate_Fills a) \<le> Order_Quantity order) (Aggregate_Order a) \<and>
     (Aggregate_Order a \<noteq> None \<or> Aggregate_State a = StateRiskApproved \<longrightarrow> approved a) \<and>
     list_all (\<lambda>f. 0 < Fill_Quantity f \<and> opt_holds (\<lambda>order. Fill_OrderID f = Order_ID order) (Aggregate_Order a)) (Aggregate_Fills a) \<and>
     map Event_FillID (fill_events a) = map (\<lambda>f. Some (Fill_ID f)) (Aggregate_Fills a) \<and>
     map Event_CumulativeFillQuantity (fill_events a) = map Some (fill_totals 0 (Aggregate_Fills a))"

lemma opt_all_False [simp]: "opt_all (\<lambda>_. False) x \<longleftrightarrow> x = None"
  by (cases x) simp_all

lemma state_facts_step:
  assumes "applied L a t b" and "validEventTransition (Event_Kind (Transition_Event t)) oc (Aggregate_State a) s'"
    and "s' = Event_NextState (Transition_Event t)" and "lifecycle_invar L a"
  shows "state_facts s' b"
  using assms(1)
proof cases
  case kept
  with assms(2,4) show ?thesis
    by (cases "Aggregate_Order a")
      (auto simp: validEventTransition_def lifecycle_invar_def order_of_allocation_def
        split: if_splits EventKind.splits)
next
  case filled
  with assms(2,3) show ?thesis
    by (auto simp: validEventTransition_def is_fill_kind_def split: if_splits)
next
  case allocated
  with assms(2,4) show ?thesis by (auto simp: validEventTransition_def lifecycle_invar_def split: if_splits)
next
  case routed
  with assms(2,4) show ?thesis by (auto simp: validEventTransition_def lifecycle_invar_def binding_ok_def split: if_splits)
next
  case working
  with assms(2,4) show ?thesis by (auto simp: validEventTransition_def lifecycle_invar_def split: if_splits)
qed

lemma fill_events_snoc:
  "Aggregate_Events a' = Aggregate_Events a @ [e] \<Longrightarrow> Aggregate_Events a \<noteq> [] \<Longrightarrow>
   fill_events a' = fill_events a @ (if is_fill_kind (Event_Kind e) then [e] else [])"
  by (simp add: fill_events_def)

definition facts_ok :: "('d::linordered_idom) lib \<Rightarrow> 'd Aggregate \<Rightarrow> bool" where
  "facts_ok L a \<longleftrightarrow> binding_ok a \<and>
     opt_all (allocation_within L (Aggregate_Intent a)) (Aggregate_AllocatedQuantity a) \<and>
     opt_all (\<lambda>order. opt_holds (order_of_allocation order) (Aggregate_AllocatedQuantity a) \<and>
                sumFillQuantity (Aggregate_Fills a) \<le> Order_Quantity order) (Aggregate_Order a) \<and>
     list_all (\<lambda>f. 0 < Fill_Quantity f \<and> opt_holds (\<lambda>order. Fill_OrderID f = Order_ID order) (Aggregate_Order a)) (Aggregate_Fills a)"

lemma facts_ok_step:
  assumes "applied L a t b" and "lifecycle_invar L a"
    and "validEventTransition (Event_Kind (Transition_Event t)) oc (Aggregate_State a) s'"
  shows "facts_ok L b"
  using assms(1)
proof cases
  case allocated
  with assms(2,3) show ?thesis
    by (auto simp: validEventTransition_def lifecycle_invar_def facts_ok_def binding_ok_def split: if_splits)
next
  case kept
  with assms(2) show ?thesis by (auto simp: lifecycle_invar_def facts_ok_def)
next
  case (routed q order)
  with assms(2) have "sumFillQuantity (Aggregate_Fills a) = 0" "Aggregate_Fills a = []" "Aggregate_Binding a = None"
    by (auto simp: lifecycle_invar_def binding_ok_def list_all_iff intro!: last_in_set)
  with routed assms(2) show ?thesis by (auto simp: lifecycle_invar_def facts_ok_def binding_ok_def order_of_allocation_def)
next
  case working
  with assms(2) show ?thesis by (auto simp: lifecycle_invar_def facts_ok_def binding_ok_def)
next
  case filled
  with assms(2) show ?thesis by (auto simp: lifecycle_invar_def facts_ok_def binding_ok_def)
qed

lemma approved_step:
  assumes "applied L a t b" and "lifecycle_invar L a"
    and "validEventTransition (Event_Kind (Transition_Event t)) oc (Aggregate_State a) s'"
    and "Aggregate_Order b \<noteq> None \<or> s' = StateRiskApproved"
  shows "approved (b\<lparr>Aggregate_State := s, Aggregate_Events := Aggregate_Events b @ [Transition_Event t]\<rparr>)"
  using assms(1)
proof cases
  case allocated
  with assms(2-4) show ?thesis by (auto simp: validEventTransition_def lifecycle_invar_def split: if_splits)
next
  case kept
  show ?thesis
  proof (cases "Aggregate_Order a = None")
    case True
    with kept assms(3,4) have "Event_Kind (Transition_Event t) = EventRiskApproved"
      by (auto simp: validEventTransition_def split: if_splits EventKind.splits)
    with kept show ?thesis by (simp add: approved_def)
  qed (use kept assms(2) in \<open>auto simp: lifecycle_invar_def approved_def\<close>)
next
  case routed
  with assms(2,3) show ?thesis
    by (auto simp: validEventTransition_def lifecycle_invar_def approved_def split: if_splits)
qed (use assms(2) in \<open>auto simp: lifecycle_invar_def approved_def\<close>)

lemma audit_step:
  assumes "applied L a t b" and "lifecycle_invar L a"
    and "a' = b\<lparr>Aggregate_State := s, Aggregate_Events := Aggregate_Events b @ [Transition_Event t]\<rparr>"
  shows "map Event_FillID (fill_events a') = map (\<lambda>f. Some (Fill_ID f)) (Aggregate_Fills a') \<and>
         map Event_CumulativeFillQuantity (fill_events a') = map Some (fill_totals 0 (Aggregate_Fills a'))"
proof -
  have ne: "Aggregate_Events a \<noteq> []" and old: "map Event_FillID (fill_events a) = map (\<lambda>f. Some (Fill_ID f)) (Aggregate_Fills a)"
    "map Event_CumulativeFillQuantity (fill_events a) = map Some (fill_totals 0 (Aggregate_Fills a))"
    using assms(2) by (simp_all add: lifecycle_invar_def)
  have "Aggregate_Events a' = Aggregate_Events a @ [Transition_Event t]"
    using assms(1,3) by (auto elim: applied.cases)
  from fill_events_snoc [OF this ne]
  have new: "fill_events a' = fill_events a @ (if is_fill_kind (Event_Kind (Transition_Event t)) then [Transition_Event t] else [])" .
  from assms(1) show ?thesis
  proof cases
    case filled
    with old show ?thesis
      unfolding new by (simp add: assms(3) fill_totals_snoc sumFillQuantity_def)
  qed (use old new in \<open>simp_all add: assms(3) is_fill_kind_def\<close>)
qed

lemma applied_invar:
  assumes "applied L a t b" and "lifecycle_invar L a"
    and "a' = b\<lparr>Aggregate_State := Event_NextState (Transition_Event t), Aggregate_Events := Aggregate_Events b @ [Transition_Event t]\<rparr>"
    and "validEventTransition (Event_Kind (Transition_Event t)) (Event_ObservationClass (Transition_Event t))
           (Aggregate_State a) (Event_NextState (Transition_Event t))"
    and "Event_PriorState (Transition_Event t) = Aggregate_State a"
  shows "lifecycle_invar L a'"
proof -
  have ev: "Aggregate_Events b = Aggregate_Events a" "Aggregate_Events a \<noteq> []"
    using assms(1,2) by (auto elim: applied.cases simp: lifecycle_invar_def)
  have path: "event_path StateProposed (tl (Aggregate_Events a')) (Aggregate_State a')"
    using assms ev by (auto simp: lifecycle_invar_def event_path_append)
  have "state_facts (Event_NextState (Transition_Event t)) b"
    by (rule state_facts_step [OF assms(1,4) refl assms(2)])
  then have facts: "state_facts (Aggregate_State a') a'"
    by (cases "Event_NextState (Transition_Event t)") (simp_all add: assms(3))
  have rest: "facts_ok L a'"
    using facts_ok_step [OF assms(1,2,4)] by (simp add: assms(3) facts_ok_def binding_ok_def)
  have ok: "Aggregate_Order a' \<noteq> None \<or> Aggregate_State a' = StateRiskApproved \<longrightarrow> approved a'"
    using approved_step [OF assms(1,2,4)] by (simp add: assms(3))
  show ?thesis unfolding lifecycle_invar_def
    using path facts rest ok audit_step [OF assms(1-3)] ev assms(3) by (simp add: facts_ok_def)
qed

lemma lifecycle_invar_state: "lifecycle_invar L a \<Longrightarrow> Aggregate_State a \<noteq> StateNone"
  by (auto simp: lifecycle_invar_def)

lemma lifecycle_invar_binding: "lifecycle_invar L a \<Longrightarrow> binding_ok a"
  by (simp add: lifecycle_invar_def)

lemma apply_transition_invar:
  assumes "lifecycle_invar L a" and "apply_transition L a t = Inr a'"
  shows "lifecycle_invar L a'"
proof -
  note ok = lifecycle_invar_binding [OF assms(1)] lifecycle_invar_state [OF assms(1)]
  show ?thesis by (rule apply_transitionE [OF assms(2) ok]) (blast intro: applied_invar [OF _ assms(1)])
qed

text \<open>What no accepted transition changes.\<close>

inductive extends :: "'d Aggregate \<Rightarrow> 'd Aggregate \<Rightarrow> bool" for a a' where
  "Aggregate_Intent a' = Aggregate_Intent a \<Longrightarrow>
   Aggregate_AllocatedQuantity a \<in> {None, Aggregate_AllocatedQuantity a'} \<Longrightarrow>
   Aggregate_Order a \<in> {None, Aggregate_Order a'} \<Longrightarrow> Aggregate_Binding a \<in> {None, Aggregate_Binding a'} \<Longrightarrow>
   prefix (Aggregate_Fills a) (Aggregate_Fills a') \<Longrightarrow> prefix (Aggregate_Events a) (Aggregate_Events a') \<Longrightarrow> extends a a'"

lemmas extendsI = extends.intros

inductive_simps extends_iff: "extends a a'"

lemma extends_refl: "extends a a" by (simp add: extends_iff)

lemma extends_trans: "extends a b \<Longrightarrow> extends b c \<Longrightarrow> extends a c"
  by (auto simp: extends_iff intro: prefix_order.trans)

lemma apply_transition_extends:
  assumes "lifecycle_invar L a" and "apply_transition L a t = Inr a'"
  shows "extends a a'"
proof -
  note ok = lifecycle_invar_binding [OF assms(1)] lifecycle_invar_state [OF assms(1)]
  show ?thesis
  proof (rule apply_transitionE [OF assms(2) ok])
    fix b
    assume b: "applied L a t b" and a': "a' = b\<lparr>Aggregate_State := Event_NextState (Transition_Event t),
        Aggregate_Events := Aggregate_Events b @ [Transition_Event t]\<rparr>"
      and v: "validEventTransition (Event_Kind (Transition_Event t)) (Event_ObservationClass (Transition_Event t))
           (Aggregate_State a) (Event_NextState (Transition_Event t))"
    from b show "extends a a'"
    proof cases
      case allocated
      with v assms(1) show ?thesis
        by (auto simp: a' extends_iff validEventTransition_def lifecycle_invar_def split: if_splits)
    qed (auto simp: a' extends_iff)
  qed
qed

section \<open>Replay\<close>

definition replay_start :: "'d Intent \<Rightarrow> 'd Event \<Rightarrow> 'd replay_state" where
  "replay_start intent e =
    (\<lparr>Aggregate_Intent = intent, Aggregate_State = StateProposed, Aggregate_AllocatedQuantity = None,
      Aggregate_Order = None, Aggregate_Binding = None, Aggregate_Fills = [], Aggregate_Events = [e]\<rparr>,
     [Event_ID e], Event_IngestSequence e)"

definition replay_invar :: "('d::linordered_idom) lib \<Rightarrow> 'd Aggregate \<Rightarrow> 'd replay_state \<Rightarrow> bool" where
  "replay_invar L a0 = (\<lambda>(a, seen, latest).
     lifecycle_invar L a \<and> extends a0 a \<and>
     set seen = Event_ID ` set (Aggregate_Events a) \<and> distinct (map Event_ID (Aggregate_Events a)) \<and>
     sorted_wrt (\<lambda>x y. 0 < x \<longrightarrow> x < y) (map Event_IngestSequence (Aggregate_Events a)) \<and>
     list_all (\<lambda>e. 0 < Event_IngestSequence e \<longrightarrow> Event_IngestSequence e \<le> latest) (Aggregate_Events a))"

lemma replay_start_invar: "replay_invar L (fst (replay_start intent e)) (replay_start intent e)"
  by (simp add: replay_invar_def replay_start_def lifecycle_invar_def binding_ok_def fill_events_def extends_refl)

lemma replay_stepE:
  assumes "replay_step L (a, seen, latest) t = Inr s'"
  obtains a' where "apply_transition L a t = Inr a'"
    and "s' = (a', Event_ID (Transition_Event t) # seen,
               if Event_IngestSequence (Transition_Event t) > 0 \<or> latest > 0 then Event_IngestSequence (Transition_Event t) else latest)"
    and "Event_ID (Transition_Event t) \<notin> set seen"
    and "Event_IngestSequence (Transition_Event t) > 0 \<or> latest > 0 \<Longrightarrow> Event_IngestSequence (Transition_Event t) > latest"
  using assms by (auto simp: replay_step_def ApplyTransition_def Let_def not_le split: if_splits)

lemma apply_transition_events:
  assumes "lifecycle_invar L a" and "apply_transition L a t = Inr a'"
  shows "Aggregate_Events a' = Aggregate_Events a @ [Transition_Event t]"
proof -
  note ok = lifecycle_invar_binding [OF assms(1)] lifecycle_invar_state [OF assms(1)]
  show ?thesis by (rule apply_transitionE [OF assms(2) ok]) (auto elim: applied.cases)
qed

lemma replay_step_invar:
  assumes "replay_invar L a0 s" and "replay_step L s t = Inr s'"
  shows "replay_invar L a0 s'"
proof -
  obtain a seen latest where s: "s = (a, seen, latest)" by (cases s)
  show ?thesis
  proof (rule replay_stepE [OF assms(2) [unfolded s]])
    fix a'
    assume a': "apply_transition L a t = Inr a'"
      and s': "s' = (a', Event_ID (Transition_Event t) # seen,
               if Event_IngestSequence (Transition_Event t) > 0 \<or> latest > 0 then Event_IngestSequence (Transition_Event t) else latest)"
      and fresh: "Event_ID (Transition_Event t) \<notin> set seen"
      and seq: "Event_IngestSequence (Transition_Event t) > 0 \<or> latest > 0 \<Longrightarrow> Event_IngestSequence (Transition_Event t) > latest"
    from assms(1) have inv: "lifecycle_invar L a" "extends a0 a" by (simp_all add: s replay_invar_def)
    note ev = apply_transition_events [OF inv(1) a']
    have "extends a0 a'" using extends_trans [OF inv(2) apply_transition_extends [OF inv(1) a']] .
    moreover have "lifecycle_invar L a'" by (rule apply_transition_invar [OF inv(1) a'])
    moreover have old: "Event_IngestSequence x \<le> latest \<and> Event_IngestSequence x < Event_IngestSequence (Transition_Event t)"
      if "x \<in> set (Aggregate_Events a)" "0 < Event_IngestSequence x" for x
      using assms(1) that seq by (fastforce simp: s replay_invar_def list_all_iff)
    ultimately show ?thesis
      using assms(1) fresh unfolding s s'
      by (auto simp: replay_invar_def ev sorted_wrt_append list_all_iff intro: less_imp_le)
  qed
qed

interpretation lifecycle_replay: event_sourced
  "replay_step L" "replay_start intent e" "\<lambda>_. True" "replay_invar L (fst (replay_start intent e))" for L intent e
  by unfold_locales (rule replay_start_invar, rule replay_step_invar)

text \<open>The quantity a transition adds to the filled quantity.\<close>

definition fill_delta :: "('d::linordered_idom) Transition \<Rightarrow> 'd" where
  "fill_delta t =
    (if is_fill_kind (Event_Kind (Transition_Event t))
     then (case Transition_Fill t of Some f \<Rightarrow> Fill_Quantity f | None \<Rightarrow> 0) else 0)"

definition filled :: "('d::linordered_idom) replay_state \<Rightarrow> 'd" where
  "filled s = sumFillQuantity (Aggregate_Fills (fst s))"

lemma replay_step_filled:
  assumes "replay_invar L a0 s" and "replay_step L s t = Inr s'"
  shows "filled s' = filled s + fill_delta t"
proof -
  obtain a seen latest where s: "s = (a, seen, latest)" by (cases s)
  show ?thesis
  proof (rule replay_stepE [OF assms(2) [unfolded s]])
    fix a' x y assume a': "apply_transition L a t = Inr a'" and s': "s' = (a', x, y)"
    from assms(1) have inv: "lifecycle_invar L a" by (simp add: s replay_invar_def)
    show ?thesis
      by (rule apply_transitionE [OF a' lifecycle_invar_binding [OF inv] lifecycle_invar_state [OF inv]])
        (auto elim!: applied.cases simp: s s' filled_def fill_delta_def is_fill_kind_def)
  qed
qed

interpretation filled_view: additive_view
  "replay_step L" "replay_start intent e" "\<lambda>_. True" "replay_invar L (fst (replay_start intent e))" filled fill_delta
  for L intent e
  by unfold_locales (simp add: filled_def replay_start_def, rule replay_step_filled)

lemma ReplayE:
  assumes "Replay L accountID intent transitions = Inr a"
  obtains initial rest seen latest where "transitions = initial # rest" and "valid_proposal intent initial"
    and "Event_Validate L (Transition_Event initial) = None" and "Intent_Validate L intent = None"
    and "accountID = Intent_AccountID intent"
    and "replay (replay_step L) (replay_start intent (Transition_Event initial)) rest = Inr (a, seen, latest)"
  using assms by (cases transitions) (auto simp: Replay_def replay_start_def Let_def)

lemma replay_invar_from:
  "replay (replay_step L) (replay_start intent e) rest = Inr s \<Longrightarrow> replay_invar L (fst (replay_start intent e)) s"
  by (rule lifecycle_replay.invar_replay) (simp_all add: list_all_iff)

lemma Replay_invar:
  assumes "Replay L accountID intent transitions = Inr a"
  shows "lifecycle_invar L a" and "Aggregate_Intent a = intent"
    and "distinct (map Event_ID (Aggregate_Events a))"
    and "sorted_wrt (\<lambda>x y. 0 < x \<longrightarrow> x < y) (map Event_IngestSequence (Aggregate_Events a))"
    and "sumFillQuantity (Aggregate_Fills a) = sum_list (map fill_delta (tl transitions))"
proof -
  from assms obtain initial rest seen latest where t: "transitions = initial # rest"
    and r: "replay (replay_step L) (replay_start intent (Transition_Event initial)) rest = Inr (a, seen, latest)"
    by (rule ReplayE)
  from replay_invar_from [OF r] show "lifecycle_invar L a" "Aggregate_Intent a = intent"
    "distinct (map Event_ID (Aggregate_Events a))"
    "sorted_wrt (\<lambda>x y. 0 < x \<longrightarrow> x < y) (map Event_IngestSequence (Aggregate_Events a))"
    by (simp_all add: replay_invar_def extends_iff replay_start_def)
  have "filled (a, seen, latest) = sum_list (map fill_delta rest)"
    by (rule filled_view.view_replay [OF r]) (simp add: list_all_iff)
  then show "sumFillQuantity (Aggregate_Fills a) = sum_list (map fill_delta (tl transitions))"
    by (simp add: filled_def t)
qed

text \<open>Replaying more transitions continues from where the shorter replay stopped.\<close>

lemma replay_extends:
  assumes "replay_invar L a0 s" and "replay (replay_step L) s ts = Inr s'"
  shows "extends (fst s) (fst s')"
  using assms
proof (induction ts arbitrary: s)
  case (Cons t ts)
  then obtain s1 where s1: "replay_step L s t = Inr s1" "replay (replay_step L) s1 ts = Inr s'" by auto
  have "replay_invar L a0 s1" by (rule replay_step_invar [OF Cons.prems(1) s1(1)])
  from Cons.IH [OF this s1(2)] have "extends (fst s1) (fst s')" .
  moreover have "extends (fst s) (fst s1)"
    using Cons.prems(1) s1(1) by (cases s) (auto elim!: replay_stepE simp: replay_invar_def intro: apply_transition_extends)
  ultimately show ?case by (blast intro: extends_trans)
qed (simp add: extends_refl)

lemma Replay_append:
  assumes "Replay L accountID intent (ts @ us) = Inr b" and "ts \<noteq> []"
  obtains a where "Replay L accountID intent ts = Inr a" and "extends a b"
proof -
  from assms obtain initial rest where ts: "ts = initial # rest" by (cases ts) auto
  from assms(1) obtain seen latest where
    r: "replay (replay_step L) (replay_start intent (Transition_Event initial)) (rest @ us) = Inr (b, seen, latest)"
    and ok: "valid_proposal intent initial" "Event_Validate L (Transition_Event initial) = None"
      "Intent_Validate L intent = None" "accountID = Intent_AccountID intent" "accountID \<noteq> uuid_Nil"
    by (auto elim!: ReplayE simp: ts Intent_Validate_def)
  from r obtain s where s: "replay (replay_step L) (replay_start intent (Transition_Event initial)) rest = Inr s"
    "replay (replay_step L) s us = Inr (b, seen, latest)" by (auto simp: replay_append)
  have "extends (fst s) b" using replay_extends [OF replay_invar_from [OF s(1)] s(2)] by simp
  moreover have "Replay L accountID intent ts = Inr (fst s)"
    using s(1) ok by (cases s) (simp add: Replay_def ts replay_start_def Let_def)
  ultimately show thesis by (blast intro: that)
qed

section \<open>Refinement of the abstract machine\<close>

lemma apply_transition_step:
  assumes "lifecycle_invar L a" and "apply_transition L a t = Inr a'"
  shows "lifecycle_step (Aggregate_State a) (Aggregate_State a')"
proof -
  note ok = lifecycle_invar_binding [OF assms(1)] lifecycle_invar_state [OF assms(1)]
  show ?thesis by (rule apply_transitionE [OF assms(2) ok]) (auto intro: validEventTransition_step simp: ok)
qed

lemma event_path_steps: "event_path s es s' \<Longrightarrow> s \<noteq> StateNone \<Longrightarrow> lifecycle_step\<^sup>*\<^sup>* s s'"
proof (induction es arbitrary: s)
  case (Cons e es)
  then have "lifecycle_step s (Event_NextState e)" by (auto intro: validEventTransition_step)
  moreover from Cons.prems have "Event_NextState e \<noteq> StateNone"
    by (auto simp: validEventTransition_def split: if_splits EventKind.splits)
  ultimately show ?case using Cons by (auto intro: converse_rtranclp_into_rtranclp)
qed simp

abbreviation final_states :: "State set" where
  "final_states \<equiv> {StateRiskRejected, StateFilled, StateCancelled, StateExpired, StateRejected, StateFailedReconciliation}"

lemma step_from_final_state:
  "lifecycle_step s s' \<Longrightarrow> s \<in> final_states \<Longrightarrow> s \<noteq> StateFailedReconciliation \<and> s' = StateFailedReconciliation"
  by (auto elim: step_from_final)

lemma final_keeps_facts:
  assumes "lifecycle_invar L a" and "apply_transition L a t = Inr a'" and "Aggregate_State a \<in> final_states"
  shows "Aggregate_Order a' = Aggregate_Order a \<and> Aggregate_Binding a' = Aggregate_Binding a \<and> Aggregate_Fills a' = Aggregate_Fills a"
proof -
  note ok = lifecycle_invar_binding [OF assms(1)] lifecycle_invar_state [OF assms(1)]
  show ?thesis
  proof (rule apply_transitionE [OF assms(2) ok])
    fix b
    assume b: "applied L a t b" and a': "a' = b\<lparr>Aggregate_State := Event_NextState (Transition_Event t),
        Aggregate_Events := Aggregate_Events b @ [Transition_Event t]\<rparr>"
      and v: "validEventTransition (Event_Kind (Transition_Event t)) (Event_ObservationClass (Transition_Event t))
           (Aggregate_State a) (Event_NextState (Transition_Event t))"
    from b show ?thesis
      by cases (use v assms(3) in \<open>auto simp: a' validEventTransition_def is_fill_kind_def split: if_splits\<close>)
  qed
qed

end
