(* ===== verification/Lifecycle_Acceptance.thy ===== *)
theory Lifecycle_Acceptance
  imports Lifecycle_Correctness
begin

text \<open>
  Every command of the lifecycle returns a transition that \<open>ApplyTransition\<close> accepts on the aggregate
  the command was given, with the effect on the facts written out.
\<close>

section \<open>The events the commands build\<close>

lemma newEvent_fields:
  assumes "newEvent L now intent kind prior next_state input createdAt = Inr e"
  shows "event_context intent e" "Event_Kind e = kind" "Event_PriorState e = prior" "Event_NextState e = next_state"
    "Event_OrderID e = None" "Event_BindingID e = None" "Event_PolicyKind e = PolicyUnset" "Event_PolicyVersion e = []"
    "Event_ObservationClass e =
       (if EventInput_ObservationClass input = ObservationUnset then ObservationOrdinary else EventInput_ObservationClass input)"
    "Event_Source e = ToLower L (TrimSpace (EventInput_Source input))"
    "Event_SourceNamespace e = TrimSpace (EventInput_SourceNamespace input)"
    "Event_SourceEventID e = TrimSpace (EventInput_SourceEventID input)"
    "Event_SourceRevision e = TrimSpace (EventInput_SourceRevision input)"
    "Event_ReceivedAt e = normalizeTime (EventInput_ReceivedAt input)"
    "Event_OriginalFillID e = EventInput_OriginalFillID input"
  using assms by (auto simp: newEvent_def event_context_def Let_def)

lemma emit_ok [simp]: "emit L t = Inr t' \<longleftrightarrow> t' = t \<and> Event_Validate L (Transition_Event t) = None"
  by (auto simp: emit_def)

lemma valid_event_ordinary:
  "Event_Validate L e = None \<Longrightarrow> Event_Kind e \<noteq> EventFillCorrectionObserved \<Longrightarrow> Event_Kind e \<noteq> EventFillBustObserved \<Longrightarrow>
   Event_ObservationClass e = ObservationOrdinary"
  by (auto simp: Event_Validate_def event_class_checks_def split: ObservationClass.splits)

lemma valid_event_class:
  "Event_Validate L e = None \<Longrightarrow> Event_ObservationClass e \<in> {ObservationOrdinary, ObservationCorrection, ObservationBust}"
  by (auto simp: Event_Validate_def event_class_checks_def split: ObservationClass.splits)

lemma context_update [simp]:
  "event_context i (e\<lparr>Event_QuantityDelta := q\<rparr>) = event_context i e"
  "event_context i (e\<lparr>Event_OrderID := oid\<rparr>) = event_context i e"
  "event_context i (e\<lparr>Event_BindingID := bid\<rparr>) = event_context i e"
  "event_context i (e\<lparr>Event_FillID := bid\<rparr>) = event_context i e"
  "event_context i (e\<lparr>Event_PolicyKind := pk\<rparr>) = event_context i e"
  "event_context i (e\<lparr>Event_PolicyVersion := pv\<rparr>) = event_context i e"
  "event_context i (e\<lparr>Event_CumulativeFillQuantity := q\<rparr>) = event_context i e"
  "event_context i (e\<lparr>Event_QuoteSnapshotID := qid\<rparr>) = event_context i e"
  by (simp_all add: event_context_def)

lemma transition_of_simps [simp]:
  "Transition_Event (transition_of e) = e" "Transition_Order (transition_of e) = None"
  "Transition_Binding (transition_of e) = None" "Transition_Fill (transition_of e) = None"
  "Transition_Normalization (transition_of e) = None" "\<not> has_children (transition_of e)"
  by (simp_all add: transition_of_def has_children_def)

text \<open>The aggregate after an accepted transition whose facts are those of \<open>b\<close>.\<close>

definition advance :: "'d Aggregate \<Rightarrow> 'd Event \<Rightarrow> 'd Aggregate" where
  "advance b e = b\<lparr>Aggregate_State := Event_NextState e, Aggregate_Events := Aggregate_Events b @ [e]\<rparr>"

lemma apply_transition_intro:
  assumes "Event_Validate L (Transition_Event t) = None" and "event_context (Aggregate_Intent a) (Transition_Event t)"
    and "order_context a (Transition_Event t) = None" and "Event_PriorState (Transition_Event t) = Aggregate_State a"
    and "validEventTransition (Event_Kind (Transition_Event t)) (Event_ObservationClass (Transition_Event t))
           (Aggregate_State a) (Event_NextState (Transition_Event t))"
    and "apply_children L a t = Inr b"
  shows "apply_transition L a t = Inr (advance b (Transition_Event t))"
  using assms by (simp add: apply_transition_def advance_def Let_def)

section \<open>Allocation, risk, route and acknowledgement\<close>

lemma Allocate_accepted:
  assumes "Allocate L now (Some a) quantity input createdAt = Inr t" and "lifecycle_invar L a"
  shows "apply_transition L a t = Inr (advance (a\<lparr>Aggregate_AllocatedQuantity := Some quantity\<rparr>) (Transition_Event t))"
proof -
  from assms(1) obtain e where e: "newEvent L now (Aggregate_Intent a) EventIntentAllocated StateProposed StateAllocated input createdAt = Inr e"
    and t: "t = transition_of (e\<lparr>Event_QuantityDelta := Some quantity\<rparr>)"
      "Event_Validate L (e\<lparr>Event_QuantityDelta := Some quantity\<rparr>) = None"
    and q: "Aggregate_State a = StateProposed" "validExactDecimal L quantity False"
      "sgn quantity = sgn (Intent_DesiredQuantityDelta (Aggregate_Intent a))"
      "\<bar>quantity\<bar> \<le> \<bar>Intent_DesiredQuantityDelta (Aggregate_Intent a)\<bar>"
    by (auto simp: Allocate_def Let_def not_less)
  from assms(2) q(1) have "Aggregate_Order a = None" by (simp add: lifecycle_invar_def)
  with newEvent_fields [OF e] t q valid_event_ordinary [OF t(2)] show ?thesis
    by (intro apply_transition_intro)
      (simp_all add: order_context_def validEventTransition_def apply_children_def applyAllocated_def not_less)
qed

lemma riskTransition_accepted:
  assumes "riskTransition L now (Some a) ok input createdAt = Inr t" and "lifecycle_invar L a"
  shows "apply_transition L a t = Inr (advance a (Transition_Event t)) \<and>
         Event_NextState (Transition_Event t) = (if ok then StateRiskApproved else StateRiskRejected)"
proof -
  from assms(1) obtain e where e: "newEvent L now (Aggregate_Intent a) (if ok then EventRiskApproved else EventRiskRejected)
        StateAllocated (if ok then StateRiskApproved else StateRiskRejected) input createdAt = Inr e"
    and t: "t = transition_of (e\<lparr>Event_QuantityDelta := Aggregate_AllocatedQuantity a\<rparr>)"
      "Event_Validate L (e\<lparr>Event_QuantityDelta := Aggregate_AllocatedQuantity a\<rparr>) = None"
    and q: "Aggregate_State a = StateAllocated" "Aggregate_AllocatedQuantity a \<noteq> None"
    by (auto simp: riskTransition_def)
  from assms(2) q(1) have "Aggregate_Order a = None" by (simp add: lifecycle_invar_def)
  with newEvent_fields [OF e] t q valid_event_ordinary [OF t(2)] show ?thesis
    by (intro conjI apply_transition_intro)
      (cases ok; simp add: order_context_def validEventTransition_def apply_children_def applyRisk_def)+
qed

lemma Route_accepted:
  assumes "Route L now (Some a) input = Inr t" and "lifecycle_invar L a"
  shows "\<exists>order. Transition_Order t = Some order \<and> Order_Validate L order = None \<and>
           apply_transition L a t = Inr (advance (a\<lparr>Aggregate_Order := Some order\<rparr>) (Transition_Event t)) \<and>
           Event_NextState (Transition_Event t) = StateRouted"
proof -
  from assms(1) obtain q where q: "Aggregate_AllocatedQuantity a = Some q"
    by (cases "Aggregate_AllocatedQuantity a") (auto simp: Route_def)
  let ?order = "routed_order L (creation_time now (Route_CreatedAt input)) a q input"
  let ?e = "\<lambda>e. e\<lparr>Event_OrderID := Some (Order_ID ?order), Event_PolicyKind := Order_PolicyKind ?order,
     Event_PolicyVersion := Order_PolicyVersion ?order, Event_QuantityDelta := Some q,
     Event_QuoteSnapshotID := Some (Order_RouteQuoteSnapshotID ?order)\<rparr>"
  from assms(1) q obtain e where e: "newEvent L now (Aggregate_Intent a) EventOrderRouted StateRiskApproved StateRouted
        (Route_Event input) (creation_time now (Route_CreatedAt input)) = Inr e"
    and t: "t = (transition_of (?e e))\<lparr>Transition_Order := Some ?order\<rparr>" "Event_Validate L (?e e) = None"
    and o: "Aggregate_State a = StateRiskApproved" "Aggregate_Order a = None" "Order_Validate L ?order = None"
    by (auto simp: Route_def Let_def)
  have order: "Order_IntentID ?order = Intent_ID (Aggregate_Intent a)" "Order_AccountID ?order = Intent_AccountID (Aggregate_Intent a)"
    "Order_InstrumentID ?order = Intent_InstrumentID (Aggregate_Intent a)" "Order_Quantity ?order = \<bar>q\<bar>"
    "Order_Side ?order = sideForDelta q"
    by (simp_all add: routed_order_def Let_def)
  have "apply_transition L a t = Inr (advance (a\<lparr>Aggregate_Order := Some ?order\<rparr>) (Transition_Event t))"
    using newEvent_fields [OF e] t q o order valid_event_ordinary [OF t(2)]
    by (intro apply_transition_intro)
      (simp_all add: order_context_def validEventTransition_def apply_children_def applyRouted_def)
  with t o newEvent_fields(4) [OF e] show ?thesis by simp
qed

lemma newOrderBinding_fields:
  assumes "newOrderBinding L a order external createdAt = Inr b"
  shows "OrderBinding_Validate L b = None" "Binding_OrderID b = Order_ID order" "Binding_Venue b = Order_Venue order"
    "Binding_AccountID b = Intent_AccountID (Aggregate_Intent a)" "Binding_ExternalOrderID b = TrimSpace external"
  using assms by (auto simp: newOrderBinding_def Let_def)

lemma Acknowledge_accepted:
  assumes "Acknowledge L now (Some a) external input createdAt = Inr t"
  shows "\<exists>binding. Transition_Binding t = Some binding \<and> Binding_ExternalOrderID binding = TrimSpace external \<and>
           apply_transition L a t = Inr (advance (a\<lparr>Aggregate_Binding := Some binding\<rparr>) (Transition_Event t)) \<and>
           Event_NextState (Transition_Event t) = StateWorking"
proof -
  from assms obtain order where o: "Aggregate_Order a = Some order"
    by (cases "Aggregate_Order a") (auto simp: Acknowledge_def)
  let ?e = "\<lambda>b e. e\<lparr>Event_OrderID := Some (Order_ID order), Event_BindingID := Some (Binding_ID b),
     Event_PolicyKind := Order_PolicyKind order, Event_PolicyVersion := Order_PolicyVersion order,
     Event_QuantityDelta := Aggregate_AllocatedQuantity a\<rparr>"
  from assms o obtain b e where b: "newOrderBinding L a order external (creation_time now createdAt) = Inr b"
    and e: "newEvent L now (Aggregate_Intent a) EventOrderWorking StateRouted StateWorking input (creation_time now createdAt) = Inr e"
    and t: "t = (transition_of (?e b e))\<lparr>Transition_Binding := Some b\<rparr>" "Event_Validate L (?e b e) = None"
    and s: "Aggregate_State a = StateRouted" "Aggregate_Binding a = None"
    by (auto simp: Acknowledge_def Let_def)
  have "apply_transition L a t = Inr (advance (a\<lparr>Aggregate_Binding := Some b\<rparr>) (Transition_Event t))"
    using newEvent_fields [OF e] newOrderBinding_fields [OF b] t o s valid_event_ordinary [OF t(2)]
    by (intro apply_transition_intro)
      (simp_all add: order_context_def validEventTransition_def apply_children_def applyWorking_def)
  with t newOrderBinding_fields(5) [OF b] newEvent_fields(4) [OF e] show ?thesis by simp
qed

section \<open>Cancellation, terminal observations and failures\<close>

lemma newOrderContextEvent_fields:
  assumes "newOrderContextEvent L now a order kind next_state input createdAt = Inr e"
  shows "event_context (Aggregate_Intent a) e" "Event_Kind e = kind" "Event_PriorState e = Aggregate_State a"
    "Event_NextState e = next_state" "Event_OrderID e = Some (Order_ID order)" "Event_BindingID e = None"
    "Event_PolicyKind e = Order_PolicyKind order" "Event_PolicyVersion e = Order_PolicyVersion order"
  using assms newEvent_fields by (auto simp: newOrderContextEvent_def)

lemma RequestCancel_accepted:
  assumes "RequestCancel L now (Some a) input createdAt = Inr t"
  shows "apply_transition L a t = Inr (advance a (Transition_Event t)) \<and> Event_NextState (Transition_Event t) = Aggregate_State a"
proof -
  from assms obtain order b where o: "Aggregate_Order a = Some order" "Aggregate_Binding a = Some b"
    by (cases "Aggregate_Order a"; cases "Aggregate_Binding a") (auto simp: RequestCancel_def)
  from assms o obtain e where e: "newOrderContextEvent L now a order EventCancelRequested (Aggregate_State a) input createdAt = Inr e"
    and t: "t = transition_of (e\<lparr>Event_BindingID := Some (Binding_ID b)\<rparr>)"
      "Event_Validate L (e\<lparr>Event_BindingID := Some (Binding_ID b)\<rparr>) = None"
    and s: "Aggregate_State a = StateWorking \<or> Aggregate_State a = StatePartiallyFilled"
    by (auto simp: RequestCancel_def)
  show ?thesis
    using newOrderContextEvent_fields [OF e] t o s valid_event_ordinary [OF t(2)]
    by (intro conjI apply_transition_intro)
      (auto simp: order_context_def validEventTransition_def apply_children_def applyCancelRequested_def bound_to_def)
qed

lemma terminal_state_cases:
  "terminal_state kind = Some s \<Longrightarrow> (kind, s) \<in> {(EventOrderCancelled, StateCancelled), (EventOrderExpired, StateExpired), (EventOrderRejected, StateRejected)}"
  by (cases kind) auto

lemma ObserveOrderTerminal_accepted:
  assumes "ObserveOrderTerminal L now (Some a) kind input createdAt = Inr t" and "lifecycle_invar L a"
  shows "apply_transition L a t = Inr (advance a (Transition_Event t)) \<and>
         terminal_state kind = Some (Event_NextState (Transition_Event t))"
proof -
  from assms(1) obtain order s where o: "Aggregate_Order a = Some order" "terminal_state kind = Some s"
    by (cases "Aggregate_Order a"; cases "terminal_state kind") (auto simp: ObserveOrderTerminal_def)
  from assms(1) o obtain e where e: "newOrderContextEvent L now a order kind s input createdAt = Inr e"
    and t: "t = transition_of (e\<lparr>Event_BindingID := map_option Binding_ID (Aggregate_Binding a)\<rparr>)"
      "Event_Validate L (e\<lparr>Event_BindingID := map_option Binding_ID (Aggregate_Binding a)\<rparr>) = None"
    and v: "validEventTransition kind ObservationOrdinary (Aggregate_State a) s"
    by (auto simp: ObserveOrderTerminal_def)
  have k: "kind \<noteq> EventFillCorrectionObserved" "kind \<noteq> EventFillBustObserved" "kind \<noteq> EventOrderRouted"
    using o(2) by auto
  have "apply_children L a t = applyTerminal a t"
    using terminal_state_cases [OF o(2)] t(1) newOrderContextEvent_fields(2) [OF e] by (auto simp: apply_children_def)
  also have "\<dots> = Inr a"
    using assms(2) t(1) by (auto simp: applyTerminal_def bound_to_def lifecycle_invar_def Let_def)
  finally have c: "apply_children L a t = Inr a" .
  show ?thesis
    using newOrderContextEvent_fields [OF e] t o v k c valid_event_ordinary [OF t(2)]
    by (intro conjI apply_transition_intro) (simp_all add: order_context_def)
qed

lemma FailReconciliation_accepted:
  assumes "FailReconciliation L now (Some a) kind input createdAt = Inr t"
  shows "apply_transition L a t = Inr (advance a (Transition_Event t)) \<and>
         Event_NextState (Transition_Event t) = StateFailedReconciliation"
proof -
  let ?e = "\<lambda>e. e\<lparr>Event_QuantityDelta := Aggregate_AllocatedQuantity a,
                 Event_OrderID := map_option Order_ID (Aggregate_Order a),
                 Event_PolicyKind := (case Aggregate_Order a of None \<Rightarrow> PolicyUnset | Some order \<Rightarrow> Order_PolicyKind order),
                 Event_PolicyVersion := (case Aggregate_Order a of None \<Rightarrow> [] | Some order \<Rightarrow> Order_PolicyVersion order),
                 Event_BindingID := map_option Binding_ID (Aggregate_Binding a)\<rparr>"
  from assms obtain e where
    e: "newEvent L now (Aggregate_Intent a) kind (Aggregate_State a) StateFailedReconciliation input createdAt = Inr e"
    and t: "t = transition_of (?e e)" "Event_Validate L (?e e) = None"
    and s: "Aggregate_State a \<noteq> StateNone" "Aggregate_State a \<noteq> StateFailedReconciliation" "fail_class_check kind input = None"
    and f: "kind = EventFillCorrectionObserved \<or> kind = EventFillBustObserved \<Longrightarrow>
        opt_holds (\<lambda>i. hasFill a i (Event_OriginalSourceEventID e)) (Event_OriginalFillID e)"
    by (auto simp: FailReconciliation_def Let_def)
  have k: "kind \<in> {EventFillCorrectionObserved, EventFillBustObserved, EventUnknownVenueState, EventContradictoryVenueState}"
    using s(3) by (auto simp: fail_class_check_def split: EventKind.splits)
  have v: "validEventTransition kind (Event_ObservationClass e) (Aggregate_State a) StateFailedReconciliation"
    using k s newEvent_fields(9) [OF e] by (auto simp: fail_class_check_def validEventTransition_def)
  have c: "apply_children L a t = Inr a"
    using k t(1) f newEvent_fields(2) [OF e] by (auto simp: apply_children_def applyCorrection_def applyVenueFailure_def)
  show ?thesis
    using newEvent_fields [OF e] t v c k
    by (intro conjI apply_transition_intro) (auto simp: order_context_def split: option.splits)
qed

section \<open>Fills\<close>

text \<open>A fill is a faithful copy of its normalization on the order.\<close>

definition fill_of_normalization :: "'d Order \<Rightarrow> 'd EconomicNormalization \<Rightarrow> 'd Fill \<Rightarrow> bool" where
  "fill_of_normalization order n f \<longleftrightarrow>
     Fill_OrderID f = Order_ID order \<and> Fill_Side f = Order_Side order \<and>
     Normalization_Quantity n = Some (Fill_Quantity f) \<and> Normalization_Price n = Some (Fill_Price f) \<and>
     Fill_NormalizationID f = Normalization_ID n \<and>
     opt_holds (\<lambda>tx. Fill_LedgerTransactionID f = Transaction_ID tx) (Normalization_Transaction n) \<and>
     opt_holds (\<lambda>s. Fill_EconomicSourceEventID f = EconomicSourceEvent_ID s) (Normalization_SourceEvent n)"

lemma RecordFill_inputs:
  assumes "RecordFill L clock (Some a) input = Inr t"
  obtains order n source transaction quantity price where "Aggregate_Order a = Some order"
    and "FillInput_Normalization input = Some n" and "Normalization_SourceEvent n = Some source"
    and "Normalization_Transaction n = Some transaction" and "Normalization_Quantity n = Some quantity"
    and "Normalization_Price n = Some price"
    and "Aggregate_State a \<in> working_states"
    and "EconomicNormalization_Validate L (clock 1) n = None"
    and "validateFillNormalization L a order (FillID L (Order_ID order) (EconomicSourceEvent_ID source)) n = None"
    and "record_accepted L clock a order n source transaction quantity price input = Inr t"
proof -
  from assms obtain order q where o: "Aggregate_Order a = Some order" "Aggregate_AllocatedQuantity a = Some q"
    by (cases "Aggregate_Order a"; cases "Aggregate_AllocatedQuantity a") (auto simp: RecordFill_def)
  from assms o obtain n where n: "FillInput_Normalization input = Some n"
    by (cases "FillInput_Normalization input") (auto simp: RecordFill_def)
  from assms o n obtain source where s: "Normalization_SourceEvent n = Some source"
    by (cases "Normalization_SourceEvent n") (auto simp: RecordFill_def)
  from assms o n s have v: "EconomicNormalization_Validate L (clock 1) n = None"
    "validateFillNormalization L a order (FillID L (Order_ID order) (EconomicSourceEvent_ID source)) n = None"
    and st: "Aggregate_State a \<in> working_states"
    by (auto simp: RecordFill_def)
  from v(2) s obtain transaction quantity price where m: "Normalization_Transaction n = Some transaction"
    "Normalization_Quantity n = Some quantity" "Normalization_Price n = Some price"
    by (auto simp: validateFillNormalization_def Let_def)
  from assms o n s v st m have "record_accepted L clock a order n source transaction quantity price input = Inr t"
    by (auto simp: RecordFill_def)
  from that [OF o(1) n s m st v this] show thesis .
qed

lemma record_binding_ok:
  assumes "record_binding L a order external createdAt = Inr (new_binding, binding)" and "lifecycle_invar L a"
    and "Aggregate_State a \<in> working_states"
    and "e = Transition_Event t" "Event_Kind e = (if Aggregate_State a = StateRouted then EventFillAcknowledged else EventFillRecorded)"
    and "Event_BindingID e = Some (Binding_ID binding)" and "Transition_Binding t = new_binding"
  shows "fill_binding L a order t = Inr (Some binding)"
  using assms newOrderBinding_fields [of L a order external createdAt binding]
  by (auto simp: record_binding_def fill_binding_def bound_to_def Let_def split: if_splits option.splits
      dest!: sym [of "Some _"])

lemma recorded_fill_fields:
  "Fill_ID (recorded_fill L c a order n source tx q p) = FillID L (Order_ID order) (EconomicSourceEvent_ID source)"
  "Fill_IntentID (recorded_fill L c a order n source tx q p) = Intent_ID (Aggregate_Intent a)"
  "Fill_OrderID (recorded_fill L c a order n source tx q p) = Order_ID order"
  "Fill_AccountID (recorded_fill L c a order n source tx q p) = Intent_AccountID (Aggregate_Intent a)"
  "Fill_InstrumentID (recorded_fill L c a order n source tx q p) = Intent_InstrumentID (Aggregate_Intent a)"
  "Fill_VenueContractID (recorded_fill L c a order n source tx q p) = Order_VenueContractID order"
  "Fill_EconomicSourceEventID (recorded_fill L c a order n source tx q p) = EconomicSourceEvent_ID source"
  "Fill_NormalizationID (recorded_fill L c a order n source tx q p) = Normalization_ID n"
  "Fill_LedgerTransactionID (recorded_fill L c a order n source tx q p) = Transaction_ID tx"
  "Fill_Side (recorded_fill L c a order n source tx q p) = Order_Side order"
  "Fill_Quantity (recorded_fill L c a order n source tx q p) = q"
  "Fill_Price (recorded_fill L c a order n source tx q p) = p"
  "Fill_Source (recorded_fill L c a order n source tx q p) = EconomicSourceEvent_Source source"
  "Fill_SourceNamespace (recorded_fill L c a order n source tx q p) = EconomicSourceEvent_SourceNamespace source"
  "Fill_SourceEventID (recorded_fill L c a order n source tx q p) = EconomicSourceEvent_SourceEventID source"
  "Fill_SourceRevision (recorded_fill L c a order n source tx q p) = EconomicSourceEvent_SourceRevision source"
  "Fill_ReceivedAt (recorded_fill L c a order n source tx q p) = EconomicSourceEvent_ObservedAt source"
  by (simp_all add: recorded_fill_def)

lemma record_accepted_cases:
  assumes "record_accepted L clock a order n source transaction quantity price input = Inr t"
  obtains c f new_binding binding e where "c = creation_time (clock 2) (FillInput_CreatedAt input)"
    and "f = recorded_fill L c a order n source transaction quantity price"
    and "fill_evidence_matches L source (FillInput_Event input)" and "Fill_Validate L f = None"
    and "sumFillQuantity (Aggregate_Fills a) + quantity \<le> Order_Quantity order"
    and "record_binding L a order (FillInput_ExternalOrderID input) c = Inr (new_binding, binding)"
    and "newEvent L (clock 3) (Aggregate_Intent a)
           (if Aggregate_State a = StateRouted then EventFillAcknowledged else EventFillRecorded) (Aggregate_State a)
           (if sumFillQuantity (Aggregate_Fills a) + quantity = Order_Quantity order then StateFilled else StatePartiallyFilled)
           (FillInput_Event input) c = Inr e"
    and "Transition_Event t = e\<lparr>Event_OrderID := Some (Order_ID order), Event_BindingID := Some (Binding_ID binding),
           Event_FillID := Some (Fill_ID f), Event_PolicyKind := Order_PolicyKind order,
           Event_PolicyVersion := Order_PolicyVersion order, Event_QuantityDelta := Aggregate_AllocatedQuantity a,
           Event_CumulativeFillQuantity := Some (sumFillQuantity (Aggregate_Fills a) + quantity)\<rparr>"
    and "Transition_Order t = None" and "Transition_Binding t = new_binding" and "Transition_Fill t = Some f"
    and "Transition_Normalization t = Some n" and "Event_Validate L (Transition_Event t) = None"
  using assms by (auto simp: record_accepted_def recorded_fill_fields Let_def not_less)

lemma RecordFill_accepted:
  assumes "RecordFill L clock (Some a) input = Inr t" and "lifecycle_invar L a"
  shows "\<exists>order n f binding. Aggregate_Order a = Some order \<and> FillInput_Normalization input = Some n \<and>
           EconomicNormalization_Validate L (clock 1) n = None \<and>
           Transition_Fill t = Some f \<and> fill_of_normalization order n f \<and>
           apply_transition L a t =
             Inr (advance (a\<lparr>Aggregate_Binding := Some binding, Aggregate_Fills := Aggregate_Fills a @ [f]\<rparr>) (Transition_Event t)) \<and>
           Event_NextState (Transition_Event t) =
             (if sumFillQuantity (Aggregate_Fills a) + Fill_Quantity f = Order_Quantity order then StateFilled else StatePartiallyFilled)"
proof -
  from assms(1) obtain order n source transaction quantity price where o: "Aggregate_Order a = Some order"
    and n: "FillInput_Normalization input = Some n" "Normalization_SourceEvent n = Some source"
      "Normalization_Transaction n = Some transaction" "Normalization_Quantity n = Some quantity" "Normalization_Price n = Some price"
    and w: "Aggregate_State a \<in> working_states"
    and v: "EconomicNormalization_Validate L (clock 1) n = None"
      "validateFillNormalization L a order (FillID L (Order_ID order) (EconomicSourceEvent_ID source)) n = None"
    and r: "record_accepted L clock a order n source transaction quantity price input = Inr t"
    by (rule RecordFill_inputs)
  show ?thesis
  proof (rule record_accepted_cases [OF r])
    fix c f new_binding binding e
    assume f: "f = recorded_fill L c a order n source transaction quantity price"
      and m: "fill_evidence_matches L source (FillInput_Event input)" and fv: "Fill_Validate L f = None"
      and sum: "sumFillQuantity (Aggregate_Fills a) + quantity \<le> Order_Quantity order"
      and b: "record_binding L a order (FillInput_ExternalOrderID input) c = Inr (new_binding, binding)"
      and e: "newEvent L (clock 3) (Aggregate_Intent a)
           (if Aggregate_State a = StateRouted then EventFillAcknowledged else EventFillRecorded) (Aggregate_State a)
           (if sumFillQuantity (Aggregate_Fills a) + quantity = Order_Quantity order then StateFilled else StatePartiallyFilled)
           (FillInput_Event input) c = Inr e"
      and t: "Transition_Event t = e\<lparr>Event_OrderID := Some (Order_ID order), Event_BindingID := Some (Binding_ID binding),
           Event_FillID := Some (Fill_ID f), Event_PolicyKind := Order_PolicyKind order,
           Event_PolicyVersion := Order_PolicyVersion order, Event_QuantityDelta := Aggregate_AllocatedQuantity a,
           Event_CumulativeFillQuantity := Some (sumFillQuantity (Aggregate_Fills a) + quantity)\<rparr>"
        "Transition_Order t = None" "Transition_Binding t = new_binding" "Transition_Fill t = Some f"
        "Transition_Normalization t = Some n" "Event_Validate L (Transition_Event t) = None"
    note ne = newEvent_fields [OF e] and rf = recorded_fill_fields [of L c a order n source transaction quantity price, folded f]
    have bind: "fill_binding L a order t = Inr (Some binding)"
      by (rule record_binding_ok [OF b assms(2) w refl]) (simp_all add: t ne)
    have links: "fill_links (Transition_Event t) f n source transaction"
      using m by (simp add: fill_links_def t(1) ne rf fill_evidence_matches_def time_Equal_def)
    have fill: "applyFillEvent L a t = Inr (a\<lparr>Aggregate_Binding := Some binding, Aggregate_Fills := Aggregate_Fills a @ [f]\<rparr>)"
      using o n v(2) fv links bind sum by (simp add: applyFillEvent_def t(2-5) rf) (simp add: t(1) ne rf Let_def)
    have "apply_transition L a t =
       Inr (advance (a\<lparr>Aggregate_Binding := Some binding, Aggregate_Fills := Aggregate_Fills a @ [f]\<rparr>) (Transition_Event t))"
    proof (rule apply_transition_intro [OF t(6)])
      show "apply_children L a t = Inr (a\<lparr>Aggregate_Binding := Some binding, Aggregate_Fills := Aggregate_Fills a @ [f]\<rparr>)"
        using fill by (simp add: apply_children_def t(1) ne)
      show "validEventTransition (Event_Kind (Transition_Event t)) (Event_ObservationClass (Transition_Event t))
          (Aggregate_State a) (Event_NextState (Transition_Event t))"
        using valid_event_ordinary [OF t(6)] w by (auto simp: t(1) ne validEventTransition_def)
    qed (simp_all add: t(1) ne o order_context_def)
    moreover have "fill_of_normalization order n f" by (simp add: fill_of_normalization_def rf n)
    ultimately show ?thesis using o n(1) v(1) t(4) by (auto simp: t(1) ne rf)
  qed
qed

section \<open>All commands\<close>

inductive issued :: "('d::linordered_idom) lib \<Rightarrow> 'd Aggregate \<Rightarrow> 'd Transition \<Rightarrow> bool" for L a t where
  allocate: "Allocate L now (Some a) quantity input createdAt = Inr t \<Longrightarrow> issued L a t"
| approve: "ApproveRisk L now (Some a) input createdAt = Inr t \<Longrightarrow> issued L a t"
| reject: "RejectRisk L now (Some a) input createdAt = Inr t \<Longrightarrow> issued L a t"
| route: "Route L now (Some a) route_input = Inr t \<Longrightarrow> issued L a t"
| acknowledge: "Acknowledge L now (Some a) external input createdAt = Inr t \<Longrightarrow> issued L a t"
| record_fill: "RecordFill L clock (Some a) fill_input = Inr t \<Longrightarrow> issued L a t"
| request_cancel: "RequestCancel L now (Some a) input createdAt = Inr t \<Longrightarrow> issued L a t"
| observe_terminal: "ObserveOrderTerminal L now (Some a) kind input createdAt = Inr t \<Longrightarrow> issued L a t"
| fail_reconciliation: "FailReconciliation L now (Some a) kind input createdAt = Inr t \<Longrightarrow> issued L a t"

lemma issued_accepted:
  assumes "issued L a t" and "lifecycle_invar L a"
  shows "\<exists>b. apply_transition L a t = Inr (advance b (Transition_Event t))"
  using assms(1)
proof cases
  case allocate
  then show ?thesis by (blast dest: Allocate_accepted [OF _ assms(2)])
next
  case approve
  then show ?thesis unfolding ApproveRisk_def by (blast dest: riskTransition_accepted [OF _ assms(2)])
next
  case reject
  then show ?thesis unfolding RejectRisk_def by (blast dest: riskTransition_accepted [OF _ assms(2)])
next
  case route
  then show ?thesis by (blast dest: Route_accepted [OF _ assms(2)])
next
  case acknowledge
  then show ?thesis by (blast dest: Acknowledge_accepted)
next
  case record_fill
  then show ?thesis by (blast dest: RecordFill_accepted [OF _ assms(2)])
next
  case request_cancel
  then show ?thesis by (blast dest: RequestCancel_accepted)
next
  case observe_terminal
  then show ?thesis by (blast dest: ObserveOrderTerminal_accepted [OF _ assms(2)])
next
  case fail_reconciliation
  then show ?thesis by (blast dest: FailReconciliation_accepted)
qed

section \<open>Nil dereferences\<close>

lemma first_err_Cons_Some: "first_err (x # xs) = Some e \<longleftrightarrow> x = Some e \<or> x = None \<and> first_err xs = Some e"
  by (cases x) auto

lemma wrap_eq_Inl: "wrap f r = Inl e \<longleftrightarrow> (\<exists>x. r = Inl x \<and> e = f x)"
  by (auto simp: wrap_def split: sum.splits)

lemma record_binding_not_panic: "record_binding L a order external c \<noteq> Inl LifecyclePanic"
  by (auto simp: record_binding_def wrap_eq_Inl Let_def split: option.splits)

lemma record_accepted_not_panic: "record_accepted L clock a order n source transaction quantity price input \<noteq> Inl LifecyclePanic"
  by (auto simp: record_accepted_def first_err_Cons_Some wrap_eq_Inl record_binding_not_panic emit_def Let_def)

lemma validateFillNormalization_not_panic:
  "Normalization_SourceEvent n = Some source \<Longrightarrow> validateFillNormalization L a order i n \<noteq> Some LifecyclePanic"
  by (auto simp: validateFillNormalization_def first_err_Cons_Some Let_def)

lemma validateFillNormalization_parts:
  "Normalization_SourceEvent n = Some source \<Longrightarrow> validateFillNormalization L a order i n = None \<Longrightarrow>
   \<exists>transaction quantity price. Normalization_Transaction n = Some transaction \<and> Normalization_Quantity n = Some quantity \<and>
     Normalization_Price n = Some price"
  by (auto simp: validateFillNormalization_def Let_def)

lemma RecordFill_not_panic: "RecordFill L clock aggregate input \<noteq> Inl LifecyclePanic"
proof (cases aggregate)
  case (Some a)
  show ?thesis
  proof (cases "Aggregate_Order a"; cases "Aggregate_AllocatedQuantity a"; cases "FillInput_Normalization input")
    fix order allocated n
    assume o: "Aggregate_Order a = Some order" "Aggregate_AllocatedQuantity a = Some allocated" "FillInput_Normalization input = Some n"
    show ?thesis
    proof (cases "Normalization_SourceEvent n")
      case source: (Some source)
      note parts = validateFillNormalization_parts [OF source]
      show ?thesis
        using o source
        by (auto simp: Some RecordFill_def first_err_Cons_Some validateFillNormalization_not_panic record_accepted_not_panic
            dest!: parts)
    qed (use o in \<open>auto simp: Some RecordFill_def\<close>)
  qed (auto simp: Some RecordFill_def)
qed (simp add: RecordFill_def)

section \<open>What a fill transition does not check\<close>

lemma Event_Validate_fill_update:
  assumes "Event_Validate L e = None" and "is_fill_kind (Event_Kind e)" and "s \<noteq> StateNone"
  shows "Event_Validate L (e\<lparr>Event_CumulativeFillQuantity := Some q, Event_NextState := s\<rparr>) = None"
  using assms
  by (auto simp: Event_Validate_def event_class_checks_def event_components_def split: ObservationClass.splits)

definition with_fill :: "('d::linordered_idom) Aggregate \<Rightarrow> 'd Order \<Rightarrow> 'd Fill \<Rightarrow> 'd Transition \<Rightarrow> 'd Transition" where
  "with_fill a order f t =
    (let cumulative = sumFillQuantity (Aggregate_Fills a) + Fill_Quantity f in
     t\<lparr>Transition_Fill := Some f,
       Transition_Event := (Transition_Event t)\<lparr>Event_CumulativeFillQuantity := Some cumulative,
         Event_NextState := (if cumulative = Order_Quantity order then StateFilled else StatePartiallyFilled)\<rparr>\<rparr>)"

lemma apply_other_quantity:
  assumes "apply_transition L a t = Inr a'" and "is_fill_kind (Event_Kind (Transition_Event t))"
    and "Aggregate_Order a = Some order" and "Transition_Fill t = Some f"
    and "f' = f\<lparr>Fill_Quantity := q, Fill_Price := p, Fill_Side := side\<rparr>" and "Fill_Validate L f' = None"
    and "sumFillQuantity (Aggregate_Fills a) + q \<le> Order_Quantity order"
  shows "\<exists>a''. apply_transition L a (with_fill a order f' t) = Inr a'' \<and> Aggregate_Fills a'' = Aggregate_Fills a @ [f']"
proof -
  from assms(1-4) have fe: "\<exists>b. applyFillEvent L a t = Inr b"
    by (auto simp: apply_transition_def apply_children_def is_fill_kind_def Let_def)
  then obtain n source transaction where n: "Transition_Normalization t = Some n" "Normalization_SourceEvent n = Some source"
      "Normalization_Transaction n = Some transaction"
    using assms(3,4) by (cases "Transition_Normalization t"; cases "Normalization_SourceEvent (the (Transition_Normalization t))";
        cases "Normalization_Transaction (the (Transition_Normalization t))") (auto simp: applyFillEvent_def Let_def)
  from fe assms(3,4) n obtain bind where b: "fill_binding L a order t = Inr bind"
    by (auto simp: applyFillEvent_def Let_def)
  have b': "fill_binding L a order (with_fill a order f' t) = Inr bind"
    using b by (cases "Transition_Binding t") (auto simp: fill_binding_def with_fill_def bound_to_def Let_def split: if_splits)
  have "applyFillEvent L a (with_fill a order f' t) = Inr (a\<lparr>Aggregate_Binding := bind, Aggregate_Fills := Aggregate_Fills a @ [f']\<rparr>)"
    using fe assms(3-7) n b'
    by (auto simp: applyFillEvent_def with_fill_def Let_def fill_links_def)
  then have children: "apply_children L a (with_fill a order f' t) =
      Inr (a\<lparr>Aggregate_Binding := bind, Aggregate_Fills := Aggregate_Fills a @ [f']\<rparr>)"
    using assms(2) by (auto simp: apply_children_def is_fill_kind_def with_fill_def Let_def)
  have "apply_transition L a (with_fill a order f' t) =
     Inr (advance (a\<lparr>Aggregate_Binding := bind, Aggregate_Fills := Aggregate_Fills a @ [f']\<rparr>) (Transition_Event (with_fill a order f' t)))"
  proof (rule apply_transition_intro [OF _ _ _ _ _ children])
    show "Event_Validate L (Transition_Event (with_fill a order f' t)) = None"
      using assms(1,2) by (auto simp: with_fill_def apply_transition_def Let_def intro!: Event_Validate_fill_update)
    show "validEventTransition (Event_Kind (Transition_Event (with_fill a order f' t)))
       (Event_ObservationClass (Transition_Event (with_fill a order f' t))) (Aggregate_State a)
       (Event_NextState (Transition_Event (with_fill a order f' t)))"
      using assms(1,2) by (auto simp: with_fill_def apply_transition_def validEventTransition_def is_fill_kind_def Let_def split: if_splits)
  qed (use assms(1,3) in \<open>auto simp: with_fill_def apply_transition_def event_context_def order_context_def Let_def\<close>)
  then show ?thesis by (simp add: advance_def)
qed

lemma apply_without_source_panics:
  assumes "apply_transition L a t = Inr a'" and "is_fill_kind (Event_Kind (Transition_Event t))"
    and "Transition_Normalization t = Some n"
  shows "apply_transition L a (t\<lparr>Transition_Normalization := Some (n\<lparr>Normalization_SourceEvent := None\<rparr>)\<rparr>) = Inl LifecyclePanic"
proof -
  from assms(1,2) have "\<exists>b. applyFillEvent L a t = Inr b"
    by (auto simp: apply_transition_def apply_children_def is_fill_kind_def Let_def)
  then have "applyFillEvent L a (t\<lparr>Transition_Normalization := Some (n\<lparr>Normalization_SourceEvent := None\<rparr>)\<rparr>) = Inl LifecyclePanic"
    using assms(3) by (cases "Aggregate_Order a"; cases "Transition_Fill t")
      (auto simp: applyFillEvent_def validateFillNormalization_def first_err_Cons_Some Let_def)
  with assms(1,2) show ?thesis
    by (auto simp: apply_transition_def apply_children_def is_fill_kind_def Let_def)
qed

end
