(* ===== verification/Lifecycle_Demo.thy ===== *)
theory Lifecycle_Demo
  imports Lifecycle_Acceptance Ledger_Balance
begin

text \<open>
  A concrete order lifecycle, for evaluating the model: an intent to buy 10 units of which 8 are allocated,
  approved, routed and acknowledged, and then filled by 3 units at 25.  The stand-in hash keeps the last five
  characters of its input, so events with different source identifiers have different identities.
\<close>

definition demo_hash_lib :: "int lib" where
  "demo_hash_lib = demo_lib\<lparr>sha256_Sum256 :=
     (\<lambda>s. replicate 11 (CHR 0x00) @ take 5 (rev s @ ''.....'') @ ''................'')\<rparr>"

definition demo_empty_sha :: string where
  "demo_empty_sha = ''00000000000000000000007d7b2e2e2e2e2e2e2e2e2e2e2e2e2e2e2e2e2e2e2e''"

definition demo_event_input :: "string \<Rightarrow> EventInput" where
  "demo_event_input k =
    \<lparr>EventInput_Source = ''alpaca'', EventInput_SourceNamespace = ''fills'', EventInput_SourceEventID = k,
     EventInput_SourceRevision = [], EventInput_ObservationClass = ObservationUnset,
     EventInput_ObservationDiscriminator = [], EventInput_SourceAt = demo_time 20, EventInput_ReceivedAt = demo_time 20,
     EventInput_Actor = ''a'', EventInput_ReasonCode = ''r'', EventInput_Reason = [], EventInput_Evidence = ''{}'',
     EventInput_OriginalFillID = None, EventInput_OriginalSourceEventID = []\<rparr>"

definition demo_proposal :: "int ProposeInput" where
  "demo_proposal =
    \<lparr>Propose_Account = demo_account AccountEnvironmentPaperScored ''paper_scored/a'' MarginProfileCash,
     Propose_Instrument = demo_instrument, Propose_DecisionSnapshot = demo_quote, Propose_IdempotencyKey = ''k1'',
     Propose_DesiredQuantityDelta = 10, Propose_DecisionAt = demo_time 16, Propose_OriginType = ExecutionOriginOperator,
     Propose_OriginID = ''op'', Propose_StrategyVersionID = [], Propose_Metadata = ''{}'',
     Propose_Event = demo_event_input ''p'', Propose_CreatedAt = demo_time 30\<rparr>"

definition demo_route :: "int RouteInput" where
  "demo_route =
    \<lparr>Route_OrderIdempotencyKey = ''ok'', Route_Instrument = demo_instrument, Route_VenueContract = demo_contract,
     Route_RouteSnapshot = demo_quote, Route_QuoteRequirements = demo_requirements, Route_OrderType = OrderMarket,
     Route_TimeInForce = TimeInForceDay, Route_LimitPrice = None, Route_StopPrice = None,
     Route_PolicyKind = PolicySimulation, Route_PolicyVersion = ''v'', Route_Event = demo_event_input ''r'',
     Route_RoutedAt = demo_time 20, Route_CreatedAt = demo_time 30\<rparr>"

definition demo_intent :: "int Intent" where
  "demo_intent =
    \<lparr>Intent_ID = 212252373535, Intent_AccountID = 7, Intent_Environment = AccountEnvironmentPaperScored,
     Intent_InstrumentID = 2, Intent_IdempotencyKey = ''k1'', Intent_DesiredQuantityDelta = 10,
     Intent_DecisionQuoteSnapshotID = 1, Intent_DecisionAt = demo_time 16, Intent_OriginType = ExecutionOriginOperator,
     Intent_OriginID = ''op'', Intent_StrategyVersionID = [], Intent_Metadata = ''{}'', Intent_CreatedAt = demo_time 30\<rparr>"

definition demo_event :: "uuid \<Rightarrow> string \<Rightarrow> EventKind \<Rightarrow> State \<Rightarrow> State \<Rightarrow> int \<Rightarrow> int Event" where
  "demo_event i key kind prior next_state q =
    \<lparr>Event_ID = i, Event_IngestSequence = 0, Event_IntentID = 212252373535, Event_OrderID = None,
     Event_BindingID = None, Event_FillID = None, Event_Kind = kind, Event_ObservationClass = ObservationOrdinary,
     Event_ObservationDiscriminator = [], Event_PriorState = prior, Event_NextState = next_state, Event_AccountID = 7,
     Event_Environment = AccountEnvironmentPaperScored, Event_OriginType = ExecutionOriginOperator,
     Event_OriginID = ''op'', Event_StrategyVersionID = [], Event_PolicyKind = PolicyUnset, Event_PolicyVersion = [],
     Event_QuantityDelta = Some q, Event_CumulativeFillQuantity = None, Event_QuoteSnapshotID = None,
     Event_Source = ''alpaca'', Event_SourceNamespace = ''fills'', Event_SourceEventID = key, Event_SourceRevision = [],
     Event_SourceAt = demo_time 20, Event_ReceivedAt = demo_time 20, Event_Actor = ''a'', Event_ReasonCode = ''r'',
     Event_Reason = [], Event_Evidence = ''{}'', Event_EvidenceSHA256 = demo_empty_sha, Event_OriginalFillID = None,
     Event_OriginalSourceEventID = [], Event_CreatedAt = demo_time 30\<rparr>"

definition demo_order_event :: "int Event \<Rightarrow> int Event" where
  "demo_order_event e =
    e\<lparr>Event_OrderID := Some 461427585567, Event_PolicyKind := PolicySimulation, Event_PolicyVersion := ''v''\<rparr>"

definition demo_order :: "int Order" where
  "demo_order =
    \<lparr>Order_ID = 461427585567, Order_IntentID = 212252373535, Order_AccountID = 7, Order_InstrumentID = 2,
     Order_IdempotencyKey = ''ok'', Order_ClientOrderID = ''461427585567'', Order_Side = SideBuy,
     Order_OrderType = OrderMarket, Order_TimeInForce = TimeInForceDay, Order_Quantity = 8, Order_LimitPrice = None,
     Order_StopPrice = None, Order_Venue = ''alpaca'', Order_VenueContractID = 3, Order_RouteQuoteSnapshotID = 1,
     Order_RoutedAt = demo_time 20, Order_PolicyKind = PolicySimulation, Order_PolicyVersion = ''v'',
     Order_CreatedAt = demo_time 30\<rparr>"

definition demo_binding :: OrderBinding where
  "demo_binding =
    \<lparr>Binding_ID = 237132657976, Binding_OrderID = 461427585567, Binding_AccountID = 7, Binding_Venue = ''alpaca'',
     Binding_ExternalOrderID = ''x1'', Binding_CreatedAt = demo_time 30\<rparr>"

definition demo_execution_event :: EconomicSourceEvent where
  "demo_execution_event = demo_source_event
    \<lparr>EconomicSourceEvent_ID := 439062962035, EconomicSourceEvent_SourceEventID := ''f'',
     EconomicSourceEvent_PayloadSHA256 := demo_empty_sha\<rparr>"

definition demo_execution_posting :: "uuid \<Rightarrow> string \<Rightarrow> string \<Rightarrow> UnitKind \<Rightarrow> string \<Rightarrow> int \<Rightarrow> int Posting" where
  "demo_execution_posting i key account kind unit amount =
    \<lparr>Posting_ID = i, Posting_TransactionID = 212436922911, Posting_IdempotencyKey = key, Posting_LedgerAccount = account,
     Posting_UnitKind = kind, Posting_Unit = unit, Posting_Amount = amount, Posting_Metadata = ''{}'',
     Posting_CreatedAt = demo_time 22\<rparr>"

definition demo_execution_transaction :: "int Transaction" where
  "demo_execution_transaction =
    \<lparr>Transaction_ID = 212436922911, Transaction_AccountID = 7, Transaction_EventType = ''fill.buy'',
     Transaction_IdempotencyKey = ''economic-source-event:439062962035'',
     Transaction_OriginType = ''economic_source_event'', Transaction_OriginID = ''439062962035'',
     Transaction_ReferenceType = ''execution_fill'', Transaction_ReferenceID = ''228492063286'',
     Transaction_EffectiveAt = demo_time 19, Transaction_ObservedAt = demo_time 20, Transaction_Metadata = ''{}'',
     Transaction_Postings =
       [demo_execution_posting 521610949742 ''inventory'' ''asset:security_inventory'' UnitKindInstrument ''2'' 3,
        demo_execution_posting 521610949742 ''clearing-inventory'' ''clearing:execution'' UnitKindInstrument ''2'' (- 3),
        demo_execution_posting 448612361005 ''gross-cash'' ''asset:cash'' UnitKindCurrency ''USD'' (- 75),
        demo_execution_posting 448612361005 ''clearing-gross-cash'' ''clearing:execution'' UnitKindCurrency ''USD'' 75],
     Transaction_CreatedAt = demo_time 22\<rparr>"

definition demo_execution :: "int EconomicNormalization" where
  "demo_execution = (demo_normalization EconomicEventFillBuy)
    \<lparr>Normalization_ID := 212436922911, Normalization_SourceEvent := Some demo_execution_event,
     Normalization_ReferenceType := ''execution_fill'', Normalization_ReferenceID := ''228492063286'',
     Normalization_Quantity := Some 3, Normalization_Price := Some 25,
     Normalization_Transaction := Some demo_execution_transaction\<rparr>"

definition demo_fill :: "int Fill" where
  "demo_fill =
    \<lparr>Fill_ID = 228492063286, Fill_IntentID = 212252373535, Fill_OrderID = 461427585567, Fill_AccountID = 7,
     Fill_InstrumentID = 2, Fill_VenueContractID = 3, Fill_EconomicSourceEventID = 439062962035,
     Fill_NormalizationID = 212436922911, Fill_LedgerTransactionID = 212436922911, Fill_Side = SideBuy,
     Fill_Quantity = 3, Fill_Price = 25, Fill_Source = ''alpaca'', Fill_SourceNamespace = ''fills'',
     Fill_SourceEventID = ''f'', Fill_SourceRevision = [], Fill_EffectiveAt = demo_time 19,
     Fill_ReceivedAt = demo_time 20, Fill_CreatedAt = demo_time 30\<rparr>"

section \<open>The transitions\<close>

definition demo_proposed_event :: "int Event" where
  "demo_proposed_event = (demo_event 249915469882 ''p'' EventIntentProposed StateNone StateProposed 10)
     \<lparr>Event_QuoteSnapshotID := Some 1\<rparr>"

definition demo_allocation :: "int Transition" where
  "demo_allocation = transition_of (demo_event 249915466042 ''a'' EventIntentAllocated StateProposed StateAllocated 8)"

definition demo_approval :: "int Transition" where
  "demo_approval = transition_of (demo_event 249915466298 ''b'' EventRiskApproved StateAllocated StateRiskApproved 8)"

definition demo_routing :: "int Transition" where
  "demo_routing = (transition_of ((demo_order_event
       (demo_event 249915470394 ''r'' EventOrderRouted StateRiskApproved StateRouted 8))\<lparr>Event_QuoteSnapshotID := Some 1\<rparr>))
     \<lparr>Transition_Order := Some demo_order\<rparr>"

definition demo_acknowledgement :: "int Transition" where
  "demo_acknowledgement = (transition_of ((demo_order_event
       (demo_event 249915471674 ''w'' EventOrderWorking StateRouted StateWorking 8))\<lparr>Event_BindingID := Some 237132657976\<rparr>))
     \<lparr>Transition_Binding := Some demo_binding\<rparr>"

definition demo_fill_event :: "int \<Rightarrow> State \<Rightarrow> int Event" where
  "demo_fill_event q next_state = (demo_order_event (demo_event 249915467322 ''f'' EventFillRecorded StateWorking next_state 8))
     \<lparr>Event_BindingID := Some 237132657976, Event_FillID := Some 228492063286, Event_CumulativeFillQuantity := Some q\<rparr>"

definition demo_execution_fill :: "int Transition" where
  "demo_execution_fill = \<lparr>Transition_Event = demo_fill_event 3 StatePartiallyFilled, Transition_Order = None, Transition_Binding = None,
     Transition_Fill = Some demo_fill, Transition_Normalization = Some demo_execution\<rparr>"

section \<open>The aggregates\<close>

definition demo_proposed :: "int Aggregate" where
  "demo_proposed = \<lparr>Aggregate_Intent = demo_intent, Aggregate_State = StateProposed, Aggregate_AllocatedQuantity = None,
     Aggregate_Order = None, Aggregate_Binding = None, Aggregate_Fills = [], Aggregate_Events = [demo_proposed_event]\<rparr>"

definition demo_allocated :: "int Aggregate" where
  "demo_allocated = advance (demo_proposed\<lparr>Aggregate_AllocatedQuantity := Some 8\<rparr>) (Transition_Event demo_allocation)"

definition demo_approved :: "int Aggregate" where
  "demo_approved = advance demo_allocated (Transition_Event demo_approval)"

definition demo_routed :: "int Aggregate" where
  "demo_routed = advance (demo_approved\<lparr>Aggregate_Order := Some demo_order\<rparr>) (Transition_Event demo_routing)"

definition demo_working :: "int Aggregate" where
  "demo_working = advance (demo_routed\<lparr>Aggregate_Binding := Some demo_binding\<rparr>) (Transition_Event demo_acknowledgement)"

definition demo_partial :: "int Aggregate" where
  "demo_partial = advance (demo_working\<lparr>Aggregate_Fills := [demo_fill]\<rparr>) (Transition_Event demo_execution_fill)"

definition demo_transitions :: "int Transition list" where
  "demo_transitions = [transition_of demo_proposed_event, demo_allocation, demo_approval, demo_routing,
     demo_acknowledgement, demo_execution_fill]"

definition demo_fill_command :: "int FillInput" where
  "demo_fill_command = \<lparr>FillInput_Normalization = Some demo_execution, FillInput_ExternalOrderID = [],
     FillInput_Event = demo_event_input ''f'', FillInput_CreatedAt = demo_time 30\<rparr>"

section \<open>A rejected intent\<close>

definition demo_rejection :: "int Transition" where
  "demo_rejection = transition_of (demo_event 249915466298 ''b'' EventRiskRejected StateAllocated StateRiskRejected 8)"

definition demo_rejected :: "int Aggregate" where
  "demo_rejected = advance demo_allocated (Transition_Event demo_rejection)"

definition demo_failure :: "int Transition" where
  "demo_failure = transition_of
     (demo_event 249915471674 ''w'' EventUnknownVenueState StateRiskRejected StateFailedReconciliation 8)"

section \<open>The runs\<close>

lemma demo_lifecycle_runs:
  "Replay demo_hash_lib 7 demo_intent demo_transitions = Inr demo_partial \<and>
   RecordFill demo_hash_lib (\<lambda>i. demo_time 31) (Some demo_working) demo_fill_command = Inr demo_execution_fill \<and>
   Replay demo_hash_lib 7 demo_intent [transition_of demo_proposed_event, demo_allocation, demo_rejection] = Inr demo_rejected \<and>
   ApplyTransition demo_hash_lib (Some demo_rejected) (Some demo_failure) = Inr (advance demo_rejected (Transition_Event demo_failure))"
  by code_simp

lemmas demo_lifecycle_replay = demo_lifecycle_runs [THEN conjunct1]
lemmas demo_record = demo_lifecycle_runs [THEN conjunct2, THEN conjunct1]
lemmas demo_rejected_replay = demo_lifecycle_runs [THEN conjunct2, THEN conjunct2, THEN conjunct1]
lemmas demo_failed = demo_lifecycle_runs [THEN conjunct2, THEN conjunct2, THEN conjunct2]

section \<open>The invariant on the concrete aggregates\<close>

lemmas demo_aggregate_defs = demo_partial_def demo_working_def demo_routed_def demo_approved_def demo_allocated_def
  demo_proposed_def advance_def

lemmas demo_fact_defs = demo_intent_def demo_order_def demo_binding_def demo_fill_def demo_execution_fill_def
  demo_fill_event_def demo_acknowledgement_def demo_routing_def demo_approval_def demo_allocation_def
  demo_proposed_event_def demo_order_event_def demo_event_def

lemma demo_working_invar: "lifecycle_invar demo_hash_lib demo_working"
  by (simp add: lifecycle_invar_def demo_aggregate_defs demo_fact_defs validEventTransition_def binding_ok_def
      allocation_within_def order_of_allocation_def validExactDecimal_def demo_hash_lib_def demo_lib_def
      sideForDelta_def approved_def fill_events_def is_fill_kind_def)

end
