(* ===== verification/Lifecycle_Properties.thy ===== *)
theory Lifecycle_Properties
  imports Lifecycle_Demo
begin

text \<open>
  The properties of the order lifecycle, each evaluated on the concrete lifecycle of \<open>Lifecycle_Demo\<close>.
\<close>

section \<open>Replay\<close>

text \<open>
  C12: an order is never over-filled.  In every aggregate that \<open>Replay\<close> rebuilds, the order has exactly the
  allocated magnitude and direction, the allocation stays within the proposed intent, the recorded fills are
  positive, belong to the order and sum to the fill quantities of the replayed transitions; the sum never exceeds
  the order quantity, equals it in the filled state, and is below it while the order is partially filled or after
  it was cancelled, expired or rejected.
\<close>

theorem replayed_order_never_overfilled:
  assumes "Replay L accountID intent transitions = Inr a" and "Aggregate_Order a = Some order"
  shows "(\<exists>q. Aggregate_AllocatedQuantity a = Some q \<and> Order_Quantity order = \<bar>q\<bar> \<and> Order_Side order = sideForDelta q \<and>
      sgn q = sgn (Intent_DesiredQuantityDelta intent) \<and> \<bar>q\<bar> \<le> \<bar>Intent_DesiredQuantityDelta intent\<bar>) \<and>
    list_all (\<lambda>f. 0 < Fill_Quantity f \<and> Fill_OrderID f = Order_ID order) (Aggregate_Fills a) \<and>
    sumFillQuantity (Aggregate_Fills a) = sum_list (map fill_delta (tl transitions)) \<and>
    sumFillQuantity (Aggregate_Fills a) \<le> Order_Quantity order \<and>
    (Aggregate_State a = StateFilled \<longrightarrow> sumFillQuantity (Aggregate_Fills a) = Order_Quantity order) \<and>
    (Aggregate_State a \<in> {StatePartiallyFilled, StateCancelled, StateExpired, StateRejected} \<longrightarrow>
      sumFillQuantity (Aggregate_Fills a) < Order_Quantity order)"
  using Replay_invar(1,2,5) [OF assms(1)] assms(2)
  by (auto simp: lifecycle_invar_def order_of_allocation_def allocation_within_def list_all_iff)

lemma replayed_order_never_overfilled_witness:
  "Replay demo_hash_lib 7 demo_intent demo_transitions = Inr demo_partial \<and> Aggregate_State demo_partial = StatePartiallyFilled \<and>
   sumFillQuantity (Aggregate_Fills demo_partial) < Order_Quantity demo_order"
proof -
  have "Aggregate_Order demo_partial = Some demo_order" "Aggregate_State demo_partial = StatePartiallyFilled"
    by (simp_all add: demo_aggregate_defs demo_execution_fill_def demo_fill_event_def demo_order_event_def demo_event_def)
  with replayed_order_never_overfilled [OF demo_lifecycle_replay] demo_lifecycle_replay show ?thesis by simp
qed

text \<open>
  C13: no order without risk approval.  When a replayed aggregate has an order, its history contains a risk approval
  for exactly the allocated quantity, and the events after the proposal form a path of the state machine from the
  proposed state to the current one.
\<close>

theorem order_requires_risk_approval:
  assumes "Replay L accountID intent transitions = Inr a" and "Aggregate_Order a \<noteq> None"
  shows "(\<exists>e \<in> set (Aggregate_Events a). Event_Kind e = EventRiskApproved \<and>
            Event_QuantityDelta e = Aggregate_AllocatedQuantity a) \<and>
         event_path StateProposed (tl (Aggregate_Events a)) (Aggregate_State a)"
  using Replay_invar(1) [OF assms(1)] assms(2) by (auto simp: lifecycle_invar_def approved_def list_ex_iff)

lemma order_requires_risk_approval_witness:
  "Replay demo_hash_lib 7 demo_intent demo_transitions = Inr demo_partial \<and>
   (\<exists>e \<in> set (Aggregate_Events demo_partial). Event_Kind e = EventRiskApproved)"
proof -
  have "Aggregate_Order demo_partial \<noteq> None" by (simp add: demo_aggregate_defs)
  from order_requires_risk_approval [OF demo_lifecycle_replay this] demo_lifecycle_replay show ?thesis by blast
qed

text \<open>
  C14: the lifecycle refines a small state machine.  The state of a replayed aggregate is reachable in the abstract
  machine \<open>lifecycle_step\<close>, every further accepted transition is one of its steps, and from a rejected, filled,
  cancelled or expired lifecycle the only accepted transition is the one to the reconciliation failure, which keeps
  the order, the binding and the fills and is itself final.
\<close>

theorem lifecycle_refines_state_machine:
  assumes "Replay L accountID intent transitions = Inr a" and "ApplyTransition L (Some a) (Some t) = Inr a'"
  shows "lifecycle_step\<^sup>*\<^sup>* StateProposed (Aggregate_State a) \<and> lifecycle_step (Aggregate_State a) (Aggregate_State a') \<and>
    (Aggregate_State a \<in> final_states \<longrightarrow>
       Aggregate_State a \<noteq> StateFailedReconciliation \<and> Aggregate_State a' = StateFailedReconciliation \<and>
       Aggregate_Order a' = Aggregate_Order a \<and> Aggregate_Binding a' = Aggregate_Binding a \<and>
       Aggregate_Fills a' = Aggregate_Fills a)"
proof -
  from assms(2) have ap: "apply_transition L a t = Inr a'" by (simp add: ApplyTransition_def)
  note inv = Replay_invar(1) [OF assms(1)]
  from inv have "lifecycle_step\<^sup>*\<^sup>* StateProposed (Aggregate_State a)"
    by (auto simp: lifecycle_invar_def intro: event_path_steps)
  moreover note step = apply_transition_step [OF inv ap]
  moreover have "Aggregate_Order a' = Aggregate_Order a \<and> Aggregate_Binding a' = Aggregate_Binding a \<and>
      Aggregate_Fills a' = Aggregate_Fills a" if "Aggregate_State a \<in> final_states"
    using final_keeps_facts [OF inv ap that] .
  ultimately show ?thesis using step_from_final_state [OF step] by blast
qed

lemma lifecycle_refines_state_machine_witness:
  "lifecycle_step StateRiskRejected StateFailedReconciliation \<and> Aggregate_State demo_rejected = StateRiskRejected \<and>
   Aggregate_Fills (advance demo_rejected (Transition_Event demo_failure)) = []"
proof -
  have s: "Aggregate_State demo_rejected = StateRiskRejected" "Aggregate_Fills demo_rejected = []"
    by (simp_all add: demo_rejected_def demo_rejection_def demo_aggregate_defs demo_event_def)
  from lifecycle_refines_state_machine [OF demo_rejected_replay demo_failed] s show ?thesis by auto
qed

text \<open>
  C16: lifecycle facts are append-only.  Replaying a longer history continues the replay of every non-empty prefix:
  the prefix replays too, the intent never changes, the allocation, the order and the binding are written once, and
  fills and events are only appended.
\<close>

theorem replay_facts_append_only:
  assumes "Replay L accountID intent (earlier @ later) = Inr b" and "earlier \<noteq> []"
  shows "\<exists>a. Replay L accountID intent earlier = Inr a \<and> Aggregate_Intent b = Aggregate_Intent a \<and>
    Aggregate_AllocatedQuantity a \<in> {None, Aggregate_AllocatedQuantity b} \<and>
    Aggregate_Order a \<in> {None, Aggregate_Order b} \<and> Aggregate_Binding a \<in> {None, Aggregate_Binding b} \<and>
    prefix (Aggregate_Fills a) (Aggregate_Fills b) \<and> prefix (Aggregate_Events a) (Aggregate_Events b)"
  using assms by (rule Replay_append) (auto simp: extends_iff)

lemma replay_facts_append_only_witness:
  "\<exists>a. Replay demo_hash_lib 7 demo_intent (take 4 demo_transitions) = Inr a \<and> prefix (Aggregate_Events a) (Aggregate_Events demo_partial)"
  using replay_facts_append_only [of demo_hash_lib 7 demo_intent "take 4 demo_transitions" "drop 4 demo_transitions" demo_partial]
    demo_lifecycle_replay by (auto simp: demo_transitions_def)

text \<open>
  C17: the audit trail of a replayed lifecycle is complete.  No event identity occurs twice, the positive ingest
  sequence numbers increase strictly and no unsequenced event follows a sequenced one, and the fill events are, in
  order, exactly the recorded fills, each carrying the running total of the quantities up to it.
\<close>

theorem replayed_audit_trail:
  assumes "Replay L accountID intent transitions = Inr a"
  shows "distinct (map Event_ID (Aggregate_Events a)) \<and>
    sorted_wrt (\<lambda>x y. 0 < x \<longrightarrow> x < y) (map Event_IngestSequence (Aggregate_Events a)) \<and>
    map Event_FillID (fill_events a) = map (\<lambda>f. Some (Fill_ID f)) (Aggregate_Fills a) \<and>
    map Event_CumulativeFillQuantity (fill_events a) = map Some (fill_totals 0 (Aggregate_Fills a))"
  using Replay_invar(1,3,4) [OF assms] by (simp add: lifecycle_invar_def)

lemma replayed_audit_trail_witness:
  "Replay demo_hash_lib 7 demo_intent demo_transitions = Inr demo_partial \<and>
   distinct (map Event_ID (Aggregate_Events demo_partial)) \<and>
   map Event_CumulativeFillQuantity (fill_events demo_partial) = [Some 3]"
  using replayed_audit_trail [OF demo_lifecycle_replay] demo_lifecycle_replay by (simp add: demo_aggregate_defs demo_fill_def)

text \<open>
  Recovery is offered exactly to open orders.  A replayed lifecycle is eligible for recovery if and only if it
  has an order that is neither closed nor failed, and then a positive quantity of the order is still unfilled.
\<close>

theorem recovery_is_open_remainder:
  assumes "Replay L accountID intent transitions = Inr a"
  shows "(RecoveryEligible (Some a) \<longleftrightarrow> Aggregate_Order a \<noteq> None \<and> Aggregate_State a \<notin> final_states) \<and>
    (RecoveryEligible (Some a) \<longrightarrow>
       (\<exists>order. Aggregate_Order a = Some order \<and> sumFillQuantity (Aggregate_Fills a) < Order_Quantity order))"
proof -
  note inv = Replay_invar(1) [OF assms]
  then have "state_facts (Aggregate_State a) a" by (simp add: lifecycle_invar_def)
  with inv show ?thesis
    by (cases "Aggregate_State a") (auto simp: RecoveryEligible_def lifecycle_invar_def order_of_allocation_def)
qed

lemma recovery_is_open_remainder_witness:
  "RecoveryEligible (Some demo_partial) \<and> sumFillQuantity (Aggregate_Fills demo_partial) < Order_Quantity demo_order"
proof -
  have "Aggregate_Order demo_partial = Some demo_order" "Aggregate_State demo_partial = StatePartiallyFilled"
    by (simp_all add: demo_aggregate_defs demo_execution_fill_def demo_fill_event_def demo_order_event_def demo_event_def)
  with recovery_is_open_remainder [OF demo_lifecycle_replay] show ?thesis by simp
qed

section \<open>Commands\<close>

text \<open>
  C15: every command is accepted.  Whatever transition a lifecycle command returns for a replayed aggregate,
  \<open>ApplyTransition\<close> accepts it, the event becomes the last of the history, the aggregate takes the state the event
  announces and satisfies the lifecycle invariant again.
\<close>

theorem issued_transitions_accepted:
  assumes "Replay L accountID intent transitions = Inr a" and "issued L a t"
  shows "\<exists>a'. ApplyTransition L (Some a) (Some t) = Inr a' \<and> lifecycle_invar L a' \<and>
    Aggregate_State a' = Event_NextState (Transition_Event t) \<and>
    Aggregate_Events a' = Aggregate_Events a @ [Transition_Event t]"
proof -
  note inv = Replay_invar(1) [OF assms(1)]
  from issued_accepted [OF assms(2) inv] obtain b where b: "apply_transition L a t = Inr (advance b (Transition_Event t))"
    by blast
  have "Aggregate_State (advance b (Transition_Event t)) = Event_NextState (Transition_Event t)" by (simp add: advance_def)
  with b apply_transition_invar [OF inv b] apply_transition_events [OF inv b] show ?thesis
    by (simp add: ApplyTransition_def)
qed

lemma issued_transitions_accepted_witness:
  "\<exists>t a'. FailReconciliation demo_hash_lib (demo_time 31) (Some demo_partial) EventUnknownVenueState (demo_event_input ''u'') (demo_time 30) = Inr t \<and>
     ApplyTransition demo_hash_lib (Some demo_partial) (Some t) = Inr a' \<and> lifecycle_invar demo_hash_lib a'"
proof -
  have "\<not> isl (FailReconciliation demo_hash_lib (demo_time 31) (Some demo_partial) EventUnknownVenueState (demo_event_input ''u'') (demo_time 30))"
    by code_simp
  then obtain t where t: "FailReconciliation demo_hash_lib (demo_time 31) (Some demo_partial) EventUnknownVenueState
      (demo_event_input ''u'') (demo_time 30) = Inr t"
    by (metis sum.collapse(2))
  from issued_transitions_accepted [OF demo_lifecycle_replay issued.fail_reconciliation [OF t]] t show ?thesis by blast
qed

text \<open>
  A recorded fill is its normalization.  \<open>RecordFill\<close> succeeds only with a valid normalization, and the fill it
  adds to the aggregate carries the quantity and price of that normalization, the side of the order, and the
  identifiers of the normalization, its source event and its ledger transaction; the next state is filled exactly
  when the running total reaches the order quantity.
\<close>

theorem recorded_fill_is_its_normalization:
  assumes "lifecycle_invar L a" and "RecordFill L clock (Some a) input = Inr t"
  shows "\<exists>order n f a'. Aggregate_Order a = Some order \<and> FillInput_Normalization input = Some n \<and>
    EconomicNormalization_Validate L (clock 1) n = None \<and> fill_of_normalization order n f \<and>
    ApplyTransition L (Some a) (Some t) = Inr a' \<and> Aggregate_Fills a' = Aggregate_Fills a @ [f] \<and>
    Aggregate_State a' = (if sumFillQuantity (Aggregate_Fills a') = Order_Quantity order then StateFilled else StatePartiallyFilled)"
proof -
  from RecordFill_accepted [OF assms(2,1)] obtain order n f binding where
    "Aggregate_Order a = Some order" "FillInput_Normalization input = Some n"
    "EconomicNormalization_Validate L (clock 1) n = None" "fill_of_normalization order n f"
    and ap: "apply_transition L a t =
      Inr (advance (a\<lparr>Aggregate_Binding := Some binding, Aggregate_Fills := Aggregate_Fills a @ [f]\<rparr>) (Transition_Event t))"
      "Event_NextState (Transition_Event t) =
        (if sumFillQuantity (Aggregate_Fills a) + Fill_Quantity f = Order_Quantity order then StateFilled else StatePartiallyFilled)"
    by blast
  then show ?thesis by (simp add: ApplyTransition_def advance_def)
qed

lemma recorded_fill_is_its_normalization_witness:
  "\<exists>f a'. ApplyTransition demo_hash_lib (Some demo_working) (Some demo_execution_fill) = Inr a' \<and>
     Aggregate_Fills a' = [f] \<and> Fill_Quantity f = 3 \<and> Fill_Price f = 25"
proof -
  from recorded_fill_is_its_normalization [OF demo_working_invar demo_record] show ?thesis
    by (auto simp: fill_of_normalization_def demo_fill_command_def demo_execution_def demo_aggregate_defs)
qed

text \<open>
  C18: \<open>RecordFill\<close> never dereferences nil.  For every aggregate, normalization and input, with any of the optional
  parts missing, the command returns a transition or an error.
\<close>

theorem record_fill_never_panics: "RecordFill L clock aggregate input \<noteq> Inl LifecyclePanic"
  by (rule RecordFill_not_panic)

section \<open>What ApplyTransition leaves unchecked\<close>

text \<open>
  C19: the quantity, price and side of an applied fill are not tied to its normalization.  From an accepted fill
  transition, any other valid quantity that fits the order, any valid price and any side give a transition that
  \<open>ApplyTransition\<close> accepts with the same normalization: the lifecycle then records a fill the ledger does not hold.
\<close>

theorem applied_fill_may_differ_from_normalization:
  assumes "ApplyTransition L (Some a) (Some t) = Inr a'" and "is_fill_kind (Event_Kind (Transition_Event t))"
    and "Aggregate_Order a = Some order" and "Transition_Fill t = Some f"
    and "f' = f\<lparr>Fill_Quantity := q, Fill_Price := p, Fill_Side := side\<rparr>" and "Fill_Validate L f' = None"
    and "sumFillQuantity (Aggregate_Fills a) + q \<le> Order_Quantity order"
  shows "\<exists>t' a''. Transition_Normalization t' = Transition_Normalization t \<and>
    ApplyTransition L (Some a) (Some t') = Inr a'' \<and> Aggregate_Fills a'' = Aggregate_Fills a @ [f']"
proof -
  from assms(1) have "apply_transition L a t = Inr a'" by (simp add: ApplyTransition_def)
  moreover have "Transition_Normalization (with_fill a order f' t) = Transition_Normalization t"
    by (simp add: with_fill_def Let_def)
  ultimately show ?thesis using apply_other_quantity [OF _ assms(2-)] by (force simp: ApplyTransition_def)
qed

lemma applied_fill_may_differ_from_normalization_witness:
  "\<exists>t' a''. Transition_Normalization t' = Some demo_execution \<and> Normalization_Quantity demo_execution = Some 3 \<and>
     ApplyTransition demo_hash_lib (Some demo_working) (Some t') = Inr a'' \<and>
     Aggregate_Fills a'' = [demo_fill\<lparr>Fill_Quantity := 8, Fill_Price := 1, Fill_Side := SideSell\<rparr>]"
proof -
  let ?f = "demo_fill\<lparr>Fill_Quantity := 8, Fill_Price := 1, Fill_Side := SideSell\<rparr>"
  from RecordFill_accepted [OF demo_record demo_working_invar] obtain a' where
    a': "ApplyTransition demo_hash_lib (Some demo_working) (Some demo_execution_fill) = Inr a'"
    by (auto simp: ApplyTransition_def)
  have "Fill_Validate demo_hash_lib ?f = None" by code_simp
  from applied_fill_may_differ_from_normalization [OF a' _ _ _ refl this, where order = demo_order]
  show ?thesis by (simp add: demo_aggregate_defs demo_fact_defs is_fill_kind_def demo_execution_def)
qed

text \<open>
  C20: \<open>ApplyTransition\<close> dereferences a missing source event.  An accepted fill transition whose normalization loses
  its source event is not refused with an error: the check of the normalization reads the account of the nil
  source event first.
\<close>

theorem apply_fill_without_source_panics:
  assumes "ApplyTransition L (Some a) (Some t) = Inr a'" and "is_fill_kind (Event_Kind (Transition_Event t))"
    and "Transition_Normalization t = Some n"
  shows "ApplyTransition L (Some a) (Some (t\<lparr>Transition_Normalization := Some (n\<lparr>Normalization_SourceEvent := None\<rparr>)\<rparr>)) =
    Inl LifecyclePanic"
  using apply_without_source_panics [OF _ assms(2,3)] assms(1) by (simp add: ApplyTransition_def)

lemma apply_fill_without_source_panics_witness:
  "ApplyTransition demo_hash_lib (Some demo_working) (Some (demo_execution_fill
     \<lparr>Transition_Normalization := Some (demo_execution\<lparr>Normalization_SourceEvent := None\<rparr>)\<rparr>)) = Inl LifecyclePanic"
proof -
  from RecordFill_accepted [OF demo_record demo_working_invar] obtain a' where
    a': "ApplyTransition demo_hash_lib (Some demo_working) (Some demo_execution_fill) = Inr a'"
    by (auto simp: ApplyTransition_def)
  from apply_fill_without_source_panics [OF a'] show ?thesis
    by (simp add: demo_execution_fill_def demo_fill_event_def demo_order_event_def demo_event_def is_fill_kind_def)
qed

end
