(* ===== verification/Simulation_Policy.thy ===== *)
theory Simulation_Policy
  imports Lifecycle_Commands Projection_Payload
begin

text \<open>
  \<open>internal/simulation/policy.go\<close>: the content-addressed policy of the simulated venue (asset policies,
  calendars, fees), its normalization, its canonical JSON, the durable artifact and the restoration of a policy from
  it.  A Go string type with named constants has a \<open>_string\<close> function for its conversion to a string and an
  \<open>_of_string\<close> function for the conversion back.  Decoding JSON into the typed struct with unknown fields
  disallowed, \<open>decimal.NewFromString\<close> and \<open>time.Parse\<close> with the policy's layout are the fields of
  \<open>policy_codec\<close>.  \<open>json.Marshal\<close> does not fail on the canonical structs.
\<close>

section \<open>Data\<close>

datatype CalendarKind = CalendarExplicitSessions | CalendarContinuous24x7 | OtherCalendarKind string

fun CalendarKind_string :: "CalendarKind \<Rightarrow> string" where
  "CalendarKind_string CalendarExplicitSessions = ''explicit_sessions''"
| "CalendarKind_string CalendarContinuous24x7 = ''continuous_24x7''"
| "CalendarKind_string (OtherCalendarKind s) = s"

fun OrderType_string :: "OrderType \<Rightarrow> string" where
  "OrderType_string OrderMarket = ''market''"
| "OrderType_string OrderLimit = ''limit''"
| "OrderType_string OrderStop = ''stop''"
| "OrderType_string OrderStopLimit = ''stop_limit''"
| "OrderType_string (OtherOrderType s) = s"

fun TimeInForce_string :: "TimeInForce \<Rightarrow> string" where
  "TimeInForce_string TimeInForceDay = ''day''"
| "TimeInForce_string TimeInForceGTC = ''gtc''"
| "TimeInForce_string TimeInForceIOC = ''ioc''"
| "TimeInForce_string TimeInForceFOK = ''fok''"
| "TimeInForce_string TimeInForceGTD = ''gtd''"
| "TimeInForce_string (OtherTimeInForce s) = s"

fun AssetClass_string :: "AssetClass \<Rightarrow> string" where
  "AssetClass_string AssetClassUnknown = ''unknown''"
| "AssetClass_string AssetClassEquity = ''equity''"
| "AssetClass_string AssetClassETF = ''etf''"
| "AssetClass_string AssetClassOption = ''option''"
| "AssetClass_string AssetClassCryptoSpot = ''crypto_spot''"
| "AssetClass_string AssetClassPredictionContract = ''prediction_contract''"
| "AssetClass_string AssetClassFuture = ''future''"
| "AssetClass_string (OtherAssetClass s) = s"

definition CalendarKind_of_string :: "string \<Rightarrow> CalendarKind" where
  "CalendarKind_of_string s =
    (if s = ''explicit_sessions'' then CalendarExplicitSessions
     else if s = ''continuous_24x7'' then CalendarContinuous24x7 else OtherCalendarKind s)"

definition OrderType_of_string :: "string \<Rightarrow> OrderType" where
  "OrderType_of_string s =
    (if s = ''market'' then OrderMarket else if s = ''limit'' then OrderLimit else if s = ''stop'' then OrderStop
     else if s = ''stop_limit'' then OrderStopLimit else OtherOrderType s)"

definition TimeInForce_of_string :: "string \<Rightarrow> TimeInForce" where
  "TimeInForce_of_string s =
    (if s = ''day'' then TimeInForceDay else if s = ''gtc'' then TimeInForceGTC else if s = ''ioc'' then TimeInForceIOC
     else if s = ''fok'' then TimeInForceFOK else if s = ''gtd'' then TimeInForceGTD else OtherTimeInForce s)"

definition AssetClass_of_string :: "string \<Rightarrow> AssetClass" where
  "AssetClass_of_string s =
    (if s = ''unknown'' then AssetClassUnknown else if s = ''equity'' then AssetClassEquity
     else if s = ''etf'' then AssetClassETF else if s = ''option'' then AssetClassOption
     else if s = ''crypto_spot'' then AssetClassCryptoSpot
     else if s = ''prediction_contract'' then AssetClassPredictionContract
     else if s = ''future'' then AssetClassFuture else OtherAssetClass s)"

record SessionWindow =
  Session_Label :: string
  Session_OpenAt :: time
  Session_CloseAt :: time

record CalendarPolicy =
  Calendar_Kind :: CalendarKind
  Calendar_Sessions :: "SessionWindow list"

record 'd FeePolicy =
  Fees_PerOrder :: 'd
  Fees_PerUnit :: 'd
  Fees_NotionalBPS :: 'd
  Fees_Scale :: int

record 'd AssetPolicy =
  Asset_AssetClass :: AssetClass
  Asset_OrderTypes :: "OrderType list"
  Asset_TimeInForce :: "TimeInForce list"
  Asset_QuoteRequirements :: QuoteRequirements
  Asset_MaxDepthParticipation :: 'd
  Asset_FixedLatency :: int
  Asset_Calendar :: CalendarPolicy
  Asset_Fees :: "'d FeePolicy"

record 'd PolicyInput =
  PolicyInput_Schema :: string
  PolicyInput_Assets :: "'d AssetPolicy list"

record 'd Policy =
  Policy_schema :: string
  Policy_assets :: "'d AssetPolicy list"
  Policy_canonicalBytes :: string
  Policy_digest :: string
  Policy_version :: string
  Policy_artifactID :: uuid

record PolicyArtifact =
  Artifact_ID :: uuid
  Artifact_Schema :: string
  Artifact_Version :: string
  Artifact_SHA256 :: string
  Artifact_CanonicalBytes :: string
  Artifact_CreatedAt :: time

record canonicalQuoteRequirements =
  cqr_RequireSource :: bool
  cqr_RequireVenueContract :: bool
  cqr_RequireBid :: bool
  cqr_RequireAsk :: bool
  cqr_RequireBidDepth :: bool
  cqr_RequireAskDepth :: bool
  cqr_RequireMarketStatus :: bool
  cqr_RequireSessionStatus :: bool
  cqr_AllowedMarketStatuses :: "string list"
  cqr_AllowedSessionStatuses :: "string list"
  cqr_MaxAgeNanoseconds :: int

record canonicalSession =
  cs_Label :: string
  cs_OpenAt :: string
  cs_CloseAt :: string

record canonicalCalendar =
  cc_Kind :: string
  cc_Sessions :: "canonicalSession list"

record canonicalFees =
  cf_PerOrder :: string
  cf_PerUnit :: string
  cf_NotionalBPS :: string
  cf_Scale :: int

record canonicalAssetPolicy =
  ca_AssetClass :: string
  ca_OrderTypes :: "string list"
  ca_TimeInForce :: "string list"
  ca_QuoteRequirements :: canonicalQuoteRequirements
  ca_MaxDepthParticipation :: string
  ca_FixedLatencyNanoseconds :: int
  ca_Calendar :: canonicalCalendar
  ca_Fees :: canonicalFees

record canonicalPolicy =
  cp_Schema :: string
  cp_Assets :: "canonicalAssetPolicy list"

text \<open>\<open>decode_policy\<close> returns the decoded struct and the rest of the input.\<close>

record 'd policy_codec =
  decode_policy :: "string \<Rightarrow> (canonicalPolicy \<times> string) option"
  decimal_NewFromString :: "string \<Rightarrow> 'd option"
  parse_policy_time :: "string \<Rightarrow> time option"

datatype policy_decimal_error = PolicyNotPositive | PolicyNegative | PolicyScale | PolicyMagnitude

datatype asset_policy_error =
    AssetUnsupported
  | OrderTypesRequired
  | OrderTypeUnsupported
  | OrderTypeDuplicated
  | TimeInForceRequired
  | TimeInForceUnsupported
  | TimeInForceDuplicated
  | QuoteEvidenceRequired
  | QuoteAgeRequired
  | StatusRequired
  | StatusEmpty
  | StatusToken
  | ParticipationDecimal policy_decimal_error
  | ParticipationAboveOne
  | LatencyNegative
  | ContinuousWithSessions
  | ContinuousWithDay
  | SessionsRequired
  | CalendarKindInvalid
  | SessionLabelRequired
  | SessionLabelToken
  | SessionLabelDuplicated
  | SessionTime
  | SessionCloseBeforeOpen
  | SessionsOverlap
  | FeeDecimal policy_decimal_error
  | FeeScale

datatype policy_error =
    PolicySchemaInvalid
  | PolicyAssetsRequired
  | PolicyAssetDuplicated
  | PolicyAssetInvalid asset_policy_error
  | PolicyRequired
  | PolicyNoAsset
  | PolicyRouteTime
  | PolicyOutsideSessions
  | PolicyFeeQuantity policy_decimal_error
  | PolicyFeePrice policy_decimal_error
  | PolicyFeeMultiplier policy_decimal_error
  | PolicyFeeAmount policy_decimal_error
  | ArtifactIDRequired
  | ArtifactSchema
  | ArtifactSHA256
  | ArtifactBytes
  | ArtifactDigest
  | ArtifactIdentity
  | ArtifactTime
  | RestoreDecode
  | RestoreTrailing
  | RestoreParticipation
  | RestorePerOrder
  | RestorePerUnit
  | RestoreNotionalBPS
  | RestoreSessionOpen
  | RestoreSessionClose
  | RestoreMismatch

section \<open>Checks\<close>

definition PolicySchemaV1 :: string where "PolicySchemaV1 = ''simulation-policy-v1''"
definition policyArtifactIDDomain :: string where "policyArtifactIDDomain = ''simulation-policy-artifact''"

definition validatePolicyTime :: "time \<Rightarrow> bool" where
  "validatePolicyTime value \<longleftrightarrow> \<not> IsZero value \<and> loc value = UTC \<and> time_Equal value (Truncate value Microsecond)"

definition validatePolicyDecimalShape :: "('d::linordered_idom) lib \<Rightarrow> 'd \<Rightarrow> policy_decimal_error option" where
  "validatePolicyDecimalShape L value = first_err
    [guard (value \<noteq> decimal_Round L value 12) PolicyScale,
     guard (decimal_NumDigits L \<bar>value\<bar> + decimal_Exponent L value > 26) PolicyMagnitude]"

definition validatePositivePolicyDecimal :: "('d::linordered_idom) lib \<Rightarrow> 'd \<Rightarrow> policy_decimal_error option" where
  "validatePositivePolicyDecimal L value = first_err
    [guard (\<not> value > 0) PolicyNotPositive, validatePolicyDecimalShape L value]"

definition validateNonnegativePolicyDecimal :: "('d::linordered_idom) lib \<Rightarrow> 'd \<Rightarrow> policy_decimal_error option" where
  "validateNonnegativePolicyDecimal L value = first_err
    [guard (value < 0) PolicyNegative, validatePolicyDecimalShape L value]"

text \<open>\<open>time.Unix(0, 0).UTC()\<close>: 1 January 1970, 719162 days after the zero time.\<close>

definition unix_epoch :: time where
  "unix_epoch = \<lparr>instant = 719162 * 86400 * 1000000000, loc = UTC\<rparr>"

definition time_Add :: "time \<Rightarrow> int \<Rightarrow> time" where
  "time_Add t d = t\<lparr>instant := instant t + d\<rparr>"

definition char_in :: "char \<Rightarrow> char \<Rightarrow> char \<Rightarrow> bool" where
  "char_in lo hi c \<longleftrightarrow> lo \<le> c \<and> c \<le> hi"

text \<open>The pattern \<open>^[a-z0-9][a-z0-9_.:-]{0,63}$\<close>.\<close>

definition policyStatusToken :: "string \<Rightarrow> bool" where
  "policyStatusToken s =
    (case s of
       [] \<Rightarrow> False
     | c # cs \<Rightarrow>
        (char_in (CHR ''a'') (CHR ''z'') c \<or> char_in (CHR ''0'') (CHR ''9'') c) \<and> length cs \<le> 63 \<and>
        list_all (\<lambda>c. char_in (CHR ''a'') (CHR ''z'') c \<or> char_in (CHR ''0'') (CHR ''9'') c \<or> c \<in> set ''_.:-'') cs)"

text \<open>The pattern \<open>^[A-Za-z0-9][A-Za-z0-9_.:/-]{0,127}$\<close>.\<close>

definition alphanumeric :: "char \<Rightarrow> bool" where
  "alphanumeric c \<longleftrightarrow> char_in (CHR ''A'') (CHR ''Z'') c \<or> char_in (CHR ''a'') (CHR ''z'') c \<or> char_in (CHR ''0'') (CHR ''9'') c"

definition policySessionLabel :: "string \<Rightarrow> bool" where
  "policySessionLabel s =
    (case s of
       [] \<Rightarrow> False
     | c # cs \<Rightarrow> alphanumeric c \<and> length cs \<le> 127 \<and> list_all (\<lambda>c. alphanumeric c \<or> c \<in> set ''_.:/-'') cs)"

section \<open>Normalization\<close>

definition supportedSimulationAsset :: "AssetClass \<Rightarrow> bool" where
  "supportedSimulationAsset value \<longleftrightarrow> value \<in> {AssetClassEquity, AssetClassETF, AssetClassOption,
     AssetClassCryptoSpot, AssetClassPredictionContract}"

fun order_type_checks :: "OrderType list \<Rightarrow> OrderType list \<Rightarrow> asset_policy_error option" where
  "order_type_checks seen [] = None"
| "order_type_checks seen (value # vs) = first_err
    [guard (value \<noteq> OrderMarket \<and> value \<noteq> OrderLimit) OrderTypeUnsupported,
     guard (value \<in> set seen) OrderTypeDuplicated,
     order_type_checks (value # seen) vs]"

definition normalizeOrderTypes :: "OrderType list \<Rightarrow> asset_policy_error + OrderType list" where
  "normalizeOrderTypes vs =
    ensure (first_err [guard (vs = []) OrderTypesRequired, order_type_checks [] vs])
      (Inr (sort_by (\<lambda>x y. OrderType_string x < OrderType_string y) vs))"

fun time_in_force_checks :: "TimeInForce list \<Rightarrow> TimeInForce list \<Rightarrow> asset_policy_error option" where
  "time_in_force_checks seen [] = None"
| "time_in_force_checks seen (value # vs) = first_err
    [guard (value \<notin> {TimeInForceDay, TimeInForceGTC, TimeInForceIOC, TimeInForceFOK}) TimeInForceUnsupported,
     guard (value \<in> set seen) TimeInForceDuplicated,
     time_in_force_checks (value # seen) vs]"

definition normalizeTimeInForce :: "TimeInForce list \<Rightarrow> asset_policy_error + TimeInForce list" where
  "normalizeTimeInForce vs =
    ensure (first_err [guard (vs = []) TimeInForceRequired, time_in_force_checks [] vs])
      (Inr (sort_by (\<lambda>x y. TimeInForce_string x < TimeInForce_string y) vs))"

fun collect_statuses :: "'d lib \<Rightarrow> string list \<Rightarrow> string list \<Rightarrow> asset_policy_error + string list" where
  "collect_statuses L result [] = Inr result"
| "collect_statuses L result (value # vs) =
    (let normalized = ToLower L (TrimSpace value) in
     ensure (first_err [guard (normalized = []) StatusEmpty, guard (\<not> policyStatusToken normalized) StatusToken])
       (collect_statuses L (if normalized \<in> set result then result else result @ [normalized]) vs))"

definition normalizeStatuses :: "'d lib \<Rightarrow> string list \<Rightarrow> asset_policy_error + string list" where
  "normalizeStatuses L vs =
    ensure (guard (vs = []) StatusRequired)
      (and_then (collect_statuses L [] vs) (\<lambda>result. Inr (sort_by (<) result)))"

definition normalizeQuoteRequirements :: "'d lib \<Rightarrow> QuoteRequirements \<Rightarrow> asset_policy_error + QuoteRequirements" where
  "normalizeQuoteRequirements L input =
    ensure (first_err
      [guard (\<not> RequireSource input \<or> \<not> RequireVenueContract input \<or> \<not> RequireBid input \<or> \<not> RequireAsk input \<or>
              \<not> RequireBidDepth input \<or> \<not> RequireAskDepth input \<or> \<not> RequireMarketStatus input \<or>
              \<not> RequireSessionStatus input) QuoteEvidenceRequired,
       guard (MaxAge input \<le> 0) QuoteAgeRequired])
    (and_then (normalizeStatuses L (AllowedMarketStatuses input)) (\<lambda>marketStatuses.
     and_then (normalizeStatuses L (AllowedSessionStatuses input)) (\<lambda>sessionStatuses.
       Inr (input\<lparr>AllowedMarketStatuses := marketStatuses, AllowedSessionStatuses := sessionStatuses\<rparr>))))"

definition trim_label :: "SessionWindow \<Rightarrow> SessionWindow" where
  "trim_label s = s\<lparr>Session_Label := TrimSpace (Session_Label s)\<rparr>"

fun session_checks :: "string list \<Rightarrow> SessionWindow list \<Rightarrow> asset_policy_error option" where
  "session_checks labels [] = None"
| "session_checks labels (s # ss) = first_err
    [guard (Session_Label s = []) SessionLabelRequired,
     guard (\<not> policySessionLabel (Session_Label s)) SessionLabelToken,
     guard (Session_Label s \<in> set labels) SessionLabelDuplicated,
     guard (\<not> validatePolicyTime (Session_OpenAt s)) SessionTime,
     guard (\<not> validatePolicyTime (Session_CloseAt s)) SessionTime,
     guard (\<not> After (Session_CloseAt s) (Session_OpenAt s)) SessionCloseBeforeOpen,
     session_checks (Session_Label s # labels) ss]"

definition session_less :: "SessionWindow \<Rightarrow> SessionWindow \<Rightarrow> bool" where
  "session_less left right =
    (if time_Equal (Session_OpenAt left) (Session_OpenAt right) then Session_Label left < Session_Label right
     else Before (Session_OpenAt left) (Session_OpenAt right))"

fun sessions_overlap :: "SessionWindow list \<Rightarrow> bool" where
  "sessions_overlap (s # s' # ss) \<longleftrightarrow> Before (Session_OpenAt s') (Session_CloseAt s) \<or> sessions_overlap (s' # ss)"
| "sessions_overlap _ \<longleftrightarrow> False"

definition normalizeCalendar :: "CalendarPolicy \<Rightarrow> TimeInForce list \<Rightarrow> asset_policy_error + CalendarPolicy" where
  "normalizeCalendar input timeInForce =
    (case Calendar_Kind input of
       CalendarContinuous24x7 \<Rightarrow>
         ensure (first_err
           [guard (Calendar_Sessions input \<noteq> []) ContinuousWithSessions,
            guard (TimeInForceDay \<in> set timeInForce) ContinuousWithDay])
         (Inr \<lparr>Calendar_Kind = CalendarContinuous24x7, Calendar_Sessions = []\<rparr>)
     | CalendarExplicitSessions \<Rightarrow>
         ensure (guard (Calendar_Sessions input = []) SessionsRequired)
         (let sessions = map trim_label (Calendar_Sessions input);
              ordered = sort_by session_less sessions
          in ensure (first_err [session_checks [] sessions, guard (sessions_overlap ordered) SessionsOverlap])
             (Inr \<lparr>Calendar_Kind = CalendarExplicitSessions, Calendar_Sessions = ordered\<rparr>))
     | OtherCalendarKind k \<Rightarrow> Inl CalendarKindInvalid)"

text \<open>The loop over the three amounts ranges over a Go map, so any of their errors may come first; the model
  reports them in the order of the literal.\<close>

definition normalizeFees :: "('d::linordered_idom) lib \<Rightarrow> 'd FeePolicy \<Rightarrow> asset_policy_error + 'd FeePolicy" where
  "normalizeFees L input =
    ensure (first_err
      [map_option FeeDecimal (validateNonnegativePolicyDecimal L (Fees_PerOrder input)),
       map_option FeeDecimal (validateNonnegativePolicyDecimal L (Fees_PerUnit input)),
       map_option FeeDecimal (validateNonnegativePolicyDecimal L (Fees_NotionalBPS input)),
       guard (Fees_Scale input < 0 \<or> Fees_Scale input > 12) FeeScale])
    (Inr input)"

definition normalizeAssetPolicy :: "('d::linordered_idom) lib \<Rightarrow> 'd AssetPolicy \<Rightarrow> asset_policy_error + 'd AssetPolicy" where
  "normalizeAssetPolicy L input =
    ensure (guard (\<not> supportedSimulationAsset (Asset_AssetClass input)) AssetUnsupported)
    (and_then (normalizeOrderTypes (Asset_OrderTypes input)) (\<lambda>orderTypes.
     and_then (normalizeTimeInForce (Asset_TimeInForce input)) (\<lambda>timeInForce.
     and_then (normalizeQuoteRequirements L (Asset_QuoteRequirements input)) (\<lambda>requirements.
     ensure (first_err
       [map_option ParticipationDecimal (validatePositivePolicyDecimal L (Asset_MaxDepthParticipation input)),
        guard (Asset_MaxDepthParticipation input > 1) ParticipationAboveOne,
        guard (Asset_FixedLatency input < 0) LatencyNegative])
     (and_then (normalizeCalendar (Asset_Calendar input) timeInForce) (\<lambda>calendar.
      and_then (normalizeFees L (Asset_Fees input)) (\<lambda>feePolicy.
        Inr (input\<lparr>Asset_OrderTypes := orderTypes, Asset_TimeInForce := timeInForce,
                   Asset_QuoteRequirements := requirements, Asset_Calendar := calendar, Asset_Fees := feePolicy\<rparr>))))))))"

section \<open>Canonical form\<close>

definition json_int :: "int \<Rightarrow> json" where
  "json_int n = JNumber (pad_digits 1 n)"

definition canonical_requirements :: "QuoteRequirements \<Rightarrow> canonicalQuoteRequirements" where
  "canonical_requirements r =
    \<lparr>cqr_RequireSource = RequireSource r, cqr_RequireVenueContract = RequireVenueContract r,
     cqr_RequireBid = RequireBid r, cqr_RequireAsk = RequireAsk r,
     cqr_RequireBidDepth = RequireBidDepth r, cqr_RequireAskDepth = RequireAskDepth r,
     cqr_RequireMarketStatus = RequireMarketStatus r, cqr_RequireSessionStatus = RequireSessionStatus r,
     cqr_AllowedMarketStatuses = AllowedMarketStatuses r, cqr_AllowedSessionStatuses = AllowedSessionStatuses r,
     cqr_MaxAgeNanoseconds = MaxAge r\<rparr>"

definition canonical_session :: "SessionWindow \<Rightarrow> canonicalSession" where
  "canonical_session s =
    \<lparr>cs_Label = Session_Label s, cs_OpenAt = format_time (Session_OpenAt s), cs_CloseAt = format_time (Session_CloseAt s)\<rparr>"

definition canonical_fees :: "'d lib \<Rightarrow> 'd FeePolicy \<Rightarrow> canonicalFees" where
  "canonical_fees L f =
    \<lparr>cf_PerOrder = decimal_String L (Fees_PerOrder f), cf_PerUnit = decimal_String L (Fees_PerUnit f),
     cf_NotionalBPS = decimal_String L (Fees_NotionalBPS f), cf_Scale = Fees_Scale f\<rparr>"

definition canonicalAsset :: "'d lib \<Rightarrow> 'd AssetPolicy \<Rightarrow> canonicalAssetPolicy" where
  "canonicalAsset L asset =
    \<lparr>ca_AssetClass = AssetClass_string (Asset_AssetClass asset),
     ca_OrderTypes = map OrderType_string (Asset_OrderTypes asset),
     ca_TimeInForce = map TimeInForce_string (Asset_TimeInForce asset),
     ca_QuoteRequirements = canonical_requirements (Asset_QuoteRequirements asset),
     ca_MaxDepthParticipation = decimal_String L (Asset_MaxDepthParticipation asset),
     ca_FixedLatencyNanoseconds = Asset_FixedLatency asset,
     ca_Calendar =
       \<lparr>cc_Kind = CalendarKind_string (Calendar_Kind (Asset_Calendar asset)),
        cc_Sessions = map canonical_session (Calendar_Sessions (Asset_Calendar asset))\<rparr>,
     ca_Fees = canonical_fees L (Asset_Fees asset)\<rparr>"

text \<open>The JSON value of the canonical structs, with the field names of their tags.\<close>

definition requirements_json :: "canonicalQuoteRequirements \<Rightarrow> json" where
  "requirements_json r = JObject
    [(''require_source'', JBool (cqr_RequireSource r)), (''require_venue_contract'', JBool (cqr_RequireVenueContract r)),
     (''require_bid'', JBool (cqr_RequireBid r)), (''require_ask'', JBool (cqr_RequireAsk r)),
     (''require_bid_depth'', JBool (cqr_RequireBidDepth r)), (''require_ask_depth'', JBool (cqr_RequireAskDepth r)),
     (''require_market_status'', JBool (cqr_RequireMarketStatus r)),
     (''require_session_status'', JBool (cqr_RequireSessionStatus r)),
     (''allowed_market_statuses'', JArray (map JString (cqr_AllowedMarketStatuses r))),
     (''allowed_session_statuses'', JArray (map JString (cqr_AllowedSessionStatuses r))),
     (''max_age_nanoseconds'', json_int (cqr_MaxAgeNanoseconds r))]"

definition session_json :: "canonicalSession \<Rightarrow> json" where
  "session_json s = JObject
    [(''label'', JString (cs_Label s)), (''open_at'', JString (cs_OpenAt s)), (''close_at'', JString (cs_CloseAt s))]"

definition fees_json :: "canonicalFees \<Rightarrow> json" where
  "fees_json f = JObject
    [(''per_order'', JString (cf_PerOrder f)), (''per_unit'', JString (cf_PerUnit f)),
     (''notional_bps'', JString (cf_NotionalBPS f)), (''scale'', json_int (cf_Scale f))]"

definition asset_json :: "canonicalAssetPolicy \<Rightarrow> json" where
  "asset_json a = JObject
    [(''asset_class'', JString (ca_AssetClass a)),
     (''order_types'', JArray (map JString (ca_OrderTypes a))),
     (''time_in_force'', JArray (map JString (ca_TimeInForce a))),
     (''quote_requirements'', requirements_json (ca_QuoteRequirements a)),
     (''max_depth_participation'', JString (ca_MaxDepthParticipation a)),
     (''fixed_latency_nanoseconds'', json_int (ca_FixedLatencyNanoseconds a)),
     (''calendar'', JObject [(''kind'', JString (cc_Kind (ca_Calendar a))),
        (''sessions'', JArray (map session_json (cc_Sessions (ca_Calendar a))))]),
     (''fees'', fees_json (ca_Fees a))]"

definition policy_json :: "canonicalPolicy \<Rightarrow> json" where
  "policy_json p = JObject [(''schema'', JString (cp_Schema p)), (''assets'', JArray (map asset_json (cp_Assets p)))]"

section \<open>The policy\<close>

fun normalize_assets ::
    "('d::linordered_idom) lib \<Rightarrow> AssetClass list \<Rightarrow> 'd AssetPolicy list \<Rightarrow> policy_error + 'd AssetPolicy list" where
  "normalize_assets L seen [] = Inr []"
| "normalize_assets L seen (candidate # rest) =
    ensure (guard (Asset_AssetClass candidate \<in> set seen) PolicyAssetDuplicated)
    (and_then (wrap PolicyAssetInvalid (normalizeAssetPolicy L candidate)) (\<lambda>normalized.
     and_then (normalize_assets L (Asset_AssetClass candidate # seen) rest) (\<lambda>assets. Inr (normalized # assets))))"

definition canonical_policy :: "'d lib \<Rightarrow> 'd AssetPolicy list \<Rightarrow> canonicalPolicy" where
  "canonical_policy L assets = \<lparr>cp_Schema = PolicySchemaV1, cp_Assets = map (canonicalAsset L) assets\<rparr>"

definition policy_bytes :: "'d lib \<Rightarrow> 'd AssetPolicy list \<Rightarrow> string" where
  "policy_bytes L assets = json_Marshal L (policy_json (canonical_policy L assets))"

definition policy_version :: "string \<Rightarrow> string" where
  "policy_version digest = PolicySchemaV1 @ ''@sha256:'' @ digest"

definition policy_of :: "'d lib \<Rightarrow> 'd AssetPolicy list \<Rightarrow> 'd Policy" where
  "policy_of L assets =
    (let canonicalBytes = policy_bytes L assets;
         digest = hex_EncodeToString (sha256_Sum256 L canonicalBytes)
     in \<lparr>Policy_schema = PolicySchemaV1, Policy_assets = assets, Policy_canonicalBytes = canonicalBytes,
         Policy_digest = digest, Policy_version = policy_version digest,
         Policy_artifactID = DeterministicUUID L policyArtifactIDDomain [policy_version digest]\<rparr>)"

definition NewPolicy :: "('d::linordered_idom) lib \<Rightarrow> 'd PolicyInput \<Rightarrow> policy_error + 'd Policy" where
  "NewPolicy L input =
    ensure (first_err
      [guard (TrimSpace (PolicyInput_Schema input) \<noteq> PolicySchemaV1) PolicySchemaInvalid,
       guard (PolicyInput_Assets input = []) PolicyAssetsRequired])
    (and_then (normalize_assets L [] (PolicyInput_Assets input)) (\<lambda>assets.
       Inr (policy_of L (sort_by (\<lambda>x y. AssetClass_string (Asset_AssetClass x) < AssetClass_string (Asset_AssetClass y)) assets))))"

definition Policy_AssetPolicy :: "'d Policy option \<Rightarrow> AssetClass \<Rightarrow> 'd AssetPolicy option" where
  "Policy_AssetPolicy policy assetClass =
    (case policy of None \<Rightarrow> None | Some p \<Rightarrow> find (\<lambda>a. Asset_AssetClass a = assetClass) (Policy_assets p))"

definition in_session :: "time \<Rightarrow> SessionWindow \<Rightarrow> bool" where
  "in_session t s \<longleftrightarrow> \<not> Before t (Session_OpenAt s) \<and> Before t (Session_CloseAt s)"

definition RouteSession :: "'d Policy option \<Rightarrow> AssetClass \<Rightarrow> time \<Rightarrow> policy_error + SessionWindow option" where
  "RouteSession policy assetClass routedAt =
    (case Policy_AssetPolicy policy assetClass of
       None \<Rightarrow> Inl PolicyNoAsset
     | Some asset \<Rightarrow>
        ensure (guard (\<not> validatePolicyTime routedAt) PolicyRouteTime)
        (if Calendar_Kind (Asset_Calendar asset) = CalendarContinuous24x7 then Inr None
         else case find (in_session routedAt) (Calendar_Sessions (Asset_Calendar asset)) of
                Some session \<Rightarrow> Inr (Some session)
              | None \<Rightarrow> Inl PolicyOutsideSessions))"

definition raw_fee :: "('d::linordered_idom) lib \<Rightarrow> 'd FeePolicy \<Rightarrow> 'd \<Rightarrow> 'd \<Rightarrow> 'd \<Rightarrow> bool \<Rightarrow> 'd" where
  "raw_fee L schedule quantity price multiplier firstFill =
     decimal_Round L
       ((if firstFill then Fees_PerUnit schedule * quantity + Fees_PerOrder schedule else Fees_PerUnit schedule * quantity) +
        decimal_Div L (price * quantity * multiplier * Fees_NotionalBPS schedule) 10000) (Fees_Scale schedule)"

definition FillFee ::
    "('d::linordered_idom) lib \<Rightarrow> 'd Policy option \<Rightarrow> AssetClass \<Rightarrow> 'd \<Rightarrow> 'd \<Rightarrow> 'd \<Rightarrow> bool \<Rightarrow> policy_error + 'd option" where
  "FillFee L policy assetClass quantity price multiplier firstFill =
    (case Policy_AssetPolicy policy assetClass of
       None \<Rightarrow> Inl PolicyNoAsset
     | Some asset \<Rightarrow>
        ensure (first_err
          [map_option PolicyFeeQuantity (validatePositivePolicyDecimal L quantity),
           map_option PolicyFeePrice (validateNonnegativePolicyDecimal L price),
           map_option PolicyFeeMultiplier (validatePositivePolicyDecimal L multiplier)])
        (let fee = raw_fee L (Asset_Fees asset) quantity price multiplier firstFill in
         if fee = 0 then Inr None
         else ensure (map_option PolicyFeeAmount (validatePositivePolicyDecimal L fee)) (Inr (Some fee))))"

section \<open>The artifact\<close>

definition is_hex_digit :: "char \<Rightarrow> bool" where
  "is_hex_digit c \<longleftrightarrow> char_in (CHR ''0'') (CHR ''9'') c \<or> char_in (CHR ''a'') (CHR ''f'') c \<or> char_in (CHR ''A'') (CHR ''F'') c"

definition is_json_object :: "json option \<Rightarrow> bool" where
  "is_json_object v = (case v of Some (JObject kvs) \<Rightarrow> True | _ \<Rightarrow> False)"

definition PolicyArtifact_Validate :: "'d lib \<Rightarrow> PolicyArtifact \<Rightarrow> policy_error option" where
  [valid_defs]: "PolicyArtifact_Validate L a =
    (let digest = hex_EncodeToString (sha256_Sum256 L (Artifact_CanonicalBytes a)) in first_err
      [guard (Artifact_ID a = uuid_Nil) ArtifactIDRequired,
       guard (Artifact_Schema a \<noteq> PolicySchemaV1) ArtifactSchema,
       guard (length (Artifact_SHA256 a) \<noteq> 64 \<or> Artifact_SHA256 a \<noteq> ToLower L (Artifact_SHA256 a)) ArtifactSHA256,
       guard (\<not> list_all is_hex_digit (Artifact_SHA256 a)) ArtifactSHA256,
       guard (Artifact_CanonicalBytes a = [] \<or> \<not> json_Valid L (Artifact_CanonicalBytes a)) ArtifactBytes,
       guard (\<not> is_json_object (json_Unmarshal L (Artifact_CanonicalBytes a))) ArtifactBytes,
       guard (Artifact_SHA256 a \<noteq> digest \<or> Artifact_Version a \<noteq> Artifact_Schema a @ ''@sha256:'' @ digest) ArtifactDigest,
       guard (Artifact_ID a \<noteq> DeterministicUUID L policyArtifactIDDomain [Artifact_Version a]) ArtifactIdentity,
       guard (\<not> validatePolicyTime (Artifact_CreatedAt a)) ArtifactTime])"

definition NewArtifact :: "'d lib \<Rightarrow> time \<Rightarrow> 'd Policy option \<Rightarrow> time \<Rightarrow> policy_error + PolicyArtifact" where
  "NewArtifact L now policy createdAt0 =
    (case policy of
       None \<Rightarrow> Inl PolicyRequired
     | Some p \<Rightarrow>
        ensure (guard (Policy_artifactID p = uuid_Nil) PolicyRequired)
        (let created = utc_micros createdAt0;
             artifact =
               \<lparr>Artifact_ID = Policy_artifactID p, Artifact_Schema = Policy_schema p, Artifact_Version = Policy_version p,
                Artifact_SHA256 = Policy_digest p, Artifact_CanonicalBytes = Policy_canonicalBytes p,
                Artifact_CreatedAt = (if IsZero created then utc_micros now else created)\<rparr>
         in ensure (PolicyArtifact_Validate L artifact) (Inr artifact)))"

definition SamePolicyArtifactPayload :: "PolicyArtifact option \<Rightarrow> PolicyArtifact option \<Rightarrow> bool" where
  [same_defs]: "SamePolicyArtifactPayload left right =
    (case (left, right) of
       (Some l, Some r) \<Rightarrow>
         Artifact_ID l = Artifact_ID r \<and> Artifact_Schema l = Artifact_Schema r \<and> Artifact_Version l = Artifact_Version r \<and>
         Artifact_SHA256 l = Artifact_SHA256 r \<and> Artifact_CanonicalBytes l = Artifact_CanonicalBytes r
     | _ \<Rightarrow> False)"

section \<open>Restoring a policy\<close>

definition decodeCanonicalPolicy :: "'d lib \<Rightarrow> 'd policy_codec \<Rightarrow> string \<Rightarrow> policy_error + canonicalPolicy" where
  "decodeCanonicalPolicy L codec value =
    (case decode_policy codec value of
       None \<Rightarrow> Inl RestoreDecode
     | Some (decoded, rest) \<Rightarrow> ensure (guard (json_Decode L rest \<noteq> EOF) RestoreTrailing) (Inr decoded))"

text \<open>A parsed text or the error of the field.\<close>

definition parsed :: "'a option \<Rightarrow> policy_error \<Rightarrow> policy_error + 'a" where
  "parsed x e = (case x of None \<Rightarrow> Inl e | Some v \<Rightarrow> Inr v)"

fun sessions_from_canonical :: "'d policy_codec \<Rightarrow> canonicalSession list \<Rightarrow> policy_error + SessionWindow list" where
  "sessions_from_canonical codec [] = Inr []"
| "sessions_from_canonical codec (s # ss) =
    and_then (parsed (parse_policy_time codec (cs_OpenAt s)) RestoreSessionOpen) (\<lambda>openAt.
    and_then (parsed (parse_policy_time codec (cs_CloseAt s)) RestoreSessionClose) (\<lambda>closeAt.
    and_then (sessions_from_canonical codec ss) (\<lambda>sessions.
      Inr (\<lparr>Session_Label = cs_Label s, Session_OpenAt = openAt, Session_CloseAt = closeAt\<rparr> # sessions))))"

definition requirements_from_canonical :: "canonicalQuoteRequirements \<Rightarrow> QuoteRequirements" where
  "requirements_from_canonical r =
    \<lparr>RequireSource = cqr_RequireSource r, RequireVenueContract = cqr_RequireVenueContract r,
     RequireBid = cqr_RequireBid r, RequireAsk = cqr_RequireAsk r,
     RequireBidDepth = cqr_RequireBidDepth r, RequireAskDepth = cqr_RequireAskDepth r,
     RequireMarketStatus = cqr_RequireMarketStatus r, RequireSessionStatus = cqr_RequireSessionStatus r,
     AllowedMarketStatuses = cqr_AllowedMarketStatuses r, AllowedSessionStatuses = cqr_AllowedSessionStatuses r,
     MaxAge = cqr_MaxAgeNanoseconds r\<rparr>"

definition asset_from_canonical :: "'d policy_codec \<Rightarrow> canonicalAssetPolicy \<Rightarrow> policy_error + 'd AssetPolicy" where
  "asset_from_canonical codec asset =
    and_then (parsed (decimal_NewFromString codec (ca_MaxDepthParticipation asset)) RestoreParticipation) (\<lambda>participation.
    and_then (parsed (decimal_NewFromString codec (cf_PerOrder (ca_Fees asset))) RestorePerOrder) (\<lambda>perOrder.
    and_then (parsed (decimal_NewFromString codec (cf_PerUnit (ca_Fees asset))) RestorePerUnit) (\<lambda>perUnit.
    and_then (parsed (decimal_NewFromString codec (cf_NotionalBPS (ca_Fees asset))) RestoreNotionalBPS) (\<lambda>notionalBPS.
    and_then (sessions_from_canonical codec (cc_Sessions (ca_Calendar asset))) (\<lambda>sessions.
      Inr \<lparr>Asset_AssetClass = AssetClass_of_string (ca_AssetClass asset),
           Asset_OrderTypes = map OrderType_of_string (ca_OrderTypes asset),
           Asset_TimeInForce = map TimeInForce_of_string (ca_TimeInForce asset),
           Asset_QuoteRequirements = requirements_from_canonical (ca_QuoteRequirements asset),
           Asset_MaxDepthParticipation = participation,
           Asset_FixedLatency = ca_FixedLatencyNanoseconds asset,
           Asset_Calendar = \<lparr>Calendar_Kind = CalendarKind_of_string (cc_Kind (ca_Calendar asset)),
                             Calendar_Sessions = sessions\<rparr>,
           Asset_Fees = \<lparr>Fees_PerOrder = perOrder, Fees_PerUnit = perUnit, Fees_NotionalBPS = notionalBPS,
                         Fees_Scale = cf_Scale (ca_Fees asset)\<rparr>\<rparr>)))))"

fun assets_from_canonical :: "'d policy_codec \<Rightarrow> canonicalAssetPolicy list \<Rightarrow> policy_error + 'd AssetPolicy list" where
  "assets_from_canonical codec [] = Inr []"
| "assets_from_canonical codec (a # as) =
    and_then (asset_from_canonical codec a) (\<lambda>asset.
    and_then (assets_from_canonical codec as) (\<lambda>assets. Inr (asset # assets)))"

definition policyInputFromCanonical :: "'d policy_codec \<Rightarrow> canonicalPolicy \<Rightarrow> policy_error + 'd PolicyInput" where
  "policyInputFromCanonical codec value =
    and_then (assets_from_canonical codec (cp_Assets value)) (\<lambda>assets.
      Inr \<lparr>PolicyInput_Schema = cp_Schema value, PolicyInput_Assets = assets\<rparr>)"

definition PolicyFromArtifact ::
    "('d::linordered_idom) lib \<Rightarrow> 'd policy_codec \<Rightarrow> PolicyArtifact \<Rightarrow> policy_error + 'd Policy" where
  "PolicyFromArtifact L codec artifact =
    ensure (PolicyArtifact_Validate L artifact)
    (and_then (decodeCanonicalPolicy L codec (Artifact_CanonicalBytes artifact)) (\<lambda>canonical.
     and_then (policyInputFromCanonical codec canonical) (\<lambda>input.
     and_then (NewPolicy L input) (\<lambda>restored.
       ensure (guard (Policy_artifactID restored \<noteq> Artifact_ID artifact \<or> Policy_schema restored \<noteq> Artifact_Schema artifact \<or>
                      Policy_version restored \<noteq> Artifact_Version artifact \<or> Policy_digest restored \<noteq> Artifact_SHA256 artifact \<or>
                      Policy_canonicalBytes restored \<noteq> Artifact_CanonicalBytes artifact) RestoreMismatch)
       (Inr restored)))))"

end
