(* ===== verification/Simulation_Venue.thy ===== *)
theory Simulation_Venue
  imports Simulation_Policy
begin

text \<open>
  \<open>internal/simulation\<close>: \<open>evidence.go\<close>, \<open>fill.go\<close> and \<open>venue.go\<close>.  The simulated venue evaluates one quote
  observation against one routed order: it checks the request, applies sessions and latency, walks the eligible
  depth levels and returns the lifecycle transitions it has already applied.  \<open>clock k i j\<close> is the \<open>j\<close>-th
  reading of \<open>time.Now()\<close> in the \<open>i\<close>-th library call of the \<open>k\<close>-th fill, and \<open>now\<close> the reading of an order
  observation.  An error is the \<open>VenueError\<close> or the wrapped library error; the
  stable code of a \<open>VenueError\<close> is \<open>venue_code\<close>.
\<close>

section \<open>Data\<close>

datatype VenueErrorCode =
    VenueErrorInvalidRequest
  | VenueErrorPolicyMismatch
  | VenueErrorReferenceMismatch
  | VenueErrorUnsupportedInstruction
  | VenueErrorQuoteNotExecutable

datatype venue_error =
    VenueRequired
  | VenueEvaluationTime
  | VenueAccount account_error
  | VenueAccountInactive
  | VenueInstrument instrument_error
  | VenueContractInvalid contract_error
  | VenueIntent intent_error
  | VenueOrder order_error
  | VenueContextMismatch
  | VenuePolicyMismatch
  | VenueUnsupported
  | VenueRouteSession policy_error
  | VenueQuote assess_error
  | VenueQuoteIdentity
  | VenueEvidence
  | VenueNamespace
  | VenueFillRequired
  | VenueFee policy_error
  | VenueSource source_event_error
  | VenueNormalization norm_error
  | VenueLifecycle lifecycle_error

text \<open>The code of the errors that \<open>venueFailure\<close> builds; the others carry none.\<close>

fun venue_code :: "venue_error \<Rightarrow> VenueErrorCode option" where
  "venue_code VenueRequired = Some VenueErrorInvalidRequest"
| "venue_code VenueEvaluationTime = Some VenueErrorInvalidRequest"
| "venue_code (VenueAccount e) = Some VenueErrorReferenceMismatch"
| "venue_code VenueAccountInactive = Some VenueErrorReferenceMismatch"
| "venue_code (VenueInstrument e) = Some VenueErrorReferenceMismatch"
| "venue_code (VenueContractInvalid e) = Some VenueErrorReferenceMismatch"
| "venue_code (VenueIntent e) = Some VenueErrorInvalidRequest"
| "venue_code (VenueOrder e) = Some VenueErrorInvalidRequest"
| "venue_code VenueContextMismatch = Some VenueErrorReferenceMismatch"
| "venue_code VenuePolicyMismatch = Some VenueErrorPolicyMismatch"
| "venue_code VenueUnsupported = Some VenueErrorUnsupportedInstruction"
| "venue_code (VenueRouteSession e) = Some VenueErrorUnsupportedInstruction"
| "venue_code (VenueQuote e) = Some VenueErrorQuoteNotExecutable"
| "venue_code VenueQuoteIdentity = Some VenueErrorQuoteNotExecutable"
| "venue_code _ = None"

datatype Decision =
    DecisionNoop
  | DecisionWaitingLatency
  | DecisionResting
  | DecisionPartiallyFilled
  | DecisionFilled
  | DecisionCancelled
  | DecisionExpired
  | DecisionRejected

record 'd EvaluationRequest =
  Evaluation_Account :: "'d Account"
  Evaluation_Instrument :: "'d Instrument"
  Evaluation_VenueContract :: "'d VenueContract"
  Evaluation_Aggregate :: "'d Aggregate option"
  Evaluation_Snapshot :: "'d QuoteSnapshot"
  Evaluation_EvaluatedAt :: time

record 'd FillEffect =
  Effect_Fill :: "'d Fill"
  Effect_DepthSide :: DepthSide
  Effect_DepthLevel :: int
  Effect_DisplayedSize :: 'd
  Effect_Capacity :: 'd
  Effect_Quantity :: 'd
  Effect_Price :: 'd
  Effect_Fee :: "'d option"
  Effect_SourceNamespace :: string
  Effect_SourceEventID :: string
  Effect_Evidence :: string
  Effect_PolicyVersion :: string
  Effect_NormalizerVersion :: string

record 'd simulationFillInput =
  SimFill_Policy :: "'d Policy option"
  SimFill_Asset :: "'d AssetPolicy"
  SimFill_Account :: "'d Account"
  SimFill_Instrument :: "'d Instrument"
  SimFill_VenueContract :: "'d VenueContract"
  SimFill_Aggregate :: "'d Aggregate option"
  SimFill_Snapshot :: "'d QuoteSnapshot"
  SimFill_Assessment :: "'d QuoteAssessment"
  SimFill_EvaluatedAt :: time
  SimFill_RouteSession :: "SessionWindow option"
  SimFill_Level :: "'d DepthLevel"
  SimFill_Capacity :: 'd
  SimFill_Quantity :: 'd
  SimFill_FirstFill :: bool

record 'd Result =
  Result_Decision :: Decision
  Result_Aggregate :: "'d Aggregate"
  Result_Transitions :: "'d Transition list"
  Result_Fills :: "'d FillEffect list"

record 'd eligibleSimulationLevel =
  eligible_level :: "'d DepthLevel"
  eligible_capacity :: 'd

section \<open>Evidence\<close>

definition observationEvidenceSchema :: string where "observationEvidenceSchema = ''simulation-observation-v1''"
definition fillEvidenceSchema :: string where "fillEvidenceSchema = ''simulation-fill-v1''"

fun DepthSide_string :: "DepthSide \<Rightarrow> string" where
  "DepthSide_string DepthSideBid = ''bid''"
| "DepthSide_string DepthSideAsk = ''ask''"
| "DepthSide_string (OtherDepthSide s) = s"

fun Side_string :: "Side \<Rightarrow> string" where
  "Side_string SideBuy = ''buy''"
| "Side_string SideSell = ''sell''"
| "Side_string (OtherSide s) = s"

fun EventKind_string :: "EventKind \<Rightarrow> string" where
  "EventKind_string EventKindUnset = []"
| "EventKind_string EventIntentProposed = ''intent_proposed''"
| "EventKind_string EventIntentAllocated = ''intent_allocated''"
| "EventKind_string EventRiskApproved = ''risk_approved''"
| "EventKind_string EventRiskRejected = ''risk_rejected''"
| "EventKind_string EventOrderRouted = ''order_routed''"
| "EventKind_string EventOrderWorking = ''order_working''"
| "EventKind_string EventCancelRequested = ''cancel_requested''"
| "EventKind_string EventFillAcknowledged = ''fill_acknowledged''"
| "EventKind_string EventFillRecorded = ''fill_recorded''"
| "EventKind_string EventOrderCancelled = ''order_cancelled''"
| "EventKind_string EventOrderExpired = ''order_expired''"
| "EventKind_string EventOrderRejected = ''order_rejected''"
| "EventKind_string EventUnknownVenueState = ''unknown_venue_state''"
| "EventKind_string EventContradictoryVenueState = ''contradictory_venue_state''"
| "EventKind_string EventFillCorrectionObserved = ''fill_correction_observed''"
| "EventKind_string EventFillBustObserved = ''fill_bust_observed''"
| "EventKind_string (OtherEventKind s) = s"

text \<open>\<open>strings.Join\<close>.\<close>

fun join :: "string \<Rightarrow> string list \<Rightarrow> string" where
  "join sep [] = []"
| "join sep [s] = s"
| "join sep (s # ss) = s @ sep @ join sep ss"

definition simulationSourceNamespace :: "'d Account \<Rightarrow> string \<Rightarrow> venue_error + string" where
  "simulationSourceNamespace account kind =
    (let namespace = join ''/'' [''simulation'', AccountEnvironment_string (Account_Environment account),
           Account_StorageNamespace account, Account_EvidenceClass account, kind @ ''-v1'']
     in ensure (guard (namespace \<noteq> TrimSpace namespace \<or> length namespace > 256) VenueNamespace) (Inr namespace))"

definition simulationFillSourceEventID :: "string \<Rightarrow> string \<Rightarrow> DepthSide \<Rightarrow> int \<Rightarrow> string" where
  "simulationFillSourceEventID orderID snapshotID side level =
     ''orders/'' @ orderID @ ''/snapshots/'' @ snapshotID @ ''/fills/'' @ DepthSide_string side @ ''/'' @ pad_digits 1 level"

definition simulationObservationSourceEventID :: "string \<Rightarrow> string \<Rightarrow> string \<Rightarrow> string \<Rightarrow> string" where
  "simulationObservationSourceEventID orderID snapshotID kind discriminator = join ''/''
    ([''orders'', orderID] @ (if snapshotID = [] then [] else [''snapshots'', snapshotID]) @ [kind] @
     (if discriminator = [] then [] else [discriminator]))"

definition formatSimulationTime :: "time \<Rightarrow> string" where
  "formatSimulationTime value = (if IsZero value then [] else format_time (utc_micros value))"

definition formatOptionalSimulationTime :: "time option \<Rightarrow> string" where
  "formatOptionalSimulationTime value = (case value of None \<Rightarrow> [] | Some t \<Rightarrow> formatSimulationTime t)"

definition session_label :: "SessionWindow option \<Rightarrow> string" where
  "session_label session = (case session of None \<Rightarrow> [] | Some s \<Rightarrow> Session_Label s)"

definition session_close :: "SessionWindow option \<Rightarrow> string" where
  "session_close session = (case session of None \<Rightarrow> [] | Some s \<Rightarrow> formatSimulationTime (Session_CloseAt s))"

text \<open>The callers pass a policy and a routed order; the nil checks of both marshallers are those of the caller.\<close>

definition marshalSimulationObservationEvidence ::
    "'d lib \<Rightarrow> 'd Policy \<Rightarrow> 'd Account \<Rightarrow> 'd Order \<Rightarrow> 'd QuoteSnapshot option \<Rightarrow> string \<Rightarrow> string \<Rightarrow> time \<Rightarrow> time \<Rightarrow> time \<Rightarrow>
     SessionWindow option \<Rightarrow> string" where
  "marshalSimulationObservationEvidence L policy account order snapshot kind reason evaluatedAt sourceAt receivedAt session =
    json_Marshal L (JObject
      [(''schema'', JString observationEvidenceSchema), (''kind'', JString kind), (''reason'', JString reason),
       (''order_id'', JString (uuid_String L (Order_ID order))),
       (''snapshot_id'', JString (case snapshot of None \<Rightarrow> [] | Some s \<Rightarrow> uuid_String L (QuoteSnapshot_ID s))),
       (''policy_artifact_id'', JString (uuid_String L (Policy_artifactID policy))),
       (''policy_version'', JString (Policy_version policy)),
       (''environment'', JString (AccountEnvironment_string (Account_Environment account))),
       (''evidence_class'', JString (Account_EvidenceClass account)),
       (''storage_namespace'', JString (Account_StorageNamespace account)),
       (''evaluated_at'', JString (formatSimulationTime evaluatedAt)),
       (''source_at'', JString (formatSimulationTime sourceAt)),
       (''received_at'', JString (formatSimulationTime receivedAt)),
       (''available_at'', JString (case snapshot of None \<Rightarrow> []
          | Some s \<Rightarrow> formatOptionalSimulationTime (QuoteSnapshot_AvailableAt s))),
       (''route_session_label'', JString (session_label session)),
       (''route_session_close'', JString (session_close session))])"

definition marshalSimulationFillEvidence ::
    "'d lib \<Rightarrow> 'd Policy \<Rightarrow> 'd Order \<Rightarrow> 'd simulationFillInput \<Rightarrow> 'd option \<Rightarrow> string" where
  "marshalSimulationFillEvidence L policy order input fee =
    (let account = SimFill_Account input; snapshot = SimFill_Snapshot input; assessment = SimFill_Assessment input;
         asset = SimFill_Asset input; level = SimFill_Level input; session = SimFill_RouteSession input
     in json_Marshal L (JObject
      [(''schema'', JString fillEvidenceSchema),
       (''order_id'', JString (uuid_String L (Order_ID order))),
       (''snapshot_id'', JString (uuid_String L (QuoteSnapshot_ID snapshot))),
       (''provider'', JString (QuoteSnapshot_Provider snapshot)),
       (''venue'', JString (QuoteSnapshot_Venue snapshot)),
       (''exchange_at'', JString (formatOptionalSimulationTime (QuoteSnapshot_ExchangeAt snapshot))),
       (''received_at'', JString (formatSimulationTime (QuoteSnapshot_ReceivedAt snapshot))),
       (''available_at'', JString (formatOptionalSimulationTime (QuoteSnapshot_AvailableAt snapshot))),
       (''evaluated_at'', JString (formatSimulationTime (SimFill_EvaluatedAt input))),
       (''exchange_age_nanoseconds'', JString (case QuoteAssessment_ExchangeAge assessment of None \<Rightarrow> []
          | Some age \<Rightarrow> pad_digits 1 age)),
       (''receive_age_nanoseconds'', json_int (QuoteAssessment_ReceiveAge assessment)),
       (''available_age_nanoseconds'', json_int (QuoteAssessment_AvailabilityAge assessment)),
       (''policy_artifact_id'', JString (uuid_String L (Policy_artifactID policy))),
       (''policy_version'', JString (Policy_version policy)),
       (''environment'', JString (AccountEnvironment_string (Account_Environment account))),
       (''evidence_class'', JString (Account_EvidenceClass account)),
       (''storage_namespace'', JString (Account_StorageNamespace account)),
       (''route_session_label'', JString (session_label session)),
       (''route_session_close'', JString (session_close session)),
       (''fixed_latency_nanoseconds'', json_int (Asset_FixedLatency asset)),
       (''side'', JString (Side_string (Order_Side order))),
       (''order_type'', JString (OrderType_string (Order_OrderType order))),
       (''time_in_force'', JString (TimeInForce_string (Order_TimeInForce order))),
       (''depth_side'', JString (DepthSide_string (DepthLevel_Side level))),
       (''depth_level'', json_int (DepthLevel_Level level)),
       (''displayed_size'', JString (decimal_String L (DepthLevel_Size level))),
       (''participation'', JString (decimal_String L (Asset_MaxDepthParticipation asset))),
       (''capacity'', JString (decimal_String L (SimFill_Capacity input))),
       (''quantity'', JString (decimal_String L (SimFill_Quantity input))),
       (''price'', JString (decimal_String L (DepthLevel_Price level))),
       (''multiplier'', JString (decimal_String L (VenueContract_Multiplier (SimFill_VenueContract input)))),
       (''fee_per_order'', JString (decimal_String L (Fees_PerOrder (Asset_Fees asset)))),
       (''fee_per_unit'', JString (decimal_String L (Fees_PerUnit (Asset_Fees asset)))),
       (''fee_notional_bps'', JString (decimal_String L (Fees_NotionalBPS (Asset_Fees asset)))),
       (''fee_scale'', json_int (Fees_Scale (Asset_Fees asset))),
       (''fee_amount'', JString (case fee of None \<Rightarrow> ''0'' | Some f \<Rightarrow> decimal_String L f)),
       (''first_fill'', JBool (SimFill_FirstFill input))]))"

section \<open>Building a fill\<close>

text \<open>\<open>fill.go\<close>.  In the fill that \<open>clock\<close> belongs to, \<open>clock i j\<close> is the \<open>j\<close>-th reading of the \<open>i\<close>-th library call.\<close>

definition simulationExternalOrderID :: "string \<Rightarrow> string" where
  "simulationExternalOrderID orderID = ''simulation/'' @ orderID"

definition simulationSnapshotSourceAt :: "'d QuoteSnapshot \<Rightarrow> time" where
  "simulationSnapshotSourceAt snapshot =
    (case QuoteSnapshot_ExchangeAt snapshot of Some t \<Rightarrow> t | None \<Rightarrow> QuoteSnapshot_ReceivedAt snapshot)"

definition fill_normalizer :: "'d Policy \<Rightarrow> string" where
  "fill_normalizer policy = fillEvidenceSchema @ ''@sha256:'' @ Policy_digest policy"

definition fill_source_event_id :: "'d lib \<Rightarrow> 'd Order \<Rightarrow> 'd QuoteSnapshot \<Rightarrow> 'd DepthLevel \<Rightarrow> string" where
  "fill_source_event_id L order snapshot level =
     simulationFillSourceEventID (uuid_String L (Order_ID order)) (uuid_String L (QuoteSnapshot_ID snapshot))
       (DepthLevel_Side level) (DepthLevel_Level level)"

definition fill_source_input ::
    "'d lib \<Rightarrow> 'd Order \<Rightarrow> 'd simulationFillInput \<Rightarrow> string \<Rightarrow> string \<Rightarrow> EconomicSourceEventInput" where
  "fill_source_input L order input evidence namespace =
    \<lparr>EconomicSourceEventInput_AccountID = Account_ID (SimFill_Account input),
     EconomicSourceEventInput_Source = ''simulation'',
     EconomicSourceEventInput_SourceNamespace = namespace,
     EconomicSourceEventInput_SourceEventID = fill_source_event_id L order (SimFill_Snapshot input) (SimFill_Level input),
     EconomicSourceEventInput_SourceRevision = QuoteSnapshot_SourceRevision (SimFill_Snapshot input),
     EconomicSourceEventInput_ObservedAt = QuoteSnapshot_ReceivedAt (SimFill_Snapshot input),
     EconomicSourceEventInput_RawPayload = evidence,
     EconomicSourceEventInput_CreatedAt = SimFill_EvaluatedAt input\<rparr>"

definition fill_normalization_input ::
    "'d lib \<Rightarrow> 'd Policy \<Rightarrow> 'd Aggregate \<Rightarrow> 'd Order \<Rightarrow> 'd simulationFillInput \<Rightarrow> 'd option \<Rightarrow> EconomicSourceEvent \<Rightarrow>
     'd FillEconomicEventInput" where
  "fill_normalization_input L policy a order input fee sourceEvent =
    \<lparr>FillEvent_Base =
       \<lparr>BaseInput_SourceEvent = Some sourceEvent, BaseInput_Account = Some (SimFill_Account input),
        BaseInput_NormalizerVersion = fill_normalizer policy,
        BaseInput_ExecutionOriginType = Intent_OriginType (Aggregate_Intent a),
        BaseInput_ExecutionOriginID = Intent_OriginID (Aggregate_Intent a),
        BaseInput_ReferenceType = ''execution_fill'',
        BaseInput_ReferenceID = uuid_String L (FillID L (Order_ID order) (EconomicSourceEvent_ID sourceEvent)),
        BaseInput_EffectiveAt = simulationSnapshotSourceAt (SimFill_Snapshot input)\<rparr>,
     FillEvent_Instrument = SimFill_Instrument input,
     FillEvent_VenueContract = SimFill_VenueContract input,
     FillEvent_Side = (if Order_Side order = SideSell then FillSideSell else FillSideBuy),
     FillEvent_Quantity = SimFill_Quantity input,
     FillEvent_Price = DepthLevel_Price (SimFill_Level input),
     FillEvent_Cost = map_option (\<lambda>amount. \<lparr>CostComponent_Kind = CostKindFee,
        CostComponent_Currency = VenueContract_Currency (SimFill_VenueContract input), CostComponent_Amount = amount\<rparr>) fee\<rparr>"

text \<open>The event input of every transition of the venue; the fields the source leaves out are zero.\<close>

definition venue_event :: "string \<Rightarrow> string \<Rightarrow> string \<Rightarrow> time \<Rightarrow> time \<Rightarrow> string \<Rightarrow> string \<Rightarrow> EventInput" where
  "venue_event namespace sourceEventID revision sourceAt receivedAt reason evidence =
    \<lparr>EventInput_Source = ''simulation'', EventInput_SourceNamespace = namespace,
     EventInput_SourceEventID = sourceEventID, EventInput_SourceRevision = revision,
     EventInput_ObservationClass = ObservationUnset, EventInput_ObservationDiscriminator = [],
     EventInput_SourceAt = sourceAt, EventInput_ReceivedAt = receivedAt,
     EventInput_Actor = ''simulation-venue'', EventInput_ReasonCode = reason, EventInput_Reason = [],
     EventInput_Evidence = evidence, EventInput_OriginalFillID = None, EventInput_OriginalSourceEventID = []\<rparr>"

definition fill_effect ::
    "'d Policy \<Rightarrow> 'd simulationFillInput \<Rightarrow> 'd option \<Rightarrow> string \<Rightarrow> string \<Rightarrow> string \<Rightarrow> 'd Fill \<Rightarrow> 'd FillEffect" where
  "fill_effect policy input fee namespace sourceEventID evidence fill =
    \<lparr>Effect_Fill = fill, Effect_DepthSide = DepthLevel_Side (SimFill_Level input),
     Effect_DepthLevel = DepthLevel_Level (SimFill_Level input),
     Effect_DisplayedSize = DepthLevel_Size (SimFill_Level input), Effect_Capacity = SimFill_Capacity input,
     Effect_Quantity = SimFill_Quantity input, Effect_Price = DepthLevel_Price (SimFill_Level input), Effect_Fee = fee,
     Effect_SourceNamespace = namespace, Effect_SourceEventID = sourceEventID, Effect_Evidence = evidence,
     Effect_PolicyVersion = Policy_version policy, Effect_NormalizerVersion = fill_normalizer policy\<rparr>"

definition buildSimulationFill ::
    "('d::linordered_idom) lib \<Rightarrow> (nat \<Rightarrow> nat \<Rightarrow> time) \<Rightarrow> 'd simulationFillInput \<Rightarrow>
     venue_error + ('d Transition \<times> 'd FillEffect)" where
  "buildSimulationFill L clock input =
    (case (SimFill_Policy input, SimFill_Aggregate input) of
       (Some policy, Some a) \<Rightarrow>
        (case Aggregate_Order a of
           None \<Rightarrow> Inl VenueFillRequired
         | Some order \<Rightarrow>
            and_then (wrap VenueFee (FillFee L (Some policy) (Instrument_AssetClass (SimFill_Instrument input))
                (SimFill_Quantity input) (DepthLevel_Price (SimFill_Level input))
                (VenueContract_Multiplier (SimFill_VenueContract input)) (SimFill_FirstFill input))) (\<lambda>fee.
            let evidence = marshalSimulationFillEvidence L policy order input fee in
            and_then (simulationSourceNamespace (SimFill_Account input) ''fill'') (\<lambda>namespace.
            let sourceInput = fill_source_input L order input evidence namespace;
                sourceEventID = EconomicSourceEventInput_SourceEventID sourceInput;
                snapshot = SimFill_Snapshot input
            in
            and_then (wrap VenueSource (NewEconomicSourceEvent L (clock 0 0) sourceInput)) (\<lambda>sourceEvent.
            and_then (wrap VenueNormalization (NewFillEconomicNormalization L (clock 1)
                (fill_normalization_input L policy a order input fee sourceEvent))) (\<lambda>normalization.
            and_then (wrap VenueLifecycle (RecordFill L (clock 2) (Some a)
                \<lparr>FillInput_Normalization = Some normalization,
                 FillInput_ExternalOrderID = simulationExternalOrderID (uuid_String L (Order_ID order)),
                 FillInput_Event = venue_event namespace sourceEventID (QuoteSnapshot_SourceRevision snapshot)
                   (simulationSnapshotSourceAt snapshot) (QuoteSnapshot_ReceivedAt snapshot) ''depth_fill'' evidence,
                 FillInput_CreatedAt = SimFill_EvaluatedAt input\<rparr>)) (\<lambda>transition.
              case Transition_Fill transition of
                None \<Rightarrow> Inl (VenueLifecycle LifecyclePanic)
              | Some fill \<Rightarrow> Inr (transition, fill_effect policy input fee namespace sourceEventID evidence fill)))))))
     | _ \<Rightarrow> Inl VenueFillRequired)"

section \<open>The request\<close>

text \<open>A nil venue and a venue with a nil policy are both \<open>None\<close>.\<close>

definition NewVenue ::
    "('d::linordered_idom) lib \<Rightarrow> 'd policy_codec \<Rightarrow> time \<Rightarrow> 'd Policy option \<Rightarrow> policy_error + 'd Policy option" where
  "NewVenue L codec now policy =
    (case policy of
       None \<Rightarrow> Inl PolicyRequired
     | Some p \<Rightarrow>
        and_then (NewArtifact L now policy unix_epoch) (\<lambda>artifact.
        and_then (PolicyFromArtifact L codec artifact) (\<lambda>_. Inr policy)))"

definition PolicyVersion :: "'d Policy option \<Rightarrow> string" where
  "PolicyVersion venue = (case venue of None \<Rightarrow> [] | Some p \<Rightarrow> Policy_version p)"

definition PolicyDigest :: "'d Policy option \<Rightarrow> string" where
  "PolicyDigest venue = (case venue of None \<Rightarrow> [] | Some p \<Rightarrow> Policy_digest p)"

text \<open>The policy, the aggregate and its order, when none of them is nil.\<close>

definition routed_request :: "'d Policy option \<Rightarrow> 'd EvaluationRequest \<Rightarrow> ('d Policy \<times> 'd Aggregate \<times> 'd Order) option" where
  "routed_request venue request =
    (case (venue, Evaluation_Aggregate request) of
       (Some policy, Some a) \<Rightarrow> map_option (\<lambda>order. (policy, a, order)) (Aggregate_Order a)
     | _ \<Rightarrow> None)"

definition request_context :: "('d::linordered_idom) Aggregate \<Rightarrow> 'd Order \<Rightarrow> 'd EvaluationRequest \<Rightarrow> bool" where
  "request_context a order request \<longleftrightarrow>
    (let intent = Aggregate_Intent a; account = Evaluation_Account request;
         reference = Evaluation_Instrument request; contract = Evaluation_VenueContract request
     in Intent_AccountID intent = Account_ID account \<and> Intent_Environment intent = Account_Environment account \<and>
        Intent_InstrumentID intent = Instrument_ID reference \<and> Order_AccountID order = Account_ID account \<and>
        Order_InstrumentID order = Instrument_ID reference \<and> Order_VenueContractID order = VenueContract_ID contract \<and>
        Order_Venue order = VenueContract_Venue contract \<and> VenueContract_InstrumentID contract = Instrument_ID reference \<and>
        Instrument_PrimaryVenue reference = VenueContract_Venue contract \<and>
        Account_BaseCurrency account = Instrument_Currency reference \<and>
        Account_BaseCurrency account = VenueContract_Currency contract \<and>
        Instrument_TickSize reference = VenueContract_TickSize contract \<and>
        Instrument_LotSize reference = VenueContract_LotSize contract \<and>
        Instrument_Multiplier reference = VenueContract_Multiplier contract)"

definition request_checks ::
    "('d::linordered_idom) lib \<Rightarrow> 'd Policy \<Rightarrow> 'd Aggregate \<Rightarrow> 'd Order \<Rightarrow> 'd EvaluationRequest \<Rightarrow> venue_error option" where
  "request_checks L policy a order request =
    (let evaluatedAt = Evaluation_EvaluatedAt request in first_err
      [guard (IsZero evaluatedAt \<or> loc evaluatedAt \<noteq> UTC \<or> \<not> time_Equal evaluatedAt (Truncate evaluatedAt Microsecond) \<or>
              Before evaluatedAt (Order_RoutedAt order)) VenueEvaluationTime,
       map_option VenueAccount (Account_Validate L (Evaluation_Account request)),
       guard (Account_Status (Evaluation_Account request) \<noteq> AccountStatusActive) VenueAccountInactive,
       map_option VenueInstrument (Instrument_Validate L (Evaluation_Instrument request)),
       map_option VenueContractInvalid (VenueContract_Validate L (Evaluation_VenueContract request)),
       map_option VenueIntent (Intent_Validate L (Aggregate_Intent a)),
       map_option VenueOrder (Order_Validate L order),
       guard (\<not> request_context a order request) VenueContextMismatch,
       guard (Order_PolicyKind order \<noteq> PolicySimulation \<or> Order_PolicyVersion order \<noteq> Policy_version policy)
         VenuePolicyMismatch])"

definition containsSimulationOrderType :: "OrderType list \<Rightarrow> OrderType \<Rightarrow> bool" where
  "containsSimulationOrderType vs target = list_ex (\<lambda>value. value = target) vs"

definition containsSimulationTimeInForce :: "TimeInForce list \<Rightarrow> TimeInForce \<Rightarrow> bool" where
  "containsSimulationTimeInForce vs target = list_ex (\<lambda>value. value = target) vs"

definition validateRequest ::
    "('d::linordered_idom) lib \<Rightarrow> 'd Policy option \<Rightarrow> 'd EvaluationRequest \<Rightarrow>
     venue_error + ('d AssetPolicy \<times> SessionWindow option)" where
  "validateRequest L venue request =
    (case routed_request venue request of
       None \<Rightarrow> Inl VenueRequired
     | Some (policy, a, order) \<Rightarrow>
        ensure (request_checks L policy a order request)
        (let assetClass = Instrument_AssetClass (Evaluation_Instrument request) in
         case Policy_AssetPolicy venue assetClass of
           None \<Rightarrow> Inl VenueUnsupported
         | Some asset \<Rightarrow>
            ensure (guard (\<not> containsSimulationOrderType (Asset_OrderTypes asset) (Order_OrderType order) \<or>
                           \<not> containsSimulationTimeInForce (Asset_TimeInForce asset) (Order_TimeInForce order)) VenueUnsupported)
            (case RouteSession venue assetClass (Order_RoutedAt order) of
               Inr session \<Rightarrow> Inr (asset, session)
             | Inl sessionErr \<Rightarrow>
                 if Calendar_Kind (Asset_Calendar asset) = CalendarExplicitSessions \<and> sessionErr = PolicyOutsideSessions
                 then Inr (asset, None)
                 else Inl (VenueRouteSession sessionErr))))"

section \<open>Depth levels\<close>

definition simulationLevelCrosses :: "('d::linordered_idom) Order \<Rightarrow> 'd \<Rightarrow> bool" where
  "simulationLevelCrosses order price =
    (if Order_OrderType order = OrderMarket then True
     else if Order_OrderType order \<noteq> OrderLimit then False
     else case Order_LimitPrice order of
       None \<Rightarrow> False
     | Some limit \<Rightarrow> if Order_Side order = SideBuy then price \<le> limit else price \<ge> limit)"

definition floorSimulationLot :: "('d::linordered_idom) lib \<Rightarrow> 'd \<Rightarrow> 'd \<Rightarrow> 'd" where
  "floorSimulationLot L value lot =
    (if \<not> value > 0 \<or> \<not> lot > 0 then 0 else decimal_Floor L (decimal_Div L value lot) * lot)"

definition simulationAggregateHasSourceEvent :: "'d Aggregate \<Rightarrow> string \<Rightarrow> bool" where
  "simulationAggregateHasSourceEvent a sourceEventID =
     list_ex (\<lambda>fill. Fill_Source fill = ''simulation'' \<and> Fill_SourceEventID fill = sourceEventID) (Aggregate_Fills a)"

fun simulationFilledQuantity :: "('d::linordered_idom) \<Rightarrow> 'd Fill list \<Rightarrow> 'd" where
  "simulationFilledQuantity total_quantity [] = total_quantity"
| "simulationFilledQuantity total_quantity (fill # fills) = simulationFilledQuantity (total_quantity + Fill_Quantity fill) fills"

definition eligible_capacity_of :: "('d::linordered_idom) lib \<Rightarrow> 'd AssetPolicy \<Rightarrow> 'd \<Rightarrow> 'd DepthLevel \<Rightarrow> 'd" where
  "eligible_capacity_of L asset lotSize level =
     floorSimulationLot L (DepthLevel_Size level * Asset_MaxDepthParticipation asset) lotSize"

fun eligible_levels ::
    "('d::linordered_idom) lib \<Rightarrow> 'd Aggregate \<Rightarrow> 'd Order \<Rightarrow> 'd QuoteSnapshot \<Rightarrow> 'd AssetPolicy \<Rightarrow> 'd \<Rightarrow> DepthSide \<Rightarrow>
     'd DepthLevel list \<Rightarrow> 'd eligibleSimulationLevel list" where
  "eligible_levels L a order snapshot asset lotSize side [] = []"
| "eligible_levels L a order snapshot asset lotSize side (level # ls) =
    (let rest = eligible_levels L a order snapshot asset lotSize side ls;
         capacity = eligible_capacity_of L asset lotSize level
     in if DepthLevel_Side level \<noteq> side \<or> \<not> simulationLevelCrosses order (DepthLevel_Price level) then rest
        else if simulationAggregateHasSourceEvent a (fill_source_event_id L order snapshot level) then rest
        else if \<not> capacity > 0 then rest
        else \<lparr>eligible_level = level, eligible_capacity = capacity\<rparr> # rest)"

definition eligibleLevels ::
    "('d::linordered_idom) lib \<Rightarrow> 'd Aggregate \<Rightarrow> 'd Order \<Rightarrow> 'd QuoteSnapshot \<Rightarrow> 'd AssetPolicy \<Rightarrow> 'd \<Rightarrow>
     'd eligibleSimulationLevel list" where
  "eligibleLevels L a order snapshot asset lotSize =
     eligible_levels L a order snapshot asset lotSize
       (if Order_Side order = SideSell then DepthSideBid else DepthSideAsk) (QuoteSnapshot_Depth snapshot)"

section \<open>Order observations\<close>

definition simulationTimeInSession :: "CalendarPolicy \<Rightarrow> time \<Rightarrow> bool" where
  "simulationTimeInSession calendar evaluatedAt = list_ex (in_session evaluatedAt) (Calendar_Sessions calendar)"

fun terminalSimulationState :: "State \<Rightarrow> bool" where
  "terminalSimulationState StateFilled = True"
| "terminalSimulationState StateCancelled = True"
| "terminalSimulationState StateExpired = True"
| "terminalSimulationState StateRejected = True"
| "terminalSimulationState StateRiskRejected = True"
| "terminalSimulationState StateFailedReconciliation = True"
| "terminalSimulationState _ = False"

definition terminalReceivedAt :: "time \<Rightarrow> time \<Rightarrow> 'd QuoteSnapshot option \<Rightarrow> time" where
  "terminalReceivedAt routedAt evaluatedAt snapshot =
    (case snapshot of
       Some s \<Rightarrow> (if \<not> IsZero (QuoteSnapshot_ReceivedAt s) \<and> After (QuoteSnapshot_ReceivedAt s) routedAt
                  then QuoteSnapshot_ReceivedAt s else evaluatedAt)
     | None \<Rightarrow> evaluatedAt)"

text \<open>Apply a transition the venue has just built and append it to the result.\<close>

definition fold_transition ::
    "('d::linordered_idom) lib \<Rightarrow> 'd Result \<Rightarrow> Decision \<Rightarrow> 'd Transition \<Rightarrow> venue_error + 'd Result" where
  "fold_transition L result decision transition =
    and_then (wrap VenueLifecycle (ApplyTransition L (Some (Result_Aggregate result)) (Some transition))) (\<lambda>next.
      Inr (result\<lparr>Result_Aggregate := next, Result_Transitions := Result_Transitions result @ [transition],
                  Result_Decision := decision\<rparr>))"

definition ensureWorking ::
    "('d::linordered_idom) lib \<Rightarrow> time \<Rightarrow> 'd Policy \<Rightarrow> 'd Result \<Rightarrow> 'd EvaluationRequest \<Rightarrow> SessionWindow option \<Rightarrow>
     Decision \<Rightarrow> string \<Rightarrow> venue_error + 'd Result" where
  "ensureWorking L now policy result request session decision reason =
    (if Aggregate_State (Result_Aggregate result) \<noteq> StateRouted then Inr (result\<lparr>Result_Decision := decision\<rparr>)
     else case Aggregate_Order (Result_Aggregate result) of
       None \<Rightarrow> Inl VenueEvidence
     | Some order \<Rightarrow>
        (let snapshot = Evaluation_Snapshot request;
             sourceAt = simulationSnapshotSourceAt snapshot;
             orderID = uuid_String L (Order_ID order);
             evidence = marshalSimulationObservationEvidence L policy (Evaluation_Account request) order (Some snapshot)
               ''working'' reason (Evaluation_EvaluatedAt request) sourceAt (QuoteSnapshot_ReceivedAt snapshot) session
         in and_then (simulationSourceNamespace (Evaluation_Account request) ''order'') (\<lambda>namespace.
            and_then (wrap VenueLifecycle (Acknowledge L now (Some (Result_Aggregate result)) (simulationExternalOrderID orderID)
                (venue_event namespace
                   (simulationObservationSourceEventID orderID (uuid_String L (QuoteSnapshot_ID snapshot)) ''working'' reason)
                   (QuoteSnapshot_SourceRevision snapshot) sourceAt (QuoteSnapshot_ReceivedAt snapshot) reason evidence)
                (Evaluation_EvaluatedAt request))) (fold_transition L result decision))))"

definition venue_applyTerminal ::
    "('d::linordered_idom) lib \<Rightarrow> time \<Rightarrow> 'd Policy \<Rightarrow> 'd Result \<Rightarrow> 'd EvaluationRequest \<Rightarrow> time \<Rightarrow> EventKind \<Rightarrow> Decision \<Rightarrow>
     string \<Rightarrow> time \<Rightarrow> 'd QuoteSnapshot option \<Rightarrow> SessionWindow option \<Rightarrow> venue_error + 'd Result" where
  "venue_applyTerminal L now policy result request routedAt kind decision reason sourceAt snapshot session =
    (case Aggregate_Order (Result_Aggregate result) of
       None \<Rightarrow> Inl VenueEvidence
     | Some order \<Rightarrow>
        (let evaluatedAt = Evaluation_EvaluatedAt request;
             received = terminalReceivedAt routedAt evaluatedAt snapshot;
             receivedAt = (if Before received sourceAt then evaluatedAt else received);
             evidence = marshalSimulationObservationEvidence L policy (Evaluation_Account request) order snapshot
               (EventKind_string kind) reason evaluatedAt sourceAt receivedAt session;
             snapshotID = (case snapshot of None \<Rightarrow> [] | Some s \<Rightarrow> uuid_String L (QuoteSnapshot_ID s));
             revision = (case snapshot of None \<Rightarrow> [] | Some s \<Rightarrow> QuoteSnapshot_SourceRevision s)
         in and_then (simulationSourceNamespace (Evaluation_Account request) ''order'') (\<lambda>namespace.
            and_then (wrap VenueLifecycle (ObserveOrderTerminal L now (Some (Result_Aggregate result)) kind
                (venue_event namespace
                   (simulationObservationSourceEventID (uuid_String L (Order_ID order)) snapshotID (EventKind_string kind) reason)
                   revision sourceAt receivedAt reason evidence) evaluatedAt)) (fold_transition L result decision))))"

section \<open>Evaluate\<close>

definition level_fill_input ::
    "'d Policy \<Rightarrow> 'd AssetPolicy \<Rightarrow> 'd EvaluationRequest \<Rightarrow> SessionWindow option \<Rightarrow> 'd QuoteAssessment \<Rightarrow> 'd Aggregate \<Rightarrow>
     'd eligibleSimulationLevel \<Rightarrow> 'd \<Rightarrow> 'd simulationFillInput" where
  "level_fill_input policy asset request session assessment current candidate quantity =
    \<lparr>SimFill_Policy = Some policy, SimFill_Asset = asset, SimFill_Account = Evaluation_Account request,
     SimFill_Instrument = Evaluation_Instrument request, SimFill_VenueContract = Evaluation_VenueContract request,
     SimFill_Aggregate = Some current, SimFill_Snapshot = Evaluation_Snapshot request, SimFill_Assessment = assessment,
     SimFill_EvaluatedAt = Evaluation_EvaluatedAt request, SimFill_RouteSession = session,
     SimFill_Level = eligible_level candidate, SimFill_Capacity = eligible_capacity candidate, SimFill_Quantity = quantity,
     SimFill_FirstFill = (Aggregate_Fills current = [])\<rparr>"

text \<open>The loop over the eligible levels; \<open>remaining\<close> is the open quantity and the result holds the current aggregate.\<close>

fun fill_levels ::
    "('d::linordered_idom) lib \<Rightarrow> (nat \<Rightarrow> nat \<Rightarrow> nat \<Rightarrow> time) \<Rightarrow> 'd Policy \<Rightarrow> 'd AssetPolicy \<Rightarrow> 'd EvaluationRequest \<Rightarrow>
     SessionWindow option \<Rightarrow> 'd QuoteAssessment \<Rightarrow> 'd Result \<Rightarrow> 'd \<Rightarrow> 'd eligibleSimulationLevel list \<Rightarrow>
     venue_error + 'd Result" where
  "fill_levels L clock policy asset request session assessment result remaining [] = Inr result"
| "fill_levels L clock policy asset request session assessment result remaining (candidate # levels) =
    (if remaining = 0 then Inr result
     else
       (let capacity = eligible_capacity candidate;
            quantity = (if capacity > remaining then remaining else capacity);
            current = Result_Aggregate result
        in and_then (buildSimulationFill L (clock (length (Result_Fills result)))
               (level_fill_input policy asset request session assessment current candidate quantity)) (\<lambda>(transition, effect).
           and_then (wrap VenueLifecycle (ApplyTransition L (Some current) (Some transition))) (\<lambda>next.
             fill_levels L clock policy asset request session assessment
               (result\<lparr>Result_Aggregate := next, Result_Transitions := Result_Transitions result @ [transition],
                       Result_Fills := Result_Fills result @ [effect]\<rparr>)
               (remaining - quantity) levels))))"

text \<open>What \<open>Evaluate\<close> decides once the levels are consumed.\<close>

definition conclude ::
    "('d::linordered_idom) lib \<Rightarrow> time \<Rightarrow> 'd Policy \<Rightarrow> 'd Order \<Rightarrow> 'd EvaluationRequest \<Rightarrow> SessionWindow option \<Rightarrow> 'd Result \<Rightarrow>
     venue_error + 'd Result" where
  "conclude L now policy order request session result =
    (if Aggregate_State (Result_Aggregate result) = StateFilled then Inr (result\<lparr>Result_Decision := DecisionFilled\<rparr>)
     else if Order_TimeInForce order = TimeInForceIOC then
       venue_applyTerminal L now policy result request (Order_RoutedAt order) EventOrderCancelled DecisionCancelled
         ''ioc_remainder_cancelled'' (simulationSnapshotSourceAt (Evaluation_Snapshot request))
         (Some (Evaluation_Snapshot request)) session
     else if Result_Fills result \<noteq> [] then Inr (result\<lparr>Result_Decision := DecisionPartiallyFilled\<rparr>)
     else ensureWorking L now policy result request session DecisionResting ''no_marketable_depth'')"

fun total_capacity :: "('d::linordered_idom) \<Rightarrow> 'd eligibleSimulationLevel list \<Rightarrow> 'd" where
  "total_capacity capacity [] = capacity"
| "total_capacity capacity (level # levels) = total_capacity (capacity + eligible_capacity level) levels"

text \<open>The part after the latency check: the fill-or-kill test, the loop and the conclusion.\<close>

definition match_depth ::
    "('d::linordered_idom) lib \<Rightarrow> (nat \<Rightarrow> nat \<Rightarrow> nat \<Rightarrow> time) \<Rightarrow> time \<Rightarrow> 'd Policy \<Rightarrow> 'd AssetPolicy \<Rightarrow> 'd Aggregate \<Rightarrow> 'd Order \<Rightarrow>
     'd EvaluationRequest \<Rightarrow> SessionWindow option \<Rightarrow> 'd QuoteAssessment \<Rightarrow> 'd Result \<Rightarrow> venue_error + 'd Result" where
  "match_depth L clock now policy asset a order request session assessment result =
    (let snapshot = Evaluation_Snapshot request;
         levels = eligibleLevels L a order snapshot asset (VenueContract_LotSize (Evaluation_VenueContract request));
         remaining = Order_Quantity order - simulationFilledQuantity 0 (Aggregate_Fills a)
     in if Order_TimeInForce order = TimeInForceFOK \<and> total_capacity 0 levels < remaining then
          venue_applyTerminal L now policy result request (Order_RoutedAt order) EventOrderRejected DecisionRejected
            ''fok_insufficient_depth'' (simulationSnapshotSourceAt snapshot) (Some snapshot) session
        else
          and_then (fill_levels L clock policy asset request session assessment result remaining levels)
            (conclude L now policy order request session))"

text \<open>The quote assessment and the latency check.\<close>

definition evaluate_quote ::
    "('d::linordered_idom) lib \<Rightarrow> (nat \<Rightarrow> nat \<Rightarrow> nat \<Rightarrow> time) \<Rightarrow> time \<Rightarrow> 'd Policy \<Rightarrow> 'd AssetPolicy \<Rightarrow> 'd Aggregate \<Rightarrow> 'd Order \<Rightarrow>
     'd EvaluationRequest \<Rightarrow> SessionWindow option \<Rightarrow> 'd Result \<Rightarrow> venue_error + 'd Result" where
  "evaluate_quote L clock now policy asset a order request session result =
    (let snapshot = Evaluation_Snapshot request; evaluatedAt = Evaluation_EvaluatedAt request in
     and_then (wrap VenueQuote (AssessForExecution L snapshot evaluatedAt (Asset_QuoteRequirements asset)
         (Evaluation_Instrument request) (Evaluation_VenueContract request))) (\<lambda>assessment.
     ensure (guard (QuoteAssessment_SnapshotID assessment \<noteq> QuoteSnapshot_ID snapshot \<or>
                    \<not> time_Equal (QuoteAssessment_EvaluatedAt assessment) evaluatedAt) VenueQuoteIdentity)
     (if opt_all (\<lambda>availableAt. Before availableAt (time_Add (Order_RoutedAt order) (Asset_FixedLatency asset)))
           (QuoteSnapshot_AvailableAt snapshot) then
        (if Order_TimeInForce order = TimeInForceIOC \<or> Order_TimeInForce order = TimeInForceFOK
         then Inr (result\<lparr>Result_Decision := DecisionWaitingLatency\<rparr>)
         else ensureWorking L now policy result request session DecisionWaitingLatency ''fixed_latency_pending'')
      else match_depth L clock now policy asset a order request session assessment result)))"

definition Evaluate ::
    "('d::linordered_idom) lib \<Rightarrow> (nat \<Rightarrow> nat \<Rightarrow> nat \<Rightarrow> time) \<Rightarrow> time \<Rightarrow> 'd Policy option \<Rightarrow> 'd EvaluationRequest \<Rightarrow>
     venue_error + 'd Result" where
  "Evaluate L clock now venue request =
    and_then (validateRequest L venue request) (\<lambda>(asset, routeSession).
    case routed_request venue request of
      None \<Rightarrow> Inl (VenueLifecycle LifecyclePanic)
    | Some (policy, a, order) \<Rightarrow>
       (let result = \<lparr>Result_Decision = DecisionNoop, Result_Aggregate = a, Result_Transitions = [], Result_Fills = []\<rparr>;
            evaluatedAt = Evaluation_EvaluatedAt request;
            explicit = (Calendar_Kind (Asset_Calendar asset) = CalendarExplicitSessions)
        in
        if terminalSimulationState (Aggregate_State a) then Inr result
        else if routeSession = None \<and> explicit then
          venue_applyTerminal L now policy result request (Order_RoutedAt order) EventOrderRejected DecisionRejected
            ''route_outside_session'' (Order_RoutedAt order) None None
        else if Order_TimeInForce order = TimeInForceDay \<and>
                opt_holds (\<lambda>session. \<not> Before evaluatedAt (Session_CloseAt session)) routeSession then
          venue_applyTerminal L now policy result request (Order_RoutedAt order) EventOrderExpired DecisionExpired
            ''day_session_closed'' (case routeSession of None \<Rightarrow> time_zero | Some session \<Rightarrow> Session_CloseAt session)
            (Some (Evaluation_Snapshot request)) routeSession
        else if explicit \<and> \<not> simulationTimeInSession (Asset_Calendar asset) evaluatedAt \<and>
                Order_TimeInForce order = TimeInForceGTC then
          ensureWorking L now policy result request routeSession DecisionResting ''outside_current_session''
        else evaluate_quote L clock now policy asset a order request routeSession result))"

end
