(* ===== verification/Simulation_Outcome.thy ===== *)
theory Simulation_Outcome
  imports Simulation_Venue
begin

text \<open>
  \<open>internal/simulation\<close>: \<open>outcome.go\<close>, the canonical economic projection of one simulated lifecycle, and
  \<open>persist.go\<close>, the order in which a result is written to the store.  The store is an interface: a record of
  functions on a state \<open>'s\<close>, each with its own error or a possibly nil result.
\<close>

section \<open>The outcome\<close>

definition outcomeSchemaV1 :: string where "outcomeSchemaV1 = ''simulation-outcome-v1''"

fun State_string :: "State \<Rightarrow> string" where
  "State_string StateNone = []"
| "State_string StateProposed = ''proposed''"
| "State_string StateAllocated = ''allocated''"
| "State_string StateRiskApproved = ''risk_approved''"
| "State_string StateRiskRejected = ''risk_rejected''"
| "State_string StateRouted = ''routed''"
| "State_string StateWorking = ''working''"
| "State_string StatePartiallyFilled = ''partially_filled''"
| "State_string StateFilled = ''filled''"
| "State_string StateCancelled = ''cancelled''"
| "State_string StateExpired = ''expired''"
| "State_string StateRejected = ''rejected''"
| "State_string StateFailedReconciliation = ''failed_reconciliation''"
| "State_string (OtherState s) = s"

record 'd OutcomeInput =
  OutcomeInput_Account :: "'d Account"
  OutcomeInput_VenueContract :: "'d VenueContract"
  OutcomeInput_Aggregate :: "'d Aggregate option"
  OutcomeInput_Fills :: "'d FillEffect list"

record 'd OutcomeFill =
  OutcomeFill_Quantity :: 'd
  OutcomeFill_Price :: 'd
  OutcomeFill_Fee :: 'd

record 'd Outcome =
  Outcome_PolicyVersion :: string
  Outcome_FinalState :: State
  Outcome_Environment :: AccountEnvironment
  Outcome_EvidenceClass :: string
  Outcome_StorageNamespace :: string
  Outcome_Side :: Side
  Outcome_Currency :: string
  Outcome_Multiplier :: 'd
  Outcome_TotalQuantity :: 'd
  Outcome_GrossCash :: 'd
  Outcome_TotalFee :: 'd
  Outcome_Fills :: "'d OutcomeFill list"
  Outcome_canonicalBytes :: string
  Outcome_hash :: string

datatype outcome_error =
    OutcomeLifecycleRequired
  | OutcomeAccount account_error
  | OutcomeContract contract_error
  | OutcomeIntent intent_error
  | OutcomeOrder order_error
  | OutcomeContext
  | OutcomePolicy
  | OutcomeEffectIdentity
  | OutcomeEffectDuplicated
  | OutcomeEffectCount
  | OutcomeFillInvalid fill_record_error
  | OutcomeEffectMismatch
  | OutcomeFeeNegative

definition outcome_checks ::
    "('d::linordered_idom) lib \<Rightarrow> 'd Aggregate \<Rightarrow> 'd Order \<Rightarrow> 'd OutcomeInput \<Rightarrow> outcome_error option" where
  "outcome_checks L a order input =
    (let account = OutcomeInput_Account input; contract = OutcomeInput_VenueContract input; intent = Aggregate_Intent a
     in first_err
      [map_option OutcomeAccount (Account_Validate L account),
       map_option OutcomeContract (VenueContract_Validate L contract),
       map_option OutcomeIntent (Intent_Validate L intent),
       map_option OutcomeOrder (Order_Validate L order),
       guard (Intent_AccountID intent \<noteq> Account_ID account \<or> Intent_Environment intent \<noteq> Account_Environment account \<or>
              Order_AccountID order \<noteq> Account_ID account \<or> Order_VenueContractID order \<noteq> VenueContract_ID contract \<or>
              Order_Venue order \<noteq> VenueContract_Venue contract \<or>
              Account_BaseCurrency account \<noteq> VenueContract_Currency contract) OutcomeContext,
       guard (Order_PolicyKind order \<noteq> PolicySimulation) OutcomePolicy])"

text \<open>The map from fill identifiers to effects, as an association list in the order of the input.\<close>

fun index_effects :: "(uuid \<times> 'd FillEffect) list \<Rightarrow> 'd FillEffect list \<Rightarrow> outcome_error + (uuid \<times> 'd FillEffect) list" where
  "index_effects effects [] = Inr effects"
| "index_effects effects (effect # rest) =
    (let fid = Fill_ID (Effect_Fill effect) in
     ensure (first_err
       [guard (fid = uuid_Nil) OutcomeEffectIdentity,
        guard (map_of effects fid \<noteq> None) OutcomeEffectDuplicated])
     (index_effects (effects @ [(fid, effect)]) rest))"

definition outcome_notional :: "Side \<Rightarrow> 'd \<Rightarrow> ('d::linordered_idom) Fill \<Rightarrow> 'd" where
  "outcome_notional side multiplier fill =
    (let notional = Fill_Quantity fill * Fill_Price fill * multiplier in if side = SideBuy then - notional else notional)"

text \<open>The loop over the fills of the lifecycle, which extends the outcome in place.\<close>

fun outcome_fills ::
    "('d::linordered_idom) lib \<Rightarrow> (uuid \<times> 'd FillEffect) list \<Rightarrow> 'd Outcome \<Rightarrow> 'd Fill list \<Rightarrow> outcome_error + 'd Outcome" where
  "outcome_fills L effects outcome [] = Inr outcome"
| "outcome_fills L effects outcome (fill # fills) =
    ensure (map_option OutcomeFillInvalid (Fill_Validate L fill))
    (case map_of effects (Fill_ID fill) of
       None \<Rightarrow> Inl OutcomeEffectMismatch
     | Some effect \<Rightarrow>
        (let fee = (case Effect_Fee effect of None \<Rightarrow> 0 | Some f \<Rightarrow> f) in
         ensure (first_err
           [guard (\<not> SameFillPayload (Some fill) (Some (Effect_Fill effect)) \<or>
                   Effect_PolicyVersion effect \<noteq> Outcome_PolicyVersion outcome \<or>
                   Effect_Quantity effect \<noteq> Fill_Quantity fill \<or> Effect_Price effect \<noteq> Fill_Price fill) OutcomeEffectMismatch,
            guard (opt_holds (\<lambda>f. f < 0) (Effect_Fee effect)) OutcomeFeeNegative])
         (outcome_fills L effects
           (outcome\<lparr>Outcome_Fills := Outcome_Fills outcome @
                      [\<lparr>OutcomeFill_Quantity = Fill_Quantity fill, OutcomeFill_Price = Fill_Price fill, OutcomeFill_Fee = fee\<rparr>],
                    Outcome_TotalQuantity := Outcome_TotalQuantity outcome + Fill_Quantity fill,
                    Outcome_GrossCash := Outcome_GrossCash outcome +
                      outcome_notional (Outcome_Side outcome) (Outcome_Multiplier outcome) fill,
                    Outcome_TotalFee := Outcome_TotalFee outcome + fee\<rparr>) fills)))"

definition canonicalOutcome :: "'d lib \<Rightarrow> 'd Outcome \<Rightarrow> json" where
  "canonicalOutcome L outcome = JObject
    [(''schema'', JString outcomeSchemaV1),
     (''policy_version'', JString (Outcome_PolicyVersion outcome)),
     (''final_state'', JString (State_string (Outcome_FinalState outcome))),
     (''environment'', JString (AccountEnvironment_string (Outcome_Environment outcome))),
     (''evidence_class'', JString (Outcome_EvidenceClass outcome)),
     (''storage_namespace'', JString (Outcome_StorageNamespace outcome)),
     (''side'', JString (Side_string (Outcome_Side outcome))),
     (''currency'', JString (Outcome_Currency outcome)),
     (''multiplier'', JString (decimal_String L (Outcome_Multiplier outcome))),
     (''total_quantity'', JString (decimal_String L (Outcome_TotalQuantity outcome))),
     (''gross_cash'', JString (decimal_String L (Outcome_GrossCash outcome))),
     (''total_fee'', JString (decimal_String L (Outcome_TotalFee outcome))),
     (''fills'', JArray (map (\<lambda>f. JObject
        [(''quantity'', JString (decimal_String L (OutcomeFill_Quantity f))),
         (''price'', JString (decimal_String L (OutcomeFill_Price f))),
         (''fee'', JString (decimal_String L (OutcomeFill_Fee f)))]) (Outcome_Fills outcome)))]"

definition initial_outcome :: "'d Aggregate \<Rightarrow> 'd Order \<Rightarrow> 'd OutcomeInput \<Rightarrow> ('d::linordered_idom) Outcome" where
  "initial_outcome a order input =
    (let account = OutcomeInput_Account input; contract = OutcomeInput_VenueContract input in
     \<lparr>Outcome_PolicyVersion = Order_PolicyVersion order, Outcome_FinalState = Aggregate_State a,
      Outcome_Environment = Account_Environment account, Outcome_EvidenceClass = Account_EvidenceClass account,
      Outcome_StorageNamespace = Account_StorageNamespace account, Outcome_Side = Order_Side order,
      Outcome_Currency = VenueContract_Currency contract, Outcome_Multiplier = VenueContract_Multiplier contract,
      Outcome_TotalQuantity = 0, Outcome_GrossCash = 0, Outcome_TotalFee = 0, Outcome_Fills = [],
      Outcome_canonicalBytes = [], Outcome_hash = []\<rparr>)"

definition NewOutcome :: "('d::linordered_idom) lib \<Rightarrow> 'd OutcomeInput \<Rightarrow> outcome_error + 'd Outcome" where
  "NewOutcome L input =
    (case OutcomeInput_Aggregate input of
       None \<Rightarrow> Inl OutcomeLifecycleRequired
     | Some a \<Rightarrow>
        (case Aggregate_Order a of
           None \<Rightarrow> Inl OutcomeLifecycleRequired
         | Some order \<Rightarrow>
            ensure (outcome_checks L a order input)
            (and_then (index_effects [] (OutcomeInput_Fills input)) (\<lambda>effects.
             ensure (guard (length effects \<noteq> length (Aggregate_Fills a)) OutcomeEffectCount)
             (and_then (outcome_fills L effects (initial_outcome a order input) (Aggregate_Fills a)) (\<lambda>outcome.
                let encoded = json_Marshal L (canonicalOutcome L outcome) in
                Inr (outcome\<lparr>Outcome_canonicalBytes := encoded, Outcome_hash := hex_EncodeToString (sha256_Sum256 L encoded)\<rparr>)))))))"

section \<open>The store\<close>

record ('s, 'd) Persistence =
  store_RecordEconomicSourceEvent :: "EconomicSourceEvent \<Rightarrow> 's \<Rightarrow> (string + EconomicSourceEvent option) \<times> 's"
  store_ApplyExecutionFill :: "uuid \<Rightarrow> 'd Transition \<Rightarrow> 's \<Rightarrow> (string + 'd Aggregate option) \<times> 's"
  store_ApplyExecutionTransition :: "uuid \<Rightarrow> 'd Transition \<Rightarrow> 's \<Rightarrow> (string + 'd Aggregate option) \<times> 's"

type_synonym 's PolicyStore = "PolicyArtifact \<Rightarrow> 's \<Rightarrow> (string + PolicyArtifact option) \<times> 's"

datatype persist_error =
    PersistStoreRequired
  | PersistMaterialize policy_error
  | PersistStore string
  | PersistPolicyMismatch
  | PersistContext
  | PersistRawGraph
  | PersistRawMismatch
  | PersistUnexpectedNormalization
  | PersistMismatch

definition RegisterPolicy ::
    "'d lib \<Rightarrow> time \<Rightarrow> 's PolicyStore option \<Rightarrow> 'd Policy option \<Rightarrow> time \<Rightarrow> 's \<Rightarrow> (persist_error + PolicyArtifact) \<times> 's" where
  "RegisterPolicy L now store policy createdAt s =
    (case store of
       None \<Rightarrow> (Inl PersistStoreRequired, s)
     | Some register \<Rightarrow>
        (case NewArtifact L now policy createdAt of
           Inl e \<Rightarrow> (Inl (PersistMaterialize e), s)
         | Inr artifact \<Rightarrow>
            (case register artifact s of
               (Inl e, s') \<Rightarrow> (Inl (PersistStore e), s')
             | (Inr registered, s') \<Rightarrow>
                (case registered of
                   Some r \<Rightarrow> (if SamePolicyArtifactPayload registered (Some artifact) then (Inr r, s')
                             else (Inl PersistPolicyMismatch, s'))
                 | None \<Rightarrow> (Inl PersistPolicyMismatch, s')))))"

text \<open>The loop over the transitions of a result, which holds no nil transition.\<close>

fun persist_transitions ::
    "('s, 'd) Persistence \<Rightarrow> uuid \<Rightarrow> 'd Transition list \<Rightarrow> 'd Aggregate option \<Rightarrow> 's \<Rightarrow>
     (persist_error + 'd Aggregate option) \<times> 's" where
  "persist_transitions store accountID [] persisted s = (Inr persisted, s)"
| "persist_transitions store accountID (t # ts) persisted s =
    (case Transition_Fill t of
       Some fill \<Rightarrow>
        (case (case Transition_Normalization t of None \<Rightarrow> None | Some n \<Rightarrow> Normalization_SourceEvent n) of
           None \<Rightarrow> (Inl PersistRawGraph, s)
         | Some raw \<Rightarrow>
            (case store_RecordEconomicSourceEvent store raw s of
               (Inl e, s1) \<Rightarrow> (Inl (PersistStore e), s1)
             | (Inr persistedRaw, s1) \<Rightarrow>
                if \<not> SameEconomicSourceEventPayload persistedRaw (Some raw) then (Inl PersistRawMismatch, s1)
                else
                  (case store_ApplyExecutionFill store accountID t s1 of
                     (Inl e, s2) \<Rightarrow> (Inl (PersistStore e), s2)
                   | (Inr next, s2) \<Rightarrow> persist_transitions store accountID ts next s2)))
     | None \<Rightarrow>
        if Transition_Normalization t \<noteq> None then (Inl PersistUnexpectedNormalization, s)
        else
          (case store_ApplyExecutionTransition store accountID t s of
             (Inl e, s1) \<Rightarrow> (Inl (PersistStore e), s1)
           | (Inr next, s1) \<Rightarrow> persist_transitions store accountID ts next s1))"

definition PersistResult ::
    "('s, 'd) Persistence option \<Rightarrow> uuid \<Rightarrow> 'd Result option \<Rightarrow> 's \<Rightarrow> (persist_error + 'd Aggregate) \<times> 's" where
  "PersistResult store accountID result s =
    (case store of
       None \<Rightarrow> (Inl PersistStoreRequired, s)
     | Some st \<Rightarrow>
        (case result of
           None \<Rightarrow> (Inl PersistContext, s)
         | Some r \<Rightarrow>
            (let a = Result_Aggregate r in
             if accountID = uuid_Nil \<or> Intent_AccountID (Aggregate_Intent a) \<noteq> accountID then (Inl PersistContext, s)
             else if Result_Transitions r = [] then (Inr a, s)
             else
               (case persist_transitions st accountID (Result_Transitions r) None s of
                  (Inl e, s') \<Rightarrow> (Inl e, s')
                | (Inr None, s') \<Rightarrow> (Inl PersistMismatch, s')
                | (Inr (Some persisted), s') \<Rightarrow>
                    if Intent_ID (Aggregate_Intent persisted) \<noteq> Intent_ID (Aggregate_Intent a) \<or>
                       Aggregate_State persisted \<noteq> Aggregate_State a \<or>
                       length (Aggregate_Fills persisted) \<noteq> length (Aggregate_Fills a)
                    then (Inl PersistMismatch, s') else (Inr persisted, s')))))"

end
