(* ===== verification/Sorting.thy ===== *)
theory Sorting
  imports Go_Prelude
begin

text \<open>
  What sorting with \<open>sort.Slice\<close> guarantees: the locale \<open>comparison\<close> states the laws of the comparison and is interpreted for each
  order the code sorts by.
\<close>

section \<open>Sorting\<close>

lemma sort_by_id: "sorted_wrt (\<lambda>a b. \<not> lt b a) xs \<Longrightarrow> sort_by lt xs = xs"
proof (induction xs)
  case (Cons x xs)
  then have "insert_by lt x xs = x # xs" by (cases xs) auto
  with Cons show ?case by (simp add: sort_by_def)
qed simp

text \<open>The comparisons the code sorts by are strict weak orders, so sorting is idempotent.\<close>

locale comparison =
  fixes lt :: "'a \<Rightarrow> 'a \<Rightarrow> bool"
  assumes asym: "lt x y \<Longrightarrow> \<not> lt y x"
    and weak: "lt x y \<Longrightarrow> \<not> lt z y \<Longrightarrow> lt x z"
begin

lemma sorted_result: "sorted_wrt (\<lambda>a b. \<not> lt b a) (sort_by lt xs)"
  by (rule sorted_sort_by) (fact weak, fact asym)

lemma sort_idem: "sort_by lt (sort_by lt xs) = sort_by lt xs"
  by (rule sort_by_id) (rule sorted_result)

text \<open>A strictly ordered list is the result of sorting any of its permutations.\<close>

lemma sorted_unique:
  "mset zs = mset ys \<Longrightarrow> sorted_wrt lt ys \<Longrightarrow> sorted_wrt (\<lambda>a b. \<not> lt b a) zs \<Longrightarrow> zs = ys"
proof (induction ys arbitrary: zs)
  case (Cons y ys)
  then obtain z zs' where z: "zs = z # zs'" by (cases zs) auto
  have "z = y"
  proof (rule ccontr)
    assume ne: "z \<noteq> y"
    with Cons.prems(1) z have "z \<in> set ys" "y \<in> set zs'"
      by (metis insert_iff list.set(2) set_mset_mset)+
    with Cons.prems(2,3) z show False by auto
  qed
  with Cons z show ?case by auto
qed simp

lemma sort_of_permutation: "mset xs = mset ys \<Longrightarrow> sorted_wrt lt ys \<Longrightarrow> sort_by lt xs = ys"
  by (rule sorted_unique [OF _ _ sorted_result]) simp_all

end

end
