(* ===== verification/Simulation_Policy_Correctness.thy ===== *)
theory Simulation_Policy_Correctness
  imports Simulation_Policy String_Lemmas Sorting
begin

text \<open>
  What \<open>NewPolicy\<close> guarantees: its assets are in normal form (normalizing them again changes nothing), the sessions of
  an explicit calendar are ordered and disjoint, so a time is routed to at most one of them, and the policy restored
  from its artifact is the policy itself.
\<close>

section \<open>The orders of the normal form\<close>

interpretation order_types: comparison "\<lambda>x y. OrderType_string x < OrderType_string y"
  by unfold_locales auto

interpretation times_in_force: comparison "\<lambda>x y. TimeInForce_string x < TimeInForce_string y"
  by unfold_locales auto

interpretation statuses: comparison "(<) :: string \<Rightarrow> string \<Rightarrow> bool"
  by unfold_locales auto

interpretation sessions: comparison session_less
  by unfold_locales (auto simp: session_less_def time_Equal_def Before_def split: if_splits)

interpretation asset_classes: comparison "\<lambda>x y. AssetClass_string (Asset_AssetClass x) < AssetClass_string (Asset_AssetClass y)"
  by unfold_locales auto

section \<open>The checks over lists\<close>

lemma order_type_checks_ok:
  "order_type_checks seen vs = None \<longleftrightarrow> set vs \<subseteq> {OrderMarket, OrderLimit} \<and> distinct vs \<and> set vs \<inter> set seen = {}"
  by (induction vs arbitrary: seen) auto

lemma time_in_force_checks_ok:
  "time_in_force_checks seen vs = None \<longleftrightarrow>
   set vs \<subseteq> {TimeInForceDay, TimeInForceGTC, TimeInForceIOC, TimeInForceFOK} \<and> distinct vs \<and> set vs \<inter> set seen = {}"
  by (induction vs arbitrary: seen) auto

definition session_ok :: "SessionWindow \<Rightarrow> bool" where
  "session_ok s \<longleftrightarrow> policySessionLabel (Session_Label s) \<and> validatePolicyTime (Session_OpenAt s) \<and>
     validatePolicyTime (Session_CloseAt s) \<and> After (Session_CloseAt s) (Session_OpenAt s)"

lemma session_checks_ok:
  "session_checks labels ss = None \<longleftrightarrow>
   list_all session_ok ss \<and> distinct (map Session_Label ss) \<and> Session_Label ` set ss \<inter> set labels = {}"
  by (induction ss arbitrary: labels) (auto simp: session_ok_def policySessionLabel_def)

section \<open>Texts in normal form\<close>

lemma char_in_bounds:
  "char_in lo hi c \<longleftrightarrow> (of_char lo :: nat) \<le> of_char c \<and> (of_char c :: nat) \<le> of_char hi"
  by (simp add: char_in_def less_eq_char_def)

lemma status_char:
  assumes "char_in (CHR ''a'') (CHR ''z'') c \<or> char_in (CHR ''0'') (CHR ''9'') c \<or> c \<in> set ''_.:-''"
  shows "plain c" and "ascii_lower c = c"
  using assms by (auto simp: plain_def ascii_lower_def less_eq_char_def char_in_bounds)

lemma status_token_chars:
  assumes "policyStatusToken s"
  shows "s \<noteq> []" and "list_all plain s" and "list_all (\<lambda>c. ascii_lower c = c) s"
  using assms status_char by (auto simp: policyStatusToken_def list_all_iff split: list.splits)

lemma status_token_normal:
  assumes "policyStatusToken s"
  shows "ToLower L (TrimSpace s) = s"
proof -
  note chars = status_token_chars [OF assms]
  have "ascii s" using chars(2) by (auto simp: ascii_def list_all_iff plain_def)
  with chars show ?thesis by (simp add: TrimSpace_plain ToLower_id)
qed

lemma session_label_trimmed: "policySessionLabel s \<Longrightarrow> TrimSpace s = s"
  by (rule TrimSpace_plain)
    (auto simp: policySessionLabel_def alphanumeric_def char_in_bounds plain_def list_all_iff split: list.splits)

lemma collect_statuses_ok:
  "collect_statuses L acc vs = Inr ws \<Longrightarrow> list_all policyStatusToken acc \<Longrightarrow> distinct acc \<Longrightarrow>
   list_all policyStatusToken ws \<and> distinct ws"
  by (induction L acc vs rule: collect_statuses.induct) (auto simp: Let_def split: if_splits)

lemma collect_statuses_nonempty: "collect_statuses L acc vs = Inr ws \<Longrightarrow> vs \<noteq> [] \<or> acc \<noteq> [] \<Longrightarrow> ws \<noteq> []"
  by (induction L acc vs rule: collect_statuses.induct) (fastforce simp: Let_def split: if_splits)+

lemma collect_statuses_id:
  "list_all policyStatusToken ws \<Longrightarrow> distinct (acc @ ws) \<Longrightarrow> collect_statuses L acc ws = Inr (acc @ ws)"
proof (induction ws arbitrary: acc)
  case (Cons w ws)
  then have "w \<noteq> []" "ToLower L (TrimSpace w) = w" "w \<notin> set acc"
    by (auto dest: status_token_chars(1) status_token_normal)
  with Cons.IH [of "acc @ [w]"] Cons.prems show ?case by (simp add: Let_def)
qed simp

section \<open>Normalization is idempotent\<close>

lemma normalizeOrderTypes_normal:
  "normalizeOrderTypes vs = Inr ws \<Longrightarrow> normalizeOrderTypes ws = Inr ws \<and> set ws \<subseteq> {OrderMarket, OrderLimit}"
  by (auto simp: normalizeOrderTypes_def order_type_checks_ok order_types.sort_idem)

lemma normalizeTimeInForce_normal:
  "normalizeTimeInForce vs = Inr ws \<Longrightarrow> normalizeTimeInForce ws = Inr ws \<and>
   set ws \<subseteq> {TimeInForceDay, TimeInForceGTC, TimeInForceIOC, TimeInForceFOK}"
  by (auto simp: normalizeTimeInForce_def time_in_force_checks_ok times_in_force.sort_idem)

lemma normalizeStatuses_normal: "normalizeStatuses L vs = Inr ws \<Longrightarrow> normalizeStatuses L ws = Inr ws"
proof -
  assume "normalizeStatuses L vs = Inr ws"
  then obtain xs where xs: "collect_statuses L [] vs = Inr xs" "vs \<noteq> []" "ws = sort_by (<) xs"
    by (auto simp: normalizeStatuses_def)
  from collect_statuses_ok [OF xs(1)] have "list_all policyStatusToken ws" "distinct ws" by (auto simp: xs(3) list_all_iff)
  moreover have "ws \<noteq> []" using collect_statuses_nonempty [OF xs(1)] xs(2,3) by simp
  ultimately show ?thesis
    using collect_statuses_id [of ws "[]" L] by (simp add: normalizeStatuses_def) (simp add: xs(3) statuses.sort_idem)
qed

lemma normalizeQuoteRequirements_normal:
  assumes "normalizeQuoteRequirements L r = Inr r'"
  shows "normalizeQuoteRequirements L r' = Inr r'"
proof -
  from assms obtain ms ss where "normalizeStatuses L (AllowedMarketStatuses r) = Inr ms"
    "normalizeStatuses L (AllowedSessionStatuses r) = Inr ss" "r' = r\<lparr>AllowedMarketStatuses := ms, AllowedSessionStatuses := ss\<rparr>"
    by (auto simp: normalizeQuoteRequirements_def)
  moreover from this have "normalizeStatuses L ms = Inr ms" "normalizeStatuses L ss = Inr ss" by (simp_all add: normalizeStatuses_normal)
  ultimately show ?thesis using assms by (simp add: normalizeQuoteRequirements_def)
qed

lemma normalizeCalendar_normal:
  assumes "normalizeCalendar c tif = Inr c'"
  shows "normalizeCalendar c' tif = Inr c'" and "Calendar_Kind c' \<in> {CalendarExplicitSessions, CalendarContinuous24x7}"
    and "list_all session_ok (Calendar_Sessions c')" and "\<not> sessions_overlap (Calendar_Sessions c')"
proof -
  have "normalizeCalendar c' tif = Inr c' \<and> Calendar_Kind c' \<in> {CalendarExplicitSessions, CalendarContinuous24x7} \<and>
    list_all session_ok (Calendar_Sessions c') \<and> \<not> sessions_overlap (Calendar_Sessions c')"
  proof (cases "Calendar_Kind c")
    case CalendarExplicitSessions
    let ?ss = "map trim_label (Calendar_Sessions c)"
    from assms CalendarExplicitSessions have c': "c' = \<lparr>Calendar_Kind = CalendarExplicitSessions, Calendar_Sessions = sort_by session_less ?ss\<rparr>"
      and ok: "Calendar_Sessions c \<noteq> []" "list_all session_ok ?ss" "distinct (map Session_Label ?ss)"
        "\<not> sessions_overlap (sort_by session_less ?ss)"
      by (auto simp: normalizeCalendar_def Let_def session_checks_ok)
    let ?ord = "sort_by session_less ?ss"
    have ord: "list_all session_ok ?ord" "distinct (map Session_Label ?ord)"
      using ok(2,3) mset_eq_imp_distinct_iff [of "map Session_Label ?ord" "map Session_Label ?ss"]
      by (auto simp: list_all_iff simp del: map_map)
    have "map trim_label ?ord = ?ord"
      by (rule map_idI) (use ord(1) in \<open>auto simp: list_all_iff trim_label_def session_ok_def session_label_trimmed\<close>)
    with ok ord show ?thesis by (simp add: c' normalizeCalendar_def Let_def session_checks_ok sessions.sort_idem)
  qed (use assms in \<open>auto simp: normalizeCalendar_def\<close>)
  then show "normalizeCalendar c' tif = Inr c'" "Calendar_Kind c' \<in> {CalendarExplicitSessions, CalendarContinuous24x7}"
    "list_all session_ok (Calendar_Sessions c')" "\<not> sessions_overlap (Calendar_Sessions c')" by blast+
qed

text \<open>An asset policy in normal form.\<close>

definition asset_normal :: "('d::linordered_idom) lib \<Rightarrow> 'd AssetPolicy \<Rightarrow> bool" where
  "asset_normal L a \<longleftrightarrow> normalizeAssetPolicy L a = Inr a \<and> set (Asset_OrderTypes a) \<subseteq> {OrderMarket, OrderLimit} \<and>
     set (Asset_TimeInForce a) \<subseteq> {TimeInForceDay, TimeInForceGTC, TimeInForceIOC, TimeInForceFOK} \<and>
     Calendar_Kind (Asset_Calendar a) \<in> {CalendarExplicitSessions, CalendarContinuous24x7} \<and>
     list_all session_ok (Calendar_Sessions (Asset_Calendar a)) \<and> \<not> sessions_overlap (Calendar_Sessions (Asset_Calendar a)) \<and>
     supportedSimulationAsset (Asset_AssetClass a) \<and> decimal_Round L (Asset_MaxDepthParticipation a) 12 = Asset_MaxDepthParticipation a \<and>
     0 < Asset_MaxDepthParticipation a \<and> Asset_MaxDepthParticipation a \<le> 1 \<and> 0 \<le> Asset_FixedLatency a"

lemma normalizeAssetPolicy_normal:
  assumes "normalizeAssetPolicy L a = Inr a'"
  shows "asset_normal L a'" and "Asset_AssetClass a' = Asset_AssetClass a"
proof -
  from assms obtain ots tifs req cal fee where
    n: "normalizeOrderTypes (Asset_OrderTypes a) = Inr ots" "normalizeTimeInForce (Asset_TimeInForce a) = Inr tifs"
      "normalizeQuoteRequirements L (Asset_QuoteRequirements a) = Inr req" "normalizeCalendar (Asset_Calendar a) tifs = Inr cal"
      "normalizeFees L (Asset_Fees a) = Inr fee"
    and a': "a' = a\<lparr>Asset_OrderTypes := ots, Asset_TimeInForce := tifs, Asset_QuoteRequirements := req, Asset_Calendar := cal, Asset_Fees := fee\<rparr>"
    and ok: "supportedSimulationAsset (Asset_AssetClass a)"
      "validatePositivePolicyDecimal L (Asset_MaxDepthParticipation a) = None" "Asset_MaxDepthParticipation a \<le> 1" "0 \<le> Asset_FixedLatency a"
    by (auto simp only: normalizeAssetPolicy_def ensure_eq_Inr and_then_eq_Inr first_err_Cons_None guard_eq_None option.map_disc_iff
        not_less not_not sum.inject)
  note norm = normalizeOrderTypes_normal [OF n(1)] normalizeTimeInForce_normal [OF n(2)] normalizeQuoteRequirements_normal [OF n(3)]
    normalizeCalendar_normal [OF n(4)]
  have fee: "normalizeFees L fee = Inr fee" using n(5) by (auto simp: normalizeFees_def)
  have "normalizeAssetPolicy L a' = Inr a'"
    using norm fee ok by (simp add: a' normalizeAssetPolicy_def not_less)
  with norm ok show "asset_normal L a'"
    by (auto simp: asset_normal_def a' validatePositivePolicyDecimal_def validatePolicyDecimalShape_def)
  show "Asset_AssetClass a' = Asset_AssetClass a" by (simp add: a')
qed

section \<open>The policy\<close>

lemma normalize_assets_normal:
  "normalize_assets L seen cs = Inr as \<Longrightarrow>
   list_all (asset_normal L) as \<and> distinct (map Asset_AssetClass as) \<and> Asset_AssetClass ` set as \<inter> set seen = {} \<and> length as = length cs"
proof (induction cs arbitrary: seen as)
  case (Cons c cs)
  then obtain a as' where a: "normalizeAssetPolicy L c = Inr a" and as: "normalize_assets L (Asset_AssetClass c # seen) cs = Inr as'" "as = a # as'"
    and new: "Asset_AssetClass c \<notin> set seen" by auto
  from Cons.IH [OF as(1)] normalizeAssetPolicy_normal [OF a] new show ?case by (auto simp: as(2))
qed simp

lemma normalize_assets_id:
  "list_all (asset_normal L) as \<Longrightarrow> distinct (map Asset_AssetClass as) \<Longrightarrow> Asset_AssetClass ` set as \<inter> set seen = {} \<Longrightarrow>
   normalize_assets L seen as = Inr as"
  by (induction as arbitrary: seen) (auto simp: asset_normal_def)

definition policy_normal :: "('d::linordered_idom) lib \<Rightarrow> 'd Policy \<Rightarrow> bool" where
  "policy_normal L p \<longleftrightarrow> p = policy_of L (Policy_assets p) \<and> Policy_assets p \<noteq> [] \<and> list_all (asset_normal L) (Policy_assets p) \<and>
     distinct (map Asset_AssetClass (Policy_assets p)) \<and>
     sort_by (\<lambda>x y. AssetClass_string (Asset_AssetClass x) < AssetClass_string (Asset_AssetClass y)) (Policy_assets p) = Policy_assets p"

lemma Policy_assets_policy_of [simp]: "Policy_assets (policy_of L as) = as"
  by (simp add: policy_of_def Let_def)

lemma NewPolicy_normal:
  assumes "NewPolicy L input = Inr p"
  shows "policy_normal L p"
proof -
  let ?lt = "\<lambda>x y :: 'a AssetPolicy. AssetClass_string (Asset_AssetClass x) < AssetClass_string (Asset_AssetClass y)"
  from assms obtain as where as: "normalize_assets L [] (PolicyInput_Assets input) = Inr as" "PolicyInput_Assets input \<noteq> []"
    and p: "p = policy_of L (sort_by ?lt as)" by (auto simp: NewPolicy_def)
  note ok = normalize_assets_normal [OF as(1)]
  have "distinct (map Asset_AssetClass (sort_by ?lt as))"
    using ok mset_eq_imp_distinct_iff [of "map Asset_AssetClass (sort_by ?lt as)" "map Asset_AssetClass as"] by simp
  moreover have "sort_by ?lt as \<noteq> []" using ok as(2) by (cases as) auto
  ultimately show ?thesis using ok by (simp add: policy_normal_def p asset_classes.sort_idem list_all_iff)
qed

lemma policy_normal_again:
  assumes "policy_normal L p"
  shows "NewPolicy L \<lparr>PolicyInput_Schema = PolicySchemaV1, PolicyInput_Assets = Policy_assets p\<rparr> = Inr p"
proof -
  have "TrimSpace PolicySchemaV1 = PolicySchemaV1" by (rule TrimSpace_plain) (simp add: PolicySchemaV1_def plain_def)
  with assms show ?thesis
    by (simp add: NewPolicy_def policy_normal_def normalize_assets_id)
qed

lemma policy_asset_normal:
  "policy_normal L p \<Longrightarrow> Policy_AssetPolicy (Some p) c = Some asset \<Longrightarrow> asset_normal L asset"
  by (auto simp: policy_normal_def Policy_AssetPolicy_def list_all_iff find_Some_iff)

section \<open>Sessions\<close>

lemma no_overlap_ordered:
  "list_all session_ok ss \<Longrightarrow> \<not> sessions_overlap ss \<Longrightarrow>
   sorted_wrt (\<lambda>s s'. instant (Session_CloseAt s) \<le> instant (Session_OpenAt s')) ss"
proof (induction ss rule: sessions_overlap.induct)
  case (1 s s' ss)
  then have rest: "sorted_wrt (\<lambda>s s'. instant (Session_CloseAt s) \<le> instant (Session_OpenAt s')) (s' # ss)"
    and first: "instant (Session_CloseAt s) \<le> instant (Session_OpenAt s')"
    and ok: "instant (Session_OpenAt s') < instant (Session_CloseAt s')"
    by (auto simp: Before_def After_def session_ok_def)
  from rest first ok have "instant (Session_CloseAt s) \<le> instant (Session_OpenAt x)" if "x \<in> set (s' # ss)" for x
    using that by fastforce
  with rest show ?case by simp
qed simp_all

lemma session_unique:
  assumes "sorted_wrt (\<lambda>s s'. instant (Session_CloseAt s) \<le> instant (Session_OpenAt s')) ss"
    and "s \<in> set ss" and "s' \<in> set ss" and "in_session t s" and "in_session t s'"
  shows "s = s'"
proof -
  have disjoint: "\<not> in_session t y" if "instant (Session_CloseAt x) \<le> instant (Session_OpenAt y)" "in_session t x" for x y
    using that by (auto simp: in_session_def Before_def)
  from assms(2,3) obtain i j where "i < length ss" "s = ss ! i" "j < length ss" "s' = ss ! j" by (metis in_set_conv_nth)
  with sorted_wrt_nth_less [OF assms(1), of i j] sorted_wrt_nth_less [OF assms(1), of j i] disjoint assms(4,5)
  show ?thesis by (cases i j rule: linorder_cases) auto
qed

section \<open>Restoring a policy\<close>

text \<open>The decoder and the parsers invert the encoder on the texts of a policy.\<close>

definition codec_inverts :: "('d::linordered_idom) lib \<Rightarrow> 'd policy_codec \<Rightarrow> 'd Policy \<Rightarrow> bool" where
  "codec_inverts L codec p \<longleftrightarrow>
     decode_policy codec (Policy_canonicalBytes p) = Some (canonical_policy L (Policy_assets p), []) \<and> json_Decode L [] = EOF \<and>
     list_all (\<lambda>a.
       list_all (\<lambda>d. decimal_NewFromString codec (decimal_String L d) = Some d)
         [Asset_MaxDepthParticipation a, Fees_PerOrder (Asset_Fees a), Fees_PerUnit (Asset_Fees a), Fees_NotionalBPS (Asset_Fees a)] \<and>
       list_all (\<lambda>s. parse_policy_time codec (format_time (Session_OpenAt s)) = Some (Session_OpenAt s) \<and>
                      parse_policy_time codec (format_time (Session_CloseAt s)) = Some (Session_CloseAt s))
         (Calendar_Sessions (Asset_Calendar a))) (Policy_assets p)"

lemma parsed_Some [simp]: "parsed (Some x) e = Inr x"
  by (simp add: parsed_def)

lemma sessions_round_trip:
  "list_all (\<lambda>s. parse_policy_time codec (format_time (Session_OpenAt s)) = Some (Session_OpenAt s) \<and>
                  parse_policy_time codec (format_time (Session_CloseAt s)) = Some (Session_CloseAt s)) ss \<Longrightarrow>
   sessions_from_canonical codec (map canonical_session ss) = Inr ss"
  by (induction ss) (simp_all add: canonical_session_def)

lemma enum_round_trips:
  "t \<in> {OrderMarket, OrderLimit} \<Longrightarrow> OrderType_of_string (OrderType_string t) = t"
  "f \<in> {TimeInForceDay, TimeInForceGTC, TimeInForceIOC, TimeInForceFOK} \<Longrightarrow> TimeInForce_of_string (TimeInForce_string f) = f"
  "k \<in> {CalendarExplicitSessions, CalendarContinuous24x7} \<Longrightarrow> CalendarKind_of_string (CalendarKind_string k) = k"
  "supportedSimulationAsset c \<Longrightarrow> AssetClass_of_string (AssetClass_string c) = c"
  by (auto simp: OrderType_of_string_def TimeInForce_of_string_def CalendarKind_of_string_def AssetClass_of_string_def
      supportedSimulationAsset_def)

lemma requirements_round_trip: "requirements_from_canonical (canonical_requirements r) = r"
  by (simp add: requirements_from_canonical_def canonical_requirements_def)

lemma asset_round_trip:
  assumes "asset_normal L a"
    and "list_all (\<lambda>d. decimal_NewFromString codec (decimal_String L d) = Some d)
         [Asset_MaxDepthParticipation a, Fees_PerOrder (Asset_Fees a), Fees_PerUnit (Asset_Fees a), Fees_NotionalBPS (Asset_Fees a)]"
    and "list_all (\<lambda>s. parse_policy_time codec (format_time (Session_OpenAt s)) = Some (Session_OpenAt s) \<and>
                      parse_policy_time codec (format_time (Session_CloseAt s)) = Some (Session_CloseAt s))
         (Calendar_Sessions (Asset_Calendar a))"
  shows "asset_from_canonical codec (canonicalAsset L a) = Inr a"
proof -
  have "map (OrderType_of_string \<circ> OrderType_string) (Asset_OrderTypes a) = Asset_OrderTypes a"
    "map (TimeInForce_of_string \<circ> TimeInForce_string) (Asset_TimeInForce a) = Asset_TimeInForce a"
    by (intro map_idI, simp, rule enum_round_trips, use assms(1) in \<open>auto simp: asset_normal_def\<close>)+
  with assms enum_round_trips(3,4) sessions_round_trip [OF assms(3)] show ?thesis
    by (simp add: asset_from_canonical_def canonicalAsset_def canonical_fees_def requirements_round_trip asset_normal_def)
qed

lemma assets_round_trip:
  assumes "codec_inverts L codec p" and "policy_normal L p"
  shows "policyInputFromCanonical codec (canonical_policy L (Policy_assets p)) =
    Inr \<lparr>PolicyInput_Schema = PolicySchemaV1, PolicyInput_Assets = Policy_assets p\<rparr>"
proof -
  have "assets_from_canonical codec (map (canonicalAsset L) as) = Inr as"
    if "list_all (\<lambda>a. asset_from_canonical codec (canonicalAsset L a) = Inr a) as" for as
    using that by (induction as) simp_all
  moreover have "list_all (\<lambda>a. asset_from_canonical codec (canonicalAsset L a) = Inr a) (Policy_assets p)"
    using assms asset_round_trip unfolding codec_inverts_def policy_normal_def list_all_iff by blast
  ultimately show ?thesis by (simp add: policyInputFromCanonical_def canonical_policy_def)
qed

lemma NewArtifact_fields:
  assumes "NewArtifact L now (Some p) createdAt = Inr artifact"
  shows "PolicyArtifact_Validate L artifact = None" "Artifact_ID artifact = Policy_artifactID p" "Artifact_Schema artifact = Policy_schema p"
    "Artifact_Version artifact = Policy_version p" "Artifact_SHA256 artifact = Policy_digest p"
    "Artifact_CanonicalBytes artifact = Policy_canonicalBytes p"
  using assms by (auto simp: NewArtifact_def Let_def)

end
