(* ===== verification/Simulation_Correctness.thy ===== *)
theory Simulation_Correctness
  imports Simulation_Outcome Simulation_Policy_Correctness Lifecycle_Acceptance
begin

text \<open>
  What the simulated venue guarantees.  A result of \<open>Evaluate\<close> \<open>follows\<close> the aggregate of the request: its transitions
  replay from there to its aggregate, and its effects are the new fills.  The lemmas on the observations, on one fill
  and on the loop over the levels are put together by the cases of \<open>Evaluate\<close>.
\<close>

section \<open>Results\<close>

definition follows :: "('d::linordered_idom) lib \<Rightarrow> 'd Aggregate \<Rightarrow> 'd Result \<Rightarrow> bool" where
  "follows L a r \<longleftrightarrow> replay (apply_transition L) a (Result_Transitions r) = Inr (Result_Aggregate r) \<and>
     Aggregate_Fills (Result_Aggregate r) = Aggregate_Fills a @ map Effect_Fill (Result_Fills r)"

interpretation venue_replay: event_sourced "apply_transition L" a "\<lambda>_. True"
    "\<lambda>b. lifecycle_invar L a \<longrightarrow> lifecycle_invar L b \<and> extends a b" for L a
  by unfold_locales (auto intro: apply_transition_invar extends_refl extends_trans apply_transition_extends)

lemma follows_invar:
  assumes "follows L a r" and "lifecycle_invar L a"
  shows "lifecycle_invar L (Result_Aggregate r)" and "extends a (Result_Aggregate r)"
  using venue_replay.invar_replay [of L a "Result_Transitions r" "Result_Aggregate r"] assms
  by (auto simp: follows_def list_all_iff)

lemma follows_start: "follows L a \<lparr>Result_Decision = d, Result_Aggregate = a, Result_Transitions = [], Result_Fills = []\<rparr>"
  by (simp add: follows_def)

lemma follows_decision [simp]: "follows L a (r\<lparr>Result_Decision := d\<rparr>) \<longleftrightarrow> follows L a r"
  by (simp add: follows_def)

text \<open>One accepted transition that adds the fills of some effects.\<close>

definition moves :: "('d::linordered_idom) lib \<Rightarrow> 'd Result \<Rightarrow> 'd FillEffect list \<Rightarrow> 'd Result \<Rightarrow> bool" where
  "moves L r effects r' \<longleftrightarrow>
     (\<exists>t. apply_transition L (Result_Aggregate r) t = Inr (Result_Aggregate r') \<and>
          Result_Transitions r' = Result_Transitions r @ [t]) \<and>
     Aggregate_Fills (Result_Aggregate r') = Aggregate_Fills (Result_Aggregate r) @ map Effect_Fill effects \<and>
     Result_Fills r' = Result_Fills r @ effects"

lemma moves_follows: "follows L a r \<Longrightarrow> moves L r effects r' \<Longrightarrow> follows L a r'"
  by (auto simp: follows_def moves_def replay_append)

section \<open>Order observations\<close>

lemma fold_transition_eq:
  "fold_transition L r d t = Inr r' \<longleftrightarrow>
   (\<exists>b. apply_transition L (Result_Aggregate r) t = Inr b \<and>
        r' = r\<lparr>Result_Aggregate := b, Result_Transitions := Result_Transitions r @ [t], Result_Decision := d\<rparr>)"
  by (auto simp: fold_transition_def ApplyTransition_def)

lemma ensureWorking_cases:
  assumes "ensureWorking L now policy r request session d reason = Inr r'"
  obtains (kept) "Aggregate_State (Result_Aggregate r) \<noteq> StateRouted" "r' = r\<lparr>Result_Decision := d\<rparr>"
  | (acknowledged) "Aggregate_State (Result_Aggregate r) = StateRouted" "moves L r [] r'" "Result_Decision r' = d"
      "Aggregate_State (Result_Aggregate r') = StateWorking"
proof (cases "Aggregate_State (Result_Aggregate r) = StateRouted")
  case False
  with assms kept show thesis by (simp add: ensureWorking_def)
next
  case True
  with assms obtain external input createdAt t where
    t: "Acknowledge L now (Some (Result_Aggregate r)) external input createdAt = Inr t" "fold_transition L r d t = Inr r'"
    by (auto simp: ensureWorking_def Let_def split: option.splits)
  from Acknowledge_accepted [OF t(1)] t(2) have "moves L r [] r'" "Result_Decision r' = d"
    "Aggregate_State (Result_Aggregate r') = StateWorking"
    by (auto simp: fold_transition_eq moves_def advance_def)
  with True acknowledged show thesis by blast
qed

lemma venue_applyTerminal_moves:
  assumes "venue_applyTerminal L now policy r request routedAt kind d reason sourceAt snapshot session = Inr r'"
    and "lifecycle_invar L (Result_Aggregate r)"
  shows "moves L r [] r' \<and> Result_Decision r' = d \<and> terminal_state kind = Some (Aggregate_State (Result_Aggregate r'))"
proof -
  from assms(1) obtain input createdAt t where
    t: "ObserveOrderTerminal L now (Some (Result_Aggregate r)) kind input createdAt = Inr t" "fold_transition L r d t = Inr r'"
    by (auto simp: venue_applyTerminal_def Let_def split: option.splits)
  from ObserveOrderTerminal_accepted [OF t(1) assms(2)] t(2) show ?thesis
    by (auto simp: fold_transition_eq moves_def advance_def)
qed

section \<open>One fill\<close>

lemma NewFillEconomicNormalization_fields:
  assumes "NewFillEconomicNormalization L clock input = Inr n"
  shows "Normalization_Quantity n = Some (FillEvent_Quantity input) \<and> Normalization_Price n = Some (FillEvent_Price input) \<and>
    Normalization_SourceEvent n = BaseInput_SourceEvent (FillEvent_Base input)"
  using assms
  by (auto simp: NewFillEconomicNormalization_def newEconomicNormalization_def materializeAndValidate_def fill_fields_def Let_def
      split: if_splits option.splits)

lemma NewEconomicSourceEvent_fields:
  assumes "NewEconomicSourceEvent L now input = Inr source"
  shows "EconomicSourceEvent_Source source = ToLower L (TrimSpace (EconomicSourceEventInput_Source input))"
    "EconomicSourceEvent_SourceEventID source = TrimSpace (EconomicSourceEventInput_SourceEventID input)"
  using assms by (auto simp: NewEconomicSourceEvent_def Let_def)

lemma RecordFill_fill:
  assumes "RecordFill L clock (Some a) input = Inr t" and "FillInput_Normalization input = Some n"
    and "Normalization_SourceEvent n = Some source" and "Normalization_Quantity n = Some q" and "Normalization_Price n = Some p"
  shows "\<exists>f. Transition_Fill t = Some f \<and> Fill_Quantity f = q \<and> Fill_Price f = p \<and>
     Fill_Source f = EconomicSourceEvent_Source source \<and> Fill_SourceEventID f = EconomicSourceEvent_SourceEventID source"
proof -
  from assms(1) obtain order transaction where
    r: "record_accepted L clock a order n source transaction q p input = Inr t"
    by (rule RecordFill_inputs) (use assms in auto)
  show ?thesis by (rule record_accepted_cases [OF r]) (auto simp: recorded_fill_fields)
qed

lemma TrimSpace_fill_source_event_id [simp]: "TrimSpace (fill_source_event_id L order snapshot level) = fill_source_event_id L order snapshot level"
proof -
  obtain s where s: "fill_source_event_id L order snapshot level = CHR ''o'' # s @ pad_digits 1 (DepthLevel_Level level)"
    by (auto simp: fill_source_event_id_def simulationFillSourceEventID_def)
  have p: "pad_digits 1 n \<noteq> [] \<and> last (pad_digits 1 n) = last (itoa (nat \<bar>n\<bar>))" for n
    by (simp add: pad_digits_def Let_def)
  have "plain (CHR ''o'')" by (simp add: plain_def)
  then show ?thesis by (intro TrimSpace_plain_ends) (simp add: s p [unfolded One_nat_def] last_append)
qed

lemma simulation_source [simp]: "ToLower L (TrimSpace ''simulation'') = ''simulation''"
proof -
  have "TrimSpace ''simulation'' = ''simulation''" by (rule TrimSpace_plain_ends) (simp add: plain_def)
  moreover have "ToLower L ''simulation'' = ''simulation''" by (rule ToLower_id) (simp_all add: ascii_def ascii_lower_def less_eq_char_def)
  ultimately show ?thesis by simp
qed

text \<open>What a fill built from an input is, for the aggregate it was built for.\<close>

definition fill_built :: "('d::linordered_idom) lib \<Rightarrow> 'd Order \<Rightarrow> 'd simulationFillInput \<Rightarrow> 'd FillEffect \<Rightarrow> bool" where
  "fill_built L order input e \<longleftrightarrow>
     (\<exists>policy. SimFill_Policy input = Some policy \<and> Effect_PolicyVersion e = Policy_version policy \<and>
        FillFee L (Some policy) (Instrument_AssetClass (SimFill_Instrument input)) (SimFill_Quantity input)
          (DepthLevel_Price (SimFill_Level input)) (VenueContract_Multiplier (SimFill_VenueContract input))
          (SimFill_FirstFill input) = Inr (Effect_Fee e)) \<and>
     Effect_DepthSide e = DepthLevel_Side (SimFill_Level input) \<and> Effect_DepthLevel e = DepthLevel_Level (SimFill_Level input) \<and>
     Effect_DisplayedSize e = DepthLevel_Size (SimFill_Level input) \<and> Effect_Capacity e = SimFill_Capacity input \<and>
     Effect_Quantity e = SimFill_Quantity input \<and> Effect_Price e = DepthLevel_Price (SimFill_Level input) \<and>
     Fill_Quantity (Effect_Fill e) = SimFill_Quantity input \<and> Fill_Price (Effect_Fill e) = DepthLevel_Price (SimFill_Level input) \<and>
     Fill_Source (Effect_Fill e) = ''simulation'' \<and>
     Fill_SourceEventID (Effect_Fill e) = fill_source_event_id L order (SimFill_Snapshot input) (SimFill_Level input)"

lemma buildSimulationFillE:
  assumes "buildSimulationFill L clock input = Inr (t, e)" and "SimFill_Aggregate input = Some a"
  obtains order fill_input where "Aggregate_Order a = Some order" and "fill_built L order input e"
    and "Transition_Fill t = Some (Effect_Fill e)" and "RecordFill L (clock 2) (Some a) fill_input = Inr t"
proof -
  from assms obtain policy order where p: "SimFill_Policy input = Some policy" "Aggregate_Order a = Some order"
    by (auto simp: buildSimulationFill_def split: option.splits)
  from assms p obtain fee namespace source n fill_input f where
    fee: "FillFee L (Some policy) (Instrument_AssetClass (SimFill_Instrument input)) (SimFill_Quantity input)
          (DepthLevel_Price (SimFill_Level input)) (VenueContract_Multiplier (SimFill_VenueContract input))
          (SimFill_FirstFill input) = Inr fee"
    and source: "NewEconomicSourceEvent L (clock 0 0)
      (fill_source_input L order input (marshalSimulationFillEvidence L policy order input fee) namespace) = Inr source"
    and n: "NewFillEconomicNormalization L (clock 1) (fill_normalization_input L policy a order input fee source) = Inr n"
    and r: "RecordFill L (clock 2) (Some a) fill_input = Inr t" "FillInput_Normalization fill_input = Some n"
    and f: "Transition_Fill t = Some f"
    and e: "e = fill_effect policy input fee namespace (fill_source_event_id L order (SimFill_Snapshot input) (SimFill_Level input))
              (marshalSimulationFillEvidence L policy order input fee) f"
    by (fastforce simp: buildSimulationFill_def Let_def fill_source_input_def split: option.splits)
  note nf = NewFillEconomicNormalization_fields [OF n] and sf = NewEconomicSourceEvent_fields [OF source]
  have "fill_built L order input e"
    using RecordFill_fill [OF r, of source "SimFill_Quantity input" "DepthLevel_Price (SimFill_Level input)"] nf sf fee f p
    by (auto simp: fill_built_def e fill_effect_def fill_normalization_input_def fill_source_input_def)
  with that [OF p(2) _ _ r(1)] f show thesis by (simp add: e fill_effect_def)
qed

section \<open>The loop over the levels\<close>

text \<open>The effects that consume a list of levels, one level each, until the open quantity is zero.\<close>

inductive taken ::
    "('d::linordered_idom) lib \<Rightarrow> 'd Order \<Rightarrow> ('d Aggregate \<Rightarrow> 'd eligibleSimulationLevel \<Rightarrow> 'd \<Rightarrow> 'd simulationFillInput) \<Rightarrow>
     'd \<Rightarrow> 'd eligibleSimulationLevel list \<Rightarrow> 'd FillEffect list \<Rightarrow> 'd \<Rightarrow> bool" for L order input where
  no_level: "taken L order input remaining [] [] remaining"
| closed_order: "taken L order input 0 levels [] 0"
| take_level: "remaining \<noteq> 0 \<Longrightarrow> fill_built L order (input current c (min (eligible_capacity c) remaining)) e \<Longrightarrow>
    taken L order input (remaining - min (eligible_capacity c) remaining) cs es rest \<Longrightarrow>
    taken L order input remaining (c # cs) (e # es) rest"

lemma fill_step:
  assumes "buildSimulationFill L clock (level_fill_input policy asset request session assessment (Result_Aggregate r) c q) = Inr (t, e)"
    and "ApplyTransition L (Some (Result_Aggregate r)) (Some t) = Inr b" and "lifecycle_invar L (Result_Aggregate r)"
  obtains order where "Aggregate_Order (Result_Aggregate r) = Some order"
    and "fill_built L order (level_fill_input policy asset request session assessment (Result_Aggregate r) c q) e"
    and "moves L r [e] (r\<lparr>Result_Aggregate := b, Result_Transitions := Result_Transitions r @ [t], Result_Fills := Result_Fills r @ [e]\<rparr>)"
    and "Aggregate_State b \<in> {StateFilled, StatePartiallyFilled}"
proof -
  from assms(1) obtain order fill_input where o: "Aggregate_Order (Result_Aggregate r) = Some order"
    and f: "fill_built L order (level_fill_input policy asset request session assessment (Result_Aggregate r) c q) e"
      "Transition_Fill t = Some (Effect_Fill e)" "RecordFill L (clock 2) (Some (Result_Aggregate r)) fill_input = Inr t"
    by (rule buildSimulationFillE) (simp add: level_fill_input_def)
  from RecordFill_accepted [OF f(3) assms(3)] f(2) assms(2)
  have "moves L r [e] (r\<lparr>Result_Aggregate := b, Result_Transitions := Result_Transitions r @ [t], Result_Fills := Result_Fills r @ [e]\<rparr>)"
    by (auto simp: moves_def ApplyTransition_def advance_def)
  moreover have "Aggregate_State b \<in> {StateFilled, StatePartiallyFilled}"
    using RecordFill_accepted [OF f(3) assms(3)] assms(2) by (auto simp: ApplyTransition_def advance_def split: if_splits)
  ultimately show thesis using that [OF o f(1)] by blast
qed

lemma fill_levels_taken:
  assumes "fill_levels L clock policy asset request session assessment r remaining levels = Inr r'"
    and "follows L a r" and "lifecycle_invar L a" and "Aggregate_Order a = Some order"
  shows "\<exists>es rest. taken L order (level_fill_input policy asset request session assessment) remaining levels es rest \<and>
    follows L a r' \<and> Result_Fills r' = Result_Fills r @ es \<and>
    (es = [] \<and> r' = r \<or> es \<noteq> [] \<and> Aggregate_State (Result_Aggregate r') \<in> {StateFilled, StatePartiallyFilled})"
  using assms(1,2)
proof (induction levels arbitrary: r remaining)
  case Nil
  then show ?case by (auto intro: taken.no_level)
next
  case (Cons c cs)
  show ?case
  proof (cases "remaining = 0")
    case True
    with Cons.prems show ?thesis by (auto intro: taken.closed_order)
  next
    case False
    define q where "q = min (eligible_capacity c) remaining"
    have q: "(if eligible_capacity c > remaining then remaining else eligible_capacity c) = q" by (simp add: q_def min_def)
    from Cons.prems(1) False obtain t e b where
      t: "buildSimulationFill L (clock (length (Result_Fills r)))
            (level_fill_input policy asset request session assessment (Result_Aggregate r) c q) = Inr (t, e)"
      and b: "ApplyTransition L (Some (Result_Aggregate r)) (Some t) = Inr b"
      and rest: "fill_levels L clock policy asset request session assessment
         (r\<lparr>Result_Aggregate := b, Result_Transitions := Result_Transitions r @ [t], Result_Fills := Result_Fills r @ [e]\<rparr>)
         (remaining - q) cs = Inr r'"
      by (auto simp: Let_def q)
    note inv = follows_invar [OF Cons.prems(2) assms(3)]
    from inv(2) assms(4) have o: "Aggregate_Order (Result_Aggregate r) = Some order" by (auto simp: extends_iff)
    show ?thesis
    proof (rule fill_step [OF t b inv(1)])
      fix order' assume o': "Aggregate_Order (Result_Aggregate r) = Some order'"
        and f: "fill_built L order' (level_fill_input policy asset request session assessment (Result_Aggregate r) c q) e"
        and m: "moves L r [e] (r\<lparr>Result_Aggregate := b, Result_Transitions := Result_Transitions r @ [t], Result_Fills := Result_Fills r @ [e]\<rparr>)"
        and st: "Aggregate_State b \<in> {StateFilled, StatePartiallyFilled}"
      from Cons.IH [OF rest moves_follows [OF Cons.prems(2) m]] obtain es rem where
        "taken L order (level_fill_input policy asset request session assessment) (remaining - q) cs es rem"
        "follows L a r'" "Result_Fills r' = Result_Fills r @ e # es"
        "Aggregate_State (Result_Aggregate r') \<in> {StateFilled, StatePartiallyFilled}" using st by auto
      with taken.take_level [OF False, of L order _ _ c e] f o o' show ?thesis unfolding q_def by (metis list.distinct(1) option.inject)
    qed
  qed
qed

text \<open>Reading the built fills of the levels back.\<close>

lemma fill_built_level:
  assumes "fill_built L order (level_fill_input policy asset request session assessment current c q) e"
  shows "Fill_Quantity (Effect_Fill e) = q" "Effect_Quantity e = q" "Effect_Capacity e = eligible_capacity c"
    "Effect_Price e = DepthLevel_Price (eligible_level c)" "Effect_DepthSide e = DepthLevel_Side (eligible_level c)"
    "Effect_DisplayedSize e = DepthLevel_Size (eligible_level c)" "Fill_Source (Effect_Fill e) = ''simulation''"
    "Fill_SourceEventID (Effect_Fill e) = fill_source_event_id L order (Evaluation_Snapshot request) (eligible_level c)"
    "Effect_PolicyVersion e = Policy_version policy" "Fill_Price (Effect_Fill e) = DepthLevel_Price (eligible_level c)"
  using assms by (auto simp: fill_built_def level_fill_input_def)

abbreviation capacities :: "('d::linordered_idom) eligibleSimulationLevel list \<Rightarrow> 'd" where
  "capacities levels \<equiv> sum_list (map eligible_capacity levels)"

lemma capacities_nonneg: "\<forall>c \<in> set levels. 0 < eligible_capacity c \<Longrightarrow> 0 \<le> capacities levels"
  by (induction levels) (auto intro: add_nonneg_nonneg)

lemma taken_sum:
  "taken L order (level_fill_input policy asset request session assessment) remaining levels es rest \<Longrightarrow>
   sum_list (map (\<lambda>e. Fill_Quantity (Effect_Fill e)) es) = remaining - rest"
  by (induction rule: taken.induct) (simp_all add: fill_built_level)

lemma taken_rest:
  "taken L order input remaining levels es rest \<Longrightarrow> 0 \<le> remaining \<Longrightarrow> \<forall>c \<in> set levels. 0 < eligible_capacity c \<Longrightarrow>
   rest = max 0 (remaining - capacities levels)"
proof (induction rule: taken.induct)
  case (closed_order levels)
  then show ?case using capacities_nonneg [of levels] by simp
next
  case (take_level remaining current c e cs es rest)
  then have pos: "0 \<le> capacities cs" by (intro capacities_nonneg) simp
  from take_level have "rest = max 0 (remaining - min (eligible_capacity c) remaining - capacities cs)" by simp
  then show ?case using pos by (auto simp: min_def max_def algebra_simps)
qed simp

lemma taken_effect:
  "taken L order (level_fill_input policy asset request session assessment) remaining levels es rest \<Longrightarrow> 0 \<le> remaining \<Longrightarrow>
   \<forall>c \<in> set levels. 0 < eligible_capacity c \<Longrightarrow> e \<in> set es \<Longrightarrow>
   \<exists>c \<in> set levels. \<exists>current q. 0 < q \<and> q \<le> eligible_capacity c \<and>
     fill_built L order (level_fill_input policy asset request session assessment current c q) e"
proof (induction rule: taken.induct)
  case (take_level remaining current c e' cs es rest)
  show ?case
  proof (cases "e = e'")
    case True
    with take_level.hyps(1,2) take_level.prems(1,2) show ?thesis
      by (intro bexI [of _ c] exI [of _ current] exI [of _ "min (eligible_capacity c) remaining"]) auto
  next
    case False
    with take_level.IH take_level.prems show ?thesis by (auto simp: min_def)
  qed
qed simp_all

lemma taken_all:
  "taken L order (level_fill_input policy asset request session assessment) remaining levels es rest \<Longrightarrow> rest \<noteq> 0 \<Longrightarrow>
   c \<in> set levels \<Longrightarrow>
   \<exists>e \<in> set es. Fill_Source (Effect_Fill e) = ''simulation'' \<and>
     Fill_SourceEventID (Effect_Fill e) = fill_source_event_id L order (Evaluation_Snapshot request) (eligible_level c)"
  by (induction rule: taken.induct) (auto simp: fill_built_level)

lemma simulationFilledQuantity_eq: "simulationFilledQuantity 0 fills = sumFillQuantity fills"
proof -
  have "simulationFilledQuantity s fills = foldl (\<lambda>t f. t + Fill_Quantity f) s fills" for s
    by (induction fills arbitrary: s) simp_all
  then show ?thesis by (simp add: sumFillQuantity_def)
qed

lemma sumFillQuantity_append_list:
  "sumFillQuantity (fs @ map g es) = sumFillQuantity fs + sum_list (map (\<lambda>e. Fill_Quantity (g e)) es)"
  by (induction es rule: rev_induct) (simp_all add: add.assoc flip: append_assoc)

lemma total_capacity_eq: "total_capacity s levels = s + capacities levels"
  by (induction levels arbitrary: s) (simp_all add: add.assoc)

section \<open>Eligible levels\<close>

lemma eligible_level_iff:
  "c \<in> set (eligible_levels L a order snapshot asset lotSize side levels) \<longleftrightarrow>
   (\<exists>level \<in> set levels. DepthLevel_Side level = side \<and> simulationLevelCrosses order (DepthLevel_Price level) \<and>
      \<not> simulationAggregateHasSourceEvent a (fill_source_event_id L order snapshot level) \<and>
      0 < eligible_capacity_of L asset lotSize level \<and>
      c = \<lparr>eligible_level = level, eligible_capacity = eligible_capacity_of L asset lotSize level\<rparr>)"
  by (induction levels) (auto simp: Let_def)

lemma eligible_positive: "\<forall>c \<in> set (eligible_levels L a order snapshot asset lotSize side levels). 0 < eligible_capacity c"
  by (auto simp: eligible_level_iff)

lemma hasSourceEvent_iff:
  "simulationAggregateHasSourceEvent a s \<longleftrightarrow> (\<exists>f \<in> set (Aggregate_Fills a). Fill_Source f = ''simulation'' \<and> Fill_SourceEventID f = s)"
  by (auto simp: simulationAggregateHasSourceEvent_def list_ex_iff)

section \<open>The branches of Evaluate\<close>

abbreviation unchanged :: "'d Aggregate \<Rightarrow> 'd Result" where
  "unchanged a \<equiv> \<lparr>Result_Decision = DecisionNoop, Result_Aggregate = a, Result_Transitions = [], Result_Fills = []\<rparr>"

lemma conclude_cases:
  assumes "conclude L now policy order request session r = Inr r'" and "lifecycle_invar L (Result_Aggregate r)"
  obtains (filled) "Aggregate_State (Result_Aggregate r) = StateFilled" "r' = r\<lparr>Result_Decision := DecisionFilled\<rparr>"
  | (cancelled) "Order_TimeInForce order = TimeInForceIOC" "moves L r [] r'" "Result_Decision r' = DecisionCancelled"
      "Aggregate_State (Result_Aggregate r') = StateCancelled"
  | (partial) "Order_TimeInForce order \<noteq> TimeInForceIOC" "Aggregate_State (Result_Aggregate r) \<noteq> StateFilled"
      "Result_Fills r \<noteq> []" "r' = r\<lparr>Result_Decision := DecisionPartiallyFilled\<rparr>"
  | (resting) "Order_TimeInForce order \<noteq> TimeInForceIOC" "Result_Fills r = []"
      "ensureWorking L now policy r request session DecisionResting ''no_marketable_depth'' = Inr r'"
  using assms venue_applyTerminal_moves [OF _ assms(2)]
  by (fastforce simp: conclude_def split: if_splits)

text \<open>The levels \<open>Evaluate\<close> walks and the quantity it still has to fill.\<close>

abbreviation request_levels ::
    "('d::linordered_idom) lib \<Rightarrow> 'd Aggregate \<Rightarrow> 'd Order \<Rightarrow> 'd AssetPolicy \<Rightarrow> 'd EvaluationRequest \<Rightarrow> 'd eligibleSimulationLevel list" where
  "request_levels L a order asset request \<equiv>
     eligibleLevels L a order (Evaluation_Snapshot request) asset (VenueContract_LotSize (Evaluation_VenueContract request))"

abbreviation open_quantity :: "('d::linordered_idom) Aggregate \<Rightarrow> 'd Order \<Rightarrow> 'd" where
  "open_quantity a order \<equiv> Order_Quantity order - sumFillQuantity (Aggregate_Fills a)"

lemma open_quantity_nonneg: "lifecycle_invar L a \<Longrightarrow> Aggregate_Order a = Some order \<Longrightarrow> 0 \<le> open_quantity a order"
  by (simp add: lifecycle_invar_def)

lemma match_depth_cases:
  assumes "match_depth L clock now policy asset a order request session assessment (unchanged a) = Inr r"
    and "lifecycle_invar L a" and "Aggregate_Order a = Some order"
  obtains (rejected) "Order_TimeInForce order = TimeInForceFOK" "moves L (unchanged a) [] r" "Result_Decision r = DecisionRejected"
      "Aggregate_State (Result_Aggregate r) = StateRejected"
  | (matched) r1 rest where
      "taken L order (level_fill_input policy asset request session assessment) (open_quantity a order)
         (request_levels L a order asset request) (Result_Fills r1) rest"
      "follows L a r1" "conclude L now policy order request session r1 = Inr r"
      "r1 = unchanged a \<or> Result_Fills r1 \<noteq> [] \<and> Aggregate_State (Result_Aggregate r1) \<in> {StateFilled, StatePartiallyFilled}"
      "rest = max 0 (open_quantity a order - capacities (request_levels L a order asset request))"
      "Order_TimeInForce order = TimeInForceFOK \<Longrightarrow> rest = 0"
proof -
  let ?levels = "request_levels L a order asset request"
  consider (r) "Order_TimeInForce order = TimeInForceFOK" "capacities ?levels < open_quantity a order"
    | (m) "Order_TimeInForce order = TimeInForceFOK \<Longrightarrow> open_quantity a order \<le> capacities ?levels" by fastforce
  then show thesis
  proof cases
    case r
    from r assms(1) have "venue_applyTerminal L now policy (unchanged a) request (Order_RoutedAt order) EventOrderRejected DecisionRejected
            ''fok_insufficient_depth'' (simulationSnapshotSourceAt (Evaluation_Snapshot request)) (Some (Evaluation_Snapshot request)) session = Inr r"
      by (simp add: match_depth_def Let_def total_capacity_eq simulationFilledQuantity_eq)
    from venue_applyTerminal_moves [OF this] assms(2) r(1) rejected show thesis by simp
  next
    case m
    then have "\<not> (Order_TimeInForce order = TimeInForceFOK \<and> capacities ?levels < open_quantity a order)" by auto
    with assms(1) obtain r1 where f: "fill_levels L clock policy asset request session assessment (unchanged a) (open_quantity a order) ?levels = Inr r1"
      and c: "conclude L now policy order request session r1 = Inr r"
      by (auto simp: match_depth_def Let_def total_capacity_eq simulationFilledQuantity_eq)
    from fill_levels_taken [OF f follows_start assms(2,3)] obtain rest where
      t: "taken L order (level_fill_input policy asset request session assessment) (open_quantity a order) ?levels (Result_Fills r1) rest"
      "follows L a r1"
      and st: "r1 = unchanged a \<or> Result_Fills r1 \<noteq> [] \<and> Aggregate_State (Result_Aggregate r1) \<in> {StateFilled, StatePartiallyFilled}"
      by auto
    have rest: "rest = max 0 (open_quantity a order - capacities ?levels)"
      by (rule taken_rest [OF t(1) open_quantity_nonneg [OF assms(2,3)]]) (unfold eligibleLevels_def, rule eligible_positive)
    with m matched [OF t c st rest] show thesis by simp
  qed
qed

lemma validateRequest_routed:
  assumes "validateRequest L venue request = Inr (asset, session)"
  obtains policy a order where "routed_request venue request = Some (policy, a, order)"
    and "venue = Some policy" and "Evaluation_Aggregate request = Some a" and "Aggregate_Order a = Some order"
    and "request_checks L policy a order request = None"
    and "Policy_AssetPolicy venue (Instrument_AssetClass (Evaluation_Instrument request)) = Some asset"
  using assms
  by (auto simp: validateRequest_def routed_request_def Let_def split: option.splits sum.splits if_splits)

text \<open>The ways \<open>Evaluate\<close> can end for a request that passes its checks.\<close>

text \<open>The quote was not yet available when the fixed latency of the order had passed.\<close>

definition latency_pending :: "'d AssetPolicy \<Rightarrow> 'd Order \<Rightarrow> 'd QuoteSnapshot \<Rightarrow> bool" where
  "latency_pending asset order snapshot \<longleftrightarrow>
     opt_all (\<lambda>availableAt. Before availableAt (time_Add (Order_RoutedAt order) (Asset_FixedLatency asset))) (QuoteSnapshot_AvailableAt snapshot)"

inductive observed ::
    "('d::linordered_idom) lib \<Rightarrow> (nat \<Rightarrow> nat \<Rightarrow> nat \<Rightarrow> time) \<Rightarrow> time \<Rightarrow> 'd Policy \<Rightarrow> 'd AssetPolicy \<Rightarrow> SessionWindow option \<Rightarrow>
     'd EvaluationRequest \<Rightarrow> 'd Aggregate \<Rightarrow> 'd Order \<Rightarrow> 'd Result \<Rightarrow> bool"
  for L clock now policy asset session request a order where
  noop: "terminalSimulationState (Aggregate_State a) \<Longrightarrow> observed L clock now policy asset session request a order (unchanged a)"
| terminal: "kind \<in> {EventOrderRejected, EventOrderExpired} \<Longrightarrow>
    venue_applyTerminal L now policy (unchanged a) request (Order_RoutedAt order) kind d reason sourceAt snapshot session' = Inr r \<Longrightarrow>
    observed L clock now policy asset session request a order r"
| working: "Order_TimeInForce order \<notin> {TimeInForceIOC, TimeInForceFOK} \<Longrightarrow>
    ensureWorking L now policy (unchanged a) request session d reason = Inr r \<Longrightarrow>
    observed L clock now policy asset session request a order r"
| waiting: "Order_TimeInForce order \<in> {TimeInForceIOC, TimeInForceFOK} \<Longrightarrow> latency_pending asset order (Evaluation_Snapshot request) \<Longrightarrow>
    observed L clock now policy asset session request a order ((unchanged a)\<lparr>Result_Decision := DecisionWaitingLatency\<rparr>)"
| matching: "\<not> terminalSimulationState (Aggregate_State a) \<Longrightarrow>
    AssessForExecution L (Evaluation_Snapshot request) (Evaluation_EvaluatedAt request)
      (Asset_QuoteRequirements asset) (Evaluation_Instrument request) (Evaluation_VenueContract request) = Inr assessment \<Longrightarrow>
    match_depth L clock now policy asset a order request session assessment (unchanged a) = Inr r \<Longrightarrow>
    \<not> latency_pending asset order (Evaluation_Snapshot request) \<Longrightarrow>
    observed L clock now policy asset session request a order r"

lemma evaluate_quote_observed:
  assumes "evaluate_quote L clock now policy asset a order request session (unchanged a) = Inr r"
    and "\<not> terminalSimulationState (Aggregate_State a)"
  shows "observed L clock now policy asset session request a order r"
proof -
  let ?late = "latency_pending asset order (Evaluation_Snapshot request)"
  and ?immediate = "Order_TimeInForce order = TimeInForceIOC \<or> Order_TimeInForce order = TimeInForceFOK"
  from assms(1) obtain assessment where
    q: "AssessForExecution L (Evaluation_Snapshot request) (Evaluation_EvaluatedAt request)
      (Asset_QuoteRequirements asset) (Evaluation_Instrument request) (Evaluation_VenueContract request) = Inr assessment"
    and e: "(if ?late then
        (if ?immediate then Inr ((unchanged a)\<lparr>Result_Decision := DecisionWaitingLatency\<rparr>)
         else ensureWorking L now policy (unchanged a) request session DecisionWaitingLatency ''fixed_latency_pending'')
      else match_depth L clock now policy asset a order request session assessment (unchanged a)) = Inr r"
    unfolding evaluate_quote_def Let_def and_then_eq_Inr wrap_eq_Inr ensure_eq_Inr latency_pending_def by blast
  show ?thesis
  proof (cases ?late)
    case late: True
    show ?thesis
    proof (cases ?immediate)
      case True
      with e late have "r = (unchanged a)\<lparr>Result_Decision := DecisionWaitingLatency\<rparr>" by simp
      with True late show ?thesis using observed.waiting [of order asset request L clock now policy session a] by simp
    next
      case False
      with e late show ?thesis by (intro observed.working [where d = DecisionWaitingLatency]) simp_all
    qed
  next
    case False
    with e show ?thesis by (intro observed.matching [OF assms(2) q]) simp_all
  qed
qed

lemma Evaluate_dispatch:
  assumes "Evaluate L clock now venue request = Inr r" and "validateRequest L venue request = Inr (asset, session)"
    and "routed_request venue request = Some (policy, a, order)"
  shows "observed L clock now policy asset session request a order r"
proof -
  let ?outside = "session = None \<and> Calendar_Kind (Asset_Calendar asset) = CalendarExplicitSessions"
  and ?expired = "Order_TimeInForce order = TimeInForceDay \<and>
     opt_holds (\<lambda>session. \<not> Before (Evaluation_EvaluatedAt request) (Session_CloseAt session)) session"
  and ?rests = "Calendar_Kind (Asset_Calendar asset) = CalendarExplicitSessions \<and>
     \<not> simulationTimeInSession (Asset_Calendar asset) (Evaluation_EvaluatedAt request) \<and> Order_TimeInForce order = TimeInForceGTC"
  note E = assms(1) [unfolded Evaluate_def Let_def assms(2) and_then_Inr prod.case assms(3) option.case]
  show ?thesis
  proof (cases "terminalSimulationState (Aggregate_State a)")
    case True
    with E show ?thesis by (auto intro: observed.noop)
  next
    case open_state: False
    show ?thesis
    proof (cases ?outside)
      case True
      with E open_state show ?thesis by (intro observed.terminal [where kind = EventOrderRejected]) simp_all
    next
      case inside: False
      show ?thesis
      proof (cases ?expired)
        case True
        with E open_state inside show ?thesis by (intro observed.terminal [where kind = EventOrderExpired]) (simp_all only: if_True if_False insert_iff simp_thms)
      next
        case current: False
        show ?thesis
        proof (cases ?rests)
          case True
          with E open_state inside current show ?thesis
            by (intro observed.working [where d = DecisionResting and reason = "''outside_current_session''"]) (simp_all only: if_True if_False, simp_all)
        next
          case False
          with E open_state inside current show ?thesis
            by (intro evaluate_quote_observed) (simp_all only: if_True if_False not_False_eq_True)
        qed
      qed
    qed
  qed
qed

lemma Evaluate_observed:
  assumes "Evaluate L clock now venue request = Inr r" and "Evaluation_Aggregate request = Some a"
  obtains policy order asset session where "validateRequest L venue request = Inr (asset, session)"
    and "venue = Some policy" and "Aggregate_Order a = Some order"
    and "Policy_AssetPolicy venue (Instrument_AssetClass (Evaluation_Instrument request)) = Some asset"
    and "observed L clock now policy asset session request a order r"
proof -
  from assms obtain asset session where v: "validateRequest L venue request = Inr (asset, session)"
    by (auto simp: Evaluate_def)
  show thesis
  proof (rule validateRequest_routed [OF v])
    fix policy a' order
    assume req: "routed_request venue request = Some (policy, a', order)" "venue = Some policy"
      "Evaluation_Aggregate request = Some a'" "Aggregate_Order a' = Some order"
      "Policy_AssetPolicy venue (Instrument_AssetClass (Evaluation_Instrument request)) = Some asset"
    have a: "a' = a" using assms(2) req(3) by simp
    from Evaluate_dispatch [OF assms(1) v req(1)] have "observed L clock now policy asset session request a order r"
      by (simp add: a)
    with that v req a show thesis by blast
  qed
qed

lemma conclude_follows:
  assumes "conclude L now policy order request session r = Inr r'" and "follows L a r" and "lifecycle_invar L a"
  shows "follows L a r'"
  using assms(1) follows_invar(1) [OF assms(2,3)]
proof (cases rule: conclude_cases)
  case resting
  from resting(3) show ?thesis by (cases rule: ensureWorking_cases) (use assms(2) in \<open>auto intro: moves_follows\<close>)
qed (use assms(2) in \<open>auto intro: moves_follows\<close>)

lemma observed_follows:
  assumes "observed L clock now policy asset session request a order r" and "lifecycle_invar L a" and "Aggregate_Order a = Some order"
  shows "follows L a r"
  using assms(1)
proof cases
  case (terminal kind)
  with venue_applyTerminal_moves [OF terminal(2)] assms(2) show ?thesis by (auto intro: moves_follows [OF follows_start])
next
  case (working d reason)
  from working(2) show ?thesis by (cases rule: ensureWorking_cases) (auto simp: follows_start intro: moves_follows [OF follows_start])
next
  case (matching assessment)
  from matching(3) assms(2,3) show ?thesis
    by (cases rule: match_depth_cases) (use assms(2) in \<open>auto intro: moves_follows [OF follows_start] conclude_follows\<close>)
qed (simp_all add: follows_start)

lemma Evaluate_follows:
  assumes "Evaluate L clock now venue request = Inr r" and "Evaluation_Aggregate request = Some a" and "lifecycle_invar L a"
  shows "follows L a r"
  by (rule Evaluate_observed [OF assms(1,2)]) (rule observed_follows [OF _ assms(3)])

section \<open>Fills of an evaluation\<close>

lemma working_order:
  assumes "lifecycle_invar L a" and "Aggregate_Order a = Some order" and "\<not> terminalSimulationState (Aggregate_State a)"
  shows "Aggregate_State a \<in> working_states" and "0 < open_quantity a order"
  using assms by (cases "Aggregate_State a"; auto simp: lifecycle_invar_def order_of_allocation_def)+

lemma filled_iff_closed:
  assumes "lifecycle_invar L a" and "Aggregate_Order a = Some order" and "Aggregate_State a \<in> {StateFilled, StatePartiallyFilled}"
  shows "Aggregate_State a = StateFilled \<longleftrightarrow> open_quantity a order = 0"
  using assms by (auto simp: lifecycle_invar_def)

lemma conclude_fills:
  assumes "conclude L now policy order request session r = Inr r'" and "lifecycle_invar L (Result_Aggregate r)"
  shows "Result_Fills r' = Result_Fills r"
  using assms
proof (cases rule: conclude_cases)
  case resting
  from resting(3) show ?thesis by (cases rule: ensureWorking_cases) (auto simp: moves_def)
qed (auto simp: moves_def)

text \<open>Only the walk over the depth adds fills.\<close>

lemma observed_fills:
  assumes "observed L clock now policy asset session request a order r" and "lifecycle_invar L a" and "Aggregate_Order a = Some order"
  obtains (none) "Result_Fills r = []"
  | (matched) assessment r1 rest where
      "AssessForExecution L (Evaluation_Snapshot request) (Evaluation_EvaluatedAt request)
        (Asset_QuoteRequirements asset) (Evaluation_Instrument request) (Evaluation_VenueContract request) = Inr assessment"
      "taken L order (level_fill_input policy asset request session assessment) (open_quantity a order)
         (request_levels L a order asset request) (Result_Fills r) rest"
      "follows L a r1" "conclude L now policy order request session r1 = Inr r" "Result_Fills r1 = Result_Fills r"
      "Result_Fills r \<noteq> []" "Aggregate_State (Result_Aggregate r1) \<in> {StateFilled, StatePartiallyFilled}"
      "Order_TimeInForce order = TimeInForceFOK \<Longrightarrow> rest = 0"
proof -
  from assms(1) show thesis
  proof cases
    case (terminal kind)
    with venue_applyTerminal_moves [OF terminal(2)] assms(2) none show thesis by (simp add: moves_def)
  next
    case (working d reason)
    from working(2) show thesis by (cases rule: ensureWorking_cases) (auto simp: moves_def none)
  next
    case (matching assessment)
    from matching(3) assms(2,3) show thesis
    proof (cases rule: match_depth_cases)
      case rejected
      with none show thesis by (simp add: moves_def)
    next
      case (matched r1 rest)
      have "Result_Fills r = Result_Fills r1" by (rule conclude_fills [OF matched(3) follows_invar(1) [OF matched(2) assms(2)]])
      with matched matching(2) that show thesis by auto
    qed
  qed (simp_all add: none)
qed

lemma taken_closes:
  assumes "taken L order (level_fill_input policy asset request session assessment) (open_quantity a order) levels (Result_Fills r) rest"
    and "follows L a r"
  shows "open_quantity (Result_Aggregate r) order = rest"
  using taken_sum [OF assms(1)] assms(2) by (simp add: follows_def sumFillQuantity_append_list algebra_simps)

lemma effect_of_level:
  assumes "Evaluate L clock now venue request = Inr r" and "Evaluation_Aggregate request = Some a" and "lifecycle_invar L a"
    and "e \<in> set (Result_Fills r)"
  obtains policy order asset session assessment level current q where "venue = Some policy" and "Aggregate_Order a = Some order"
    and "Policy_AssetPolicy venue (Instrument_AssetClass (Evaluation_Instrument request)) = Some asset"
    and "AssessForExecution L (Evaluation_Snapshot request) (Evaluation_EvaluatedAt request)
        (Asset_QuoteRequirements asset) (Evaluation_Instrument request) (Evaluation_VenueContract request) = Inr assessment"
    and "level \<in> set (QuoteSnapshot_Depth (Evaluation_Snapshot request))"
    and "DepthLevel_Side level = (if Order_Side order = SideSell then DepthSideBid else DepthSideAsk)"
    and "simulationLevelCrosses order (DepthLevel_Price level)" and "0 < q"
    and "q \<le> eligible_capacity_of L asset (VenueContract_LotSize (Evaluation_VenueContract request)) level"
    and "fill_built L order (level_fill_input policy asset request session assessment current
           \<lparr>eligible_level = level,
            eligible_capacity = eligible_capacity_of L asset (VenueContract_LotSize (Evaluation_VenueContract request)) level\<rparr> q) e"
proof (rule Evaluate_observed [OF assms(1,2)])
  fix policy order asset session
  assume c: "venue = Some policy" "Aggregate_Order a = Some order"
    "Policy_AssetPolicy venue (Instrument_AssetClass (Evaluation_Instrument request)) = Some asset"
    and o: "observed L clock now policy asset session request a order r"
  from o assms(3) c(2) show thesis
  proof (cases rule: observed_fills)
    case none
    with assms(4) show thesis by simp
  next
    case (matched assessment r1 rest)
    have "\<forall>c \<in> set (request_levels L a order asset request). 0 < eligible_capacity c"
      unfolding eligibleLevels_def by (rule eligible_positive)
    from taken_effect [OF matched(2) open_quantity_nonneg [OF assms(3) c(2)] this assms(4)]
    obtain l current q where l: "l \<in> set (request_levels L a order asset request)" and q: "0 < q" "q \<le> eligible_capacity l"
      and f: "fill_built L order (level_fill_input policy asset request session assessment current l q) e" by blast
    from l [unfolded eligibleLevels_def eligible_level_iff] that [OF c matched(1) _ _ _ q(1)] q(2) f show thesis by auto
  qed
qed

section \<open>Evaluating an observation again\<close>

definition quiet :: "'d Aggregate \<Rightarrow> 'd Result \<Rightarrow> bool" where
  "quiet b r \<longleftrightarrow> Result_Aggregate r = b \<and> Result_Transitions r = [] \<and> Result_Fills r = []"

lemma quiet_unchanged [simp]: "quiet b (unchanged b)" "quiet b ((unchanged b)\<lparr>Result_Decision := d\<rparr>)"
  by (simp_all add: quiet_def)

lemma ensureWorking_leaves_routed:
  assumes "ensureWorking L now policy r request session d reason = Inr r'"
  shows "Aggregate_State (Result_Aggregate r') \<noteq> StateRouted" and "Aggregate_Fills (Result_Aggregate r') = Aggregate_Fills (Result_Aggregate r)"
  by (rule ensureWorking_cases [OF assms]; simp add: moves_def)+

lemma ensureWorking_again:
  "Aggregate_State b \<noteq> StateRouted \<Longrightarrow> ensureWorking L now policy (unchanged b) request session d reason = Inr ((unchanged b)\<lparr>Result_Decision := d\<rparr>)"
  by (simp add: ensureWorking_def)

lemma terminal_moves_closed:
  assumes "venue_applyTerminal L now policy (unchanged a) request routedAt kind d reason sourceAt snapshot session = Inr r"
    and "lifecycle_invar L a"
  shows "terminalSimulationState (Aggregate_State (Result_Aggregate r))"
  using venue_applyTerminal_moves [OF assms(1)] assms(2) by (cases kind) auto

lemma eligibleLevels_fills_cong:
  "Aggregate_Fills b = Aggregate_Fills a \<Longrightarrow> eligibleLevels L b order snapshot asset lot = eligibleLevels L a order snapshot asset lot"
proof -
  assume "Aggregate_Fills b = Aggregate_Fills a"
  then have "simulationAggregateHasSourceEvent b = simulationAggregateHasSourceEvent a"
    by (simp add: fun_eq_iff simulationAggregateHasSourceEvent_def)
  then have "eligible_levels L b order snapshot asset lot side levels = eligible_levels L a order snapshot asset lot side levels" for side levels
    by (induction levels) (simp_all add: Let_def)
  then show ?thesis by (simp add: eligibleLevels_def)
qed

text \<open>The levels that an evaluation has consumed are not eligible after it.\<close>

lemma consumed_not_eligible:
  assumes "taken L order (level_fill_input policy asset request session assessment) q (request_levels L a order asset request) (Result_Fills r) rest"
    and "follows L a r" and "rest \<noteq> 0"
  shows "request_levels L (Result_Aggregate r) order asset request = []"
proof (rule ccontr)
  let ?b = "Result_Aggregate r"
  assume "request_levels L ?b order asset request \<noteq> []"
  then obtain c where c: "c \<in> set (request_levels L ?b order asset request)" by (meson last_in_set)
  have new: "\<not> simulationAggregateHasSourceEvent ?b (fill_source_event_id L order (Evaluation_Snapshot request) (eligible_level c))"
    using c by (auto simp: eligibleLevels_def eligible_level_iff)
  have "c \<in> set (request_levels L a order asset request)"
    using c assms(2) by (auto simp: eligibleLevels_def eligible_level_iff hasSourceEvent_iff follows_def)
  from taken_all [OF assms(1,3) this] assms(2) have
    "simulationAggregateHasSourceEvent ?b (fill_source_event_id L order (Evaluation_Snapshot request) (eligible_level c))"
    by (auto simp: hasSourceEvent_iff follows_def)
  with new show False by contradiction
qed

lemma match_depth_settles:
  assumes "match_depth L clock now policy asset a order request session assessment (unchanged a) = Inr r"
    and "lifecycle_invar L a" and "Aggregate_Order a = Some order" and "\<not> terminalSimulationState (Aggregate_State a)"
    and "\<not> terminalSimulationState (Aggregate_State (Result_Aggregate r))"
  shows "Order_TimeInForce order \<notin> {TimeInForceIOC, TimeInForceFOK} \<and> request_levels L (Result_Aggregate r) order asset request = [] \<and>
    Aggregate_State (Result_Aggregate r) \<noteq> StateRouted"
  using assms(1-3)
proof (cases rule: match_depth_cases)
  case rejected
  with assms(5) show ?thesis by simp
next
  case (matched r1 rest)
  note inv = follows_invar [OF matched(2) assms(2)]
  have o: "Aggregate_Order (Result_Aggregate r1) = Some order" using inv(2) assms(3) by (auto simp: extends_iff)
  have "rest \<noteq> 0" if "Aggregate_State (Result_Aggregate r1) \<noteq> StateFilled"
    using taken_closes [OF matched(1,2)] filled_iff_closed [OF inv(1) o] that matched(4) working_order(2) [OF assms(2-4)] by auto
  note rest = this consumed_not_eligible [OF matched(1,2)]
  from matched(3) inv(1) show ?thesis
  proof (cases rule: conclude_cases)
    case partial
    with matched rest show ?thesis by auto
  next
    case resting
    then have r1: "r1 = unchanged a" using matched(4) by auto
    have "Aggregate_State a \<noteq> StateFilled" using assms(4) by auto
    with r1 have "rest \<noteq> 0" using rest(1) by simp
    moreover note ensureWorking_leaves_routed [OF resting(3)]
    ultimately show ?thesis
      using rest(2) matched(6) resting(1) eligibleLevels_fills_cong [of "Result_Aggregate r" "Result_Aggregate r1"] by (auto simp: r1)
  qed (use assms(5) in auto)
qed

lemma match_depth_again:
  assumes "request_levels L b order asset request = []" and "Order_TimeInForce order \<notin> {TimeInForceIOC, TimeInForceFOK}"
    and "Aggregate_State b \<noteq> StateRouted" and "Aggregate_State b \<noteq> StateFilled"
  shows "match_depth L clock now policy asset b order (request\<lparr>Evaluation_Aggregate := Some b\<rparr>) session assessment (unchanged b) =
    Inr ((unchanged b)\<lparr>Result_Decision := DecisionResting\<rparr>)"
  using assms by (simp add: match_depth_def Let_def conclude_def ensureWorking_again)

lemma validateRequest_again:
  assumes "Evaluation_Aggregate request = Some a" and "extends a b" and "Aggregate_Order a \<noteq> None"
  shows "validateRequest L venue (request\<lparr>Evaluation_Aggregate := Some b\<rparr>) = validateRequest L venue request"
    and "routed_request (Some policy) (request\<lparr>Evaluation_Aggregate := Some b\<rparr>) = map_option (\<lambda>order. (policy, b, order)) (Aggregate_Order a)"
  using assms
  by (auto simp: validateRequest_def routed_request_def request_checks_def request_context_def extends_iff Let_def split: option.splits)

text \<open>The part of \<open>Evaluate\<close> behind the quote, evaluated again.\<close>

lemma evaluate_quote_again:
  assumes "evaluate_quote L clock now policy asset a order request session (unchanged a) = Inr r"
    and "lifecycle_invar L a" and "Aggregate_Order a = Some order" and "\<not> terminalSimulationState (Aggregate_State a)"
    and "\<not> terminalSimulationState (Aggregate_State (Result_Aggregate r))"
  shows "\<exists>r'. evaluate_quote L clock' now' policy asset (Result_Aggregate r) order
      (request\<lparr>Evaluation_Aggregate := Some (Result_Aggregate r)\<rparr>) session (unchanged (Result_Aggregate r)) = Inr r' \<and>
    quiet (Result_Aggregate r) r'"
proof -
  let ?late = "opt_all (\<lambda>availableAt. Before availableAt (time_Add (Order_RoutedAt order) (Asset_FixedLatency asset)))
           (QuoteSnapshot_AvailableAt (Evaluation_Snapshot request))"
  and ?immediate = "Order_TimeInForce order = TimeInForceIOC \<or> Order_TimeInForce order = TimeInForceFOK"
  and ?b = "Result_Aggregate r"
  define again where "again assessment = (if ?late then
        (if ?immediate then Inr ((unchanged ?b)\<lparr>Result_Decision := DecisionWaitingLatency\<rparr>)
         else ensureWorking L now' policy (unchanged ?b) (request\<lparr>Evaluation_Aggregate := Some ?b\<rparr>) session DecisionWaitingLatency ''fixed_latency_pending'')
      else match_depth L clock' now' policy asset ?b order (request\<lparr>Evaluation_Aggregate := Some ?b\<rparr>) session assessment (unchanged ?b))" for assessment
  from assms(1) obtain assessment where
    e: "(if ?late then
        (if ?immediate then Inr ((unchanged a)\<lparr>Result_Decision := DecisionWaitingLatency\<rparr>)
         else ensureWorking L now policy (unchanged a) request session DecisionWaitingLatency ''fixed_latency_pending'')
      else match_depth L clock now policy asset a order request session assessment (unchanged a)) = Inr r"
    and again: "evaluate_quote L clock' now' policy asset ?b order (request\<lparr>Evaluation_Aggregate := Some ?b\<rparr>) session (unchanged ?b) =
      again assessment"
    unfolding evaluate_quote_def Let_def and_then_eq_Inr wrap_eq_Inr ensure_eq_Inr again_def by (auto simp: and_then_def wrap_def)
  have "\<exists>r'. again assessment = Inr r' \<and> quiet ?b r'"
  proof (cases ?late)
    case late: True
    show ?thesis
    proof (cases ?immediate)
      case True
      with late show ?thesis by (simp add: again_def quiet_def)
    next
      case False
      with e late have "ensureWorking L now policy (unchanged a) request session DecisionWaitingLatency ''fixed_latency_pending'' = Inr r" by simp
      from ensureWorking_leaves_routed(1) [OF this] late False show ?thesis by (simp add: again_def ensureWorking_again quiet_def)
    qed
  next
    case False
    with e have m: "match_depth L clock now policy asset a order request session assessment (unchanged a) = Inr r" by simp
    have "Aggregate_State ?b \<noteq> StateFilled" using assms(5) by auto
    with match_depth_settles [OF m assms(2-5)] False show ?thesis
      by (auto simp: again_def match_depth_again quiet_def)
  qed
  with again show ?thesis by simp
qed

lemma Evaluate_again:
  assumes "Evaluate L clock now venue request = Inr r" and "Evaluation_Aggregate request = Some a" and "lifecycle_invar L a"
  shows "\<exists>r'. Evaluate L clock' now' venue (request\<lparr>Evaluation_Aggregate := Some (Result_Aggregate r)\<rparr>) = Inr r' \<and>
    quiet (Result_Aggregate r) r'"
proof -
  let ?b = "Result_Aggregate r" and ?request = "request\<lparr>Evaluation_Aggregate := Some (Result_Aggregate r)\<rparr>"
  obtain asset session where v: "validateRequest L venue request = Inr (asset, session)"
    using assms(1) by (auto simp: Evaluate_def)
  obtain policy order where req: "routed_request venue request = Some (policy, a, order)" "venue = Some policy"
    and o: "Aggregate_Order a = Some order"
    by (rule validateRequest_routed [OF v]) (use assms(2) in auto)
  note follow = Evaluate_follows [OF assms] and ext = follows_invar(2) [OF Evaluate_follows [OF assms] assms(3)]
  have v': "validateRequest L venue ?request = Inr (asset, session)"
    using validateRequest_again(1) [OF assms(2) ext] o v by simp
  have req': "routed_request venue ?request = Some (policy, ?b, order)"
    using validateRequest_again(2) [OF assms(2) ext, of policy] o req(2) by simp
  let ?outside = "session = None \<and> Calendar_Kind (Asset_Calendar asset) = CalendarExplicitSessions"
  and ?expired = "Order_TimeInForce order = TimeInForceDay \<and>
     opt_holds (\<lambda>session. \<not> Before (Evaluation_EvaluatedAt request) (Session_CloseAt session)) session"
  and ?rests = "Calendar_Kind (Asset_Calendar asset) = CalendarExplicitSessions \<and>
     \<not> simulationTimeInSession (Asset_Calendar asset) (Evaluation_EvaluatedAt request) \<and> Order_TimeInForce order = TimeInForceGTC"
  note E = assms(1) [unfolded Evaluate_def Let_def v and_then_Inr prod.case req(1) option.case]
  show ?thesis
  proof (cases "terminalSimulationState (Aggregate_State ?b)")
    case True
    then have "Evaluate L clock' now' venue ?request = Inr (unchanged ?b)"
      by (simp add: Evaluate_def v' req' Let_def)
    then show ?thesis by (simp add: quiet_def)
  next
    case open_b: False
    then have open_a: "\<not> terminalSimulationState (Aggregate_State a)" using E by auto
    have inside: "\<not> ?outside"
    proof
      assume ?outside
      with E open_a have "venue_applyTerminal L now policy (unchanged a) request (Order_RoutedAt order) EventOrderRejected DecisionRejected
            ''route_outside_session'' (Order_RoutedAt order) None None = Inr r" by simp
      from terminal_moves_closed [OF this assms(3)] open_b show False by contradiction
    qed
    have current: "\<not> ?expired"
    proof
      assume ex: ?expired
      note e = E [unfolded if_not_P [OF open_a] if_not_P [OF inside] if_P [OF ex]]
      from terminal_moves_closed [OF e assms(3)] open_b show False by contradiction
    qed
    note E1 = E [unfolded if_not_P [OF open_a] if_not_P [OF inside] if_not_P [OF current]]
    have ea: "Evaluation_EvaluatedAt ?request = Evaluation_EvaluatedAt request" by simp
    have E': "Evaluate L clock' now' venue ?request =
      (if ?rests then ensureWorking L now' policy (unchanged ?b) ?request session DecisionResting ''outside_current_session''
       else evaluate_quote L clock' now' policy asset ?b order ?request session (unchanged ?b))"
      using open_b inside current by (simp only: Evaluate_def Let_def v' and_then_Inr prod.case req' option.case if_False ea)
    show ?thesis
    proof (cases ?rests)
      case True
      from ensureWorking_leaves_routed(1) [OF E1 [unfolded if_P [OF True]]] True
      show ?thesis by (simp add: E' ensureWorking_again quiet_def)
    next
      case False
      from evaluate_quote_again [OF E1 [unfolded if_not_P [OF False]] assms(3) o open_a open_b] False
      show ?thesis by (simp only: E' if_False)
    qed
  qed
qed

section \<open>Lots\<close>

text \<open>
  The behaviour of \<open>shopspring/decimal\<close> that the lot arithmetic relies on: \<open>Floor\<close> is an integer and does not exceed its
  argument, \<open>Div\<close> is exact when the quotient has at most 12 decimal places (it computes 16), a zero \<open>Mod\<close> means an
  integer multiple, and an integer multiple of a number with 12 decimal places has 12 decimal places.
\<close>

definition exact_lots :: "('d::linordered_idom) lib \<Rightarrow> bool" where
  "exact_lots L \<longleftrightarrow>
     (\<forall>x. decimal_Floor L x \<le> x \<and> (\<exists>k. decimal_Floor L x = of_int k)) \<and>
     (\<forall>q y. 0 < y \<longrightarrow> decimal_Round L q 12 = q \<longrightarrow> decimal_Div L (q * y) y = q) \<and>
     (\<forall>x y. 0 < y \<longrightarrow> decimal_Mod L x y = 0 \<longrightarrow> (\<exists>m. x = of_int m * y)) \<and>
     (\<forall>m q. decimal_Round L q 12 = q \<longrightarrow> decimal_Round L (of_int m * q) 12 = of_int m * q)"

lemma floorSimulationLot_bound:
  assumes "exact_lots L" and "0 < lot" and "decimal_Mod L displayed lot = 0" and "decimal_Round L part 12 = part"
    and "0 < floorSimulationLot L (displayed * part) lot"
  shows "floorSimulationLot L (displayed * part) lot \<le> displayed * part \<and> (\<exists>k. floorSimulationLot L (displayed * part) lot = of_int k * lot)"
proof -
  note laws = assms(1) [unfolded exact_lots_def]
  obtain m where m: "displayed = of_int m * lot" using laws assms(2,3) by blast
  have exact: "decimal_Round L (of_int m * part) 12 = of_int m * part" using laws assms(4) by blast
  then have "decimal_Div L (of_int m * part * lot) lot = of_int m * part" using laws assms(2) by blast
  then have q: "decimal_Div L (displayed * part) lot = of_int m * part" by (simp add: m mult.assoc mult.commute mult.left_commute)
  have f: "floorSimulationLot L (displayed * part) lot = decimal_Floor L (of_int m * part) * lot"
    using assms(2,5) by (simp add: floorSimulationLot_def q split: if_splits)
  have "decimal_Floor L (of_int m * part) * lot \<le> of_int m * part * lot"
    using laws assms(2) by (intro mult_right_mono) auto
  moreover obtain k where "decimal_Floor L (of_int m * part) = of_int k" using laws by blast
  ultimately show ?thesis unfolding f by (auto simp: m mult.assoc mult.commute mult.left_commute)
qed

lemma assessed_level_lots:
  assumes "AssessForExecution L snapshot t req reference contract = Inr assessment" and "level \<in> set (QuoteSnapshot_Depth snapshot)"
  shows "decimal_Mod L (DepthLevel_Size level) (VenueContract_LotSize contract) = 0 \<and> VenueContract_Validate L contract = None"
  using assms
  by (auto simp: AssessForExecution_def ValidateAgainstVenueContract_def level_mechanics_def isExactMultiple_def first_err_None_iff Let_def)

lemma contract_lot_positive: "VenueContract_Validate L contract = None \<Longrightarrow> 0 < VenueContract_LotSize contract"
  by (auto simp: VenueContract_Validate_def validatePositiveReferenceDecimal_def)

end
