(* ===== verification/Simulation_Outcome_Correctness.thy ===== *)
theory Simulation_Outcome_Correctness
  imports Simulation_Correctness
begin

text \<open>
  What the outcome of a simulated lifecycle adds up to, and in which order a result reaches the store.
\<close>

section \<open>The effects of an outcome\<close>

abbreviation effect_id :: "'d FillEffect \<Rightarrow> uuid" where
  "effect_id e \<equiv> Fill_ID (Effect_Fill e)"

abbreviation effect_fee :: "('d::linordered_idom) FillEffect \<Rightarrow> 'd" where
  "effect_fee e \<equiv> (case Effect_Fee e of None \<Rightarrow> 0 | Some f \<Rightarrow> f)"

abbreviation keyed :: "'d FillEffect list \<Rightarrow> (uuid \<times> 'd FillEffect) list" where
  "keyed es \<equiv> map (\<lambda>e. (effect_id e, e)) es"

lemma index_effects_eq:
  "distinct (map fst m) \<Longrightarrow>
   index_effects m es = Inr m' \<longleftrightarrow>
     m' = m @ keyed es \<and> (\<forall>e \<in> set es. effect_id e \<noteq> uuid_Nil) \<and> distinct (map fst m @ map effect_id es)"
proof (induction es arbitrary: m)
  case (Cons e es)
  have "index_effects m (e # es) = Inr m' \<longleftrightarrow>
    effect_id e \<noteq> uuid_Nil \<and> effect_id e \<notin> set (map fst m) \<and> index_effects (m @ [(effect_id e, e)]) es = Inr m'"
    by (auto simp: Let_def map_of_eq_None_iff)
  moreover have "distinct (map fst (m @ [(effect_id e, e)])) \<longleftrightarrow> effect_id e \<notin> set (map fst m)" using Cons.prems by auto
  ultimately show ?case using Cons.IH [of "m @ [(effect_id e, e)]"] by auto
qed auto

lemma map_of_keyed: "distinct (map effect_id es) \<Longrightarrow> map_of (keyed es) i = Some e \<longleftrightarrow> e \<in> set es \<and> effect_id e = i"
  by (subst map_of_eq_Some_iff) (auto simp: comp_def)

text \<open>The loop over the fills adds each fill and the fee of its effect.\<close>

lemma outcome_fills_totals:
  assumes "outcome_fills L m out fills = Inr out'"
  shows "Outcome_TotalQuantity out' = Outcome_TotalQuantity out + sum_list (map Fill_Quantity fills)"
    and "Outcome_GrossCash out' = Outcome_GrossCash out + sum_list (map (outcome_notional (Outcome_Side out) (Outcome_Multiplier out)) fills)"
    and "Outcome_TotalFee out' = Outcome_TotalFee out + sum_list (map (\<lambda>f. effect_fee (the (map_of m (Fill_ID f)))) fills)"
    and "\<forall>f \<in> set fills. \<exists>e. map_of m (Fill_ID f) = Some e \<and> 0 \<le> effect_fee e"
proof -
  have "Outcome_TotalQuantity out' = Outcome_TotalQuantity out + sum_list (map Fill_Quantity fills) \<and>
    Outcome_GrossCash out' = Outcome_GrossCash out + sum_list (map (outcome_notional (Outcome_Side out) (Outcome_Multiplier out)) fills) \<and>
    Outcome_TotalFee out' = Outcome_TotalFee out + sum_list (map (\<lambda>f. effect_fee (the (map_of m (Fill_ID f)))) fills) \<and>
    (\<forall>f \<in> set fills. \<exists>e. map_of m (Fill_ID f) = Some e \<and> 0 \<le> effect_fee e)"
    using assms
  proof (induction fills arbitrary: out)
    case (Cons f fills)
    then obtain e where e: "map_of m (Fill_ID f) = Some e" by (auto split: option.splits)
    with Cons show ?case by (fastforce simp: Let_def add.assoc not_less split: option.splits)
  qed simp
  then show "Outcome_TotalQuantity out' = Outcome_TotalQuantity out + sum_list (map Fill_Quantity fills)"
    and "Outcome_GrossCash out' = Outcome_GrossCash out + sum_list (map (outcome_notional (Outcome_Side out) (Outcome_Multiplier out)) fills)"
    and "Outcome_TotalFee out' = Outcome_TotalFee out + sum_list (map (\<lambda>f. effect_fee (the (map_of m (Fill_ID f)))) fills)"
    and "\<forall>f \<in> set fills. \<exists>e. map_of m (Fill_ID f) = Some e \<and> 0 \<le> effect_fee e"
    by blast+
qed

lemma outcome_fills_lookup: "map_of m = map_of m' \<Longrightarrow> outcome_fills L m out fills = outcome_fills L m' out fills"
  by (induction fills arbitrary: out) (simp_all add: Let_def split: option.split)

lemma NewOutcomeE:
  assumes "NewOutcome L input = Inr out" and "OutcomeInput_Aggregate input = Some a"
  obtains order out' where "Aggregate_Order a = Some order" and "outcome_checks L a order input = None"
    and "\<forall>e \<in> set (OutcomeInput_Fills input). effect_id e \<noteq> uuid_Nil" and "distinct (map effect_id (OutcomeInput_Fills input))"
    and "length (OutcomeInput_Fills input) = length (Aggregate_Fills a)"
    and "outcome_fills L (keyed (OutcomeInput_Fills input)) (initial_outcome a order input) (Aggregate_Fills a) = Inr out'"
    and "out = out'\<lparr>Outcome_canonicalBytes := json_Marshal L (canonicalOutcome L out'),
                    Outcome_hash := hex_EncodeToString (sha256_Sum256 L (json_Marshal L (canonicalOutcome L out')))\<rparr>"
  using assms by (auto simp: NewOutcome_def Let_def index_effects_eq split: option.splits)

lemma NewOutcome_intro:
  assumes "OutcomeInput_Aggregate input = Some a" and "Aggregate_Order a = Some order" and "outcome_checks L a order input = None"
    and "\<forall>e \<in> set (OutcomeInput_Fills input). effect_id e \<noteq> uuid_Nil" and "distinct (map effect_id (OutcomeInput_Fills input))"
    and "length (OutcomeInput_Fills input) = length (Aggregate_Fills a)"
    and "outcome_fills L (keyed (OutcomeInput_Fills input)) (initial_outcome a order input) (Aggregate_Fills a) = Inr out'"
  shows "NewOutcome L input = Inr (out'\<lparr>Outcome_canonicalBytes := json_Marshal L (canonicalOutcome L out'),
                    Outcome_hash := hex_EncodeToString (sha256_Sum256 L (json_Marshal L (canonicalOutcome L out')))\<rparr>)"
proof -
  have "index_effects [] (OutcomeInput_Fills input) = Inr (keyed (OutcomeInput_Fills input))"
    using assms(4,5) by (simp add: index_effects_eq)
  with assms show ?thesis by (simp add: NewOutcome_def Let_def)
qed

text \<open>The order in which the effects were collected does not matter.\<close>

lemma NewOutcome_reordered:
  assumes "NewOutcome L input = Inr out" and "OutcomeInput_Aggregate input = Some a"
    and "mset es = mset (OutcomeInput_Fills input)"
  shows "NewOutcome L (input\<lparr>OutcomeInput_Fills := es\<rparr>) = Inr out"
proof (rule NewOutcomeE [OF assms(1,2)])
  fix order out'
  let ?input = "input\<lparr>OutcomeInput_Fills := es\<rparr>"
  assume o: "Aggregate_Order a = Some order" "outcome_checks L a order input = None"
    and ids: "\<forall>e \<in> set (OutcomeInput_Fills input). effect_id e \<noteq> uuid_Nil" "distinct (map effect_id (OutcomeInput_Fills input))"
    and l: "length (OutcomeInput_Fills input) = length (Aggregate_Fills a)"
    and f: "outcome_fills L (keyed (OutcomeInput_Fills input)) (initial_outcome a order input) (Aggregate_Fills a) = Inr out'"
    and out: "out = out'\<lparr>Outcome_canonicalBytes := json_Marshal L (canonicalOutcome L out'),
                    Outcome_hash := hex_EncodeToString (sha256_Sum256 L (json_Marshal L (canonicalOutcome L out')))\<rparr>"
  have s: "set es = set (OutcomeInput_Fills input)" by (rule mset_eq_setD [OF assms(3)])
  have d: "distinct (map effect_id es)"
    by (rule mset_eq_imp_distinct_iff [THEN iffD2, OF _ ids(2)]) (simp add: assms(3))
  have "map_of (keyed es) = map_of (keyed (OutcomeInput_Fills input))"
    using d ids(2) s by (subst map_of_inject_set) (simp_all add: comp_def)
  from outcome_fills_lookup [OF this] f
  have "outcome_fills L (keyed (OutcomeInput_Fills ?input)) (initial_outcome a order ?input) (Aggregate_Fills a) = Inr out'"
    by (simp add: initial_outcome_def Let_def)
  moreover have "outcome_checks L a order ?input = None" using o(2) by (simp add: outcome_checks_def Let_def)
  moreover have "length es = length (Aggregate_Fills a)" using mset_eq_length [OF assms(3)] l by simp
  ultimately show ?thesis unfolding out
    by (intro NewOutcome_intro [OF _ o(1)]) (use ids(1) s d assms(2) in simp_all)
qed

lemma sum_fees_of_effects:
  assumes "distinct (map effect_id es)" and "distinct (map Fill_ID fills)" and "length es = length fills"
    and "\<forall>f \<in> set fills. \<exists>e. map_of (keyed es) (Fill_ID f) = Some e \<and> 0 \<le> effect_fee e"
  shows "sum_list (map (\<lambda>f. effect_fee (the (map_of (keyed es) (Fill_ID f)))) fills) = sum_list (map effect_fee es)"
    and "\<forall>e \<in> set es. 0 \<le> effect_fee e"
proof -
  let ?fee = "\<lambda>i. effect_fee (the (map_of (keyed es) i))"
  have sub: "set (map Fill_ID fills) \<subseteq> set (map effect_id es)"
  proof
    fix i assume "i \<in> set (map Fill_ID fills)"
    with assms(4) obtain e where "map_of (keyed es) i = Some e" by auto
    with map_of_keyed [OF assms(1), of i e] show "i \<in> set (map effect_id es)" by auto
  qed
  have eq: "set (map Fill_ID fills) = set (map effect_id es)"
    by (rule card_subset_eq [OF _ sub]) (use assms(1-3) in \<open>simp_all only: finite_set distinct_card length_map\<close>)
  have "mset (map Fill_ID fills) = mset (map effect_id es)"
    by (rule set_eq_iff_mset_eq_distinct [THEN iffD1, OF assms(2,1) eq])
  then have "sum_list (map ?fee (map Fill_ID fills)) = sum_list (map ?fee (map effect_id es))"
    by (simp only: sum_mset_sum_list [symmetric] mset_map)
  moreover have "?fee (effect_id e) = effect_fee e" if "e \<in> set es" for e
    using map_of_keyed [OF assms(1), of "effect_id e" e] that by simp
  ultimately show "sum_list (map (\<lambda>f. ?fee (Fill_ID f)) fills) = sum_list (map effect_fee es)"
    by (simp add: comp_def cong: map_cong)
  show "\<forall>e \<in> set es. 0 \<le> effect_fee e"
  proof
    fix e assume e: "e \<in> set es"
    with eq obtain f where "f \<in> set fills" "Fill_ID f = effect_id e" by (metis (no_types, lifting) image_iff list.set_map)
    with assms(4) map_of_keyed [OF assms(1), of "effect_id e" e] e show "0 \<le> effect_fee e" by force
  qed
qed

lemma sumFillQuantity_sum_list: "sumFillQuantity fs = sum_list (map Fill_Quantity fs)"
  using sumFillQuantity_append_list [of "[]" "\<lambda>f. f" fs] by (simp add: sumFillQuantity_def)

section \<open>The order of the writes\<close>

text \<open>The calls of a store, and a store that records the calls it receives.\<close>

datatype 'd store_call = RawCall EconomicSourceEvent | FillCall "'d Transition" | TransitionCall "'d Transition"

definition log_call :: "'c \<Rightarrow> ('s \<Rightarrow> 'x \<times> 's) \<Rightarrow> 's \<times> 'c list \<Rightarrow> 'x \<times> 's \<times> 'c list" where
  "log_call c f = (\<lambda>(s, trace). case f s of (x, s') \<Rightarrow> (x, s', trace @ [c]))"

definition logged :: "('s, 'd) Persistence \<Rightarrow> ('s \<times> 'd store_call list, 'd) Persistence" where
  "logged store =
    \<lparr>store_RecordEconomicSourceEvent = (\<lambda>raw. log_call (RawCall raw) (store_RecordEconomicSourceEvent store raw)),
     store_ApplyExecutionFill = (\<lambda>account t. log_call (FillCall t) (store_ApplyExecutionFill store account t)),
     store_ApplyExecutionTransition = (\<lambda>account t. log_call (TransitionCall t) (store_ApplyExecutionTransition store account t))\<rparr>"

text \<open>What one transition should write: the raw event of a fill before the fill.\<close>

definition transition_raw :: "'d Transition \<Rightarrow> EconomicSourceEvent option" where
  "transition_raw t = Option.bind (Transition_Normalization t) Normalization_SourceEvent"

definition transition_calls :: "'d Transition \<Rightarrow> 'd store_call list" where
  "transition_calls t =
    (if Transition_Fill t = None then [TransitionCall t]
     else case transition_raw t of None \<Rightarrow> [] | Some raw \<Rightarrow> [RawCall raw, FillCall t])"

definition persistable :: "'d Transition \<Rightarrow> bool" where
  "persistable t \<longleftrightarrow>
     (if Transition_Fill t = None then Transition_Normalization t = None else transition_raw t \<noteq> None)"

lemma persist_transitions_calls:
  assumes "persist_transitions (logged st) account ts persisted (s, trace) = (x, s', trace')"
  shows "\<exists>calls. trace' = trace @ calls \<and> prefix calls (concat (map transition_calls ts)) \<and>
    (\<not> isl x \<longrightarrow> calls = concat (map transition_calls ts)) \<and>
    (list_all persistable ts \<longrightarrow> x \<notin> {Inl PersistRawGraph, Inl PersistUnexpectedNormalization}) \<and>
    persist_transitions st account ts persisted s = (x, s')"
  using assms
proof (induction ts arbitrary: persisted s trace)
  case (Cons t ts)
  note split = option.splits sum.splits prod.splits if_splits
  show ?case
  proof (cases "Transition_Fill t")
    case None
    show ?thesis
    proof (cases "Transition_Normalization t")
      case (Some n)
      with Cons.prems None show ?thesis by (auto simp: persistable_def)
    next
      case no: None
      obtain y s1 where call: "store_ApplyExecutionTransition st account t s = (y, s1)" by fastforce
      with Cons.prems None no show ?thesis
      proof (cases y)
        case (Inr b)
        with Cons.prems None no call have "persist_transitions (logged st) account ts b (s1, trace @ [TransitionCall t]) = (x, s', trace')"
          by (simp add: logged_def log_call_def)
        from Cons.IH [OF this] None no call Inr show ?thesis by (auto simp: transition_calls_def)
      qed (auto simp: logged_def log_call_def transition_calls_def)
    qed
  next
    case (Some f)
    show ?thesis
    proof (cases "transition_raw t")
      case None
      with Cons.prems Some show ?thesis by (auto simp: persistable_def transition_raw_def split: option.splits)
    next
      case raw: (Some raw)
      then have n: "(case Transition_Normalization t of None \<Rightarrow> None | Some n \<Rightarrow> Normalization_SourceEvent n) = Some raw"
        by (cases "Transition_Normalization t") (auto simp: transition_raw_def)
      obtain y s1 z s2 where call: "store_RecordEconomicSourceEvent st raw s = (y, s1)" "store_ApplyExecutionFill st account t s1 = (z, s2)"
        by fastforce
      show ?thesis
      proof (cases "\<exists>r b. y = Inr r \<and> SameEconomicSourceEventPayload r (Some raw) \<and> z = Inr b")
        case True
        then obtain r b where y: "y = Inr r" "SameEconomicSourceEventPayload r (Some raw)" "z = Inr b" by blast
        with Cons.prems Some n call have "persist_transitions (logged st) account ts b (s2, trace @ [RawCall raw, FillCall t]) = (x, s', trace')"
          by (simp add: logged_def log_call_def)
        from Cons.IH [OF this] Some raw n y call show ?thesis by (auto simp: transition_calls_def)
      next
        case False
        with Cons.prems Some raw n call show ?thesis
          by (cases y; cases z) (auto simp: logged_def log_call_def transition_calls_def split: if_splits)
      qed
    qed
  qed
qed auto

lemma apply_transition_kinds:
  assumes "apply_transition L a t = Inr b" and "lifecycle_invar L a"
  shows "if is_fill_kind (Event_Kind (Transition_Event t))
    then Transition_Fill t \<noteq> None \<and> transition_raw t \<noteq> None
    else Transition_Fill t = None \<and> Transition_Normalization t = None"
proof -
  from assms obtain c where c: "apply_children L a t = Inr c"
    and v: "validEventTransition (Event_Kind (Transition_Event t)) (Event_ObservationClass (Transition_Event t))
         (Aggregate_State a) (Event_NextState (Transition_Event t))"
    by (auto simp: apply_transition_def Let_def)
  show ?thesis
  proof (cases "is_fill_kind (Event_Kind (Transition_Event t))")
    case True
    with c have "applyFillEvent L a t = Inr c" by (auto simp: apply_children_def is_fill_kind_def)
    with True show ?thesis by (auto simp: applyFillEvent_def transition_raw_def Let_def split: option.splits)
  next
    case False
    have "Transition_Fill t = None \<and> Transition_Normalization t = None"
      using c v False lifecycle_invar_state [OF assms(2)]
      by (cases "Event_Kind (Transition_Event t)")
        (auto simp: apply_children_def applyAllocated_def applyRisk_def applyRouted_def applyWorking_def applyCancelRequested_def applyTerminal_def
          applyCorrection_def applyVenueFailure_def has_children_def is_fill_kind_def validEventTransition_def Let_def
          split: if_splits option.splits)
    with False show ?thesis by simp
  qed
qed

lemma apply_transition_persistable:
  assumes "apply_transition L a t = Inr b" and "lifecycle_invar L a"
  shows "persistable t"
  using apply_transition_kinds [OF assms] by (auto simp: persistable_def split: if_splits)

lemma follows_persistable:
  assumes "replay (apply_transition L) a ts = Inr b" and "lifecycle_invar L a"
  shows "list_all persistable ts"
  using assms by (induction ts arbitrary: a) (auto intro: apply_transition_persistable apply_transition_invar)

lemma PersistResult_calls:
  assumes "PersistResult (Some (logged st)) account (Some r) (s, []) = (x, s', trace)" and "list_all persistable (Result_Transitions r)"
  shows "prefix trace (concat (map transition_calls (Result_Transitions r)))"
    and "x = Inr b \<Longrightarrow> trace = concat (map transition_calls (Result_Transitions r))"
    and "x \<notin> {Inl PersistRawGraph, Inl PersistUnexpectedNormalization}"
    and "PersistResult (Some st) account (Some r) s = (x, s')"
proof -
  obtain y sl where y: "persist_transitions (logged st) account (Result_Transitions r) None (s, []) = (y, sl)" by (rule prod.exhaust)
  obtain s1 trace1 where sl: "sl = (s1, trace1)" by fastforce
  from persist_transitions_calls [OF y [unfolded sl]] obtain
    "prefix trace1 (concat (map transition_calls (Result_Transitions r)))"
    "\<not> isl y \<longrightarrow> trace1 = concat (map transition_calls (Result_Transitions r))"
    "y \<notin> {Inl PersistRawGraph, Inl PersistUnexpectedNormalization}"
    "persist_transitions st account (Result_Transitions r) None s = (y, s1)" using assms(2) by auto
  note c = this
  from assms(1) c y sl show "prefix trace (concat (map transition_calls (Result_Transitions r)))"
    and "x = Inr b \<Longrightarrow> trace = concat (map transition_calls (Result_Transitions r))"
    and "x \<notin> {Inl PersistRawGraph, Inl PersistUnexpectedNormalization}"
    and "PersistResult (Some st) account (Some r) s = (x, s')"
    by (auto simp: PersistResult_def Let_def split: if_splits sum.splits option.splits)
qed

lemma Evaluate_account:
  assumes "Evaluate L clock now venue request = Inr r" and "Evaluation_Aggregate request = Some a"
  shows "Account_ID (Evaluation_Account request) \<noteq> uuid_Nil"
    and "Intent_AccountID (Aggregate_Intent a) = Account_ID (Evaluation_Account request)"
proof -
  from assms obtain asset session where "validateRequest L venue request = Inr (asset, session)" by (auto simp: Evaluate_def)
  then obtain policy order where c: "request_checks L policy a order request = None"
    by (rule validateRequest_routed) (use assms(2) in simp)
  then show "Account_ID (Evaluation_Account request) \<noteq> uuid_Nil"
    and "Intent_AccountID (Aggregate_Intent a) = Account_ID (Evaluation_Account request)"
    by (simp_all add: request_checks_def request_context_def Account_Validate_def Let_def)
qed

section \<open>The contract of the lifecycle repository\<close>

text \<open>
  What \<open>repository/postgres/execution_lifecycle.go\<close> and \<open>ledger.go\<close> promise.  \<open>reload\<close> is the lifecycle the store reads back from its
  state, \<open>agrees\<close> compares it with the lifecycle that was written, and \<open>recorded\<close> tells which raw events the store holds.
  Recording a raw event leaves the lifecycle alone.  \<open>ApplyExecutionFill\<close> serves complete fill transitions whose raw event is
  recorded, \<open>ApplyExecutionTransition\<close> serves the transitions without a fill; both need the account of a new event and a transition
  that the lifecycle accepts, and return the reloaded lifecycle.  For a call within these guards the store may still fail for a
  reason of its own, such as a lost connection, with an error that \<open>failure\<close> describes; then the transition was written or not.
\<close>

definition fill_transition :: "'d Transition \<Rightarrow> bool" where
  "fill_transition t \<longleftrightarrow> Transition_Fill t \<noteq> None \<and> Transition_Normalization t \<noteq> None \<and> is_fill_kind (Event_Kind (Transition_Event t))"

definition plain_transition :: "'d Transition \<Rightarrow> bool" where
  "plain_transition t \<longleftrightarrow> Transition_Fill t = None \<and> Transition_Normalization t = None \<and> \<not> is_fill_kind (Event_Kind (Transition_Event t))"

definition fresh_event :: "uuid \<Rightarrow> 'd Aggregate \<Rightarrow> 'd Transition \<Rightarrow> bool" where
  "fresh_event account a t \<longleftrightarrow> account \<noteq> uuid_Nil \<and> Event_IntentID (Transition_Event t) \<noteq> uuid_Nil \<and>
     Event_AccountID (Transition_Event t) = account \<and> Event_ID (Transition_Event t) \<notin> Event_ID ` set (Aggregate_Events a)"

inductive written ::
    "('s \<Rightarrow> 'd Aggregate) \<Rightarrow> ('d Aggregate \<Rightarrow> 'd Aggregate \<Rightarrow> bool) \<Rightarrow> (string \<Rightarrow> bool) \<Rightarrow> 'd Aggregate \<Rightarrow> 'd Aggregate \<Rightarrow>
     (string + 'd Aggregate option) \<times> 's \<Rightarrow> bool"
  for reload agrees failure a b where
  stored: "agrees (reload s) b \<Longrightarrow> written reload agrees failure a b (Inr (Some (reload s)), s)"
| failed: "failure e \<Longrightarrow> agrees (reload s) a \<or> agrees (reload s) b \<Longrightarrow> written reload agrees failure a b (Inl e, s)"

definition lifecycle_store ::
    "('d::linordered_idom) lib \<Rightarrow> ('s, 'd) Persistence \<Rightarrow> ('s \<Rightarrow> EconomicSourceEvent \<Rightarrow> bool) \<Rightarrow> ('s \<Rightarrow> 'd Aggregate) \<Rightarrow>
     ('d Aggregate \<Rightarrow> 'd Aggregate \<Rightarrow> bool) \<Rightarrow> (string \<Rightarrow> bool) \<Rightarrow> bool" where
  "lifecycle_store L st recorded reload agrees failure \<longleftrightarrow>
     (\<forall>s raw x s'. store_RecordEconomicSourceEvent st raw s = (x, s') \<longrightarrow> reload s' = reload s \<and>
        (case x of Inl e \<Rightarrow> failure e | Inr r \<Rightarrow> SameEconomicSourceEventPayload r (Some raw) \<and> recorded s' raw)) \<and>
     (\<forall>s a b account t. agrees (reload s) a \<and> apply_transition L a t = Inr b \<and> fresh_event account a t \<longrightarrow>
        (fill_transition t \<and> opt_holds (recorded s) (transition_raw t) \<longrightarrow>
           written reload agrees failure a b (store_ApplyExecutionFill st account t s)) \<and>
        (plain_transition t \<longrightarrow> written reload agrees failure a b (store_ApplyExecutionTransition st account t s))) \<and>
     (\<forall>c b. agrees c b \<longrightarrow> Intent_ID (Aggregate_Intent c) = Intent_ID (Aggregate_Intent b) \<and> Aggregate_State c = Aggregate_State b \<and>
        length (Aggregate_Fills c) = length (Aggregate_Fills b))"

lemma apply_transition_storable:
  assumes "apply_transition L a t = Inr b" and "lifecycle_invar L a" and "Intent_AccountID (Aggregate_Intent a) = account"
    and "account \<noteq> uuid_Nil" and "distinct (map Event_ID (Aggregate_Events b))"
  shows "fresh_event account a t" and "Intent_AccountID (Aggregate_Intent b) = account"
    and "fill_transition t \<and> transition_raw t \<noteq> None \<or> plain_transition t"
proof -
  from assms(1) have "event_context (Aggregate_Intent a) (Transition_Event t)" "Event_Validate L (Transition_Event t) = None"
    by (auto simp: apply_transition_def Let_def)
  with apply_transition_events [OF assms(2,1)] assms(3-5) show "fresh_event account a t"
    by (auto simp: fresh_event_def event_context_def Event_Validate_def)
  show "Intent_AccountID (Aggregate_Intent b) = account"
    using apply_transition_extends [OF assms(2,1)] assms(3) by (simp add: extends_iff)
  show "fill_transition t \<and> transition_raw t \<noteq> None \<or> plain_transition t"
    using apply_transition_kinds [OF assms(1,2)]
    by (auto simp: fill_transition_def plain_transition_def transition_raw_def bind_eq_Some_conv split: if_splits)
qed

text \<open>Writing one transition: the store takes it or fails, and then holds the lifecycle before or after it.\<close>

lemma persist_one:
  assumes store: "lifecycle_store L st recorded reload agrees failure" and agrees: "agrees (reload s) a"
    and step: "apply_transition L a t = Inr b" "fresh_event account a t"
    and kind: "fill_transition t \<and> transition_raw t \<noteq> None \<or> plain_transition t"
  obtains (taken) s1 where "agrees (reload s1) b"
      "persist_transitions st account (t # ts) persisted s = persist_transitions st account ts (Some (reload s1)) s1"
  | (failed) e s1 where "failure e" "agrees (reload s1) a \<or> agrees (reload s1) b"
      "persist_transitions st account (t # ts) persisted s = (Inl (PersistStore e), s1)"
  using kind
proof
  assume plain: "plain_transition t"
  with store agrees step have "written reload agrees failure a b (store_ApplyExecutionTransition st account t s)"
    unfolding lifecycle_store_def by blast
  then show ?thesis by cases (use plain that in \<open>auto simp: plain_transition_def\<close>)
next
  assume fill: "fill_transition t \<and> transition_raw t \<noteq> None"
  then obtain raw where raw: "transition_raw t = Some raw" by blast
  with fill have n: "(case Transition_Normalization t of None \<Rightarrow> None | Some n \<Rightarrow> Normalization_SourceEvent n) = Some raw"
    "Transition_Fill t \<noteq> None" by (auto simp: fill_transition_def transition_raw_def)
  obtain x s1 where call: "store_RecordEconomicSourceEvent st raw s = (x, s1)" by fastforce
  with store have s1: "reload s1 = reload s"
    "case x of Inl e \<Rightarrow> failure e | Inr r \<Rightarrow> SameEconomicSourceEventPayload r (Some raw) \<and> recorded s1 raw"
    unfolding lifecycle_store_def by blast+
  show ?thesis
  proof (cases x)
    case (Inl e)
    with call s1 agrees n that(2) [of e s1] show ?thesis by auto
  next
    case (Inr r)
    have "written reload agrees failure a b (store_ApplyExecutionFill st account t s1)"
      using store agrees step fill s1 raw Inr unfolding lifecycle_store_def by simp
    then show ?thesis by cases (use call s1 Inr n that in auto)
  qed
qed

lemma replay_events:
  assumes "replay (apply_transition L) a ts = Inr b" and "lifecycle_invar L a"
  shows "Aggregate_Events b = Aggregate_Events a @ map Transition_Event ts"
  using assms
proof (induction ts arbitrary: a)
  case (Cons t ts)
  then obtain c where "apply_transition L a t = Inr c" "replay (apply_transition L) c ts = Inr b" by auto
  with Cons.IH [of c] Cons.prems(2) show ?case by (simp add: apply_transition_events apply_transition_invar)
qed simp

text \<open>An interrupted write leaves the lifecycle after some first transitions.\<close>

lemma persist_transitions_complete:
  assumes "lifecycle_store L st recorded reload agrees failure" and "agrees (reload s) a"
    and "replay (apply_transition L) a ts = Inr b" and "lifecycle_invar L a" and "distinct (map Event_ID (Aggregate_Events b))"
    and "account \<noteq> uuid_Nil" and "Intent_AccountID (Aggregate_Intent a) = account" and "ts = [] \<Longrightarrow> persisted = Some (reload s)"
    and "persist_transitions st account ts persisted s = (x, s')"
  shows "(\<exists>n c. replay (apply_transition L) a (take n ts) = Inr c \<and> agrees (reload s') c) \<and>
    (case x of Inl e \<Rightarrow> \<exists>m. e = PersistStore m \<and> failure m | Inr c \<Rightarrow> c = Some (reload s') \<and> agrees (reload s') b)"
  using assms(2-5,7-9)
proof (induction ts arbitrary: s a persisted)
  case (Cons t ts)
  then obtain c where c: "apply_transition L a t = Inr c" "replay (apply_transition L) c ts = Inr b" by auto
  note invar = apply_transition_invar [OF Cons.prems(3) c(1)]
  have "distinct (map Event_ID (Aggregate_Events c))" using replay_events [OF c(2) invar] Cons.prems(4) by simp
  note ok = apply_transition_storable [OF c(1) Cons.prems(3,5) assms(6) this]
  from assms(1) Cons.prems(1) c(1) ok(1,3) show ?case
  proof (rule persist_one [where ts = ts and persisted = persisted])
    fix s1 assume s1: "agrees (reload s1) c"
      "persist_transitions st account (t # ts) persisted s = persist_transitions st account ts (Some (reload s1)) s1"
    from Cons.IH [OF s1(1) c(2) invar Cons.prems(4) ok(2) refl] s1(2) Cons.prems(7)
    obtain n d where "replay (apply_transition L) c (take n ts) = Inr d" "agrees (reload s') d"
      "case x of Inl e \<Rightarrow> \<exists>m. e = PersistStore m \<and> failure m | Inr c \<Rightarrow> c = Some (reload s') \<and> agrees (reload s') b" by auto
    with c(1) show ?thesis by (auto intro!: exI [of _ "Suc n"])
  next
    fix e s1 assume e: "failure e" "agrees (reload s1) a \<or> agrees (reload s1) c"
      "persist_transitions st account (t # ts) persisted s = (Inl (PersistStore e), s1)"
    have "replay (apply_transition L) a (take 0 (t # ts)) = Inr a" "replay (apply_transition L) a (take 1 (t # ts)) = Inr c"
      using c(1) by simp_all
    with e(2) have "\<exists>n d. replay (apply_transition L) a (take n (t # ts)) = Inr d \<and> agrees (reload s1) d" by blast
    moreover from e(3) Cons.prems(7) have "x = Inl (PersistStore e)" "s' = s1" by simp_all
    ultimately show ?thesis using e(1) by simp
  qed
qed auto

lemma PersistResult_complete:
  assumes "lifecycle_store L st recorded reload agrees failure" and "agrees (reload s) a"
    and "replay (apply_transition L) a (Result_Transitions r) = Inr (Result_Aggregate r)" and "lifecycle_invar L a"
    and "distinct (map Event_ID (Aggregate_Events (Result_Aggregate r)))"
    and "account \<noteq> uuid_Nil" and "Intent_AccountID (Aggregate_Intent a) = account"
    and "PersistResult (Some st) account (Some r) s = (x, s')"
  shows "(\<exists>n c. replay (apply_transition L) a (take n (Result_Transitions r)) = Inr c \<and> agrees (reload s') c) \<and>
    (case x of Inl e \<Rightarrow> \<exists>m. e = PersistStore m \<and> failure m
     | Inr c \<Rightarrow> c \<in> {reload s', Result_Aggregate r} \<and> agrees (reload s') (Result_Aggregate r))"
proof (cases "Result_Transitions r = []")
  case True
  with assms show ?thesis by (auto simp: PersistResult_def Let_def)
next
  case False
  have account: "Intent_AccountID (Aggregate_Intent (Result_Aggregate r)) = account"
    using venue_replay.invar_replay [OF assms(3)] assms(4,7) by (auto simp: extends_refl extends_iff list_all_iff)
  obtain y s1 where y: "persist_transitions st account (Result_Transitions r) None s = (y, s1)" by fastforce
  from persist_transitions_complete [OF assms(1-7) _ y] False
  have c: "\<exists>n c. replay (apply_transition L) a (take n (Result_Transitions r)) = Inr c \<and> agrees (reload s1) c"
    "case y of Inl e \<Rightarrow> \<exists>m. e = PersistStore m \<and> failure m | Inr c \<Rightarrow> c = Some (reload s1) \<and> agrees (reload s1) (Result_Aggregate r)"
    by blast+
  have same: "Intent_ID (Aggregate_Intent c) = Intent_ID (Aggregate_Intent b) \<and> Aggregate_State c = Aggregate_State b \<and>
    length (Aggregate_Fills c) = length (Aggregate_Fills b)" if "agrees c b" for c b
    using assms(1) that unfolding lifecycle_store_def by blast
  from assms(6,8) False account y c(2) have "s' = s1" "x = (case y of Inl e \<Rightarrow> Inl e | Inr c \<Rightarrow> Inr (the c))"
    by (auto simp: PersistResult_def Let_def dest: same split: sum.splits)
  with c show ?thesis by (auto split: sum.splits)
qed

text \<open>A store that keeps the lifecycle and the raw events in memory and has the guards of the repository.\<close>

type_synonym 'd memory = "'d Aggregate \<times> EconomicSourceEvent list"

definition memory_write ::
    "('d::linordered_idom) lib \<Rightarrow> ('d memory \<Rightarrow> 'd Transition \<Rightarrow> bool) \<Rightarrow> uuid \<Rightarrow> 'd Transition \<Rightarrow> 'd memory \<Rightarrow>
     (string + 'd Aggregate option) \<times> 'd memory" where
  "memory_write L served account t s =
    (if \<not> served s t \<or> \<not> fresh_event account (fst s) t then (Inl ''refused'', s)
     else case apply_transition L (fst s) t of Inl e \<Rightarrow> (Inl ''invalid'', s) | Inr b \<Rightarrow> (Inr (Some b), b, snd s))"

definition memory_store :: "('d::linordered_idom) lib \<Rightarrow> ('d memory, 'd) Persistence" where
  "memory_store L =
    \<lparr>store_RecordEconomicSourceEvent = (\<lambda>raw s. (Inr (Some raw), fst s, raw # snd s)),
     store_ApplyExecutionFill = memory_write L (\<lambda>s t. fill_transition t \<and> opt_holds (\<lambda>raw. raw \<in> set (snd s)) (transition_raw t)),
     store_ApplyExecutionTransition = memory_write L (\<lambda>s. plain_transition)\<rparr>"

lemma memory_store_contract:
  "lifecycle_store L (memory_store L) (\<lambda>s raw. raw \<in> set (snd s)) fst (=) (\<lambda>e. False)"
  by (auto simp: lifecycle_store_def memory_store_def memory_write_def SameEconomicSourceEventPayload_def written.simps)

end
