(* ===== verification/Simulation_Demo.thy ===== *)
theory Simulation_Demo
  imports Simulation_Outcome_Correctness Lifecycle_Demo
begin

text \<open>
  Concrete runs of the simulated venue: the routed order of \<open>Lifecycle_Demo\<close> for 8 units with a limit of 101, and a
  quote that shows some units at 101 and 9 units at 102.
\<close>

definition demo_asset :: "int AssetPolicy" where
  "demo_asset =
    \<lparr>Asset_AssetClass = AssetClassEquity, Asset_OrderTypes = [OrderLimit, OrderMarket],
     Asset_TimeInForce = [TimeInForceFOK, TimeInForceGTC, TimeInForceIOC],
     Asset_QuoteRequirements =
       \<lparr>RequireSource = True, RequireVenueContract = True, RequireBid = True, RequireAsk = True,
        RequireBidDepth = True, RequireAskDepth = True, RequireMarketStatus = True, RequireSessionStatus = True,
        AllowedMarketStatuses = [''open''], AllowedSessionStatuses = [''regular''], MaxAge = 50000\<rparr>,
     Asset_MaxDepthParticipation = 1, Asset_FixedLatency = 2000,
     Asset_Calendar = \<lparr>Calendar_Kind = CalendarExplicitSessions, Calendar_Sessions =
       [\<lparr>Session_Label = ''s1'', Session_OpenAt = demo_time 10, Session_CloseAt = demo_time 60\<rparr>,
        \<lparr>Session_Label = ''s2'', Session_OpenAt = demo_time 70, Session_CloseAt = demo_time 90\<rparr>]\<rparr>,
     Asset_Fees = \<lparr>Fees_PerOrder = 1, Fees_PerUnit = 2, Fees_NotionalBPS = 0, Fees_Scale = 2\<rparr>\<rparr>"

definition demo_policy :: "int Policy" where
  "demo_policy = policy_of demo_hash_lib [demo_asset]"

definition demo_sim_order :: "TimeInForce \<Rightarrow> int Order" where
  "demo_sim_order tif = demo_order
    \<lparr>Order_OrderType := OrderLimit, Order_LimitPrice := Some 101, Order_TimeInForce := tif,
     Order_PolicyVersion := ''simulation-policy-v1@sha256:'' @ demo_empty_sha\<rparr>"

definition demo_sim_routed :: "TimeInForce \<Rightarrow> int Aggregate" where
  "demo_sim_routed tif = demo_routed\<lparr>Aggregate_Order := Some (demo_sim_order tif)\<rparr>"

definition demo_sim_quote :: "int \<Rightarrow> int QuoteSnapshot" where
  "demo_sim_quote units = demo_quote
    \<lparr>QuoteSnapshot_Source := ''sip'', QuoteSnapshot_SessionStatus := ''regular'',
     QuoteSnapshot_ExchangeAt := Some (demo_time 21), QuoteSnapshot_ReceivedAt := demo_time 22,
     QuoteSnapshot_AvailableAt := Some (demo_time 23), QuoteSnapshot_AskSize := Some units,
     QuoteSnapshot_Depth :=
       [\<lparr>DepthLevel_Side = DepthSideBid, DepthLevel_Level = 0, DepthLevel_Price = 99, DepthLevel_Size = 4\<rparr>,
        \<lparr>DepthLevel_Side = DepthSideAsk, DepthLevel_Level = 0, DepthLevel_Price = 101, DepthLevel_Size = units\<rparr>,
        \<lparr>DepthLevel_Side = DepthSideAsk, DepthLevel_Level = 1, DepthLevel_Price = 102, DepthLevel_Size = 9\<rparr>],
     QuoteSnapshot_CreatedAt := demo_time 24\<rparr>"

definition demo_request :: "TimeInForce \<Rightarrow> int \<Rightarrow> int EvaluationRequest" where
  "demo_request tif units =
    \<lparr>Evaluation_Account = demo_account AccountEnvironmentPaperScored ''paper_scored/a'' MarginProfileCash,
     Evaluation_Instrument = demo_instrument, Evaluation_VenueContract = demo_contract,
     Evaluation_Aggregate = Some (demo_sim_routed tif), Evaluation_Snapshot = demo_sim_quote units,
     Evaluation_EvaluatedAt = demo_time 40\<rparr>"

definition demo_evaluation :: "TimeInForce \<Rightarrow> int \<Rightarrow> venue_error + int Result" where
  "demo_evaluation tif units = Evaluate demo_hash_lib (\<lambda>k i j. demo_time 40) (demo_time 40) (Some demo_policy) (demo_request tif units)"

definition demo_policy_input :: "int PolicyInput" where
  "demo_policy_input = \<lparr>PolicyInput_Schema = PolicySchemaV1, PolicyInput_Assets = [demo_asset]\<rparr>"

definition demo_codec :: "int policy_codec" where
  "demo_codec =
    \<lparr>decode_policy = (\<lambda>s. Some (canonical_policy demo_hash_lib [demo_asset], [])),
     decimal_NewFromString = (\<lambda>s. Some (int (atoi s))),
     parse_policy_time = map_of (map (\<lambda>n. (format_time (demo_time n), demo_time n)) [10, 60, 70, 90])\<rparr>"

definition demo_outcome :: "int Result \<Rightarrow> outcome_error + int Outcome" where
  "demo_outcome r = NewOutcome demo_hash_lib
    \<lparr>OutcomeInput_Account = demo_account AccountEnvironmentPaperScored ''paper_scored/a'' MarginProfileCash,
     OutcomeInput_VenueContract = demo_contract, OutcomeInput_Aggregate = Some (Result_Aggregate r),
     OutcomeInput_Fills = Result_Fills r\<rparr>"

text \<open>The decision and the filled quantities of a result, whether it has an outcome and whether its events have different identifiers.\<close>

definition demo_summary :: "venue_error + int Result \<Rightarrow> (Decision \<times> int list \<times> bool \<times> bool) option" where
  "demo_summary x =
    (case x of Inl e \<Rightarrow> None | Inr r \<Rightarrow> Some (Result_Decision r, map Effect_Quantity (Result_Fills r), \<not> isl (demo_outcome r),
       distinct (map Event_ID (Aggregate_Events (Result_Aggregate r)))))"

definition demo_artifact :: "policy_error + PolicyArtifact" where
  "demo_artifact = NewArtifact demo_hash_lib (demo_time 40) (Some demo_policy) (demo_time 40)"

lemma demo_ioc_evaluated: "demo_summary (demo_evaluation TimeInForceIOC 5) = Some (DecisionCancelled, [5], True, True)"
  by code_simp

lemma demo_fok_evaluated: "demo_summary (demo_evaluation TimeInForceFOK 9) = Some (DecisionFilled, [8], True, True)"
  by code_simp

lemma demo_policy_evaluated:
  "NewPolicy demo_hash_lib demo_policy_input = Inr demo_policy \<and>
   codec_inverts demo_hash_lib demo_codec demo_policy \<and> \<not> isl demo_artifact"
  by code_simp

lemma demo_sim_invar: "lifecycle_invar demo_hash_lib (demo_sim_routed tif)"
  by (simp add: demo_sim_routed_def demo_sim_order_def lifecycle_invar_def demo_aggregate_defs demo_fact_defs validEventTransition_def
      binding_ok_def allocation_within_def order_of_allocation_def validExactDecimal_def demo_hash_lib_def demo_lib_def
      sideForDelta_def approved_def fill_events_def is_fill_kind_def)

lemma demo_sim_order_of: "Evaluation_Aggregate (demo_request tif units) = Some (demo_sim_routed tif)"
    "Aggregate_Order (demo_sim_routed tif) = Some (demo_sim_order tif)" "Order_TimeInForce (demo_sim_order tif) = tif"
    "Order_OrderType (demo_sim_order tif) = OrderLimit" "Order_LimitPrice (demo_sim_order tif) = Some 101"
    "Order_Side (demo_sim_order tif) = SideBuy" "Order_Quantity (demo_sim_order tif) = 8"
  by (simp_all add: demo_request_def demo_sim_routed_def demo_sim_order_def demo_order_def)

end
