(* ===== verification/Simulation_Properties.thy ===== *)
theory Simulation_Properties
  imports Simulation_Demo
begin

text \<open>
  The properties of the simulated venue and of its policies, each with an application to the concrete runs of
  \<open>Simulation_Demo\<close>.
\<close>

text \<open>What the runs give.\<close>

lemma demo_ioc_run:
  obtains r where "demo_evaluation TimeInForceIOC 5 = Inr r" "Result_Decision r = DecisionCancelled" "map Effect_Quantity (Result_Fills r) = [5]"
    "\<not> isl (demo_outcome r)" "distinct (map Event_ID (Aggregate_Events (Result_Aggregate r)))"
  using demo_ioc_evaluated by (cases "demo_evaluation TimeInForceIOC 5") (simp_all add: demo_summary_def)

lemma demo_fok_run:
  obtains r where "demo_evaluation TimeInForceFOK 9 = Inr r" "Result_Decision r = DecisionFilled" "map Effect_Quantity (Result_Fills r) = [8]"
  using demo_fok_evaluated by (cases "demo_evaluation TimeInForceFOK 9") (simp_all add: demo_summary_def)

section \<open>The venue\<close>

text \<open>
  C26: the result of \<open>Evaluate\<close> contains only accepted transitions.  Starting from the lifecycle of the request, the
  returned transitions are accepted one after the other by \<open>ApplyTransition\<close> and lead to the returned lifecycle, which
  satisfies the lifecycle invariant, has exactly the returned effects as its new fills, and is filled by no more than the
  quantity of its order.
\<close>

theorem evaluate_replays_accepted_transitions:
  assumes "Evaluate L clock now venue request = Inr r" and "Evaluation_Aggregate request = Some a" and "lifecycle_invar L a"
  shows "replay (\<lambda>b t. ApplyTransition L (Some b) (Some t)) a (Result_Transitions r) = Inr (Result_Aggregate r) \<and>
    lifecycle_invar L (Result_Aggregate r) \<and>
    Aggregate_Fills (Result_Aggregate r) = Aggregate_Fills a @ map Effect_Fill (Result_Fills r) \<and>
    opt_holds (\<lambda>order. Aggregate_Order (Result_Aggregate r) = Some order \<and>
      sumFillQuantity (Aggregate_Fills (Result_Aggregate r)) \<le> Order_Quantity order) (Aggregate_Order a)"
proof -
  note follow = Evaluate_follows [OF assms] and inv = follows_invar [OF Evaluate_follows [OF assms] assms(3)]
  obtain order where o: "Aggregate_Order a = Some order" by (rule Evaluate_observed [OF assms(1,2)])
  with inv(2) have o': "Aggregate_Order (Result_Aggregate r) = Some order" by (auto simp: extends_iff)
  from open_quantity_nonneg [OF inv(1) o'] o o' inv(1) follow show ?thesis
    by (simp add: follows_def ApplyTransition_def)
qed

theorem evaluate_replays_accepted_transitions_witness:
  "\<exists>r. demo_evaluation TimeInForceIOC 5 = Inr r \<and>
     replay (\<lambda>b t. ApplyTransition demo_hash_lib (Some b) (Some t)) (demo_sim_routed TimeInForceIOC) (Result_Transitions r) =
       Inr (Result_Aggregate r) \<and> map Effect_Quantity (Result_Fills r) = [5]"
proof -
  obtain r where r: "demo_evaluation TimeInForceIOC 5 = Inr r" "map Effect_Quantity (Result_Fills r) = [5]" by (rule demo_ioc_run)
  from r(1) evaluate_replays_accepted_transitions [OF r(1) [unfolded demo_evaluation_def] demo_sim_order_of(1) demo_sim_invar, THEN conjunct1] r(2)
  show ?thesis by (intro exI [of _ r] conjI)
qed

text \<open>
  C27: a fill respects the limit and the book.  Every fill of an evaluation is at the price of a displayed depth level on the
  opposite side of the book, for a positive quantity within the capacity of that level; a buy limit order never pays
  more than its limit and a sell limit order never receives less.
\<close>

theorem evaluate_fills_respect_limit:
  assumes "Evaluate L clock now venue request = Inr r" and "Evaluation_Aggregate request = Some a" and "lifecycle_invar L a"
    and "e \<in> set (Result_Fills r)" and "Aggregate_Order a = Some order"
  shows "(\<exists>level \<in> set (QuoteSnapshot_Depth (Evaluation_Snapshot request)).
      DepthLevel_Side level = (if Order_Side order = SideSell then DepthSideBid else DepthSideAsk) \<and>
      Fill_Price (Effect_Fill e) = DepthLevel_Price level) \<and>
    0 < Fill_Quantity (Effect_Fill e) \<and> Fill_Quantity (Effect_Fill e) \<le> Effect_Capacity e \<and>
    (Order_OrderType order = OrderLimit \<longrightarrow> opt_holds (\<lambda>limit.
       if Order_Side order = SideBuy then Fill_Price (Effect_Fill e) \<le> limit else limit \<le> Fill_Price (Effect_Fill e)) (Order_LimitPrice order))"
proof (rule effect_of_level [OF assms(1-4)])
  fix policy order' asset session assessment level current q
  assume o: "Aggregate_Order a = Some order'" and l: "level \<in> set (QuoteSnapshot_Depth (Evaluation_Snapshot request))"
    "DepthLevel_Side level = (if Order_Side order' = SideSell then DepthSideBid else DepthSideAsk)"
    and x: "simulationLevelCrosses order' (DepthLevel_Price level)" and q: "0 < q"
    "q \<le> eligible_capacity_of L asset (VenueContract_LotSize (Evaluation_VenueContract request)) level"
    and f: "fill_built L order' (level_fill_input policy asset request session assessment current
           \<lparr>eligible_level = level,
            eligible_capacity = eligible_capacity_of L asset (VenueContract_LotSize (Evaluation_VenueContract request)) level\<rparr> q) e"
  from o assms(5) have "order' = order" by simp
  with fill_built_level [OF f] l x q show ?thesis
    by (auto simp: simulationLevelCrosses_def split: if_splits option.splits)
qed

theorem evaluate_fills_respect_limit_witness:
  "\<exists>r e. demo_evaluation TimeInForceIOC 5 = Inr r \<and> e \<in> set (Result_Fills r) \<and> Fill_Price (Effect_Fill e) \<le> 101"
proof -
  obtain r where r: "demo_evaluation TimeInForceIOC 5 = Inr r" "map Effect_Quantity (Result_Fills r) = [5]" by (rule demo_ioc_run)
  then obtain e where e: "e \<in> set (Result_Fills r)" by (cases "Result_Fills r") auto
  from evaluate_fills_respect_limit [OF r(1) [unfolded demo_evaluation_def] demo_sim_order_of(1) demo_sim_invar e demo_sim_order_of(2)]
  have "Fill_Price (Effect_Fill e) \<le> 101" by (simp add: demo_sim_order_of)
  with r(1) e show ?thesis by blast
qed

text \<open>
  C28: fill or kill is all or nothing.  An evaluation of a fill-or-kill order either adds no fill at all or fills the order
  completely.
\<close>

theorem evaluate_fok_all_or_nothing:
  assumes "Evaluate L clock now venue request = Inr r" and "Evaluation_Aggregate request = Some a" and "lifecycle_invar L a"
    and "Aggregate_Order a = Some order" and "Order_TimeInForce order = TimeInForceFOK" and "Result_Fills r \<noteq> []"
  shows "Aggregate_State (Result_Aggregate r) = StateFilled \<and> Result_Decision r = DecisionFilled \<and>
    sumFillQuantity (Aggregate_Fills (Result_Aggregate r)) = Order_Quantity order"
proof (rule Evaluate_observed [OF assms(1,2)])
  fix policy order' asset session
  assume o': "Aggregate_Order a = Some order'" and ob: "observed L clock now policy asset session request a order' r"
  from o' assms(4) have o: "order' = order" by simp
  from ob assms(3) o' show ?thesis
  proof (cases rule: observed_fills)
    case none
    with assms(6) show ?thesis by simp
  next
    case (matched assessment r1 rest)
    note inv = follows_invar [OF matched(3) assms(3)]
    have order: "Aggregate_Order (Result_Aggregate r1) = Some order" using inv(2) assms(4) by (auto simp: extends_iff)
    have "open_quantity (Result_Aggregate r1) order = 0"
      using taken_closes [OF matched(2) [unfolded matched(5) [symmetric]] matched(3)] matched(8) assms(5) by (simp add: o)
    moreover from this have filled: "Aggregate_State (Result_Aggregate r1) = StateFilled"
      using filled_iff_closed [OF inv(1) order matched(7)] by simp
    ultimately show ?thesis using matched(4) by (auto simp: conclude_def)
  qed
qed

theorem evaluate_fok_all_or_nothing_witness:
  "\<exists>r. demo_evaluation TimeInForceFOK 9 = Inr r \<and> sumFillQuantity (Aggregate_Fills (Result_Aggregate r)) = 8"
proof -
  obtain r where r: "demo_evaluation TimeInForceFOK 9 = Inr r" "map Effect_Quantity (Result_Fills r) = [8]" by (rule demo_fok_run)
  then have "Result_Fills r \<noteq> []" by auto
  from evaluate_fok_all_or_nothing [OF r(1) [unfolded demo_evaluation_def] demo_sim_order_of(1) demo_sim_invar demo_sim_order_of(2,3) this] r(1)
  show ?thesis by (auto simp: demo_sim_order_of)
qed

text \<open>
  C29: immediate or cancel never rests.  When the quote is available no earlier than the routing time plus the fixed latency, a
  successful evaluation leaves an immediate-or-cancel order in a terminal state.  On an earlier quote nothing is filled: the order is
  terminal without the quote, or the result waits for the latency and the lifecycle is unchanged.
\<close>

theorem evaluate_ioc_never_rests:
  assumes "Evaluate L clock now venue request = Inr r" and "Evaluation_Aggregate request = Some a" and "lifecycle_invar L a"
    and "Aggregate_Order a = Some order" and "Order_TimeInForce order = TimeInForceIOC"
    and "Policy_AssetPolicy venue (Instrument_AssetClass (Evaluation_Instrument request)) = Some asset"
  shows "(opt_holds (\<lambda>availableAt. \<not> Before availableAt (time_Add (Order_RoutedAt order) (Asset_FixedLatency asset)))
        (QuoteSnapshot_AvailableAt (Evaluation_Snapshot request)) \<longrightarrow>
      terminalSimulationState (Aggregate_State (Result_Aggregate r))) \<and>
    (opt_all (\<lambda>availableAt. Before availableAt (time_Add (Order_RoutedAt order) (Asset_FixedLatency asset)))
        (QuoteSnapshot_AvailableAt (Evaluation_Snapshot request)) \<longrightarrow>
      Result_Fills r = [] \<and>
      (terminalSimulationState (Aggregate_State (Result_Aggregate r)) \<or>
       Result_Decision r = DecisionWaitingLatency \<and> Result_Aggregate r = a \<and> Result_Transitions r = []))"
proof (rule Evaluate_observed [OF assms(1,2)])
  fix policy order' asset' session
  assume o': "Aggregate_Order a = Some order'" and ob: "observed L clock now policy asset' session request a order' r"
    and as: "Policy_AssetPolicy venue (Instrument_AssetClass (Evaluation_Instrument request)) = Some asset'"
  from o' assms(4) as assms(6) have eq: "order' = order" "asset' = asset" by simp_all
  have pending: "opt_all (\<lambda>availableAt. Before availableAt (time_Add (Order_RoutedAt order) (Asset_FixedLatency asset)))
        (QuoteSnapshot_AvailableAt (Evaluation_Snapshot request)) \<longleftrightarrow> latency_pending asset' order' (Evaluation_Snapshot request)"
    "opt_holds (\<lambda>availableAt. \<not> Before availableAt (time_Add (Order_RoutedAt order) (Asset_FixedLatency asset)))
        (QuoteSnapshot_AvailableAt (Evaluation_Snapshot request)) \<longleftrightarrow> \<not> latency_pending asset' order' (Evaluation_Snapshot request)"
    by (cases "QuoteSnapshot_AvailableAt (Evaluation_Snapshot request)"; simp add: latency_pending_def eq)+
  from ob have "(\<not> latency_pending asset' order' (Evaluation_Snapshot request) \<longrightarrow>
      terminalSimulationState (Aggregate_State (Result_Aggregate r))) \<and>
    (latency_pending asset' order' (Evaluation_Snapshot request) \<longrightarrow> Result_Fills r = [] \<and>
      (terminalSimulationState (Aggregate_State (Result_Aggregate r)) \<or>
       Result_Decision r = DecisionWaitingLatency \<and> Result_Aggregate r = a \<and> Result_Transitions r = []))"
  proof cases
    case (terminal kind)
    with terminal_moves_closed [OF terminal(2) assms(3)] venue_applyTerminal_moves [OF terminal(2)] assms(3) show ?thesis
      by (auto simp: moves_def)
  next
    case (working d reason)
    with assms(5) eq show ?thesis by simp
  next
    case (matching assessment)
    with match_depth_settles [OF matching(3) assms(3) o' matching(1)] assms(5) eq show ?thesis by auto
  next
    case waiting
    then show ?thesis by simp
  qed simp
  then show ?thesis unfolding pending .
qed

theorem evaluate_ioc_never_rests_witness:
  "\<exists>r. demo_evaluation TimeInForceIOC 5 = Inr r \<and> terminalSimulationState (Aggregate_State (Result_Aggregate r))"
proof -
  obtain r where r: "demo_evaluation TimeInForceIOC 5 = Inr r" by (rule demo_ioc_run)
  have "Policy_AssetPolicy (Some demo_policy) (Instrument_AssetClass (Evaluation_Instrument (demo_request TimeInForceIOC 5))) = Some demo_asset"
    "QuoteSnapshot_AvailableAt (Evaluation_Snapshot (demo_request TimeInForceIOC 5)) = Some (demo_time 23)"
    by (simp_all add: demo_policy_def policy_of_def Policy_AssetPolicy_def demo_request_def demo_instrument_def demo_asset_def demo_sim_quote_def Let_def)
  with evaluate_ioc_never_rests [OF r [unfolded demo_evaluation_def] demo_sim_order_of(1) demo_sim_invar demo_sim_order_of(2,3) this(1)] r
  show ?thesis by (auto simp: demo_sim_order_def demo_order_def demo_asset_def demo_time_def time_defs time_Add_def)
qed

text \<open>
  C30: evaluating the same observation again changes nothing.  After a successful evaluation, evaluating the resulting
  lifecycle on the same quote at the same time succeeds and adds neither a transition nor a fill, whatever the clock reads.
\<close>

theorem evaluate_idempotent:
  assumes "Evaluate L clock now venue request = Inr r" and "Evaluation_Aggregate request = Some a" and "lifecycle_invar L a"
  shows "\<exists>r'. Evaluate L clock' now' venue (request\<lparr>Evaluation_Aggregate := Some (Result_Aggregate r)\<rparr>) = Inr r' \<and>
    Result_Aggregate r' = Result_Aggregate r \<and> Result_Transitions r' = [] \<and> Result_Fills r' = []"
  using Evaluate_again [OF assms] by (simp add: quiet_def)

theorem evaluate_idempotent_witness:
  "\<exists>r r'. demo_evaluation TimeInForceIOC 5 = Inr r \<and>
     Evaluate demo_hash_lib (\<lambda>k i j. demo_time 50) (demo_time 50) (Some demo_policy)
       ((demo_request TimeInForceIOC 5)\<lparr>Evaluation_Aggregate := Some (Result_Aggregate r)\<rparr>) = Inr r' \<and> Result_Transitions r' = []"
proof -
  obtain r where r: "demo_evaluation TimeInForceIOC 5 = Inr r" by (rule demo_ioc_run)
  from evaluate_idempotent [OF r [unfolded demo_evaluation_def] demo_sim_order_of(1) demo_sim_invar] r show ?thesis by blast
qed

text \<open>
  C31: participation is bounded.  With a policy from \<open>NewPolicy\<close> and the documented decimal arithmetic, the capacity of every
  consumed level is a whole number of lots and at most the permitted share of the displayed size, so a fill never takes
  more than the policy's participation of a level.
\<close>

theorem evaluate_participation_bounded:
  assumes "Evaluate L clock now (Some policy) request = Inr r" and "Evaluation_Aggregate request = Some a" and "lifecycle_invar L a"
    and "e \<in> set (Result_Fills r)" and "NewPolicy L input = Inr policy" and "exact_lots L"
  shows "(\<exists>k. Effect_Capacity e = of_int k * VenueContract_LotSize (Evaluation_VenueContract request)) \<and>
    opt_holds (\<lambda>asset. Fill_Quantity (Effect_Fill e) \<le> Effect_DisplayedSize e * Asset_MaxDepthParticipation asset \<and>
        Asset_MaxDepthParticipation asset \<le> 1)
      (Policy_AssetPolicy (Some policy) (Instrument_AssetClass (Evaluation_Instrument request)))"
proof (rule effect_of_level [OF assms(1-4)])
  fix policy' order asset session assessment level current q
  let ?lot = "VenueContract_LotSize (Evaluation_VenueContract request)"
  assume asset: "Policy_AssetPolicy (Some policy) (Instrument_AssetClass (Evaluation_Instrument request)) = Some asset"
    and l: "level \<in> set (QuoteSnapshot_Depth (Evaluation_Snapshot request))" and q: "0 < q" "q \<le> eligible_capacity_of L asset ?lot level"
    and quote: "AssessForExecution L (Evaluation_Snapshot request) (Evaluation_EvaluatedAt request)
        (Asset_QuoteRequirements asset) (Evaluation_Instrument request) (Evaluation_VenueContract request) = Inr assessment"
    and f: "fill_built L order (level_fill_input policy' asset request session assessment current
           \<lparr>eligible_level = level, eligible_capacity = eligible_capacity_of L asset ?lot level\<rparr> q) e"
  have normal: "asset_normal L asset" by (rule policy_asset_normal [OF NewPolicy_normal [OF assms(5)] asset])
  note level = assessed_level_lots [OF quote l]
  have "0 < ?lot" using level contract_lot_positive by blast
  from floorSimulationLot_bound [OF assms(6) this, of "DepthLevel_Size level" "Asset_MaxDepthParticipation asset"] level q normal
  have b: "eligible_capacity_of L asset ?lot level \<le> DepthLevel_Size level * Asset_MaxDepthParticipation asset"
    "\<exists>k. eligible_capacity_of L asset ?lot level = of_int k * ?lot"
    by (auto simp: eligible_capacity_of_def asset_normal_def)
  from order_trans [OF q(2) b(1)] b(2) fill_built_level [OF f] asset normal show ?thesis by (auto simp: asset_normal_def)
qed

lemma demo_exact_lots: "exact_lots demo_hash_lib"
  by (auto simp: exact_lots_def demo_hash_lib_def demo_lib_def mod_eq_0_iff_dvd dvd_def intro: exI [of _ "x :: int" for x])

theorem evaluate_participation_bounded_witness:
  "\<exists>r e. demo_evaluation TimeInForceIOC 5 = Inr r \<and> e \<in> set (Result_Fills r) \<and> Fill_Quantity (Effect_Fill e) \<le> Effect_DisplayedSize e"
proof -
  obtain r where r: "demo_evaluation TimeInForceIOC 5 = Inr r" "map Effect_Quantity (Result_Fills r) = [5]" by (rule demo_ioc_run)
  then obtain e where e: "e \<in> set (Result_Fills r)" by (cases "Result_Fills r") auto
  from evaluate_participation_bounded [OF r(1) [unfolded demo_evaluation_def] demo_sim_order_of(1) demo_sim_invar e _ demo_exact_lots] demo_policy_evaluated
  have "Fill_Quantity (Effect_Fill e) \<le> Effect_DisplayedSize e"
    by (auto simp: demo_policy_def Policy_AssetPolicy_def demo_request_def demo_instrument_def demo_asset_def)
  with r(1) e show ?thesis by blast
qed

section \<open>The outcome and the store\<close>

text \<open>
  C34: an outcome adds up.  An accepted outcome of a lifecycle with distinct fills has the filled quantity of the lifecycle, the
  signed notional of its fills as gross cash (paid by a buyer, received by a seller) and the sum of the non-negative fees of
  the given effects, one for each fill; the order in which the effects were collected changes nothing.
\<close>

theorem outcome_adds_up:
  assumes "NewOutcome L input = Inr out" and "OutcomeInput_Aggregate input = Some a" and "distinct (map Fill_ID (Aggregate_Fills a))"
  shows "Outcome_TotalQuantity out = sumFillQuantity (Aggregate_Fills a) \<and>
    opt_holds (\<lambda>order. Outcome_GrossCash out = (if Order_Side order = SideBuy then - 1 else 1) *
      (\<Sum>f \<leftarrow> Aggregate_Fills a. Fill_Quantity f * Fill_Price f * VenueContract_Multiplier (OutcomeInput_VenueContract input)))
      (Aggregate_Order a) \<and>
    Outcome_TotalFee out = (\<Sum>e \<leftarrow> OutcomeInput_Fills input. effect_fee e) \<and> (\<forall>e \<in> set (OutcomeInput_Fills input). 0 \<le> effect_fee e) \<and>
    (\<forall>es. mset es = mset (OutcomeInput_Fills input) \<longrightarrow> NewOutcome L (input\<lparr>OutcomeInput_Fills := es\<rparr>) = Inr out)"
proof (rule NewOutcomeE [OF assms(1,2)])
  fix order out'
  assume o: "Aggregate_Order a = Some order" and d: "distinct (map effect_id (OutcomeInput_Fills input))"
    and l: "length (OutcomeInput_Fills input) = length (Aggregate_Fills a)"
    and f: "outcome_fills L (keyed (OutcomeInput_Fills input)) (initial_outcome a order input) (Aggregate_Fills a) = Inr out'"
    and out: "out = out'\<lparr>Outcome_canonicalBytes := json_Marshal L (canonicalOutcome L out'),
                    Outcome_hash := hex_EncodeToString (sha256_Sum256 L (json_Marshal L (canonicalOutcome L out')))\<rparr>"
  note totals = outcome_fills_totals [OF f] and fees = sum_fees_of_effects [OF d assms(3) l outcome_fills_totals(4) [OF f]]
  have notional: "(\<Sum>f \<leftarrow> fs. outcome_notional side m f) = (if side = SideBuy then - 1 else 1) * (\<Sum>f \<leftarrow> fs. Fill_Quantity f * Fill_Price f * m)"
    for fs :: "'a Fill list" and side m by (induction fs) (simp_all add: outcome_notional_def Let_def algebra_simps)
  from totals fees NewOutcome_reordered [OF assms(1,2)] o show ?thesis
    by (simp add: out sumFillQuantity_sum_list notional initial_outcome_def Let_def)
qed

theorem outcome_adds_up_witness:
  "\<exists>r out. demo_evaluation TimeInForceIOC 5 = Inr r \<and> demo_outcome r = Inr out \<and> Outcome_TotalQuantity out = 5"
proof -
  obtain r where r: "demo_evaluation TimeInForceIOC 5 = Inr r" "map Effect_Quantity (Result_Fills r) = [5]" "\<not> isl (demo_outcome r)"
    by (rule demo_ioc_run)
  from r(3) obtain out where out: "demo_outcome r = Inr out" by (cases "demo_outcome r") simp_all
  have "Aggregate_Fills (Result_Aggregate r) = map Effect_Fill (Result_Fills r)"
    using Evaluate_follows [OF r(1) [unfolded demo_evaluation_def] demo_sim_order_of(1) demo_sim_invar]
    by (simp add: follows_def demo_sim_routed_def demo_aggregate_defs)
  moreover from r(2) obtain e where e: "Result_Fills r = [e]" "Effect_Quantity e = 5" by (cases "Result_Fills r") auto
  moreover have "Fill_Quantity (Effect_Fill e) = 5"
    by (rule effect_of_level [OF r(1) [unfolded demo_evaluation_def] demo_sim_order_of(1) demo_sim_invar, of e])
      (use e in \<open>simp_all add: fill_built_level\<close>)
  ultimately show ?thesis
    using outcome_adds_up [OF out [unfolded demo_outcome_def]] r(1) out by (simp add: sumFillQuantity_sum_list)
qed

text \<open>
  C35: raw evidence is written first and nothing is lost.  Whatever the store does, the calls made to persist an evaluated
  result are an initial part of one fixed sequence, in the order of the transitions, in which each fill comes right after its
  raw source event; a result of \<open>Evaluate\<close> never lacks the raw event of a fill.  With a store that keeps the contract of the
  lifecycle repository, where a fill goes through \<open>ApplyExecutionFill\<close> and needs its recorded raw event and
  \<open>ApplyExecutionTransition\<close> refuses fills, no guard of the store is ever violated: persisting either fails by a failure of the store
  itself, and the store then holds the lifecycle after some first transitions, or makes all calls of the sequence and
  the store holds the evaluated lifecycle.  The events of the lifecycle are assumed to have different identifiers.
\<close>

theorem persist_raw_first:
  assumes "Evaluate L clock now venue request = Inr r" and "Evaluation_Aggregate request = Some a" and "lifecycle_invar L a"
    and "PersistResult (Some (logged st)) (Account_ID (Evaluation_Account request)) (Some r) (s, []) = (x, s', calls)"
  shows "prefix calls (concat (map transition_calls (Result_Transitions r))) \<and>
    list_all persistable (Result_Transitions r) \<and> x \<notin> {Inl PersistRawGraph, Inl PersistUnexpectedNormalization} \<and>
    (lifecycle_store L st recorded reload agrees failure \<and> agrees (reload s) a \<and>
     distinct (map Event_ID (Aggregate_Events (Result_Aggregate r))) \<longrightarrow>
       (\<exists>n c. replay (apply_transition L) a (take n (Result_Transitions r)) = Inr c \<and> agrees (reload s') c) \<and>
       (case x of Inl e \<Rightarrow> \<exists>m. e = PersistStore m \<and> failure m
        | Inr c \<Rightarrow> c \<in> {reload s', Result_Aggregate r} \<and> agrees (reload s') (Result_Aggregate r) \<and>
                  calls = concat (map transition_calls (Result_Transitions r))))"
proof -
  have replay: "replay (apply_transition L) a (Result_Transitions r) = Inr (Result_Aggregate r)"
    using Evaluate_follows [OF assms(1-3)] by (simp add: follows_def)
  have p: "list_all persistable (Result_Transitions r)" by (rule follows_persistable [OF replay assms(3)])
  note calls = PersistResult_calls [OF assms(4) p]
  have "(\<exists>n c. replay (apply_transition L) a (take n (Result_Transitions r)) = Inr c \<and> agrees (reload s') c) \<and>
    (case x of Inl e \<Rightarrow> \<exists>m. e = PersistStore m \<and> failure m
     | Inr c \<Rightarrow> c \<in> {reload s', Result_Aggregate r} \<and> agrees (reload s') (Result_Aggregate r))"
    if "lifecycle_store L st recorded reload agrees failure" "agrees (reload s) a" "distinct (map Event_ID (Aggregate_Events (Result_Aggregate r)))"
    by (rule PersistResult_complete [OF that(1,2) replay assms(3) that(3) Evaluate_account [OF assms(1,2)] calls(4)])
  with p calls show ?thesis by (cases x) simp_all
qed

theorem persist_raw_first_witness:
  "\<exists>r s'. demo_evaluation TimeInForceIOC 5 = Inr r \<and>
     PersistResult (Some (logged (memory_store demo_hash_lib))) (Account_ID (Evaluation_Account (demo_request TimeInForceIOC 5))) (Some r)
       ((demo_sim_routed TimeInForceIOC, []), []) = (Inr (Result_Aggregate r), s', concat (map transition_calls (Result_Transitions r))) \<and>
     fst s' = Result_Aggregate r"
proof -
  obtain r where r: "demo_evaluation TimeInForceIOC 5 = Inr r" "distinct (map Event_ID (Aggregate_Events (Result_Aggregate r)))"
    by (rule demo_ioc_run)
  obtain x s' calls where c: "PersistResult (Some (logged (memory_store demo_hash_lib)))
      (Account_ID (Evaluation_Account (demo_request TimeInForceIOC 5))) (Some r) ((demo_sim_routed TimeInForceIOC, []), []) = (x, s', calls)"
    by (rule prod_cases3)
  note law = persist_raw_first [OF r(1) [unfolded demo_evaluation_def] demo_sim_order_of(1) demo_sim_invar c,
      of "\<lambda>s raw. raw \<in> set (snd s)" fst "(=)" "\<lambda>e. False"]
  have "x = Inr (Result_Aggregate r) \<and> fst s' = Result_Aggregate r \<and> calls = concat (map transition_calls (Result_Transitions r))"
    using law memory_store_contract [of demo_hash_lib] r(2) by (cases x) auto
  with r(1) c show ?thesis by (intro exI [of _ r] exI [of _ s']) simp
qed

section \<open>The policy\<close>

text \<open>
  C32: a time belongs to at most one session.  In a policy from \<open>NewPolicy\<close> the sessions of an explicit calendar are ordered
  and do not overlap, and \<open>RouteSession\<close> returns a session exactly when it is the one that contains the time.
\<close>

theorem route_session_unique:
  assumes "NewPolicy L input = Inr policy" and "Policy_AssetPolicy (Some policy) c = Some asset"
    and "Calendar_Kind (Asset_Calendar asset) = CalendarExplicitSessions" and "validatePolicyTime t"
  shows "sorted_wrt (\<lambda>s s'. instant (Session_CloseAt s) \<le> instant (Session_OpenAt s')) (Calendar_Sessions (Asset_Calendar asset)) \<and>
    (\<forall>s. RouteSession (Some policy) c t = Inr (Some s) \<longleftrightarrow> s \<in> set (Calendar_Sessions (Asset_Calendar asset)) \<and> in_session t s)"
proof -
  let ?ss = "Calendar_Sessions (Asset_Calendar asset)"
  have "asset_normal L asset" by (rule policy_asset_normal [OF NewPolicy_normal [OF assms(1)] assms(2)])
  then have sorted: "sorted_wrt (\<lambda>s s'. instant (Session_CloseAt s) \<le> instant (Session_OpenAt s')) ?ss"
    by (intro no_overlap_ordered) (auto simp: asset_normal_def)
  have route: "RouteSession (Some policy) c t = (case find (in_session t) ?ss of Some s \<Rightarrow> Inr (Some s) | None \<Rightarrow> Inl PolicyOutsideSessions)"
    using assms(2-4) by (simp add: RouteSession_def)
  have "find (in_session t) ?ss = Some s \<longleftrightarrow> s \<in> set ?ss \<and> in_session t s" for s
  proof
    assume "find (in_session t) ?ss = Some s"
    then show "s \<in> set ?ss \<and> in_session t s" by (auto simp: find_Some_iff)
  next
    assume s: "s \<in> set ?ss \<and> in_session t s"
    then obtain s' where s': "find (in_session t) ?ss = Some s'" by (cases "find (in_session t) ?ss") (auto simp: find_None_iff)
    then have "s' \<in> set ?ss \<and> in_session t s'" by (auto simp: find_Some_iff)
    with s session_unique [OF sorted] s' show "find (in_session t) ?ss = Some s" by blast
  qed
  moreover from route have "RouteSession (Some policy) c t = Inr (Some s) \<longleftrightarrow> find (in_session t) ?ss = Some s" for s
    by (cases "find (in_session t) ?ss") simp_all
  ultimately show ?thesis using sorted by simp
qed

theorem route_session_unique_witness:
  "sorted_wrt (\<lambda>s s'. instant (Session_CloseAt s) \<le> instant (Session_OpenAt s')) (Calendar_Sessions (Asset_Calendar demo_asset)) \<and>
   (\<forall>s. RouteSession (Some demo_policy) AssetClassEquity (demo_time 80) = Inr (Some s) \<longleftrightarrow>
      s \<in> set (Calendar_Sessions (Asset_Calendar demo_asset)) \<and> in_session (demo_time 80) s)"
proof -
  have "Policy_AssetPolicy (Some demo_policy) AssetClassEquity = Some demo_asset"
    by (simp add: demo_policy_def Policy_AssetPolicy_def demo_asset_def)
  from route_session_unique [OF demo_policy_evaluated [THEN conjunct1] this, of "demo_time 80"]
  show ?thesis by (simp add: demo_asset_def validatePolicyTime_def demo_time_def IsZero_def time_Equal_def Truncate_def)
qed

text \<open>
  C33: a policy survives storage.  Restoring the artifact of a policy from \<open>NewPolicy\<close> gives the policy itself, with the
  same assets, bytes, digest, version and identifier, when the JSON decoder and the parsers of decimals and times invert the
  encoder on the texts of this policy.
\<close>

theorem policy_artifact_roundtrip:
  assumes "NewPolicy L input = Inr policy" and "NewArtifact L now (Some policy) createdAt = Inr artifact"
    and "codec_inverts L codec policy"
  shows "PolicyFromArtifact L codec artifact = Inr policy"
proof -
  note normal = NewPolicy_normal [OF assms(1)] and a = NewArtifact_fields [OF assms(2)]
  have "decodeCanonicalPolicy L codec (Policy_canonicalBytes policy) = Inr (canonical_policy L (Policy_assets policy))"
    using assms(3) by (simp add: decodeCanonicalPolicy_def codec_inverts_def)
  with a assets_round_trip [OF assms(3) normal] policy_normal_again [OF normal] show ?thesis by (simp add: PolicyFromArtifact_def)
qed

theorem policy_artifact_roundtrip_witness:
  "\<exists>artifact. demo_artifact = Inr artifact \<and> PolicyFromArtifact demo_hash_lib demo_codec artifact = Inr demo_policy"
proof -
  from demo_policy_evaluated obtain artifact where a: "demo_artifact = Inr artifact" by (metis isl_def sum.exhaust_sel)
  from policy_artifact_roundtrip [OF _ a [unfolded demo_artifact_def]] demo_policy_evaluated a show ?thesis by blast
qed

end
