(* ===== verification/Capital_Policy.thy ===== *)
theory Capital_Policy
  imports Projection_Payload
begin

text \<open>
  \<open>internal/capital\<close>: \<open>policy.go\<close>, the reviewed capital and margin policy with its content-addressed artifact, and
  \<open>binding.go\<close>, which pins an account to a policy, a capital tier and a margin profile.  The library functions only this
  package uses are the fields of \<open>capital_lib\<close>: the decimal constants written as text (\<open>RequireFromString\<close>), directed rounding,
  the parsers of decimals, UUIDs and times, and the decoding of JSON into the typed structs, which returns the value and the
  remaining input.
\<close>

section \<open>Data\<close>

fun MarginProfile_string :: "MarginProfile \<Rightarrow> string" where
  "MarginProfile_string MarginProfileCash = ''cash''"
| "MarginProfile_string MarginProfileRegT = ''reg_t''"
| "MarginProfile_string MarginProfilePortfolio = ''portfolio''"
| "MarginProfile_string MarginProfileStressUnlimited = ''stress_unlimited''"
| "MarginProfile_string (OtherMarginProfile s) = s"

definition MarginProfile_of_string :: "string \<Rightarrow> MarginProfile" where
  "MarginProfile_of_string s =
    (if s = ''cash'' then MarginProfileCash else if s = ''reg_t'' then MarginProfileRegT
     else if s = ''portfolio'' then MarginProfilePortfolio
     else if s = ''stress_unlimited'' then MarginProfileStressUnlimited else OtherMarginProfile s)"

record 'd Profile =
  Profile_Name :: MarginProfile
  Profile_InitialLong :: 'd
  Profile_InitialShort :: 'd
  Profile_MaintenanceLong :: 'd
  Profile_MaintenanceShort :: 'd
  Profile_MaximumGross :: 'd
  Profile_CashReserve :: 'd
  Profile_AllowShort :: bool
  Profile_Unlimited :: bool

record 'd CapitalPolicyInput =
  CapitalInput_Schema :: string
  CapitalInput_Currency :: string
  CapitalInput_Scale :: int
  CapitalInput_Tiers :: "'d list"
  CapitalInput_Profiles :: "'d Profile list"

record 'd CapitalPolicy =
  CapitalPolicy_schema :: string
  CapitalPolicy_currency :: string
  CapitalPolicy_scale :: int
  CapitalPolicy_tiers :: "'d list"
  CapitalPolicy_profiles :: "'d Profile list"
  CapitalPolicy_canonicalBytes :: string
  CapitalPolicy_digest :: string
  CapitalPolicy_version :: string
  CapitalPolicy_artifactID :: uuid

record CapitalArtifact =
  CapitalArtifact_ID :: uuid
  CapitalArtifact_Schema :: string
  CapitalArtifact_Version :: string
  CapitalArtifact_SHA256 :: string
  CapitalArtifact_CanonicalBytes :: string
  CapitalArtifact_CreatedAt :: time

record canonicalProfile =
  cp_Name :: string
  cp_InitialLong :: string
  cp_InitialShort :: string
  cp_MaintenanceLong :: string
  cp_MaintenanceShort :: string
  cp_MaximumGross :: string
  cp_CashReserve :: string
  cp_AllowShort :: bool
  cp_Unlimited :: bool

record canonicalCapitalPolicy =
  cc_Schema :: string
  cc_Currency :: string
  cc_Scale :: int
  cc_Tiers :: "string list"
  cc_Profiles :: "canonicalProfile list"

text \<open>The decoded records of \<open>state.go\<close>, which the decoders below produce.\<close>

record canonicalState =
  state_Schema :: string
  state_AccountID :: string
  state_BindingID :: string
  state_PolicyVersion :: string
  state_ProjectionCheckpointID :: string
  state_ProjectionChecksum :: string
  state_AsOf :: string
  state_Currency :: string
  state_Cash :: string
  state_Equity :: string
  state_LongExposure :: string
  state_ShortExposure :: string
  state_GrossExposure :: string
  state_MaintenanceRequirement :: string

record payloadPosition =
  payload_InstrumentID :: string
  payload_Open :: bool
  payload_Quantity :: string
  payload_PositionValue :: string

record projectionCapitalPayload =
  payload_CheckpointID :: string
  payload_AccountID :: string
  payload_BaseCurrency :: string
  payload_AsOf :: string
  payload_Positions :: "payloadPosition list"
  payload_Cash :: string
  payload_MarketValue :: string
  payload_Equity :: string

record 'd capital_lib =
  decimal_RequireFromString :: "string \<Rightarrow> 'd"
  decimal_Truncate :: "'d \<Rightarrow> int \<Rightarrow> 'd"
  decimal_RoundCeil :: "'d \<Rightarrow> int \<Rightarrow> 'd"
  decimal_RoundFloor :: "'d \<Rightarrow> int \<Rightarrow> 'd"
  decimal_Parse :: "string \<Rightarrow> 'd option"
  uuid_Parse :: "string \<Rightarrow> uuid option"
  time_Parse :: "string \<Rightarrow> time option"
  decode_capital_policy :: "string \<Rightarrow> (canonicalCapitalPolicy \<times> string) option"
  decode_capital_state :: "string \<Rightarrow> (canonicalState \<times> string) option"
  decode_capital_payload :: "string \<Rightarrow> (projectionCapitalPayload \<times> string) option"

datatype profile_error = ProfileName | ProfileDecimal

datatype capital_policy_error =
    CapitalSchema
  | CapitalCurrency
  | CapitalScale
  | CapitalTierCount
  | CapitalTierNotReviewed
  | CapitalProfileCount
  | CapitalProfile profile_error
  | CapitalProfileNotReviewed
  | CapitalPolicyRequired
  | CapitalArtifactIdentity
  | CapitalArtifactVersion
  | CapitalArtifactDigest
  | CapitalArtifactBytes
  | CapitalArtifactMismatch
  | CapitalDecode
  | CapitalTrailing
  | CapitalTierText
  | CapitalProfileText
  | CapitalRestoredMismatch

definition CapitalPolicySchemaV1 :: string where "CapitalPolicySchemaV1 = ''capital-margin-policy-v1''"
definition policyArtifactDomain :: string where "policyArtifactDomain = ''capital-margin-policy-artifact''"

section \<open>Exact decimals\<close>

definition TrimPrefix :: "string \<Rightarrow> string \<Rightarrow> string" where
  "TrimPrefix s p = (if HasPrefix s p then drop (length p) s else s)"

definition validPolicyDecimal :: "('d::linordered_idom) lib \<Rightarrow> 'd capital_lib \<Rightarrow> 'd \<Rightarrow> bool" where
  "validPolicyDecimal L K value \<longleftrightarrow>
     value = decimal_Round L value 12 \<and>
     length (TrimPrefix (decimal_String L (decimal_Truncate K \<bar>value\<bar> 0)) ''-'') \<le> 26"

section \<open>The reviewed policy\<close>

definition reviewedCapitalTiers :: "('d::linordered_idom) list" where
  "reviewedCapitalTiers = map of_int [500, 5000, 25000, 100000, 1000000, 5000000]"

definition reviewedProfiles :: "('d::linordered_idom) capital_lib \<Rightarrow> 'd Profile list" where
  "reviewedProfiles K =
    (let dec = decimal_RequireFromString K in
     [\<lparr>Profile_Name = MarginProfileCash, Profile_InitialLong = 1, Profile_InitialShort = 0,
       Profile_MaintenanceLong = 1, Profile_MaintenanceShort = 0, Profile_MaximumGross = 1, Profile_CashReserve = 0,
       Profile_AllowShort = False, Profile_Unlimited = False\<rparr>,
      \<lparr>Profile_Name = MarginProfilePortfolio, Profile_InitialLong = dec ''0.15'', Profile_InitialShort = dec ''0.3'',
       Profile_MaintenanceLong = dec ''0.15'', Profile_MaintenanceShort = dec ''0.3'', Profile_MaximumGross = 6,
       Profile_CashReserve = 0, Profile_AllowShort = True, Profile_Unlimited = False\<rparr>,
      \<lparr>Profile_Name = MarginProfileRegT, Profile_InitialLong = dec ''0.5'', Profile_InitialShort = dec ''1.5'',
       Profile_MaintenanceLong = dec ''0.25'', Profile_MaintenanceShort = dec ''0.3'', Profile_MaximumGross = 2,
       Profile_CashReserve = 0, Profile_AllowShort = True, Profile_Unlimited = False\<rparr>,
      \<lparr>Profile_Name = MarginProfileStressUnlimited, Profile_InitialLong = 0, Profile_InitialShort = 0,
       Profile_MaintenanceLong = 0, Profile_MaintenanceShort = 0, Profile_MaximumGross = 0, Profile_CashReserve = 0,
       Profile_AllowShort = True, Profile_Unlimited = True\<rparr>])"

definition ReviewedPolicyV1Input :: "('d::linordered_idom) capital_lib \<Rightarrow> 'd CapitalPolicyInput" where
  "ReviewedPolicyV1Input K =
    \<lparr>CapitalInput_Schema = CapitalPolicySchemaV1, CapitalInput_Currency = ''USD'', CapitalInput_Scale = 12,
     CapitalInput_Tiers = reviewedCapitalTiers, CapitalInput_Profiles = reviewedProfiles K\<rparr>"

section \<open>NewPolicy\<close>

definition profile_decimals :: "'d Profile \<Rightarrow> 'd list" where
  "profile_decimals p =
    [Profile_InitialLong p, Profile_InitialShort p, Profile_MaintenanceLong p, Profile_MaintenanceShort p,
     Profile_MaximumGross p, Profile_CashReserve p]"

definition validateProfile :: "('d::linordered_idom) lib \<Rightarrow> 'd capital_lib \<Rightarrow> 'd Profile \<Rightarrow> profile_error option" where
  "validateProfile L K p = first_err
    (guard (\<not> MarginProfile_IsValid (Profile_Name p)) ProfileName #
     map (\<lambda>value. guard (\<not> validPolicyDecimal L K value \<or> value < 0) ProfileDecimal) (profile_decimals p))"

definition sameProfile :: "'d Profile \<Rightarrow> 'd Profile \<Rightarrow> bool" where
  "sameProfile left right \<longleftrightarrow> Profile_Name left = Profile_Name right \<and> profile_decimals left = profile_decimals right \<and>
     Profile_AllowShort left = Profile_AllowShort right \<and> Profile_Unlimited left = Profile_Unlimited right"

definition canonical_profile :: "'d lib \<Rightarrow> 'd Profile \<Rightarrow> canonicalProfile" where
  "canonical_profile L p =
    \<lparr>cp_Name = MarginProfile_string (Profile_Name p), cp_InitialLong = decimal_String L (Profile_InitialLong p),
     cp_InitialShort = decimal_String L (Profile_InitialShort p), cp_MaintenanceLong = decimal_String L (Profile_MaintenanceLong p),
     cp_MaintenanceShort = decimal_String L (Profile_MaintenanceShort p), cp_MaximumGross = decimal_String L (Profile_MaximumGross p),
     cp_CashReserve = decimal_String L (Profile_CashReserve p), cp_AllowShort = Profile_AllowShort p,
     cp_Unlimited = Profile_Unlimited p\<rparr>"

definition canonical_capital_policy :: "'d lib \<Rightarrow> 'd list \<Rightarrow> 'd Profile list \<Rightarrow> canonicalCapitalPolicy" where
  "canonical_capital_policy L tiers profiles =
    \<lparr>cc_Schema = CapitalPolicySchemaV1, cc_Currency = ''USD'', cc_Scale = 12,
     cc_Tiers = map (decimal_String L) tiers, cc_Profiles = map (canonical_profile L) profiles\<rparr>"

definition capital_policy_json :: "canonicalCapitalPolicy \<Rightarrow> json" where
  "capital_policy_json c = JObject
    [(''schema'', JString (cc_Schema c)), (''currency'', JString (cc_Currency c)), (''scale'', JNumber (pad_digits 1 (cc_Scale c))),
     (''tiers'', JArray (map JString (cc_Tiers c))),
     (''profiles'', JArray (map (\<lambda>p. JObject
       [(''name'', JString (cp_Name p)), (''initial_long'', JString (cp_InitialLong p)),
        (''initial_short'', JString (cp_InitialShort p)), (''maintenance_long'', JString (cp_MaintenanceLong p)),
        (''maintenance_short'', JString (cp_MaintenanceShort p)), (''maximum_gross'', JString (cp_MaximumGross p)),
        (''cash_reserve'', JString (cp_CashReserve p)), (''allow_short'', JBool (cp_AllowShort p)),
        (''unlimited'', JBool (cp_Unlimited p))]) (cc_Profiles c)))]"

text \<open>The policy of tiers and profiles that have passed the checks.\<close>

definition capital_policy_of :: "'d lib \<Rightarrow> 'd list \<Rightarrow> 'd Profile list \<Rightarrow> 'd CapitalPolicy" where
  "capital_policy_of L tiers profiles =
    (let bytes = json_Marshal L (capital_policy_json (canonical_capital_policy L tiers profiles));
         digest = sha256Hex L bytes;
         version = CapitalPolicySchemaV1 @ ''@sha256:'' @ digest
     in \<lparr>CapitalPolicy_schema = CapitalPolicySchemaV1, CapitalPolicy_currency = ''USD'', CapitalPolicy_scale = 12,
         CapitalPolicy_tiers = tiers, CapitalPolicy_profiles = profiles, CapitalPolicy_canonicalBytes = bytes,
         CapitalPolicy_digest = digest, CapitalPolicy_version = version,
         CapitalPolicy_artifactID = DeterministicUUID L policyArtifactDomain [version]\<rparr>)"

definition tier_checks :: "('d::linordered_idom) lib \<Rightarrow> 'd capital_lib \<Rightarrow> 'd list \<Rightarrow> capital_policy_error option" where
  "tier_checks L K tiers = first_err
    (map (\<lambda>(tier, want). guard (\<not> validPolicyDecimal L K tier \<or> tier \<noteq> want) CapitalTierNotReviewed) (zip tiers reviewedCapitalTiers))"

definition profile_checks :: "('d::linordered_idom) lib \<Rightarrow> 'd capital_lib \<Rightarrow> 'd Profile list \<Rightarrow> capital_policy_error option" where
  "profile_checks L K profiles = first_err (concat
    (map (\<lambda>(profile, want).
       [map_option CapitalProfile (validateProfile L K profile),
        guard (\<not> sameProfile profile want) CapitalProfileNotReviewed]) (zip profiles (reviewedProfiles K))))"

definition NewCapitalPolicy ::
    "('d::linordered_idom) lib \<Rightarrow> 'd capital_lib \<Rightarrow> 'd CapitalPolicyInput \<Rightarrow> capital_policy_error + 'd CapitalPolicy" where
  "NewCapitalPolicy L K input =
    (let tiers = sort_by (<) (CapitalInput_Tiers input);
         profiles = sort_by (\<lambda>p q. MarginProfile_string (Profile_Name p) < MarginProfile_string (Profile_Name q))
           (CapitalInput_Profiles input)
     in ensure (first_err
       [guard (CapitalInput_Schema input \<noteq> CapitalPolicySchemaV1) CapitalSchema,
        guard (CapitalInput_Currency input \<noteq> ''USD'') CapitalCurrency,
        guard (CapitalInput_Scale input \<noteq> 12) CapitalScale,
        guard (length (CapitalInput_Tiers input) \<noteq> 6) CapitalTierCount,
        tier_checks L K tiers,
        guard (length (CapitalInput_Profiles input) \<noteq> 4) CapitalProfileCount,
        profile_checks L K profiles])
       (Inr (capital_policy_of L tiers profiles)))"

text \<open>\<open>Policy.Profile\<close> and the membership test on \<open>Policy.Tiers\<close>.\<close>

definition CapitalPolicy_Profile :: "'d CapitalPolicy \<Rightarrow> MarginProfile \<Rightarrow> 'd Profile option" where
  "CapitalPolicy_Profile policy name = find (\<lambda>p. Profile_Name p = name) (CapitalPolicy_profiles policy)"

definition policyHasTier :: "'d CapitalPolicy \<Rightarrow> 'd \<Rightarrow> bool" where
  "policyHasTier policy tier = list_ex (\<lambda>candidate. candidate = tier) (CapitalPolicy_tiers policy)"

section \<open>The artifact\<close>

definition CapitalArtifact_Validate :: "'d lib \<Rightarrow> CapitalArtifact \<Rightarrow> capital_policy_error option" where
  [valid_defs]: "CapitalArtifact_Validate L a =
    (let digest = sha256Hex L (CapitalArtifact_CanonicalBytes a) in first_err
      [guard (CapitalArtifact_ID a = uuid_Nil \<or> CapitalArtifact_Schema a \<noteq> CapitalPolicySchemaV1) CapitalArtifactIdentity,
       guard (CapitalArtifact_Version a = [] \<or> CapitalArtifact_Version a \<noteq> TrimSpace (CapitalArtifact_Version a) \<or>
              length (CapitalArtifact_Version a) > 256) CapitalArtifactVersion,
       guard (length (CapitalArtifact_SHA256 a) \<noteq> 64 \<or> ToLower L (CapitalArtifact_SHA256 a) \<noteq> CapitalArtifact_SHA256 a)
         CapitalArtifactDigest,
       guard (CapitalArtifact_CanonicalBytes a = [] \<or> IsZero (CapitalArtifact_CreatedAt a) \<or>
              loc (CapitalArtifact_CreatedAt a) \<noteq> UTC \<or>
              \<not> time_Equal (CapitalArtifact_CreatedAt a) (Truncate (CapitalArtifact_CreatedAt a) Microsecond)) CapitalArtifactBytes,
       guard (digest \<noteq> CapitalArtifact_SHA256 a \<or>
              CapitalArtifact_Version a \<noteq> CapitalArtifact_Schema a @ ''@sha256:'' @ digest \<or>
              CapitalArtifact_ID a \<noteq> DeterministicUUID L policyArtifactDomain [CapitalArtifact_Version a]) CapitalArtifactMismatch])"

definition NewCapitalArtifact ::
    "'d lib \<Rightarrow> time \<Rightarrow> 'd CapitalPolicy option \<Rightarrow> time \<Rightarrow> capital_policy_error + CapitalArtifact" where
  "NewCapitalArtifact L now policy createdAt =
    (case policy of
       None \<Rightarrow> Inl CapitalPolicyRequired
     | Some p \<Rightarrow>
        (let artifact =
           \<lparr>CapitalArtifact_ID = CapitalPolicy_artifactID p, CapitalArtifact_Schema = CapitalPolicy_schema p,
            CapitalArtifact_Version = CapitalPolicy_version p, CapitalArtifact_SHA256 = CapitalPolicy_digest p,
            CapitalArtifact_CanonicalBytes = CapitalPolicy_canonicalBytes p,
            CapitalArtifact_CreatedAt = utc_micros (if IsZero createdAt then utc_micros now else createdAt)\<rparr>
         in ensure (first_err
              [guard (CapitalPolicy_artifactID p = uuid_Nil) CapitalPolicyRequired, CapitalArtifact_Validate L artifact])
            (Inr artifact)))"

definition SameCapitalArtifactPayload :: "CapitalArtifact option \<Rightarrow> CapitalArtifact option \<Rightarrow> bool" where
  [same_defs]: "SameCapitalArtifactPayload left right =
    (case (left, right) of
       (Some l, Some r) \<Rightarrow>
         CapitalArtifact_ID l = CapitalArtifact_ID r \<and> CapitalArtifact_Schema l = CapitalArtifact_Schema r \<and>
         CapitalArtifact_Version l = CapitalArtifact_Version r \<and> CapitalArtifact_SHA256 l = CapitalArtifact_SHA256 r \<and>
         CapitalArtifact_CanonicalBytes l = CapitalArtifact_CanonicalBytes r
     | _ \<Rightarrow> False)"

text \<open>A parsed decimal whose text is canonical.\<close>

definition canonical_decimal :: "'d lib \<Rightarrow> 'd capital_lib \<Rightarrow> 'e \<Rightarrow> string \<Rightarrow> 'e + 'd" where
  "canonical_decimal L K e text =
    (case decimal_Parse K text of
       None \<Rightarrow> Inl e
     | Some v \<Rightarrow> if decimal_String L v \<noteq> text then Inl e else Inr v)"

fun canonical_decimals :: "'d lib \<Rightarrow> 'd capital_lib \<Rightarrow> 'e \<Rightarrow> string list \<Rightarrow> 'e + 'd list" where
  "canonical_decimals L K e [] = Inr []"
| "canonical_decimals L K e (text # texts) =
    and_then (canonical_decimal L K e text) (\<lambda>v. and_then (canonical_decimals L K e texts) (\<lambda>vs. Inr (v # vs)))"

definition profile_from_canonical :: "'d lib \<Rightarrow> 'd capital_lib \<Rightarrow> canonicalProfile \<Rightarrow> capital_policy_error + 'd Profile" where
  "profile_from_canonical L K c =
    and_then (canonical_decimals L K CapitalProfileText
      [cp_InitialLong c, cp_InitialShort c, cp_MaintenanceLong c, cp_MaintenanceShort c, cp_MaximumGross c, cp_CashReserve c]) (\<lambda>vs.
      Inr \<lparr>Profile_Name = MarginProfile_of_string (cp_Name c), Profile_InitialLong = vs ! 0, Profile_InitialShort = vs ! 1,
           Profile_MaintenanceLong = vs ! 2, Profile_MaintenanceShort = vs ! 3, Profile_MaximumGross = vs ! 4,
           Profile_CashReserve = vs ! 5, Profile_AllowShort = cp_AllowShort c, Profile_Unlimited = cp_Unlimited c\<rparr>)"

fun profiles_from_canonical ::
    "'d lib \<Rightarrow> 'd capital_lib \<Rightarrow> canonicalProfile list \<Rightarrow> capital_policy_error + 'd Profile list" where
  "profiles_from_canonical L K [] = Inr []"
| "profiles_from_canonical L K (c # cs) =
    and_then (profile_from_canonical L K c) (\<lambda>p. and_then (profiles_from_canonical L K cs) (\<lambda>ps. Inr (p # ps)))"

definition capitalInputFromCanonical ::
    "'d lib \<Rightarrow> 'd capital_lib \<Rightarrow> canonicalCapitalPolicy \<Rightarrow> capital_policy_error + 'd CapitalPolicyInput" where
  "capitalInputFromCanonical L K c =
    and_then (canonical_decimals L K CapitalTierText (cc_Tiers c)) (\<lambda>tiers.
    and_then (profiles_from_canonical L K (cc_Profiles c)) (\<lambda>profiles.
      Inr \<lparr>CapitalInput_Schema = cc_Schema c, CapitalInput_Currency = cc_Currency c, CapitalInput_Scale = cc_Scale c,
           CapitalInput_Tiers = tiers, CapitalInput_Profiles = profiles\<rparr>))"

definition CapitalPolicyFromArtifact ::
    "('d::linordered_idom) lib \<Rightarrow> 'd capital_lib \<Rightarrow> CapitalArtifact \<Rightarrow> capital_policy_error + 'd CapitalPolicy" where
  "CapitalPolicyFromArtifact L K artifact =
    ensure (CapitalArtifact_Validate L artifact)
    (case decode_capital_policy K (CapitalArtifact_CanonicalBytes artifact) of
       None \<Rightarrow> Inl CapitalDecode
     | Some (c, rest) \<Rightarrow>
        ensure (guard (json_Decode L rest \<noteq> EOF) CapitalTrailing)
        (and_then (capitalInputFromCanonical L K c) (\<lambda>input.
         and_then (NewCapitalPolicy L K input) (\<lambda>restored.
         ensure (guard (CapitalPolicy_artifactID restored \<noteq> CapitalArtifact_ID artifact \<or>
                        CapitalPolicy_schema restored \<noteq> CapitalArtifact_Schema artifact \<or>
                        CapitalPolicy_version restored \<noteq> CapitalArtifact_Version artifact \<or>
                        CapitalPolicy_digest restored \<noteq> CapitalArtifact_SHA256 artifact \<or>
                        CapitalPolicy_canonicalBytes restored \<noteq> CapitalArtifact_CanonicalBytes artifact) CapitalRestoredMismatch)
           (Inr restored)))))"

section \<open>Bindings\<close>

record 'd Binding =
  Bound_ID :: uuid
  Bound_AccountID :: uuid
  Bound_PolicyArtifactID :: uuid
  Bound_PolicyVersion :: string
  Bound_Tier :: 'd
  Bound_Profile :: MarginProfile
  Bound_Environment :: AccountEnvironment
  Bound_StartingCapital :: 'd
  Bound_BuyingPowerMultiplier :: 'd
  Bound_EvidenceClass :: string
  Bound_StorageNamespace :: string
  Bound_Currency :: string
  Bound_CreatedAt :: time

datatype binding_error =
    BindingPolicyRequired
  | BindingAccount account_error
  | BindingIdentityRequired
  | BindingPolicyVersion
  | BindingTime
  | BindingIdentityMismatch
  | BindingFactsMismatch
  | BindingCurrency
  | BindingTier
  | BindingProfile
  | BindingScored
  | BindingStress
  | BindingEnvironment

definition capitalBindingIDDomain :: string where "capitalBindingIDDomain = ''capital-policy-binding''"

definition binding_environment_checks :: "('d::linordered_idom) Binding \<Rightarrow> 'd Profile \<Rightarrow> binding_error option" where
  "binding_environment_checks b profile =
    (case Bound_Environment b of
       AccountEnvironmentPaperScored \<Rightarrow>
         guard (Bound_EvidenceClass b \<noteq> PaperEvidenceClassPromotion \<or>
                \<not> HasPrefix (Bound_StorageNamespace b) (AccountEnvironment_string AccountEnvironmentPaperScored @ ''/'') \<or>
                Bound_Profile b = MarginProfileStressUnlimited \<or> Profile_Unlimited profile \<or>
                Bound_BuyingPowerMultiplier b \<noteq> Profile_MaximumGross profile \<or>
                \<not> Bound_BuyingPowerMultiplier b > 0) BindingScored
     | AccountEnvironmentPaperStress \<Rightarrow>
         guard (Bound_EvidenceClass b \<noteq> PaperEvidenceClassSynthetic \<or>
                \<not> HasPrefix (Bound_StorageNamespace b) (AccountEnvironment_string AccountEnvironmentPaperStress @ ''/'') \<or>
                Bound_Profile b \<noteq> MarginProfileStressUnlimited \<or> \<not> Profile_Unlimited profile \<or>
                Bound_BuyingPowerMultiplier b \<noteq> 0) BindingStress
     | _ \<Rightarrow> Some BindingEnvironment)"

definition Binding_Validate ::
    "('d::linordered_idom) lib \<Rightarrow> 'd capital_lib \<Rightarrow> 'd Binding \<Rightarrow> 'd Account \<Rightarrow> 'd CapitalPolicy option \<Rightarrow> binding_error option" where
  [valid_defs]: "Binding_Validate L K b account policy =
    (case policy of
       None \<Rightarrow> Some BindingPolicyRequired
     | Some p \<Rightarrow> first_err
        [map_option BindingAccount (Account_Validate L account),
         guard (Bound_ID b = uuid_Nil \<or> Bound_AccountID b = uuid_Nil \<or> Bound_PolicyArtifactID b = uuid_Nil) BindingIdentityRequired,
         guard (Bound_PolicyVersion b = [] \<or> Bound_PolicyVersion b \<noteq> TrimSpace (Bound_PolicyVersion b) \<or>
                length (Bound_PolicyVersion b) > 256) BindingPolicyVersion,
         guard (IsZero (Bound_CreatedAt b) \<or> loc (Bound_CreatedAt b) \<noteq> UTC \<or>
                \<not> time_Equal (Bound_CreatedAt b) (Truncate (Bound_CreatedAt b) Microsecond)) BindingTime,
         guard (Bound_AccountID b \<noteq> Account_ID account \<or> Bound_PolicyArtifactID b \<noteq> CapitalPolicy_artifactID p \<or>
                Bound_PolicyVersion b \<noteq> CapitalPolicy_version p \<or>
                Bound_ID b \<noteq> DeterministicUUID L capitalBindingIDDomain
                  [uuid_String L (Account_ID account), CapitalPolicy_version p]) BindingIdentityMismatch,
         guard (Bound_Environment b \<noteq> Account_Environment account \<or> Bound_StartingCapital b \<noteq> Account_StartingCapital account \<or>
                Bound_BuyingPowerMultiplier b \<noteq> Account_BuyingPowerMultiplier account \<or>
                Bound_Profile b \<noteq> Account_MarginProfile account \<or> Bound_EvidenceClass b \<noteq> Account_EvidenceClass account \<or>
                Bound_StorageNamespace b \<noteq> Account_StorageNamespace account \<or>
                Bound_Currency b \<noteq> Account_BaseCurrency account) BindingFactsMismatch,
         guard (Bound_Currency b \<noteq> CapitalPolicy_currency p \<or> Bound_Currency b \<noteq> ''USD'') BindingCurrency,
         guard (\<not> validPolicyDecimal L K (Bound_Tier b) \<or> \<not> Bound_Tier b > 0 \<or> Bound_Tier b \<noteq> Bound_StartingCapital b \<or>
                \<not> policyHasTier p (Bound_Tier b)) BindingTier,
         (case CapitalPolicy_Profile p (Bound_Profile b) of
            None \<Rightarrow> Some BindingProfile
          | Some profile \<Rightarrow> binding_environment_checks b profile)])"

definition NewBinding ::
    "('d::linordered_idom) lib \<Rightarrow> 'd capital_lib \<Rightarrow> time \<Rightarrow> 'd Account \<Rightarrow> 'd CapitalPolicy option \<Rightarrow> 'd \<Rightarrow> MarginProfile \<Rightarrow> time \<Rightarrow>
     binding_error + 'd Binding" where
  "NewBinding L K now account policy tier profile createdAt =
    (case policy of
       None \<Rightarrow> Inl BindingPolicyRequired
     | Some p \<Rightarrow>
        ensure (map_option BindingAccount (Account_Validate L account))
        (let binding =
           \<lparr>Bound_ID = DeterministicUUID L capitalBindingIDDomain [uuid_String L (Account_ID account), CapitalPolicy_version p],
            Bound_AccountID = Account_ID account, Bound_PolicyArtifactID = CapitalPolicy_artifactID p,
            Bound_PolicyVersion = CapitalPolicy_version p, Bound_Tier = tier, Bound_Profile = profile,
            Bound_Environment = Account_Environment account, Bound_StartingCapital = Account_StartingCapital account,
            Bound_BuyingPowerMultiplier = Account_BuyingPowerMultiplier account,
            Bound_EvidenceClass = Account_EvidenceClass account, Bound_StorageNamespace = Account_StorageNamespace account,
            Bound_Currency = Account_BaseCurrency account,
            Bound_CreatedAt = utc_micros (if IsZero createdAt then utc_micros now else createdAt)\<rparr>
         in ensure (Binding_Validate L K binding account policy) (Inr binding)))"

definition Binding_PromotionEligible :: "'d Binding \<Rightarrow> bool" where
  "Binding_PromotionEligible b \<longleftrightarrow> Bound_Environment b = AccountEnvironmentPaperScored \<and>
     Bound_EvidenceClass b = PaperEvidenceClassPromotion \<and> Bound_Profile b \<noteq> MarginProfileStressUnlimited"

definition SameBindingPayload :: "'d Binding option \<Rightarrow> 'd Binding option \<Rightarrow> bool" where
  [same_defs]: "SameBindingPayload left right =
    (case (left, right) of
       (Some l, Some r) \<Rightarrow>
         Bound_ID l = Bound_ID r \<and> Bound_AccountID l = Bound_AccountID r \<and>
         Bound_PolicyArtifactID l = Bound_PolicyArtifactID r \<and> Bound_PolicyVersion l = Bound_PolicyVersion r \<and>
         Bound_Tier l = Bound_Tier r \<and> Bound_Profile l = Bound_Profile r \<and> Bound_Environment l = Bound_Environment r \<and>
         Bound_StartingCapital l = Bound_StartingCapital r \<and>
         Bound_BuyingPowerMultiplier l = Bound_BuyingPowerMultiplier r \<and>
         Bound_EvidenceClass l = Bound_EvidenceClass r \<and> Bound_StorageNamespace l = Bound_StorageNamespace r \<and>
         Bound_Currency l = Bound_Currency r
     | _ \<Rightarrow> False)"

end
