(* ===== verification/Capital_State.thy ===== *)
theory Capital_State
  imports Capital_Policy
begin

text \<open>
  \<open>internal/capital/state.go\<close>: the capital state derived from a portfolio projection or restored from its canonical bytes.
  The fields of the source are private, so a state comes from one of the two constructors.
\<close>

section \<open>The capital state\<close>

record 'd CapitalState =
  CapitalState_id :: uuid
  CapitalState_accountID :: uuid
  CapitalState_bindingID :: uuid
  CapitalState_policyVersion :: string
  CapitalState_projectionCheckpointID :: uuid
  CapitalState_projectionChecksum :: string
  CapitalState_asOf :: time
  CapitalState_currency :: string
  CapitalState_cash :: 'd
  CapitalState_equity :: 'd
  CapitalState_longExposure :: 'd
  CapitalState_shortExposure :: 'd
  CapitalState_grossExposure :: 'd
  CapitalState_maintenanceRequirement :: 'd
  CapitalState_canonicalBytes :: string
  CapitalState_hash :: string

datatype capital_state_error =
    StateBinding binding_error
  | StateProjectionRequired
  | StateEnvelope
  | StateChecksum
  | StateTotalPrecision
  | StateEquityNegative
  | StatePayloadDecode
  | StatePayloadTrailing
  | StatePayloadMismatch
  | StateInstrument instrument_error
  | StateInstrumentUnsupported
  | StateInstrumentDuplicated
  | StatePositionIdentity
  | StatePositionDuplicated
  | StatePositionInconsistent
  | StatePositionPayload
  | StateClosedExposure
  | StateInstrumentMissing
  | StateMarkOrSign
  | StateCoverage
  | StateAccounting
  | StateProfile
  | StateIdentity
  | StateContext
  | StateAmountPrecision
  | StateExposureTotals
  | StateEvidence
  | StateRestoreEnvelope
  | StateRestoreDecode
  | StateRestoreTrailing
  | StateRestoreAccount
  | StateRestoreBinding
  | StateRestoreCheckpoint
  | StateRestoreAsOf
  | StateRestoreAmount
  | StateRestoreSchema
  | StateRestoreMismatch

definition capitalStateSchema :: string where "capitalStateSchema = ''capital-state-v1''"
definition capitalStateDomain :: string where "capitalStateDomain = ''capital-state''"

definition validCapitalAmount :: "('d::linordered_idom) lib \<Rightarrow> 'd capital_lib \<Rightarrow> 'd \<Rightarrow> bool" where
  "validCapitalAmount L K value \<longleftrightarrow>
     value = decimal_Round L value 12 \<and>
     length (TrimPrefix (decimal_String L (decimal_Truncate K \<bar>value\<bar> 0)) ''-'') \<le> 26"

definition roundCapitalUp :: "'d capital_lib \<Rightarrow> 'd \<Rightarrow> int \<Rightarrow> 'd" where
  "roundCapitalUp K value scale = decimal_RoundCeil K value scale"

definition formatCapitalTime :: "time \<Rightarrow> string" where
  "formatCapitalTime value = format_time (utc_micros value)"

text \<open>\<open>Policy.Version\<close>, which a nil policy answers with the empty string.\<close>

definition capital_Version :: "'d CapitalPolicy option \<Rightarrow> string" where
  "capital_Version policy = (case policy of None \<Rightarrow> [] | Some p \<Rightarrow> CapitalPolicy_version p)"

definition capital_state_canonical :: "'d lib \<Rightarrow> 'd CapitalState \<Rightarrow> canonicalState" where
  "capital_state_canonical L s =
    \<lparr>state_Schema = capitalStateSchema, state_AccountID = uuid_String L (CapitalState_accountID s),
     state_BindingID = uuid_String L (CapitalState_bindingID s), state_PolicyVersion = CapitalState_policyVersion s,
     state_ProjectionCheckpointID = uuid_String L (CapitalState_projectionCheckpointID s),
     state_ProjectionChecksum = CapitalState_projectionChecksum s, state_AsOf = formatCapitalTime (CapitalState_asOf s),
     state_Currency = CapitalState_currency s, state_Cash = decimal_String L (CapitalState_cash s),
     state_Equity = decimal_String L (CapitalState_equity s), state_LongExposure = decimal_String L (CapitalState_longExposure s),
     state_ShortExposure = decimal_String L (CapitalState_shortExposure s),
     state_GrossExposure = decimal_String L (CapitalState_grossExposure s),
     state_MaintenanceRequirement = decimal_String L (CapitalState_maintenanceRequirement s)\<rparr>"

definition capital_state_json :: "canonicalState \<Rightarrow> json" where
  "capital_state_json c = JObject
    [(''schema'', JString (state_Schema c)), (''account_id'', JString (state_AccountID c)),
     (''binding_id'', JString (state_BindingID c)), (''policy_version'', JString (state_PolicyVersion c)),
     (''projection_checkpoint_id'', JString (state_ProjectionCheckpointID c)),
     (''projection_checksum'', JString (state_ProjectionChecksum c)), (''as_of'', JString (state_AsOf c)),
     (''currency'', JString (state_Currency c)), (''cash'', JString (state_Cash c)), (''equity'', JString (state_Equity c)),
     (''long_exposure'', JString (state_LongExposure c)), (''short_exposure'', JString (state_ShortExposure c)),
     (''gross_exposure'', JString (state_GrossExposure c)),
     (''maintenance_requirement'', JString (state_MaintenanceRequirement c))]"

definition capital_state_bytes :: "'d lib \<Rightarrow> 'd CapitalState \<Rightarrow> string" where
  "capital_state_bytes L s = json_Marshal L (capital_state_json (capital_state_canonical L s))"

definition seal_state :: "'d lib \<Rightarrow> 'd CapitalState \<Rightarrow> 'd CapitalState" where
  "seal_state L s =
    (let encoded = capital_state_bytes L s; digest = sha256Hex L encoded in
     s\<lparr>CapitalState_canonicalBytes := encoded, CapitalState_hash := digest,
       CapitalState_id := DeterministicUUID L capitalStateDomain [digest]\<rparr>)"

definition state_amounts :: "'d CapitalState \<Rightarrow> 'd list" where
  "state_amounts s =
    [CapitalState_cash s, CapitalState_equity s, CapitalState_longExposure s, CapitalState_shortExposure s,
     CapitalState_grossExposure s, CapitalState_maintenanceRequirement s]"

definition CapitalState_validate ::
    "('d::linordered_idom) lib \<Rightarrow> 'd capital_lib \<Rightarrow> 'd CapitalState \<Rightarrow> 'd Account \<Rightarrow> 'd Binding \<Rightarrow> 'd CapitalPolicy option \<Rightarrow>
     capital_state_error option" where
  [valid_defs]: "CapitalState_validate L K s account binding policy =
    (let encoded = capital_state_bytes L s; digest = sha256Hex L encoded in first_err
      [guard (CapitalState_id s = uuid_Nil \<or> CapitalState_canonicalBytes s = [] \<or> length (CapitalState_hash s) \<noteq> 64) StateIdentity,
       guard (CapitalState_accountID s \<noteq> Account_ID account \<or> CapitalState_bindingID s \<noteq> Bound_ID binding \<or>
              CapitalState_policyVersion s \<noteq> capital_Version policy \<or>
              CapitalState_currency s \<noteq> Account_BaseCurrency account \<or>
              CapitalState_projectionCheckpointID s = uuid_Nil \<or> length (CapitalState_projectionChecksum s) \<noteq> 64 \<or>
              IsZero (CapitalState_asOf s) \<or> loc (CapitalState_asOf s) \<noteq> UTC \<or>
              \<not> time_Equal (CapitalState_asOf s) (Truncate (CapitalState_asOf s) Microsecond)) StateContext,
       guard (\<not> list_all (validCapitalAmount L K) (state_amounts s)) StateAmountPrecision,
       guard (CapitalState_equity s < 0 \<or> CapitalState_longExposure s < 0 \<or> CapitalState_shortExposure s < 0 \<or>
              CapitalState_grossExposure s < 0 \<or> CapitalState_maintenanceRequirement s < 0 \<or>
              CapitalState_grossExposure s \<noteq> CapitalState_longExposure s + CapitalState_shortExposure s) StateExposureTotals,
       guard (encoded \<noteq> CapitalState_canonicalBytes s \<or> digest \<noteq> CapitalState_hash s \<or>
              CapitalState_id s \<noteq> DeterministicUUID L capitalStateDomain [digest]) StateEvidence])"

section \<open>From a projection\<close>

definition validateCapitalProjectionTotals ::
    "('d::linordered_idom) lib \<Rightarrow> 'd capital_lib \<Rightarrow> 'd ProjectionTotals \<Rightarrow> capital_state_error option" where
  "validateCapitalProjectionTotals L K t = first_err
    [guard (\<not> list_all (validCapitalAmount L K)
        [Totals_Cash t, Totals_NetCapital t, Totals_Fees t, Totals_Rebates t, Totals_RealizedPnL t, Totals_UnrealizedPnL t,
         Totals_MarketValue t, Totals_Equity t, Totals_TotalPnL t]) StateTotalPrecision,
     guard (Totals_Equity t < 0) StateEquityNegative]"

definition projection_envelope :: "('d::linordered_idom) lib \<Rightarrow> 'd Account \<Rightarrow> 'd PortfolioProjection \<Rightarrow> bool" where
  "projection_envelope L account p \<longleftrightarrow>
     Projection_CheckpointID p \<noteq> uuid_Nil \<and> Projection_AccountID p = Account_ID account \<and>
     Projection_ProjectionType p = PortfolioProjectionType \<and> Projection_Version p = PortfolioProjectionVersion \<and>
     Projection_FIFO p = ProjectionFIFO \<and> Projection_BaseCurrency p = Account_BaseCurrency account \<and>
     \<not> IsZero (Projection_AsOf p) \<and> loc (Projection_AsOf p) = UTC \<and>
     time_Equal (Projection_AsOf p) (Truncate (Projection_AsOf p) Microsecond) \<and>
     Projection_ThroughTransactionID p \<noteq> uuid_Nil \<and> Projection_TransactionCount p > 0 \<and>
     length (Projection_InputChecksum p) = 64 \<and> length (Projection_OutputChecksum p) = 64 \<and> Projection_PayloadBytes p \<noteq> []"

definition decodeProjectionCapitalPayload ::
    "'d lib \<Rightarrow> 'd capital_lib \<Rightarrow> string \<Rightarrow> capital_state_error + projectionCapitalPayload" where
  "decodeProjectionCapitalPayload L K raw =
    (case decode_capital_payload K raw of
       None \<Rightarrow> Inl StatePayloadDecode
     | Some (payload, rest) \<Rightarrow> ensure (guard (json_Decode L rest \<noteq> EOF) StatePayloadTrailing) (Inr payload))"

definition payload_matches :: "'d lib \<Rightarrow> 'd PortfolioProjection \<Rightarrow> projectionCapitalPayload \<Rightarrow> bool" where
  "payload_matches L p payload \<longleftrightarrow>
     payload_CheckpointID payload = uuid_String L (Projection_CheckpointID p) \<and>
     payload_AccountID payload = uuid_String L (Projection_AccountID p) \<and>
     payload_BaseCurrency payload = Projection_BaseCurrency p \<and> payload_AsOf payload = formatCapitalTime (Projection_AsOf p) \<and>
     payload_Cash payload = decimal_String L (Totals_Cash (Projection_Totals p)) \<and>
     payload_MarketValue payload = decimal_String L (Totals_MarketValue (Projection_Totals p)) \<and>
     payload_Equity payload = decimal_String L (Totals_Equity (Projection_Totals p)) \<and>
     length (payload_Positions payload) = length (Projection_Positions p)"

text \<open>The map of instruments, as an association list in the order of the input.\<close>

fun index_instruments ::
    "('d::linordered_idom) lib \<Rightarrow> 'd Account \<Rightarrow> (uuid \<times> 'd Instrument) list \<Rightarrow> 'd Instrument list \<Rightarrow>
     capital_state_error + (uuid \<times> 'd Instrument) list" where
  "index_instruments L account m [] = Inr m"
| "index_instruments L account m (i # is) =
    ensure (first_err
      [map_option StateInstrument (Instrument_Validate L i),
       guard (Instrument_Currency i \<noteq> Account_BaseCurrency account \<or>
              Instrument_AssetClass i \<noteq> AssetClassEquity \<and> Instrument_AssetClass i \<noteq> AssetClassETF) StateInstrumentUnsupported,
       guard (map_of m (Instrument_ID i) \<noteq> None) StateInstrumentDuplicated])
    (index_instruments L account (m @ [(Instrument_ID i, i)]) is)"

record 'd exposure =
  exposure_seen :: "uuid list"
  exposure_long :: 'd
  exposure_short :: 'd
  exposure_value :: 'd
  exposure_open :: nat

definition position_checks ::
    "('d::linordered_idom) lib \<Rightarrow> 'd capital_lib \<Rightarrow> uuid list \<Rightarrow> 'd ProjectionPosition \<Rightarrow> payloadPosition \<Rightarrow> capital_state_error option" where
  "position_checks L K seen position payload = first_err
    [guard (Position_InstrumentID position = uuid_Nil) StatePositionIdentity,
     guard (Position_InstrumentID position \<in> set seen) StatePositionDuplicated,
     guard (\<not> validCapitalAmount L K (Position_Quantity position) \<or> \<not> validCapitalAmount L K (Position_MarketValue position) \<or>
            Position_Open position \<noteq> (Position_Quantity position \<noteq> 0)) StatePositionInconsistent,
     guard (payload_InstrumentID payload \<noteq> uuid_String L (Position_InstrumentID position) \<or>
            payload_Open payload \<noteq> Position_Open position \<or>
            payload_Quantity payload \<noteq> decimal_String L (Position_Quantity position) \<or>
            payload_PositionValue payload \<noteq> decimal_String L (Position_MarketValue position)) StatePositionPayload]"

fun position_exposures ::
    "('d::linordered_idom) lib \<Rightarrow> 'd capital_lib \<Rightarrow> (uuid \<times> 'd Instrument) list \<Rightarrow> 'd exposure \<Rightarrow>
     ('d ProjectionPosition \<times> payloadPosition) list \<Rightarrow> capital_state_error + 'd exposure" where
  "position_exposures L K instruments x [] = Inr x"
| "position_exposures L K instruments x ((position, payload) # rest) =
    ensure (position_checks L K (exposure_seen x) position payload)
    (let value = Position_MarketValue position;
         x' = x\<lparr>exposure_seen := exposure_seen x @ [Position_InstrumentID position], exposure_value := exposure_value x + value\<rparr>
     in if \<not> Position_Open position then
          ensure (guard (value \<noteq> 0) StateClosedExposure) (position_exposures L K instruments x' rest)
        else
          ensure (first_err
            [guard (map_of instruments (Position_InstrumentID position) = None) StateInstrumentMissing,
             guard (Position_MarkObservationID position = uuid_Nil \<or> Position_OpenLotCount position = 0 \<or>
                    value \<noteq> 0 \<and> sgn (Position_Quantity position) \<noteq> sgn value) StateMarkOrSign])
          (position_exposures L K instruments
            (x'\<lparr>exposure_open := Suc (exposure_open x'),
                exposure_long := (if value > 0 then exposure_long x' + value else exposure_long x'),
                exposure_short := (if value < 0 then exposure_short x' + \<bar>value\<bar> else exposure_short x')\<rparr>) rest))"

definition exposed_state ::
    "('d::linordered_idom) capital_lib \<Rightarrow> 'd Account \<Rightarrow> 'd Binding \<Rightarrow> 'd CapitalPolicy \<Rightarrow> 'd Profile \<Rightarrow> 'd PortfolioProjection \<Rightarrow>
     'd exposure \<Rightarrow> 'd CapitalState" where
  "exposed_state K account binding policy profile p x =
    \<lparr>CapitalState_id = uuid_Nil, CapitalState_accountID = Account_ID account, CapitalState_bindingID = Bound_ID binding,
     CapitalState_policyVersion = CapitalPolicy_version policy, CapitalState_projectionCheckpointID = Projection_CheckpointID p,
     CapitalState_projectionChecksum = Projection_OutputChecksum p, CapitalState_asOf = Projection_AsOf p,
     CapitalState_currency = Projection_BaseCurrency p, CapitalState_cash = Totals_Cash (Projection_Totals p),
     CapitalState_equity = Totals_Equity (Projection_Totals p), CapitalState_longExposure = exposure_long x,
     CapitalState_shortExposure = exposure_short x, CapitalState_grossExposure = exposure_long x + exposure_short x,
     CapitalState_maintenanceRequirement =
       (if Profile_Unlimited profile then 0
        else roundCapitalUp K (exposure_long x * Profile_MaintenanceLong profile + exposure_short x * Profile_MaintenanceShort profile)
               (CapitalPolicy_scale policy)),
     CapitalState_canonicalBytes = [], CapitalState_hash = []\<rparr>"

definition StateFromProjection ::
    "('d::linordered_idom) lib \<Rightarrow> 'd capital_lib \<Rightarrow> 'd Account \<Rightarrow> 'd Binding \<Rightarrow> 'd CapitalPolicy option \<Rightarrow> 'd PortfolioProjection option \<Rightarrow>
     'd Instrument list \<Rightarrow> capital_state_error + 'd CapitalState" where
  "StateFromProjection L K account binding policy projection instruments =
    ensure (map_option StateBinding (Binding_Validate L K binding account policy))
    (case (policy, projection) of
       (Some pol, Some p) \<Rightarrow>
         ensure (first_err
           [guard (\<not> projection_envelope L account p) StateEnvelope,
            guard (sha256Hex L (Projection_PayloadBytes p) \<noteq> Projection_OutputChecksum p) StateChecksum,
            validateCapitalProjectionTotals L K (Projection_Totals p)])
         (and_then (decodeProjectionCapitalPayload L K (Projection_PayloadBytes p)) (\<lambda>payload.
          ensure (guard (\<not> payload_matches L p payload) StatePayloadMismatch)
          (and_then (index_instruments L account [] instruments) (\<lambda>byID.
           and_then (position_exposures L K byID
               \<lparr>exposure_seen = [], exposure_long = 0, exposure_short = 0, exposure_value = 0, exposure_open = 0\<rparr>
               (zip (Projection_Positions p) (payload_Positions payload))) (\<lambda>x.
           ensure (first_err
             [guard (length byID \<noteq> exposure_open x) StateCoverage,
              guard (exposure_value x \<noteq> Totals_MarketValue (Projection_Totals p) \<or>
                     Totals_Equity (Projection_Totals p) \<noteq>
                       Totals_Cash (Projection_Totals p) + Totals_MarketValue (Projection_Totals p)) StateAccounting])
           (case CapitalPolicy_Profile pol (Bound_Profile binding) of
              None \<Rightarrow> Inl StateProfile
            | Some profile \<Rightarrow>
               (let state = seal_state L (exposed_state K account binding pol profile p x) in
                ensure (CapitalState_validate L K state account binding policy) (Inr state))))))))
     | (_, None) \<Rightarrow> Inl StateProjectionRequired
     | (None, Some p) \<Rightarrow> Inl (StateBinding BindingPolicyRequired))"

section \<open>From canonical bytes\<close>

definition parsed_or :: "'a option \<Rightarrow> 'e \<Rightarrow> 'e + 'a" where
  "parsed_or x e = (case x of None \<Rightarrow> Inl e | Some v \<Rightarrow> Inr v)"

definition StateFromCanonical ::
    "('d::linordered_idom) lib \<Rightarrow> 'd capital_lib \<Rightarrow> uuid \<Rightarrow> string \<Rightarrow> string \<Rightarrow> 'd Account \<Rightarrow> 'd Binding \<Rightarrow> 'd CapitalPolicy option \<Rightarrow>
     capital_state_error + 'd CapitalState" where
  "StateFromCanonical L K sid digest raw account binding policy =
    ensure (guard (sid = uuid_Nil \<or> length digest \<noteq> 64 \<or> raw = []) StateRestoreEnvelope)
    (case decode_capital_state K raw of
       None \<Rightarrow> Inl StateRestoreDecode
     | Some (c, rest) \<Rightarrow>
        ensure (guard (json_Decode L rest \<noteq> EOF) StateRestoreTrailing)
        (and_then (parsed_or (uuid_Parse K (state_AccountID c)) StateRestoreAccount) (\<lambda>accountID.
         and_then (parsed_or (uuid_Parse K (state_BindingID c)) StateRestoreBinding) (\<lambda>bindingID.
         and_then (parsed_or (uuid_Parse K (state_ProjectionCheckpointID c)) StateRestoreCheckpoint) (\<lambda>checkpointID.
         and_then (parsed_or (time_Parse K (state_AsOf c)) StateRestoreAsOf) (\<lambda>asOf.
         and_then (canonical_decimals L K StateRestoreAmount
           [state_Cash c, state_Equity c, state_LongExposure c, state_ShortExposure c, state_GrossExposure c,
            state_MaintenanceRequirement c]) (\<lambda>vs.
         let state = seal_state L
           \<lparr>CapitalState_id = uuid_Nil, CapitalState_accountID = accountID, CapitalState_bindingID = bindingID,
            CapitalState_policyVersion = state_PolicyVersion c, CapitalState_projectionCheckpointID = checkpointID,
            CapitalState_projectionChecksum = state_ProjectionChecksum c, CapitalState_asOf = asOf,
            CapitalState_currency = state_Currency c, CapitalState_cash = vs ! 0, CapitalState_equity = vs ! 1,
            CapitalState_longExposure = vs ! 2, CapitalState_shortExposure = vs ! 3, CapitalState_grossExposure = vs ! 4,
            CapitalState_maintenanceRequirement = vs ! 5, CapitalState_canonicalBytes = [], CapitalState_hash = []\<rparr>
         in ensure (first_err
              [guard (state_Schema c \<noteq> capitalStateSchema) StateRestoreSchema,
               guard (CapitalState_id state \<noteq> sid \<or> CapitalState_hash state \<noteq> digest \<or>
                      CapitalState_canonicalBytes state \<noteq> raw) StateRestoreMismatch,
               CapitalState_validate L K state account binding policy]) (Inr state))))))))"

end
