(* ===== verification/Capital_Assessment.thy ===== *)
theory Capital_Assessment
  imports Capital_State
begin

text \<open>
  \<open>internal/capital/assessment.go\<close>: the admission or rejection of a proposed exposure.  A rejection is a result, not an
  error; an error means that the input contradicts itself.
\<close>

section \<open>Data\<close>

datatype ExposureDirection =
    ExposureIncreaseLong | ExposureIncreaseShort | ExposureReduceLong | ExposureReduceShort | OtherExposureDirection string

datatype CapitalDecision = CapitalAdmitted | CapitalRejected | OtherCapitalDecision string

datatype ReasonCode =
    ReasonAdmitted | ReasonStressUnbounded | ReasonShortNotSupported | ReasonMaintenanceBreach | ReasonInsufficientSettledCash
  | ReasonReserveBreach | ReasonInsufficientBuyingPower | ReasonGrossExposureBreach | OtherReason string

fun ExposureDirection_string :: "ExposureDirection \<Rightarrow> string" where
  "ExposureDirection_string ExposureIncreaseLong = ''increase_long''"
| "ExposureDirection_string ExposureIncreaseShort = ''increase_short''"
| "ExposureDirection_string ExposureReduceLong = ''reduce_long''"
| "ExposureDirection_string ExposureReduceShort = ''reduce_short''"
| "ExposureDirection_string (OtherExposureDirection s) = s"

fun CapitalDecision_string :: "CapitalDecision \<Rightarrow> string" where
  "CapitalDecision_string CapitalAdmitted = ''admitted''"
| "CapitalDecision_string CapitalRejected = ''rejected''"
| "CapitalDecision_string (OtherCapitalDecision s) = s"

fun ReasonCode_string :: "ReasonCode \<Rightarrow> string" where
  "ReasonCode_string ReasonAdmitted = ''admitted''"
| "ReasonCode_string ReasonStressUnbounded = ''stress_unbounded''"
| "ReasonCode_string ReasonShortNotSupported = ''short_not_supported''"
| "ReasonCode_string ReasonMaintenanceBreach = ''maintenance_breach''"
| "ReasonCode_string ReasonInsufficientSettledCash = ''insufficient_settled_cash''"
| "ReasonCode_string ReasonReserveBreach = ''reserve_breach''"
| "ReasonCode_string ReasonInsufficientBuyingPower = ''insufficient_buying_power''"
| "ReasonCode_string ReasonGrossExposureBreach = ''gross_exposure_breach''"
| "ReasonCode_string (OtherReason s) = s"

fun ExposureDirection_IsValid :: "ExposureDirection \<Rightarrow> bool" where
  "ExposureDirection_IsValid (OtherExposureDirection s) = False"
| "ExposureDirection_IsValid _ = True"

fun CapitalDecision_IsValid :: "CapitalDecision \<Rightarrow> bool" where
  "CapitalDecision_IsValid (OtherCapitalDecision s) = False"
| "CapitalDecision_IsValid _ = True"

fun ReasonCode_IsValid :: "ReasonCode \<Rightarrow> bool" where
  "ReasonCode_IsValid (OtherReason s) = False"
| "ReasonCode_IsValid _ = True"

record 'd AssessmentInput =
  AssessmentInput_Account :: "'d Account"
  AssessmentInput_Binding :: "'d Binding"
  AssessmentInput_Policy :: "'d CapitalPolicy option"
  AssessmentInput_State :: "'d CapitalState option"
  AssessmentInput_Instrument :: "'d Instrument"
  AssessmentInput_Currency :: string
  AssessmentInput_ScenarioID :: string
  AssessmentInput_Direction :: ExposureDirection
  AssessmentInput_ProposedNotional :: 'd

record 'd Assessment =
  Assessment_ID :: uuid
  Assessment_StateID :: uuid
  Assessment_AccountID :: uuid
  Assessment_BindingID :: uuid
  Assessment_PolicyVersion :: string
  Assessment_InstrumentID :: uuid
  Assessment_ScenarioID :: string
  Assessment_Direction :: ExposureDirection
  Assessment_Currency :: string
  Assessment_ProposedNotional :: 'd
  Assessment_CurrentInitialRequirement :: 'd
  Assessment_RequestedInitialMargin :: 'd
  Assessment_InitialMarginHeadroom :: 'd
  Assessment_GrossHeadroom :: 'd
  Assessment_AvailableBuyingPower :: 'd
  Assessment_PostGrossExposure :: 'd
  Assessment_PostMaintenanceRequirement :: 'd
  Assessment_Decision :: CapitalDecision
  Assessment_Reason :: ReasonCode
  Assessment_Unbounded :: bool
  Assessment_Environment :: AccountEnvironment
  Assessment_EvidenceClass :: string
  Assessment_StorageNamespace :: string
  Assessment_canonicalBytes :: string
  Assessment_hash :: string

datatype capital_error =
    AssessRequired
  | AssessBinding binding_error
  | AssessState capital_state_error
  | AssessInstrument instrument_error
  | AssessAssetClass
  | AssessCurrency
  | AssessScenario
  | AssessDirection
  | AssessLongReduction
  | AssessShortReduction
  | AssessIdentity
  | AssessContext
  | AssessAmount
  | AssessDecision
  | AssessEvidence

definition assessmentSchema :: string where "assessmentSchema = ''capital-assessment-v1''"
definition assessmentDomain :: string where "assessmentDomain = ''capital-assessment''"

section \<open>Helpers\<close>

fun postDirectionalExposure :: "('d::linordered_idom) CapitalState \<Rightarrow> ExposureDirection \<Rightarrow> 'd \<Rightarrow> 'd \<times> 'd" where
  "postDirectionalExposure s ExposureIncreaseLong notional =
     (CapitalState_longExposure s + notional, CapitalState_shortExposure s)"
| "postDirectionalExposure s ExposureIncreaseShort notional =
     (CapitalState_longExposure s, CapitalState_shortExposure s + notional)"
| "postDirectionalExposure s ExposureReduceLong notional =
     (CapitalState_longExposure s - notional, CapitalState_shortExposure s)"
| "postDirectionalExposure s ExposureReduceShort notional =
     (CapitalState_longExposure s, CapitalState_shortExposure s - notional)"
| "postDirectionalExposure s (OtherExposureDirection d) notional =
     (CapitalState_longExposure s, CapitalState_shortExposure s)"

definition postGrossExposure :: "('d::linordered_idom) CapitalState \<Rightarrow> ExposureDirection \<Rightarrow> 'd \<Rightarrow> 'd" where
  "postGrossExposure s direction notional =
    (case postDirectionalExposure s direction notional of (longExposure, shortExposure) \<Rightarrow> longExposure + shortExposure)"

definition nonnegative :: "('d::linordered_idom) \<Rightarrow> 'd" where
  "nonnegative value = (if value < 0 then 0 else value)"

definition isExposureReduction :: "ExposureDirection \<Rightarrow> bool" where
  "isExposureReduction direction \<longleftrightarrow> direction = ExposureReduceLong \<or> direction = ExposureReduceShort"

section \<open>Evidence\<close>

definition assessment_json :: "'d lib \<Rightarrow> 'd Assessment \<Rightarrow> json" where
  "assessment_json L a = JObject
    [(''schema'', JString assessmentSchema), (''state_id'', JString (uuid_String L (Assessment_StateID a))),
     (''account_id'', JString (uuid_String L (Assessment_AccountID a))),
     (''binding_id'', JString (uuid_String L (Assessment_BindingID a))),
     (''policy_version'', JString (Assessment_PolicyVersion a)),
     (''instrument_id'', JString (uuid_String L (Assessment_InstrumentID a))),
     (''scenario_id'', JString (Assessment_ScenarioID a)),
     (''direction'', JString (ExposureDirection_string (Assessment_Direction a))),
     (''currency'', JString (Assessment_Currency a)),
     (''proposed_notional'', JString (decimal_String L (Assessment_ProposedNotional a))),
     (''current_initial_requirement'', JString (decimal_String L (Assessment_CurrentInitialRequirement a))),
     (''requested_initial_margin'', JString (decimal_String L (Assessment_RequestedInitialMargin a))),
     (''initial_margin_headroom'', JString (decimal_String L (Assessment_InitialMarginHeadroom a))),
     (''gross_headroom'', JString (decimal_String L (Assessment_GrossHeadroom a))),
     (''available_buying_power'', JString (decimal_String L (Assessment_AvailableBuyingPower a))),
     (''post_gross_exposure'', JString (decimal_String L (Assessment_PostGrossExposure a))),
     (''post_maintenance_requirement'', JString (decimal_String L (Assessment_PostMaintenanceRequirement a))),
     (''decision'', JString (CapitalDecision_string (Assessment_Decision a))),
     (''reason'', JString (ReasonCode_string (Assessment_Reason a))), (''unbounded'', JBool (Assessment_Unbounded a)),
     (''environment'', JString (AccountEnvironment_string (Assessment_Environment a))),
     (''evidence_class'', JString (Assessment_EvidenceClass a)),
     (''storage_namespace'', JString (Assessment_StorageNamespace a))]"

definition assessment_amounts :: "'d Assessment \<Rightarrow> 'd list" where
  "assessment_amounts a =
    [Assessment_ProposedNotional a, Assessment_CurrentInitialRequirement a, Assessment_RequestedInitialMargin a,
     Assessment_InitialMarginHeadroom a, Assessment_GrossHeadroom a, Assessment_AvailableBuyingPower a,
     Assessment_PostGrossExposure a, Assessment_PostMaintenanceRequirement a]"

definition Assessment_Validate ::
    "('d::linordered_idom) lib \<Rightarrow> 'd capital_lib \<Rightarrow> 'd Assessment \<Rightarrow> 'd Account \<Rightarrow> 'd Binding \<Rightarrow> 'd CapitalPolicy option \<Rightarrow>
     'd CapitalState option \<Rightarrow> capital_error option" where
  [valid_defs]: "Assessment_Validate L K a account binding policy state =
    (let encoded = json_Marshal L (assessment_json L a); digest = sha256Hex L encoded in
     case (policy, state) of
       (Some p, Some s) \<Rightarrow> first_err
        [guard (Assessment_ID a = uuid_Nil \<or> length (Assessment_hash a) \<noteq> 64) AssessIdentity,
         map_option AssessBinding (Binding_Validate L K binding account policy),
         map_option AssessState (CapitalState_validate L K s account binding policy),
         guard (Assessment_StateID a \<noteq> CapitalState_id s \<or> Assessment_AccountID a \<noteq> Account_ID account \<or>
                Assessment_BindingID a \<noteq> Bound_ID binding \<or> Assessment_PolicyVersion a \<noteq> CapitalPolicy_version p \<or>
                Assessment_Environment a \<noteq> Account_Environment account \<or>
                Assessment_EvidenceClass a \<noteq> Account_EvidenceClass account \<or>
                Assessment_StorageNamespace a \<noteq> Account_StorageNamespace account \<or> Assessment_InstrumentID a = uuid_Nil \<or>
                Assessment_ScenarioID a = [] \<or> \<not> ExposureDirection_IsValid (Assessment_Direction a) \<or>
                Assessment_Currency a \<noteq> Account_BaseCurrency account \<or> \<not> Assessment_ProposedNotional a > 0) AssessContext,
         guard (\<not> list_all (\<lambda>v. validCapitalAmount L K v \<and> \<not> v < 0) (assessment_amounts a)) AssessAmount,
         guard (\<not> CapitalDecision_IsValid (Assessment_Decision a) \<or> \<not> ReasonCode_IsValid (Assessment_Reason a) \<or>
                Assessment_Unbounded a \<noteq> (Assessment_Reason a = ReasonStressUnbounded) \<or>
                (Assessment_Decision a = CapitalAdmitted) \<noteq>
                  (Assessment_Reason a = ReasonAdmitted \<or> Assessment_Reason a = ReasonStressUnbounded)) AssessDecision,
         guard (encoded \<noteq> Assessment_canonicalBytes a \<or> digest \<noteq> Assessment_hash a \<or>
                Assessment_ID a \<noteq> DeterministicUUID L assessmentDomain [digest]) AssessEvidence]
     | _ \<Rightarrow> Some AssessIdentity)"

definition sealAssessment ::
    "('d::linordered_idom) lib \<Rightarrow> 'd capital_lib \<Rightarrow> 'd AssessmentInput \<Rightarrow> 'd Assessment \<Rightarrow> capital_error + 'd Assessment" where
  "sealAssessment L K input a =
    (let encoded = json_Marshal L (assessment_json L a);
         digest = sha256Hex L encoded;
         sealed = a\<lparr>Assessment_canonicalBytes := encoded, Assessment_hash := digest,
                    Assessment_ID := DeterministicUUID L assessmentDomain [digest]\<rparr>
     in ensure (Assessment_Validate L K sealed (AssessmentInput_Account input) (AssessmentInput_Binding input)
                  (AssessmentInput_Policy input) (AssessmentInput_State input)) (Inr sealed))"

section \<open>Assess\<close>

definition validateAssessmentInput ::
    "('d::linordered_idom) lib \<Rightarrow> 'd capital_lib \<Rightarrow> 'd AssessmentInput \<Rightarrow> capital_error option" where
  "validateAssessmentInput L K input =
    (let account = AssessmentInput_Account input; binding = AssessmentInput_Binding input;
         instrument = AssessmentInput_Instrument input; currency = AssessmentInput_Currency input;
         scenario = AssessmentInput_ScenarioID input; direction = AssessmentInput_Direction input;
         notional = AssessmentInput_ProposedNotional input
     in case (AssessmentInput_Policy input, AssessmentInput_State input) of
       (Some p, Some s) \<Rightarrow> first_err
        [map_option AssessBinding (Binding_Validate L K binding account (Some p)),
         map_option AssessState (CapitalState_validate L K s account binding (Some p)),
         map_option AssessInstrument (Instrument_Validate L instrument),
         guard (Instrument_AssetClass instrument \<noteq> AssetClassEquity \<and> Instrument_AssetClass instrument \<noteq> AssetClassETF \<and>
                Instrument_AssetClass instrument \<noteq> AssetClassOption) AssessAssetClass,
         guard (currency \<noteq> ''USD'' \<or> currency \<noteq> Account_BaseCurrency account \<or> Instrument_Currency instrument \<noteq> currency)
           AssessCurrency,
         guard (scenario = [] \<or> scenario \<noteq> TrimSpace scenario \<or> length scenario > 256) AssessScenario,
         guard (\<not> ExposureDirection_IsValid direction \<or> \<not> notional > 0 \<or> \<not> validCapitalAmount L K notional) AssessDirection,
         guard (direction = ExposureReduceLong \<and> notional > CapitalState_longExposure s) AssessLongReduction,
         guard (direction = ExposureReduceShort \<and> notional > CapitalState_shortExposure s) AssessShortReduction]
     | _ \<Rightarrow> Some AssessRequired)"

text \<open>The assessment before any amount is computed; the amounts the source leaves out are zero.\<close>

definition initial_assessment ::
    "('d::linordered_idom) AssessmentInput \<Rightarrow> 'd CapitalPolicy \<Rightarrow> 'd CapitalState \<Rightarrow> 'd Assessment" where
  "initial_assessment input p s =
    (let account = AssessmentInput_Account input in
     \<lparr>Assessment_ID = uuid_Nil, Assessment_StateID = CapitalState_id s, Assessment_AccountID = Account_ID account,
      Assessment_BindingID = Bound_ID (AssessmentInput_Binding input), Assessment_PolicyVersion = CapitalPolicy_version p,
      Assessment_InstrumentID = Instrument_ID (AssessmentInput_Instrument input),
      Assessment_ScenarioID = AssessmentInput_ScenarioID input, Assessment_Direction = AssessmentInput_Direction input,
      Assessment_Currency = AssessmentInput_Currency input, Assessment_ProposedNotional = AssessmentInput_ProposedNotional input,
      Assessment_CurrentInitialRequirement = 0, Assessment_RequestedInitialMargin = 0, Assessment_InitialMarginHeadroom = 0,
      Assessment_GrossHeadroom = 0, Assessment_AvailableBuyingPower = 0, Assessment_PostGrossExposure = 0,
      Assessment_PostMaintenanceRequirement = 0, Assessment_Decision = OtherCapitalDecision [], Assessment_Reason = OtherReason [],
      Assessment_Unbounded = False, Assessment_Environment = Account_Environment account,
      Assessment_EvidenceClass = Account_EvidenceClass account, Assessment_StorageNamespace = Account_StorageNamespace account,
      Assessment_canonicalBytes = [], Assessment_hash = []\<rparr>)"

definition current_headroom ::
    "('d::linordered_idom) capital_lib \<Rightarrow> 'd CapitalPolicy \<Rightarrow> 'd CapitalState \<Rightarrow> 'd Profile \<Rightarrow> 'd Assessment \<Rightarrow> 'd Assessment" where
  "current_headroom K p s profile a =
    (let required = roundCapitalUp K (CapitalState_longExposure s * Profile_InitialLong profile +
           CapitalState_shortExposure s * Profile_InitialShort profile) (CapitalPolicy_scale p)
     in a\<lparr>Assessment_CurrentInitialRequirement := required,
          Assessment_InitialMarginHeadroom := nonnegative (CapitalState_equity s - required),
          Assessment_GrossHeadroom :=
            nonnegative (CapitalState_equity s * Profile_MaximumGross profile - CapitalState_grossExposure s)\<rparr>)"

definition direction_ratio :: "('d::linordered_idom) Profile \<Rightarrow> ExposureDirection \<Rightarrow> 'd" where
  "direction_ratio profile direction =
    (case direction of
       ExposureIncreaseLong \<Rightarrow> Profile_InitialLong profile
     | ExposureIncreaseShort \<Rightarrow> Profile_InitialShort profile
     | _ \<Rightarrow> 0)"

definition proposed_amounts ::
    "('d::linordered_idom) lib \<Rightarrow> 'd capital_lib \<Rightarrow> 'd CapitalPolicy \<Rightarrow> 'd CapitalState \<Rightarrow> 'd Profile \<Rightarrow> ExposureDirection \<Rightarrow> 'd \<Rightarrow>
     'd Assessment \<Rightarrow> 'd Assessment" where
  "proposed_amounts L K p s profile direction notional a =
    (let ratio = direction_ratio profile direction; scale = CapitalPolicy_scale p in
     a\<lparr>Assessment_RequestedInitialMargin := roundCapitalUp K (notional * ratio) scale,
       Assessment_AvailableBuyingPower :=
         (if ratio > 0
          then min (Assessment_GrossHeadroom a)
                 (decimal_RoundFloor K (decimal_Div L (Assessment_InitialMarginHeadroom a) ratio) scale)
          else Assessment_GrossHeadroom a),
       Assessment_PostGrossExposure := postGrossExposure s direction notional,
       Assessment_PostMaintenanceRequirement :=
         (case postDirectionalExposure s direction notional of (postLong, postShort) \<Rightarrow>
            roundCapitalUp K (postLong * Profile_MaintenanceLong profile + postShort * Profile_MaintenanceShort profile) scale)\<rparr>)"

text \<open>The first limit a finite profile breaks, in the order of the source.\<close>

definition finite_reason ::
    "('d::linordered_idom) AssessmentInput \<Rightarrow> 'd CapitalState \<Rightarrow> 'd Profile \<Rightarrow> 'd Assessment \<Rightarrow> ReasonCode" where
  "finite_reason input s profile a =
    (let direction = AssessmentInput_Direction input; notional = AssessmentInput_ProposedNotional input;
         binding = AssessmentInput_Binding input;
         settled = (Bound_Profile binding = MarginProfileCash \<and> direction = ExposureIncreaseLong)
     in if isExposureReduction direction then ReasonAdmitted
        else if CapitalState_maintenanceRequirement s > CapitalState_equity s then ReasonMaintenanceBreach
        else if settled \<and> notional > CapitalState_cash s then ReasonInsufficientSettledCash
        else if settled \<and> CapitalState_cash s - notional < Bound_Tier binding * Profile_CashReserve profile then ReasonReserveBreach
        else if Assessment_RequestedInitialMargin a > Assessment_InitialMarginHeadroom a then ReasonInsufficientBuyingPower
        else if notional > Assessment_GrossHeadroom a then ReasonGrossExposureBreach
        else if Assessment_PostMaintenanceRequirement a > CapitalState_equity s then ReasonMaintenanceBreach
        else ReasonAdmitted)"

definition decided :: "ReasonCode \<Rightarrow> 'd Assessment \<Rightarrow> 'd Assessment" where
  "decided reason a =
    a\<lparr>Assessment_Decision := (if reason = ReasonAdmitted then CapitalAdmitted else CapitalRejected), Assessment_Reason := reason\<rparr>"

text \<open>The validated binding names a profile of the policy, so the lookup of the source, which ignores a missing profile, succeeds.\<close>

definition CapitalAssess ::
    "('d::linordered_idom) lib \<Rightarrow> 'd capital_lib \<Rightarrow> 'd AssessmentInput \<Rightarrow> capital_error + 'd Assessment" where
  "CapitalAssess L K input =
    ensure (validateAssessmentInput L K input)
    (let direction = AssessmentInput_Direction input; notional = AssessmentInput_ProposedNotional input in
     case (AssessmentInput_Policy input, AssessmentInput_State input) of
       (Some p, Some s) \<Rightarrow>
         (case CapitalPolicy_Profile p (Bound_Profile (AssessmentInput_Binding input)) of
            None \<Rightarrow> Inl (AssessBinding BindingProfile)
          | Some profile \<Rightarrow>
             (let a = initial_assessment input p s in
              if Profile_Unlimited profile then
                sealAssessment L K input
                  (a\<lparr>Assessment_Unbounded := True, Assessment_Decision := CapitalAdmitted, Assessment_Reason := ReasonStressUnbounded,
                     Assessment_PostGrossExposure := postGrossExposure s direction notional\<rparr>)
              else
                (let a1 = current_headroom K p s profile a in
                 if direction = ExposureIncreaseShort \<and> \<not> Profile_AllowShort profile then
                   sealAssessment L K input (decided ReasonShortNotSupported a1)
                 else
                   (let a2 = proposed_amounts L K p s profile direction notional a1 in
                    sealAssessment L K input (decided (finite_reason input s profile a2) a2)))))
     | _ \<Rightarrow> Inl AssessRequired)"

definition Assessment_PromotionEligible :: "'d Assessment option \<Rightarrow> bool" where
  "Assessment_PromotionEligible assessment = opt_holds (\<lambda>a. \<not> Assessment_Unbounded a \<and>
     Assessment_Environment a = AccountEnvironmentPaperScored \<and> Assessment_EvidenceClass a = PaperEvidenceClassPromotion) assessment"

end
