(* ===== verification/Capital_Matrix.thy ===== *)
theory Capital_Matrix
  imports Capital_Assessment
begin

text \<open>
  \<open>internal/capital/matrix.go\<close>: the replay of one scenario at every reviewed capital tier under a scored profile and once under the
  stress profile.  The scenario factory is a function argument with its own error; \<open>newID\<close> gives the random identifier that
  \<open>NewAccount\<close> draws for an ordinal and that is then replaced by the deterministic one.
\<close>

section \<open>Data\<close>

record MatrixSpec =
  Spec_ScenarioID :: string
  Spec_MarketInputDigest :: string
  Spec_SimulationPolicyVersion :: string
  Spec_Seed :: int
  Spec_AsOf :: time

record 'd ScenarioContext =
  Context_Spec :: MatrixSpec
  Context_Account :: "'d Account"
  Context_Binding :: "'d Binding"
  Context_Policy :: "'d CapitalPolicy"
  Context_Tier :: 'd
  Context_Ordinal :: nat
  Context_IsStress :: bool

record 'd Scenario =
  Scenario_Projection :: "'d PortfolioProjection option"
  Scenario_Instruments :: "'d Instrument list"
  Scenario_ProposedInstrument :: "'d Instrument"
  Scenario_Direction :: ExposureDirection
  Scenario_ProposedNotional :: 'd
  Scenario_MarketInputDigest :: string
  Scenario_SimulationPolicyVersion :: string
  Scenario_Seed :: int

type_synonym 'd ScenarioFactory = "'d ScenarioContext \<Rightarrow> string + 'd Scenario"

record 'd MatrixOutcome =
  MatrixOutcome_Ordinal :: nat
  MatrixOutcome_Tier :: 'd
  MatrixOutcome_Profile :: MarginProfile
  MatrixOutcome_Environment :: AccountEnvironment
  MatrixOutcome_Account :: "'d Account"
  MatrixOutcome_Binding :: "'d Binding"
  MatrixOutcome_State :: "'d CapitalState"
  MatrixOutcome_Assessment :: "'d Assessment"

record 'd MatrixResult =
  Matrix_Spec :: MatrixSpec
  Matrix_PolicyVersion :: string
  Matrix_ScoredProfile :: MarginProfile
  Matrix_Outcomes :: "'d MatrixOutcome list"
  Matrix_canonicalBytes :: string
  Matrix_hash :: string
  Matrix_scoredHash :: string

datatype matrix_error =
    MatrixScenarioID
  | MatrixDigest
  | MatrixSimulationVersion
  | MatrixSeed
  | MatrixAsOf
  | MatrixRequired
  | MatrixScoredProfile
  | MatrixAccount account_error
  | MatrixBinding binding_error
  | MatrixScenario string
  | MatrixSharedFacts
  | MatrixInstrument
  | MatrixState capital_state_error
  | MatrixAssessment capital_error
  | MatrixOutcomeCount
  | MatrixPanic

definition matrixSchema :: string where "matrixSchema = ''capital-replay-matrix-v1''"
definition matrixScoredSchema :: string where "matrixScoredSchema = ''capital-replay-matrix-scored-v1''"
definition matrixAccountDomain :: string where "matrixAccountDomain = ''capital-matrix-account''"

section \<open>Checks and accounts\<close>

text \<open>\<open>hex.DecodeString\<close> accepts the text: an even number of hexadecimal digits.\<close>

definition isLowerHex :: "string \<Rightarrow> bool" where
  "isLowerHex value \<longleftrightarrow> even (length value) \<and>
     list_all (\<lambda>c. CHR ''0'' \<le> c \<and> c \<le> CHR ''9'' \<or> CHR ''a'' \<le> c \<and> c \<le> CHR ''f'' \<or> CHR ''A'' \<le> c \<and> c \<le> CHR ''F'') value"

definition validateMatrixSpec :: "'d lib \<Rightarrow> MatrixSpec \<Rightarrow> matrix_error option" where
  "validateMatrixSpec L spec = first_err
    [guard (Spec_ScenarioID spec = [] \<or> Spec_ScenarioID spec \<noteq> TrimSpace (Spec_ScenarioID spec) \<or>
            length (Spec_ScenarioID spec) > 256) MatrixScenarioID,
     guard (length (Spec_MarketInputDigest spec) \<noteq> 64 \<or> ToLower L (Spec_MarketInputDigest spec) \<noteq> Spec_MarketInputDigest spec \<or>
            \<not> isLowerHex (Spec_MarketInputDigest spec)) MatrixDigest,
     guard (Spec_SimulationPolicyVersion spec = [] \<or>
            Spec_SimulationPolicyVersion spec \<noteq> TrimSpace (Spec_SimulationPolicyVersion spec) \<or>
            length (Spec_SimulationPolicyVersion spec) > 256) MatrixSimulationVersion,
     guard (Spec_Seed spec < 0) MatrixSeed,
     guard (IsZero (Spec_AsOf spec) \<or> loc (Spec_AsOf spec) \<noteq> UTC \<or>
            \<not> time_Equal (Spec_AsOf spec) (Truncate (Spec_AsOf spec) Microsecond)) MatrixAsOf]"

text \<open>\<open>strings.Join\<close> with the separator byte zero.\<close>

definition matrix_namespace ::
    "'d lib \<Rightarrow> MatrixSpec \<Rightarrow> 'd CapitalPolicy \<Rightarrow> 'd \<Rightarrow> MarginProfile \<Rightarrow> AccountEnvironment \<Rightarrow> string" where
  "matrix_namespace L spec policy tier profile environment =
    AccountEnvironment_string environment @ ''/capital-matrix/'' @
    take 24 (sha256Hex L (Spec_ScenarioID spec @ [CHR 0x00] @ CapitalPolicy_version policy @ [CHR 0x00] @
      MarginProfile_string profile @ [CHR 0x00] @ decimal_String L tier @ [CHR 0x00] @ AccountEnvironment_string environment))"

definition matrixAccount ::
    "('d::linordered_idom) lib \<Rightarrow> time \<Rightarrow> uuid \<Rightarrow> MatrixSpec \<Rightarrow> 'd CapitalPolicy \<Rightarrow> 'd \<Rightarrow> MarginProfile \<Rightarrow> AccountEnvironment \<Rightarrow> 'd \<Rightarrow>
     account_error + 'd Account" where
  "matrixAccount L now newID spec policy tier profile environment multiplier =
    and_then (NewAccount L now newID
      \<lparr>AccountInput_Name = ''capital matrix '' @ decimal_String L tier @ '' '' @ MarginProfile_string profile,
       AccountInput_Environment = environment, AccountInput_Venue = ''internal'', AccountInput_ExternalAccountID = [],
       AccountInput_BaseCurrency = CapitalPolicy_currency policy,
       AccountInput_StorageNamespace = matrix_namespace L spec policy tier profile environment,
       AccountInput_StartingCapital = tier, AccountInput_BuyingPowerMultiplier = multiplier,
       AccountInput_MarginProfile = profile, AccountInput_CreatedBy = ''capital-matrix-v1'',
       AccountInput_CreationMetadata = ''{'' @ [CHR 0x22] @ ''source'' @ [CHR 0x22] @ '':'' @ [CHR 0x22] @ ''capital-matrix-v1'' @ [CHR 0x22] @ ''}'',
       AccountInput_CreatedAt = Spec_AsOf spec\<rparr>) (\<lambda>account0.
    let account = account0\<lparr>Account_ID := DeterministicUUID L matrixAccountDomain
          [Spec_ScenarioID spec, CapitalPolicy_version policy, AccountEnvironment_string environment,
           MarginProfile_string profile, decimal_String L tier]\<rparr>
    in ensure (Account_Validate L account) (Inr account))"

section \<open>RunMatrix\<close>

record 'd matrix_row =
  row_ordinal :: nat
  row_tier :: 'd
  row_profile :: MarginProfile
  row_environment :: AccountEnvironment
  row_multiplier :: 'd

text \<open>The iterations of the loop over the ordinals: one per tier, then the stress row at the last tier.\<close>

definition matrix_rows :: "('d::linordered_idom) list \<Rightarrow> MarginProfile \<Rightarrow> 'd Profile \<Rightarrow> 'd matrix_row list" where
  "matrix_rows tiers scored profile =
    map (\<lambda>i. \<lparr>row_ordinal = i, row_tier = tiers ! i, row_profile = scored,
              row_environment = AccountEnvironmentPaperScored, row_multiplier = Profile_MaximumGross profile\<rparr>) [0..<length tiers] @
    [\<lparr>row_ordinal = length tiers, row_tier = last tiers, row_profile = MarginProfileStressUnlimited,
      row_environment = AccountEnvironmentPaperStress, row_multiplier = 0\<rparr>]"

definition shared_facts :: "MatrixSpec \<Rightarrow> 'd Scenario \<Rightarrow> bool" where
  "shared_facts spec scenario \<longleftrightarrow>
     opt_holds (\<lambda>p. time_Equal (Projection_AsOf p) (Spec_AsOf spec)) (Scenario_Projection scenario) \<and>
     Scenario_MarketInputDigest scenario = Spec_MarketInputDigest spec \<and>
     Scenario_SimulationPolicyVersion scenario = Spec_SimulationPolicyVersion spec \<and> Scenario_Seed scenario = Spec_Seed spec"

definition matrix_outcome ::
    "('d::linordered_idom) lib \<Rightarrow> 'd capital_lib \<Rightarrow> time \<Rightarrow> (nat \<Rightarrow> uuid) \<Rightarrow> MatrixSpec \<Rightarrow> 'd CapitalPolicy \<Rightarrow> nat \<Rightarrow> 'd ScenarioFactory \<Rightarrow>
     uuid \<Rightarrow> 'd matrix_row \<Rightarrow> matrix_error + ('d MatrixOutcome \<times> uuid)" where
  "matrix_outcome L K now newID spec policy stress factory proposedID row =
    (let ordinal = row_ordinal row; tier = row_tier row; profile = row_profile row; environment = row_environment row in
     and_then (wrap MatrixAccount (matrixAccount L now (newID ordinal) spec policy tier profile environment (row_multiplier row))) (\<lambda>account.
     and_then (wrap MatrixBinding (NewBinding L K now account (Some policy) tier profile (Spec_AsOf spec))) (\<lambda>binding.
     and_then (wrap MatrixScenario (factory
        \<lparr>Context_Spec = spec, Context_Account = account, Context_Binding = binding, Context_Policy = policy, Context_Tier = tier,
         Context_Ordinal = ordinal, Context_IsStress = (ordinal = stress)\<rparr>)) (\<lambda>scenario.
     let instrumentID = Instrument_ID (Scenario_ProposedInstrument scenario);
         proposed = (if ordinal = 0 then instrumentID else proposedID)
     in ensure (first_err
          [guard (\<not> shared_facts spec scenario) MatrixSharedFacts,
           guard (ordinal \<noteq> 0 \<and> (proposedID = uuid_Nil \<or> instrumentID \<noteq> proposedID)) MatrixInstrument])
        (and_then (wrap MatrixState (StateFromProjection L K account binding (Some policy) (Scenario_Projection scenario)
            (Scenario_Instruments scenario))) (\<lambda>state.
         and_then (wrap MatrixAssessment (CapitalAssess L K
            \<lparr>AssessmentInput_Account = account, AssessmentInput_Binding = binding, AssessmentInput_Policy = Some policy,
             AssessmentInput_State = Some state, AssessmentInput_Instrument = Scenario_ProposedInstrument scenario,
             AssessmentInput_Currency = Account_BaseCurrency account, AssessmentInput_ScenarioID = Spec_ScenarioID spec,
             AssessmentInput_Direction = Scenario_Direction scenario,
             AssessmentInput_ProposedNotional = Scenario_ProposedNotional scenario\<rparr>)) (\<lambda>assessment.
         Inr (\<lparr>MatrixOutcome_Ordinal = ordinal, MatrixOutcome_Tier = tier, MatrixOutcome_Profile = profile,
               MatrixOutcome_Environment = environment, MatrixOutcome_Account = account, MatrixOutcome_Binding = binding,
               MatrixOutcome_State = state, MatrixOutcome_Assessment = assessment\<rparr>, proposed))))))))"

fun matrix_outcomes ::
    "('d::linordered_idom) lib \<Rightarrow> 'd capital_lib \<Rightarrow> time \<Rightarrow> (nat \<Rightarrow> uuid) \<Rightarrow> MatrixSpec \<Rightarrow> 'd CapitalPolicy \<Rightarrow> nat \<Rightarrow> 'd ScenarioFactory \<Rightarrow>
     uuid \<Rightarrow> 'd matrix_row list \<Rightarrow> matrix_error + 'd MatrixOutcome list" where
  "matrix_outcomes L K now newID spec policy stress factory proposedID [] = Inr []"
| "matrix_outcomes L K now newID spec policy stress factory proposedID (row # rows) =
    and_then (matrix_outcome L K now newID spec policy stress factory proposedID row) (\<lambda>(outcome, proposed).
    and_then (matrix_outcomes L K now newID spec policy stress factory proposed rows) (\<lambda>outcomes. Inr (outcome # outcomes)))"

definition matrix_outcome_json :: "'d lib \<Rightarrow> 'd MatrixOutcome \<Rightarrow> json" where
  "matrix_outcome_json L x = JObject
    [(''ordinal'', JNumber (itoa (MatrixOutcome_Ordinal x))), (''tier'', JString (decimal_String L (MatrixOutcome_Tier x))),
     (''profile'', JString (MarginProfile_string (MatrixOutcome_Profile x))),
     (''environment'', JString (AccountEnvironment_string (MatrixOutcome_Environment x))),
     (''evidence_class'', JString (Account_EvidenceClass (MatrixOutcome_Account x))),
     (''storage_namespace'', JString (Account_StorageNamespace (MatrixOutcome_Account x))),
     (''account_id'', JString (uuid_String L (Account_ID (MatrixOutcome_Account x)))),
     (''binding_id'', JString (uuid_String L (Bound_ID (MatrixOutcome_Binding x)))),
     (''state_hash'', JString (CapitalState_hash (MatrixOutcome_State x))),
     (''assessment_hash'', JString (Assessment_hash (MatrixOutcome_Assessment x))),
     (''decision'', JString (CapitalDecision_string (Assessment_Decision (MatrixOutcome_Assessment x)))),
     (''reason'', JString (ReasonCode_string (Assessment_Reason (MatrixOutcome_Assessment x))))]"

definition canonicalMatrix :: "'d lib \<Rightarrow> 'd MatrixResult \<Rightarrow> string \<Rightarrow> 'd MatrixOutcome list \<Rightarrow> json" where
  "canonicalMatrix L r schema outcomes =
    (let spec = Matrix_Spec r in JObject
     [(''schema'', JString schema), (''scenario_id'', JString (Spec_ScenarioID spec)),
      (''market_input_digest'', JString (Spec_MarketInputDigest spec)),
      (''simulation_policy_version'', JString (Spec_SimulationPolicyVersion spec)),
      (''capital_policy_version'', JString (Matrix_PolicyVersion r)),
      (''scored_profile'', JString (MarginProfile_string (Matrix_ScoredProfile r))),
      (''seed'', JNumber (pad_digits 1 (Spec_Seed spec))), (''as_of'', JString (formatCapitalTime (Spec_AsOf spec))),
      (''outcomes'', JArray (map (matrix_outcome_json L) outcomes))])"

definition seal_matrix :: "'d lib \<Rightarrow> 'd MatrixResult \<Rightarrow> matrix_error + 'd MatrixResult" where
  "seal_matrix L r =
    ensure (guard (length (Matrix_Outcomes r) \<noteq> 7) MatrixOutcomeCount)
    (let encoded = json_Marshal L (canonicalMatrix L r matrixSchema (Matrix_Outcomes r)) in
     Inr (r\<lparr>Matrix_canonicalBytes := encoded, Matrix_hash := sha256Hex L encoded,
            Matrix_scoredHash := sha256Hex L (json_Marshal L (canonicalMatrix L r matrixScoredSchema (take 6 (Matrix_Outcomes r))))\<rparr>))"

definition RunMatrix ::
    "('d::linordered_idom) lib \<Rightarrow> 'd capital_lib \<Rightarrow> time \<Rightarrow> (nat \<Rightarrow> uuid) \<Rightarrow> MatrixSpec \<Rightarrow> 'd CapitalPolicy option \<Rightarrow> MarginProfile \<Rightarrow>
     'd ScenarioFactory option \<Rightarrow> matrix_error + 'd MatrixResult" where
  "RunMatrix L K now newID spec policy scoredProfile factory =
    ensure (validateMatrixSpec L spec)
    (case (policy, factory) of
       (Some p, Some f) \<Rightarrow>
         (case CapitalPolicy_Profile p scoredProfile of
            None \<Rightarrow> Inl MatrixScoredProfile
          | Some profile \<Rightarrow>
             ensure (first_err
               [guard (Profile_Unlimited profile \<or> scoredProfile = MarginProfileStressUnlimited) MatrixScoredProfile,
                guard (CapitalPolicy_tiers p = []) MatrixPanic])
             (and_then (matrix_outcomes L K now newID spec p (length (CapitalPolicy_tiers p)) f uuid_Nil
                 (matrix_rows (CapitalPolicy_tiers p) scoredProfile profile)) (\<lambda>outcomes.
              seal_matrix L
                \<lparr>Matrix_Spec = spec, Matrix_PolicyVersion = CapitalPolicy_version p, Matrix_ScoredProfile = scoredProfile,
                 Matrix_Outcomes = outcomes, Matrix_canonicalBytes = [], Matrix_hash = [], Matrix_scoredHash = []\<rparr>)))
     | _ \<Rightarrow> Inl MatrixRequired)"

definition ScoredOutcomes :: "'d MatrixResult option \<Rightarrow> 'd MatrixOutcome list option" where
  "ScoredOutcomes result =
    (case result of
       Some r \<Rightarrow> if length (Matrix_Outcomes r) < 6 then None else Some (take 6 (Matrix_Outcomes r))
     | None \<Rightarrow> None)"

definition StressOutcome :: "'d MatrixResult option \<Rightarrow> 'd MatrixOutcome option" where
  "StressOutcome result =
    (case result of
       Some r \<Rightarrow> if length (Matrix_Outcomes r) \<noteq> 7 then None else Some (Matrix_Outcomes r ! 6)
     | None \<Rightarrow> None)"

end
