(* ===== verification/Capital_Correctness.thy ===== *)
theory Capital_Correctness
  imports Capital_Matrix Sorting
begin

text \<open>
  What the capital package guarantees: there is one reviewed policy, a state is the exposure of the projection it was derived from,
  an admitted proposal stays within the limits of its profile, and the stress row of a matrix is isolated from the scored rows.
\<close>

section \<open>The policy\<close>

interpretation capital_tiers: comparison "(<) :: 'd::linordered_idom \<Rightarrow> 'd \<Rightarrow> bool"
  by unfold_locales auto

abbreviation profile_less :: "'d Profile \<Rightarrow> 'd Profile \<Rightarrow> bool" where
  "profile_less p q \<equiv> MarginProfile_string (Profile_Name p) < MarginProfile_string (Profile_Name q)"

interpretation capital_profiles: comparison profile_less
  by unfold_locales auto

lemma reviewed_tiers_sorted: "sorted_wrt (<) (reviewedCapitalTiers :: 'd::linordered_idom list)"
  by (simp add: reviewedCapitalTiers_def)

lemma reviewed_profiles_sorted: "sorted_wrt profile_less (reviewedProfiles K)"
  by (simp add: reviewedProfiles_def Let_def less_char_def)

lemma profile_eqI: "sameProfile p q \<Longrightarrow> p = q"
  by (cases p, cases q) (simp add: sameProfile_def profile_decimals_def)

lemma tier_checks_None:
  assumes "length tiers = 6"
  shows "tier_checks L K tiers = None \<longleftrightarrow> tiers = reviewedCapitalTiers \<and> list_all (validPolicyDecimal L K) tiers"
proof -
  have "first_err (map (\<lambda>(tier, w). guard (\<not> validPolicyDecimal L K tier \<or> tier \<noteq> w) CapitalTierNotReviewed) (zip tiers ws)) = None \<longleftrightarrow>
      tiers = ws \<and> list_all (validPolicyDecimal L K) tiers" if "length tiers = length ws" for ws
    using that by (induction tiers ws rule: list_induct2) auto
  from this [of reviewedCapitalTiers] assms show ?thesis by (simp add: tier_checks_def reviewedCapitalTiers_def)
qed

lemma profile_checks_None:
  assumes "length profiles = 4"
  shows "profile_checks L K profiles = None \<longleftrightarrow>
    profiles = reviewedProfiles K \<and> list_all (\<lambda>q. validateProfile L K q = None) profiles"
proof -
  have same: "sameProfile q w \<longleftrightarrow> q = w" for q w :: "'a Profile" by (auto intro: profile_eqI simp: sameProfile_def)
  have "first_err (concat (map (\<lambda>(q, w). [map_option CapitalProfile (validateProfile L K q), guard (\<not> sameProfile q w) CapitalProfileNotReviewed])
        (zip profiles ws))) = None \<longleftrightarrow> profiles = ws \<and> list_all (\<lambda>q. validateProfile L K q = None) profiles"
    if "length profiles = length ws" for ws
    using that by (induction profiles ws rule: list_induct2) (auto simp: same)
  from this [of "reviewedProfiles K"] assms show ?thesis by (simp add: profile_checks_def reviewedProfiles_def Let_def)
qed

text \<open>The decimals of the reviewed values pass the precision checks.\<close>

definition reviewed_decimals :: "('d::linordered_idom) lib \<Rightarrow> 'd capital_lib \<Rightarrow> bool" where
  "reviewed_decimals L K \<longleftrightarrow> list_all (validPolicyDecimal L K) reviewedCapitalTiers \<and>
     list_all (\<lambda>q. validateProfile L K q = None) (reviewedProfiles K)"

definition reviewed_policy :: "('d::linordered_idom) lib \<Rightarrow> 'd capital_lib \<Rightarrow> 'd CapitalPolicy" where
  "reviewed_policy L K = capital_policy_of L reviewedCapitalTiers (reviewedProfiles K)"

lemma NewCapitalPolicy_iff:
  "NewCapitalPolicy L K input = Inr p \<longleftrightarrow>
     CapitalInput_Schema input = CapitalPolicySchemaV1 \<and> CapitalInput_Currency input = ''USD'' \<and> CapitalInput_Scale input = 12 \<and>
     mset (CapitalInput_Tiers input) = mset reviewedCapitalTiers \<and> mset (CapitalInput_Profiles input) = mset (reviewedProfiles K) \<and>
     reviewed_decimals L K \<and> p = reviewed_policy L K"
proof -
  let ?ts = "CapitalInput_Tiers input" and ?ps = "CapitalInput_Profiles input"
  have st: "sort_by (<) ?ts = reviewedCapitalTiers \<longleftrightarrow> mset ?ts = mset reviewedCapitalTiers"
    using capital_tiers.sort_of_permutation [OF _ reviewed_tiers_sorted, of ?ts] mset_sort_by [of "(<)" ?ts] by metis
  have "length ?ts = 6" if "mset ?ts = mset reviewedCapitalTiers" using mset_eq_length [OF that] by (simp add: reviewedCapitalTiers_def)
  with st tier_checks_None [of "sort_by (<) ?ts" L K]
  have t: "length ?ts = 6 \<and> tier_checks L K (sort_by (<) ?ts) = None \<longleftrightarrow>
      mset ?ts = mset reviewedCapitalTiers \<and> list_all (validPolicyDecimal L K) reviewedCapitalTiers" by auto
  have sp: "sort_by profile_less ?ps = reviewedProfiles K \<longleftrightarrow> mset ?ps = mset (reviewedProfiles K)"
    using capital_profiles.sort_of_permutation [OF _ reviewed_profiles_sorted, of ?ps K] mset_sort_by [of profile_less ?ps] by metis
  have "length ?ps = 4" if "mset ?ps = mset (reviewedProfiles K)" using mset_eq_length [OF that] by (simp add: reviewedProfiles_def Let_def)
  with sp profile_checks_None [of "sort_by profile_less ?ps" L K]
  have q: "length ?ps = 4 \<and> profile_checks L K (sort_by profile_less ?ps) = None \<longleftrightarrow>
      mset ?ps = mset (reviewedProfiles K) \<and> list_all (\<lambda>q. validateProfile L K q = None) (reviewedProfiles K)" by auto
  have "NewCapitalPolicy L K input = Inr p \<longleftrightarrow>
     CapitalInput_Schema input = CapitalPolicySchemaV1 \<and> CapitalInput_Currency input = ''USD'' \<and> CapitalInput_Scale input = 12 \<and>
     (length ?ts = 6 \<and> tier_checks L K (sort_by (<) ?ts) = None) \<and> (length ?ps = 4 \<and> profile_checks L K (sort_by profile_less ?ps) = None) \<and>
     p = capital_policy_of L (sort_by (<) ?ts) (sort_by profile_less ?ps)"
    by (auto simp: NewCapitalPolicy_def Let_def)
  then show ?thesis unfolding t q using st sp by (auto simp: reviewed_decimals_def reviewed_policy_def)
qed

section \<open>The exposure of a projection\<close>

abbreviation long_part :: "('d::linordered_idom) ProjectionPosition \<Rightarrow> 'd" where
  "long_part p \<equiv> max 0 (Position_MarketValue p)"

abbreviation short_part :: "('d::linordered_idom) ProjectionPosition \<Rightarrow> 'd" where
  "short_part p \<equiv> max 0 (- Position_MarketValue p)"

abbreviation open_ids :: "'d ProjectionPosition list \<Rightarrow> uuid list" where
  "open_ids ps \<equiv> map Position_InstrumentID (filter Position_Open ps)"

lemma position_exposures_sums:
  assumes "position_exposures L K m x ps = Inr y"
  shows "exposure_long y = exposure_long x + (\<Sum>p \<leftarrow> map fst ps. long_part p) \<and>
    exposure_short y = exposure_short x + (\<Sum>p \<leftarrow> map fst ps. short_part p) \<and>
    exposure_value y = exposure_value x + (\<Sum>p \<leftarrow> map fst ps. Position_MarketValue p) \<and>
    exposure_open y = exposure_open x + length (open_ids (map fst ps)) \<and>
    exposure_seen y = exposure_seen x @ map Position_InstrumentID (map fst ps) \<and>
    set (open_ids (map fst ps)) \<subseteq> fst ` set m \<and>
    (distinct (exposure_seen x) \<longrightarrow> distinct (exposure_seen y))"
  using assms
proof (induction ps arbitrary: x)
  case (Cons pq ps)
  obtain p q where pq: "pq = (p, q)" by fastforce
  from Cons.prems obtain x' where x': "position_exposures L K m x' ps = Inr y"
    "exposure_long x' = exposure_long x + long_part p" "exposure_short x' = exposure_short x + short_part p"
    "exposure_value x' = exposure_value x + Position_MarketValue p" "exposure_seen x' = exposure_seen x @ [Position_InstrumentID p]"
    "exposure_open x' = exposure_open x + (if Position_Open p then 1 else 0)"
    "Position_InstrumentID p \<notin> set (exposure_seen x)" "Position_Open p \<Longrightarrow> Position_InstrumentID p \<in> fst ` set m"
    by (cases "Position_Open p") (auto simp: pq Let_def position_checks_def map_of_eq_None_iff)
  note IH = Cons.IH [OF x'(1)]
  have "distinct (exposure_seen x) \<Longrightarrow> distinct (exposure_seen x')" using x'(5,7) by simp
  with IH have d: "distinct (exposure_seen x) \<longrightarrow> distinct (exposure_seen y)" by blast
  show ?case by (intro conjI d) (use IH x' in \<open>auto simp: pq add.assoc\<close>)
qed simp

lemma index_instruments_eq:
  "distinct (map fst m) \<Longrightarrow> index_instruments L account m is = Inr m' \<Longrightarrow>
   m' = m @ map (\<lambda>i. (Instrument_ID i, i)) is \<and> distinct (map fst m')"
proof (induction "is" arbitrary: m)
  case (Cons i "is")
  then have i: "index_instruments L account (m @ [(Instrument_ID i, i)]) is = Inr m'" "distinct (map fst (m @ [(Instrument_ID i, i)]))"
    by (simp_all add: map_of_eq_None_iff)
  from Cons.IH [OF i(2,1)] have "m' = m @ map (\<lambda>i. (Instrument_ID i, i)) (i # is)" by simp
  with Cons.IH [OF i(2,1)] show ?case by blast
qed simp

lemma StateFromProjectionE:
  assumes "StateFromProjection L K account binding policy projection instruments = Inr s"
  obtains pol p payload x profile where "policy = Some pol" "projection = Some p"
    "Binding_Validate L K binding account policy = None" "projection_envelope L account p"
    "validateCapitalProjectionTotals L K (Projection_Totals p) = None"
    "payload_matches L p payload"
    "position_exposures L K (map (\<lambda>i. (Instrument_ID i, i)) instruments)
       \<lparr>exposure_seen = [], exposure_long = 0, exposure_short = 0, exposure_value = 0, exposure_open = 0\<rparr>
       (zip (Projection_Positions p) (payload_Positions payload)) = Inr x"
    "distinct (map Instrument_ID instruments)" "length instruments = exposure_open x"
    "exposure_value x = Totals_MarketValue (Projection_Totals p)"
    "Totals_Equity (Projection_Totals p) = Totals_Cash (Projection_Totals p) + Totals_MarketValue (Projection_Totals p)"
    "CapitalPolicy_Profile pol (Bound_Profile binding) = Some profile"
    "s = seal_state L (exposed_state K account binding pol profile p x)"
    "CapitalState_validate L K s account binding policy = None"
proof -
  from assms obtain pol p where pp: "policy = Some pol" "projection = Some p"
    by (cases policy; cases projection) (auto simp: StateFromProjection_def)
  from assms pp obtain payload byID x profile where
    *: "Binding_Validate L K binding account policy = None" "projection_envelope L account p"
    "validateCapitalProjectionTotals L K (Projection_Totals p) = None" "payload_matches L p payload"
    and m: "index_instruments L account [] instruments = Inr byID"
    and x: "position_exposures L K byID \<lparr>exposure_seen = [], exposure_long = 0, exposure_short = 0, exposure_value = 0, exposure_open = 0\<rparr>
       (zip (Projection_Positions p) (payload_Positions payload)) = Inr x"
    and r: "length byID = exposure_open x" "exposure_value x = Totals_MarketValue (Projection_Totals p)"
    "Totals_Equity (Projection_Totals p) = Totals_Cash (Projection_Totals p) + Totals_MarketValue (Projection_Totals p)"
    "CapitalPolicy_Profile pol (Bound_Profile binding) = Some profile"
    "s = seal_state L (exposed_state K account binding pol profile p x)" "CapitalState_validate L K s account binding policy = None"
    by (auto simp: StateFromProjection_def Let_def split: option.splits)
  from index_instruments_eq [OF _ m] obtain i: "byID = map (\<lambda>i. (Instrument_ID i, i)) instruments" "distinct (map Instrument_ID instruments)"
    by (auto simp: comp_def)
  from that [OF pp * x [unfolded i(1)] i(2) r(1) [unfolded i(1) length_map] r(2-6)] show thesis .
qed

lemma seal_state_fields [simp]:
  "CapitalState_cash (seal_state L s) = CapitalState_cash s" "CapitalState_equity (seal_state L s) = CapitalState_equity s"
  "CapitalState_longExposure (seal_state L s) = CapitalState_longExposure s"
  "CapitalState_shortExposure (seal_state L s) = CapitalState_shortExposure s"
  "CapitalState_grossExposure (seal_state L s) = CapitalState_grossExposure s"
  "CapitalState_maintenanceRequirement (seal_state L s) = CapitalState_maintenanceRequirement s"
  by (simp_all add: seal_state_def Let_def)

text \<open>The instruments given are exactly those of the open positions.\<close>

lemma state_instruments:
  assumes "StateFromProjection L K account binding policy (Some p) instruments = Inr s"
  shows "mset (map Instrument_ID instruments) = mset (open_ids (Projection_Positions p)) \<and>
    distinct (map Position_InstrumentID (Projection_Positions p))"
proof (rule StateFromProjectionE [OF assms])
  fix p' payload x
  assume p: "Some p = Some p'" and pm: "payload_matches L p' payload"
    and x: "position_exposures L K (map (\<lambda>i. (Instrument_ID i, i)) instruments)
       \<lparr>exposure_seen = [], exposure_long = 0, exposure_short = 0, exposure_value = 0, exposure_open = 0\<rparr>
       (zip (Projection_Positions p') (payload_Positions payload)) = Inr x"
    and d: "distinct (map Instrument_ID instruments)" and l: "length instruments = exposure_open x"
  have f: "map fst (zip (Projection_Positions p') (payload_Positions payload)) = Projection_Positions p'"
    using pm by (simp add: payload_matches_def)
  note e = position_exposures_sums [OF x, unfolded f]
  from e p have ds: "distinct (map Position_InstrumentID (Projection_Positions p))" by (elim conjE) simp
  then have "distinct (open_ids (Projection_Positions p))" by (simp add: distinct_map_filter)
  moreover have "set (open_ids (Projection_Positions p)) = set (map Instrument_ID instruments)"
    by (rule card_subset_eq) (use e p l d calculation in \<open>simp_all only: finite_set distinct_card length_map, simp_all add: image_image\<close>)
  ultimately have "mset (map Instrument_ID instruments) = mset (open_ids (Projection_Positions p))"
    using set_eq_iff_mset_eq_distinct [OF d] by metis
  then show ?thesis using ds ..
qed

section \<open>Admission\<close>

text \<open>The decoder and the parsers invert the encoder on the texts of this state.\<close>

definition state_codec_inverts :: "('d::linordered_idom) lib \<Rightarrow> 'd capital_lib \<Rightarrow> 'd CapitalState \<Rightarrow> bool" where
  "state_codec_inverts L K s \<longleftrightarrow>
     opt_holds (\<lambda>(c, rest). c = capital_state_canonical L s \<and> json_Decode L rest = EOF) (decode_capital_state K (CapitalState_canonicalBytes s)) \<and>
     list_all (\<lambda>u. uuid_Parse K (uuid_String L u) = Some u)
       [CapitalState_accountID s, CapitalState_bindingID s, CapitalState_projectionCheckpointID s] \<and>
     time_Parse K (formatCapitalTime (CapitalState_asOf s)) = Some (CapitalState_asOf s) \<and>
     list_all (\<lambda>v. decimal_Parse K (decimal_String L v) = Some v) (state_amounts s)"

text \<open>Rounding up to a scale never goes below the value.\<close>

definition rounds_up :: "('d::linordered_idom) capital_lib \<Rightarrow> bool" where
  "rounds_up K \<longleftrightarrow> (\<forall>x n. x \<le> decimal_RoundCeil K x n)"

lemma sealAssessmentD:
  assumes "sealAssessment L K input a = Inr b"
  shows "b = a\<lparr>Assessment_canonicalBytes := Assessment_canonicalBytes b, Assessment_hash := Assessment_hash b, Assessment_ID := Assessment_ID b\<rparr>"
    and "Assessment_Validate L K b (AssessmentInput_Account input) (AssessmentInput_Binding input)
           (AssessmentInput_Policy input) (AssessmentInput_State input) = None"
  using assms by (auto simp: sealAssessment_def Let_def)

lemma CapitalAssess_cases:
  assumes "CapitalAssess L K input = Inr b" and "AssessmentInput_State input = Some s"
  obtains (unlimited) p profile a where "AssessmentInput_Policy input = Some p"
      "CapitalPolicy_Profile p (Bound_Profile (AssessmentInput_Binding input)) = Some profile"
      "Profile_Unlimited profile" "Assessment_Decision b = CapitalAdmitted" "Assessment_Reason b = ReasonStressUnbounded" "Assessment_Unbounded b"
  | (short) p profile a where "AssessmentInput_Policy input = Some p"
      "CapitalPolicy_Profile p (Bound_Profile (AssessmentInput_Binding input)) = Some profile"
      "\<not> Profile_Unlimited profile" "Assessment_Decision b = CapitalRejected" "\<not> Assessment_Unbounded b"
      "AssessmentInput_Direction input = ExposureIncreaseShort" "\<not> Profile_AllowShort profile"
  | (finite) p profile a where "AssessmentInput_Policy input = Some p"
      "CapitalPolicy_Profile p (Bound_Profile (AssessmentInput_Binding input)) = Some profile"
      "\<not> Profile_Unlimited profile" "\<not> Assessment_Unbounded b"
      "a = proposed_amounts L K p s profile (AssessmentInput_Direction input) (AssessmentInput_ProposedNotional input)
             (current_headroom K p s profile (initial_assessment input p s))"
      "AssessmentInput_Direction input = ExposureIncreaseShort \<longrightarrow> Profile_AllowShort profile"
      "Assessment_Reason b = finite_reason input s profile a"
      "Assessment_Decision b = (if finite_reason input s profile a = ReasonAdmitted then CapitalAdmitted else CapitalRejected)"
      "Assessment_PostGrossExposure b = postGrossExposure s (AssessmentInput_Direction input) (AssessmentInput_ProposedNotional input)"
proof -
  from assms obtain p profile where p: "AssessmentInput_Policy input = Some p"
    "CapitalPolicy_Profile p (Bound_Profile (AssessmentInput_Binding input)) = Some profile"
    by (auto simp: CapitalAssess_def Let_def split: option.splits)
  let ?d = "AssessmentInput_Direction input"
  let ?a = "initial_assessment input p s"
  let ?a2 = "proposed_amounts L K p s profile ?d (AssessmentInput_ProposedNotional input) (current_headroom K p s profile ?a)"
  have unb: "\<not> Assessment_Unbounded (current_headroom K p s profile ?a)" "\<not> Assessment_Unbounded ?a2"
    by (simp_all add: proposed_amounts_def current_headroom_def initial_assessment_def Let_def)
  consider (u) "Profile_Unlimited profile" | (sh) "\<not> Profile_Unlimited profile" "?d = ExposureIncreaseShort" "\<not> Profile_AllowShort profile"
    | (f) "\<not> Profile_Unlimited profile" "?d = ExposureIncreaseShort \<longrightarrow> Profile_AllowShort profile" by blast
  then show thesis
  proof cases
    case u
    with assms p obtain c where "sealAssessment L K input (c\<lparr>Assessment_Unbounded := True, Assessment_Decision := CapitalAdmitted,
        Assessment_Reason := ReasonStressUnbounded, Assessment_PostGrossExposure := postGrossExposure s ?d (AssessmentInput_ProposedNotional input)\<rparr>) = Inr b"
      by (auto simp: CapitalAssess_def Let_def)
    note b = sealAssessmentD(1) [OF this]
    have "Assessment_Decision b = CapitalAdmitted" "Assessment_Reason b = ReasonStressUnbounded" "Assessment_Unbounded b" by (subst b, simp)+
    with unlimited [OF p u] show thesis by blast
  next
    case sh
    with assms p have "sealAssessment L K input (decided ReasonShortNotSupported (current_headroom K p s profile ?a)) = Inr b"
      by (auto simp: CapitalAssess_def Let_def)
    note b = sealAssessmentD(1) [OF this]
    have "Assessment_Decision b = CapitalRejected" "\<not> Assessment_Unbounded b" by (subst b, simp add: decided_def unb)+
    with short [OF p sh(1)] sh show thesis by blast
  next
    case f
    with assms p have "sealAssessment L K input (decided (finite_reason input s profile ?a2) ?a2) = Inr b"
      by (auto simp: CapitalAssess_def Let_def)
    note b = sealAssessmentD(1) [OF this]
    have "Assessment_Reason b = finite_reason input s profile ?a2"
      "Assessment_Decision b = (if finite_reason input s profile ?a2 = ReasonAdmitted then CapitalAdmitted else CapitalRejected)"
      "\<not> Assessment_Unbounded b" by (subst b, simp add: decided_def unb)+
    moreover have "Assessment_PostGrossExposure b = postGrossExposure s ?d (AssessmentInput_ProposedNotional input)"
      by (subst b) (simp add: decided_def proposed_amounts_def Let_def)
    ultimately show thesis using finite [OF p f(1)] f(2) by blast
  qed
qed

section \<open>The matrix\<close>

lemma NewAccount_environment:
  "NewAccount L now newID input = Inr a \<Longrightarrow> Account_Environment a = AccountInput_Environment input"
  by (auto simp: NewAccount_def Let_def split: option.splits)

lemma matrixAccount_fields:
  assumes "matrixAccount L now newID spec p tier profile environment multiplier = Inr a"
  shows "Account_Environment a = environment" and "Account_Validate L a = None"
  using assms by (auto simp: matrixAccount_def Let_def dest: NewAccount_environment)

text \<open>What one row of the matrix gives: the row it is for, a validated binding and the assessment of its account.\<close>

definition outcome_of_row ::
    "('d::linordered_idom) lib \<Rightarrow> 'd capital_lib \<Rightarrow> 'd CapitalPolicy \<Rightarrow> 'd matrix_row \<Rightarrow> 'd MatrixOutcome \<Rightarrow> bool" where
  "outcome_of_row L K p row x \<longleftrightarrow>
     MatrixOutcome_Ordinal x = row_ordinal row \<and> MatrixOutcome_Tier x = row_tier row \<and> MatrixOutcome_Profile x = row_profile row \<and>
     MatrixOutcome_Environment x = row_environment row \<and> Account_Environment (MatrixOutcome_Account x) = row_environment row \<and>
     Bound_Profile (MatrixOutcome_Binding x) = row_profile row \<and>
     Binding_Validate L K (MatrixOutcome_Binding x) (MatrixOutcome_Account x) (Some p) = None \<and>
     (\<exists>input. CapitalAssess L K input = Inr (MatrixOutcome_Assessment x) \<and> AssessmentInput_Account input = MatrixOutcome_Account x \<and>
        AssessmentInput_Binding input = MatrixOutcome_Binding x \<and> AssessmentInput_Policy input = Some p \<and>
        AssessmentInput_State input = Some (MatrixOutcome_State x))"

lemma NewBinding_valid:
  assumes "NewBinding L K now account (Some p) tier profile createdAt = Inr b"
  shows "Binding_Validate L K b account (Some p) = None" and "Bound_Profile b = profile"
  using assms by (auto simp: NewBinding_def Let_def)

lemma CapitalAssess_identity:
  assumes "CapitalAssess L K input = Inr a" and "AssessmentInput_State input = Some s" and "AssessmentInput_Policy input = Some p"
  shows "Assessment_Environment a = Account_Environment (AssessmentInput_Account input)"
    and "Assessment_EvidenceClass a = Account_EvidenceClass (AssessmentInput_Account input)"
    and "Assessment_StorageNamespace a = Account_StorageNamespace (AssessmentInput_Account input)"
    and "Assessment_InstrumentID a = Instrument_ID (AssessmentInput_Instrument input)"
proof -
  have "\<exists>c. sealAssessment L K input c = Inr a \<and> Assessment_InstrumentID c = Instrument_ID (AssessmentInput_Instrument input)"
    using assms by (auto simp: CapitalAssess_def Let_def decided_def proposed_amounts_def current_headroom_def initial_assessment_def
        split: option.splits if_splits intro!: exI)
  then obtain c where c: "sealAssessment L K input c = Inr a" "Assessment_InstrumentID c = Instrument_ID (AssessmentInput_Instrument input)" by blast
  from sealAssessmentD(2) [OF c(1)] assms(2,3)
  show "Assessment_Environment a = Account_Environment (AssessmentInput_Account input)"
    and "Assessment_EvidenceClass a = Account_EvidenceClass (AssessmentInput_Account input)"
    and "Assessment_StorageNamespace a = Account_StorageNamespace (AssessmentInput_Account input)"
    by (simp_all add: Assessment_Validate_def Let_def)
  show "Assessment_InstrumentID a = Instrument_ID (AssessmentInput_Instrument input)"
    by (subst sealAssessmentD(1) [OF c(1)]) (simp add: c(2))
qed

lemma matrix_outcome_row:
  assumes "matrix_outcome L K now newID spec p stress factory proposedID row = Inr (x, proposed)"
  shows "outcome_of_row L K p row x" and "Assessment_InstrumentID (MatrixOutcome_Assessment x) = proposed"
    and "row_ordinal row \<noteq> 0 \<Longrightarrow> proposed = proposedID"
proof -
  from assms obtain account binding scenario state assessment where
    a: "matrixAccount L now (newID (row_ordinal row)) spec p (row_tier row) (row_profile row) (row_environment row) (row_multiplier row) = Inr account"
    and b: "NewBinding L K now account (Some p) (row_tier row) (row_profile row) (Spec_AsOf spec) = Inr binding"
    and assess: "CapitalAssess L K
            \<lparr>AssessmentInput_Account = account, AssessmentInput_Binding = binding, AssessmentInput_Policy = Some p,
             AssessmentInput_State = Some state, AssessmentInput_Instrument = Scenario_ProposedInstrument scenario,
             AssessmentInput_Currency = Account_BaseCurrency account, AssessmentInput_ScenarioID = Spec_ScenarioID spec,
             AssessmentInput_Direction = Scenario_Direction scenario,
             AssessmentInput_ProposedNotional = Scenario_ProposedNotional scenario\<rparr> = Inr assessment"
    and g: "first_err [guard (\<not> shared_facts spec scenario) MatrixSharedFacts,
           guard (row_ordinal row \<noteq> 0 \<and> (proposedID = uuid_Nil \<or> Instrument_ID (Scenario_ProposedInstrument scenario) \<noteq> proposedID))
             MatrixInstrument] = None"
    and r: "Inr (\<lparr>MatrixOutcome_Ordinal = row_ordinal row, MatrixOutcome_Tier = row_tier row, MatrixOutcome_Profile = row_profile row,
               MatrixOutcome_Environment = row_environment row, MatrixOutcome_Account = account, MatrixOutcome_Binding = binding,
               MatrixOutcome_State = state, MatrixOutcome_Assessment = assessment\<rparr>,
             if row_ordinal row = 0 then Instrument_ID (Scenario_ProposedInstrument scenario) else proposedID) = Inr (x, proposed)"
    unfolding matrix_outcome_def Let_def and_then_eq_Inr wrap_eq_Inr ensure_eq_Inr by blast
  from r have x: "x = \<lparr>MatrixOutcome_Ordinal = row_ordinal row, MatrixOutcome_Tier = row_tier row, MatrixOutcome_Profile = row_profile row,
               MatrixOutcome_Environment = row_environment row, MatrixOutcome_Account = account, MatrixOutcome_Binding = binding,
               MatrixOutcome_State = state, MatrixOutcome_Assessment = assessment\<rparr>"
    and q: "proposed = (if row_ordinal row = 0 then Instrument_ID (Scenario_ProposedInstrument scenario) else proposedID)"
      "row_ordinal row \<noteq> 0 \<longrightarrow> Instrument_ID (Scenario_ProposedInstrument scenario) = proposedID"
    using g by auto
  from matrixAccount_fields [OF a] NewBinding_valid [OF b] assess show "outcome_of_row L K p row x"
    unfolding outcome_of_row_def x by (auto intro!: exI)
  from CapitalAssess_identity(4) [OF assess] q show "Assessment_InstrumentID (MatrixOutcome_Assessment x) = proposed" by (simp add: x)
  from q show "row_ordinal row \<noteq> 0 \<Longrightarrow> proposed = proposedID" by simp
qed

lemma matrix_outcomes_rows:
  assumes "matrix_outcomes L K now newID spec p stress factory proposedID rows = Inr xs"
  shows "list_all2 (outcome_of_row L K p) rows xs"
    and "\<forall>row \<in> set rows. row_ordinal row \<noteq> 0 \<Longrightarrow> \<forall>x \<in> set xs. Assessment_InstrumentID (MatrixOutcome_Assessment x) = proposedID"
  using assms
proof (induction rows arbitrary: proposedID xs)
  case (Cons row rows)
  { case 1
    then show ?case using Cons.IH(1) matrix_outcome_row(1) by (fastforce split: prod.splits)
  next
    case 2
    then obtain x proposed ys where x: "matrix_outcome L K now newID spec p stress factory proposedID row = Inr (x, proposed)"
      "matrix_outcomes L K now newID spec p stress factory proposed rows = Inr ys" "xs = x # ys" by (auto split: prod.splits)
    from matrix_outcome_row(2,3) [OF x(1)] Cons.IH(2) [OF _ x(2)] 2 x(3) show ?case by auto }
qed simp_all

text \<open>Scored and stress rows under a validated binding.\<close>

lemma outcome_of_scored_row:
  assumes "outcome_of_row L K p row x" and "row_environment row = AccountEnvironmentPaperScored"
  shows "Assessment_PromotionEligible (Some (MatrixOutcome_Assessment x)) \<and> Binding_PromotionEligible (MatrixOutcome_Binding x) \<and>
    Account_Validate L (MatrixOutcome_Account x) = None \<and> PromotionEligible (MatrixOutcome_Account x)"
proof -
  from assms(1) obtain input where i: "CapitalAssess L K input = Inr (MatrixOutcome_Assessment x)" "AssessmentInput_Account input = MatrixOutcome_Account x"
    "AssessmentInput_Binding input = MatrixOutcome_Binding x" "AssessmentInput_Policy input = Some p" "AssessmentInput_State input = Some (MatrixOutcome_State x)"
    by (auto simp: outcome_of_row_def)
  from assms have b: "Binding_Validate L K (MatrixOutcome_Binding x) (MatrixOutcome_Account x) (Some p) = None"
    "Account_Environment (MatrixOutcome_Account x) = AccountEnvironmentPaperScored" by (auto simp: outcome_of_row_def)
  then obtain profile where q: "CapitalPolicy_Profile p (Bound_Profile (MatrixOutcome_Binding x)) = Some profile" "\<not> Profile_Unlimited profile"
    "Binding_PromotionEligible (MatrixOutcome_Binding x)" "Account_Validate L (MatrixOutcome_Account x) = None"
    "Account_EvidenceClass (MatrixOutcome_Account x) = PaperEvidenceClassPromotion"
    by (auto simp: Binding_Validate_def binding_environment_checks_def Binding_PromotionEligible_def split: option.splits)
  from i(1,5) have "\<not> Assessment_Unbounded (MatrixOutcome_Assessment x)"
    by (cases rule: CapitalAssess_cases) (use i q in auto)
  with CapitalAssess_identity [OF i(1,5,4)] b q i(2) show ?thesis
    by (simp add: Assessment_PromotionEligible_def PromotionEligible_def)
qed

lemma outcome_of_stress_row:
  assumes "outcome_of_row L K p row x" and "row_environment row = AccountEnvironmentPaperStress"
  shows "Assessment_Unbounded (MatrixOutcome_Assessment x) \<and> Assessment_Decision (MatrixOutcome_Assessment x) = CapitalAdmitted \<and>
    \<not> Assessment_PromotionEligible (Some (MatrixOutcome_Assessment x)) \<and> \<not> Binding_PromotionEligible (MatrixOutcome_Binding x) \<and>
    Account_Validate L (MatrixOutcome_Account x) = None"
proof -
  from assms(1) obtain input where i: "CapitalAssess L K input = Inr (MatrixOutcome_Assessment x)" "AssessmentInput_Account input = MatrixOutcome_Account x"
    "AssessmentInput_Binding input = MatrixOutcome_Binding x" "AssessmentInput_Policy input = Some p" "AssessmentInput_State input = Some (MatrixOutcome_State x)"
    by (auto simp: outcome_of_row_def)
  from assms have b: "Binding_Validate L K (MatrixOutcome_Binding x) (MatrixOutcome_Account x) (Some p) = None"
    "Account_Environment (MatrixOutcome_Account x) = AccountEnvironmentPaperStress" by (auto simp: outcome_of_row_def)
  then obtain profile where q: "CapitalPolicy_Profile p (Bound_Profile (MatrixOutcome_Binding x)) = Some profile" "Profile_Unlimited profile"
    "Bound_Environment (MatrixOutcome_Binding x) = AccountEnvironmentPaperStress" "Account_Validate L (MatrixOutcome_Account x) = None"
    by (auto simp: Binding_Validate_def binding_environment_checks_def split: option.splits)
  from i(1,5) have "Assessment_Unbounded (MatrixOutcome_Assessment x) \<and> Assessment_Decision (MatrixOutcome_Assessment x) = CapitalAdmitted"
    by (cases rule: CapitalAssess_cases) (use i q in auto)
  with q show ?thesis by (simp add: Assessment_PromotionEligible_def Binding_PromotionEligible_def)
qed

text \<open>A successful run under a reviewed policy: six scored rows and one stress row, all on the instrument of the first.\<close>

lemma matrix_rows_reviewed:
  fixes profile :: "('d::linordered_idom) Profile"
  obtains row rows last_row where "matrix_rows reviewedCapitalTiers scored profile = (row # rows) @ [last_row]" "length rows = 5"
    "map row_tier (row # rows) = (reviewedCapitalTiers :: 'd list)" "row_environment last_row = AccountEnvironmentPaperStress"
    "\<forall>r \<in> set (row # rows). row_environment r = AccountEnvironmentPaperScored \<and> row_profile r = scored"
    "\<forall>r \<in> set (rows @ [last_row]). row_ordinal r \<noteq> 0"
proof
  let ?rows = "matrix_rows (reviewedCapitalTiers :: 'd list) scored profile"
  show "?rows = (?rows ! 0 # map ((!) ?rows) [1, 2, 3, 4, 5]) @ [?rows ! 6]"
    "map row_tier (?rows ! 0 # map ((!) ?rows) [1, 2, 3, 4, 5]) = (reviewedCapitalTiers :: 'd list)"
    "row_environment (?rows ! 6) = AccountEnvironmentPaperStress"
    "\<forall>r \<in> set (?rows ! 0 # map ((!) ?rows) [1, 2, 3, 4, 5]). row_environment r = AccountEnvironmentPaperScored \<and> row_profile r = scored"
    "\<forall>r \<in> set (map ((!) ?rows) [1, 2, 3, 4, 5] @ [?rows ! 6]). row_ordinal r \<noteq> 0"
    by (simp_all add: matrix_rows_def reviewedCapitalTiers_def upt_rec numeral_eq_Suc)
qed simp

lemma RunMatrix_outcomes:
  assumes "RunMatrix L K now newID spec (Some p) scored factory = Inr r"
  obtains profile f where "matrix_outcomes L K now newID spec p (length (CapitalPolicy_tiers p)) f uuid_Nil
      (matrix_rows (CapitalPolicy_tiers p) scored profile) = Inr (Matrix_Outcomes r)" "length (Matrix_Outcomes r) = 7"
proof (cases factory)
  case None
  then show thesis using assms by (auto simp: RunMatrix_def)
next
  case (Some f)
  with assms obtain profile outcomes where "CapitalPolicy_Profile p scored = Some profile"
    and m: "matrix_outcomes L K now newID spec p (length (CapitalPolicy_tiers p)) f uuid_Nil
      (matrix_rows (CapitalPolicy_tiers p) scored profile) = Inr outcomes"
    and s: "seal_matrix L
                \<lparr>Matrix_Spec = spec, Matrix_PolicyVersion = CapitalPolicy_version p, Matrix_ScoredProfile = scored,
                 Matrix_Outcomes = outcomes, Matrix_canonicalBytes = [], Matrix_hash = [], Matrix_scoredHash = []\<rparr> = Inr r"
    by (auto simp: RunMatrix_def split: option.splits)
  from s have "Matrix_Outcomes r = outcomes" "length outcomes = 7" by (auto simp: seal_matrix_def Let_def)
  with m that show thesis by blast
qed

lemma RunMatrix_reviewed:
  assumes "RunMatrix L K now newID spec (Some p) scored factory = Inr r" and "CapitalPolicy_tiers p = reviewedCapitalTiers"
  obtains rows xs last_row stress where "Matrix_Outcomes r = xs @ [stress]" "length xs = 6" "map row_tier rows = reviewedCapitalTiers"
    "list_all2 (\<lambda>row x. outcome_of_row L K p row x \<and> row_environment row = AccountEnvironmentPaperScored \<and> row_profile row = scored) rows xs"
    "outcome_of_row L K p last_row stress" "row_environment last_row = AccountEnvironmentPaperStress"
    "\<forall>x \<in> set xs. Assessment_InstrumentID (MatrixOutcome_Assessment x) = Assessment_InstrumentID (MatrixOutcome_Assessment stress)"
proof -
  obtain profile f where m: "matrix_outcomes L K now newID spec p (length (CapitalPolicy_tiers p)) f uuid_Nil
      (matrix_rows (CapitalPolicy_tiers p) scored profile) = Inr (Matrix_Outcomes r)" "length (Matrix_Outcomes r) = 7"
    using RunMatrix_outcomes [OF assms(1)] .
  obtain row rows last_row where rows: "matrix_rows reviewedCapitalTiers scored profile = (row # rows) @ [last_row]" "length rows = 5"
    "map row_tier (row # rows) = (reviewedCapitalTiers :: 'a list)" "row_environment last_row = AccountEnvironmentPaperStress"
    "\<forall>r \<in> set (row # rows). row_environment r = AccountEnvironmentPaperScored \<and> row_profile r = scored"
    "\<forall>r \<in> set (rows @ [last_row]). row_ordinal r \<noteq> 0" by (rule matrix_rows_reviewed)
  note m = m(1) [unfolded assms(2) rows(1)] m(2)
  obtain y proposed ys where y: "matrix_outcome L K now newID spec p (length (reviewedCapitalTiers :: 'a list)) f uuid_Nil row = Inr (y, proposed)"
    "matrix_outcomes L K now newID spec p (length (reviewedCapitalTiers :: 'a list)) f proposed (rows @ [last_row]) = Inr ys"
    "Matrix_Outcomes r = y # ys" using m(1) by (auto split: prod.splits)
  from matrix_outcomes_rows(1) [OF m(1)] obtain xs stress where x: "Matrix_Outcomes r = xs @ [stress]"
    "list_all2 (outcome_of_row L K p) (row # rows) xs" "outcome_of_row L K p last_row stress"
    unfolding list_all2_append1 list_all2_Cons1 by auto
  have "\<forall>x \<in> set (Matrix_Outcomes r). Assessment_InstrumentID (MatrixOutcome_Assessment x) = proposed"
    using matrix_outcomes_rows(2) [OF y(2) rows(6)] matrix_outcome_row(2) [OF y(1)] y(3) by simp
  with x(1) have "\<forall>x \<in> set xs. Assessment_InstrumentID (MatrixOutcome_Assessment x) = Assessment_InstrumentID (MatrixOutcome_Assessment stress)"
    by simp
  moreover have "list_all2 (\<lambda>row x. outcome_of_row L K p row x \<and> row_environment row = AccountEnvironmentPaperScored \<and> row_profile row = scored)
      (row # rows) xs"
    using x(2) rows(5) by (auto simp only: list_all2_conv_all_nth all_set_conv_all_nth)
  ultimately show thesis using that [of xs stress "row # rows" last_row] x(1,3) rows(3,4) m(2) by simp
qed

end
