(* ===== verification/Capital_Demo.thy ===== *)
theory Capital_Demo
  imports Capital_Correctness Demo_Library
begin

text \<open>
  A concrete run of the capital package: one position worth 100 in an account with cash of 400, and a proposal to buy for another 100,
  assessed at every reviewed tier under the cash profile and once under the stress profile.  Amounts are integers, on which the ratios
  of the two profiles are exact and rounding is the identity; the fractional ratios of the other profiles are rounded up.
\<close>

section \<open>The library\<close>

definition demo_base :: "int lib" where
  "demo_base = demo_lib
    \<lparr>sha256_Sum256 := (\<lambda>s. replicate 11 (CHR 0x00) @ take 5 (rev s @ ''.....'') @ ''................''),
     json_Unmarshal := (\<lambda>s. if take 1 s = ''{'' then Some (JObject []) else None)\<rparr>"

section \<open>The scenario\<close>

definition demo_as_of :: time where
  "demo_as_of = demo_time 20"

definition demo_spec :: MatrixSpec where
  "demo_spec = \<lparr>Spec_ScenarioID = ''s1'', Spec_MarketInputDigest = replicate 64 (CHR ''0''), Spec_SimulationPolicyVersion = ''v1'',
    Spec_Seed = 1, Spec_AsOf = demo_as_of\<rparr>"

definition demo_share :: "int Instrument" where
  "demo_share =
    \<lparr>Instrument_ID = 2, Instrument_IdentityKey = ''equity:ABC'', Instrument_AssetClass = AssetClassEquity,
     Instrument_PrimaryVenue = ''alpaca'', Instrument_Currency = ''USD'', Instrument_TickSize = 1,
     Instrument_LotSize = 1, Instrument_Multiplier = 1, Instrument_Expiration = None,
     Instrument_ExerciseStyle = ExerciseUnset, Instrument_SettlementMethod = SettlementPhysical,
     Instrument_UnderlyingID = None, Instrument_Status = StatusActive, Instrument_Metadata = ''{}'',
     Instrument_CreatedAt = demo_time 1\<rparr>"

definition demo_projection :: "uuid \<Rightarrow> int PortfolioProjection" where
  "demo_projection account =
    (let payload = uuid_String demo_base account in
     \<lparr>Projection_CheckpointID = 5, Projection_ProjectionType = PortfolioProjectionType, Projection_Version = PortfolioProjectionVersion,
      Projection_FIFO = ProjectionFIFO, Projection_AccountID = account, Projection_BaseCurrency = ''USD'', Projection_AsOf = demo_as_of,
      Projection_MarkSource = ''sip'', Projection_MarkNamespace = ''marks'', Projection_MaxMarkAge = 50000,
      Projection_ThroughTransactionID = 6, Projection_TransactionCount = 2, Projection_InputChecksum = replicate 64 (CHR ''0''),
      Projection_OutputChecksum = sha256Hex demo_base payload, Projection_Marks = [], Projection_Lots = [], Projection_Matches = [],
      Projection_Positions =
        [\<lparr>Position_InstrumentID = 2, Position_Open = True, Position_Quantity = 4, Position_RemainingOpeningCash = 100,
          Position_RealizedPnL = 0, Position_MarketValue = 100, Position_UnrealizedPnL = 0, Position_MarkObservationID = 9,
          Position_OpenLotCount = 1\<rparr>],
      Projection_Totals =
        \<lparr>Totals_Cash = 400, Totals_NetCapital = 500, Totals_Fees = 0, Totals_Rebates = 0, Totals_RealizedPnL = 0, Totals_UnrealizedPnL = 0,
         Totals_MarketValue = 100, Totals_Equity = 500, Totals_TotalPnL = 0\<rparr>,
      Projection_PayloadBytes = payload\<rparr>)"

definition demo_payload :: "string \<Rightarrow> projectionCapitalPayload" where
  "demo_payload account =
    \<lparr>payload_CheckpointID = ''5'', payload_AccountID = account, payload_BaseCurrency = ''USD'', payload_AsOf = formatCapitalTime demo_as_of,
     payload_Positions = [\<lparr>payload_InstrumentID = ''2'', payload_Open = True, payload_Quantity = ''4'', payload_PositionValue = ''100''\<rparr>],
     payload_Cash = ''400'', payload_MarketValue = ''100'', payload_Equity = ''500''\<rparr>"

definition demo_factory :: "int ScenarioFactory" where
  "demo_factory c = Inr
    \<lparr>Scenario_Projection = Some (demo_projection (Account_ID (Context_Account c))), Scenario_Instruments = [demo_share],
     Scenario_ProposedInstrument = demo_share, Scenario_Direction = ExposureIncreaseLong, Scenario_ProposedNotional = 100,
     Scenario_MarketInputDigest = Spec_MarketInputDigest (Context_Spec c),
     Scenario_SimulationPolicyVersion = Spec_SimulationPolicyVersion (Context_Spec c), Scenario_Seed = Spec_Seed (Context_Spec c)\<rparr>"

section \<open>One account\<close>

definition demo_version :: string where
  "demo_version = ''capital-margin-policy-v1@sha256:00000000000000000000007d7b2e2e2e2e2e2e2e2e2e2e2e2e2e2e2e2e2e2e2e''"

definition demo_capital_account :: "int Account" where
  "demo_capital_account = (demo_account AccountEnvironmentPaperScored ''paper_scored/a'' MarginProfileCash)\<lparr>Account_StartingCapital := 500\<rparr>"

definition demo_binding :: "int Binding" where
  "demo_binding =
    \<lparr>Bound_ID = 434637189733, Bound_AccountID = 7, Bound_PolicyArtifactID = 434637189733, Bound_PolicyVersion = demo_version,
     Bound_Tier = 500, Bound_Profile = MarginProfileCash, Bound_Environment = AccountEnvironmentPaperScored, Bound_StartingCapital = 500,
     Bound_BuyingPowerMultiplier = 1, Bound_EvidenceClass = PaperEvidenceClassPromotion, Bound_StorageNamespace = ''paper_scored/a'',
     Bound_Currency = ''USD'', Bound_CreatedAt = demo_as_of\<rparr>"

definition demo_capital_state :: "int CapitalState" where
  "demo_capital_state =
    \<lparr>CapitalState_id = 434637189733, CapitalState_accountID = 7, CapitalState_bindingID = 434637189733,
     CapitalState_policyVersion = demo_version, CapitalState_projectionCheckpointID = 5,
     CapitalState_projectionChecksum = Projection_OutputChecksum (demo_projection 7), CapitalState_asOf = demo_as_of,
     CapitalState_currency = ''USD'', CapitalState_cash = 400, CapitalState_equity = 500, CapitalState_longExposure = 100,
     CapitalState_shortExposure = 0, CapitalState_grossExposure = 100, CapitalState_maintenanceRequirement = 100,
     CapitalState_canonicalBytes = ''{}'',
     CapitalState_hash = ''00000000000000000000007d7b2e2e2e2e2e2e2e2e2e2e2e2e2e2e2e2e2e2e2e''\<rparr>"

definition demo_parse :: "string \<Rightarrow> int" where
  "demo_parse s = foldl (\<lambda>a c. 10 * a + (of_char c - 48)) 0 s"

definition demo_capital_lib :: "int capital_lib" where
  "demo_capital_lib =
    \<lparr>decimal_RequireFromString = (\<lambda>s. if s = ''1.5'' then 2 else 1),
     decimal_Truncate = (\<lambda>x n. x),
     decimal_RoundCeil = (\<lambda>x n. x),
     decimal_RoundFloor = (\<lambda>x n. x),
     decimal_Parse = (\<lambda>s. Some (demo_parse s)),
     uuid_Parse = (\<lambda>s. Some (word_of_int (demo_parse s))),
     time_Parse = (\<lambda>s. if s = formatCapitalTime demo_as_of then Some demo_as_of else None),
     decode_capital_policy = (\<lambda>s. None),
     decode_capital_state = (\<lambda>s. Some (capital_state_canonical demo_base demo_capital_state, [])),
     decode_capital_payload = (\<lambda>s. Some (demo_payload s, []))\<rparr>"

definition demo_capital_policy :: "int CapitalPolicy" where
  "demo_capital_policy = capital_policy_of demo_base reviewedCapitalTiers (reviewedProfiles demo_capital_lib)"

definition demo_proposal :: "int AssessmentInput" where
  "demo_proposal =
    \<lparr>AssessmentInput_Account = demo_capital_account, AssessmentInput_Binding = demo_binding, AssessmentInput_Policy = Some demo_capital_policy,
     AssessmentInput_State = Some demo_capital_state, AssessmentInput_Instrument = demo_share, AssessmentInput_Currency = ''USD'',
     AssessmentInput_ScenarioID = ''s1'', AssessmentInput_Direction = ExposureIncreaseLong, AssessmentInput_ProposedNotional = 100\<rparr>"

definition demo_decision :: "capital_error + int Assessment \<Rightarrow> CapitalDecision option" where
  "demo_decision x = (case x of Inl e \<Rightarrow> None | Inr a \<Rightarrow> Some (Assessment_Decision a))"

definition demo_matrix :: "matrix_error + int MatrixResult" where
  "demo_matrix = RunMatrix demo_base demo_capital_lib demo_as_of (\<lambda>n. 1) demo_spec (Some demo_capital_policy)
    MarginProfileCash (Some demo_factory)"

lemma demo_capital_runs:
  "StateFromProjection demo_base demo_capital_lib demo_capital_account demo_binding (Some demo_capital_policy)
     (Some (demo_projection 7)) [demo_share] = Inr demo_capital_state \<and>
   CapitalState_validate demo_base demo_capital_lib demo_capital_state demo_capital_account demo_binding (Some demo_capital_policy) = None \<and>
   state_codec_inverts demo_base demo_capital_lib demo_capital_state \<and>
   demo_decision (CapitalAssess demo_base demo_capital_lib demo_proposal) = Some CapitalAdmitted \<and>
   NewCapitalPolicy demo_base demo_capital_lib (ReviewedPolicyV1Input demo_capital_lib) = Inr demo_capital_policy"
  by code_simp

lemma demo_matrix_runs: "\<not> isl demo_matrix"
  by code_simp

lemma demo_rounds_up: "rounds_up demo_capital_lib"
  by (simp add: rounds_up_def demo_capital_lib_def)

lemma demo_cash_profile:
  "CapitalPolicy_Profile demo_capital_policy MarginProfileCash = Some (hd (reviewedProfiles demo_capital_lib))"
  "\<not> Profile_Unlimited (hd (reviewedProfiles demo_capital_lib))"
  by (simp_all add: CapitalPolicy_Profile_def demo_capital_policy_def capital_policy_of_def reviewedProfiles_def Let_def)

end
