(* ===== verification/Capital_Properties.thy ===== *)
theory Capital_Properties
  imports Capital_Demo
begin

text \<open>
  The properties of the capital package.
\<close>

section \<open>Policy and state\<close>

text \<open>
  C39: there is only one capital policy.  \<open>NewPolicy\<close> accepts exactly the permutations of the reviewed tiers and profiles with the
  reviewed schema, currency and scale, and every accepted input gives the same policy, with the same bytes, digest, version and
  identifier.
\<close>

theorem capital_policy_reviewed_only:
  "NewCapitalPolicy L K input = Inr p \<longleftrightarrow>
     CapitalInput_Schema input = CapitalPolicySchemaV1 \<and> CapitalInput_Currency input = ''USD'' \<and> CapitalInput_Scale input = 12 \<and>
     mset (CapitalInput_Tiers input) = mset reviewedCapitalTiers \<and> mset (CapitalInput_Profiles input) = mset (reviewedProfiles K) \<and>
     reviewed_decimals L K \<and> p = capital_policy_of L reviewedCapitalTiers (reviewedProfiles K)"
  by (simp add: NewCapitalPolicy_iff reviewed_policy_def)

text \<open>
  C37: a capital state is the exposure of its projection.  A state derived from a portfolio projection has the sum of the positive
  market values as long exposure, the sum of the negative ones as short exposure, the sum of all magnitudes as gross exposure, the
  cash of the projection and as equity cash plus long minus short exposure, which is not negative; the instruments given are exactly
  those of the open positions.
\<close>

theorem capital_state_is_exposure:
  assumes "StateFromProjection L K account binding policy (Some p) instruments = Inr s"
  shows "CapitalState_longExposure s = (\<Sum>x \<leftarrow> Projection_Positions p. max 0 (Position_MarketValue x)) \<and>
    CapitalState_shortExposure s = (\<Sum>x \<leftarrow> Projection_Positions p. max 0 (- Position_MarketValue x)) \<and>
    CapitalState_grossExposure s = (\<Sum>x \<leftarrow> Projection_Positions p. \<bar>Position_MarketValue x\<bar>) \<and>
    CapitalState_cash s = Totals_Cash (Projection_Totals p) \<and>
    CapitalState_equity s = CapitalState_cash s + CapitalState_longExposure s - CapitalState_shortExposure s \<and>
    0 \<le> CapitalState_equity s \<and>
    mset (map Instrument_ID instruments) = mset (map Position_InstrumentID (filter Position_Open (Projection_Positions p)))"
proof (rule StateFromProjectionE [OF assms])
  fix pol p' payload x profile
  assume p: "Some p = Some p'" and pm: "payload_matches L p' payload"
    and x: "position_exposures L K (map (\<lambda>i. (Instrument_ID i, i)) instruments)
       \<lparr>exposure_seen = [], exposure_long = 0, exposure_short = 0, exposure_value = 0, exposure_open = 0\<rparr>
       (zip (Projection_Positions p') (payload_Positions payload)) = Inr x"
    and t: "validateCapitalProjectionTotals L K (Projection_Totals p') = None" "exposure_value x = Totals_MarketValue (Projection_Totals p')"
      "Totals_Equity (Projection_Totals p') = Totals_Cash (Projection_Totals p') + Totals_MarketValue (Projection_Totals p')"
    and s: "s = seal_state L (exposed_state K account binding pol profile p' x)"
  have f: "map fst (zip (Projection_Positions p') (payload_Positions payload)) = Projection_Positions p'"
    using pm by (simp add: payload_matches_def)
  note e = position_exposures_sums [OF x, unfolded f]
  have parts: "(\<Sum>y \<leftarrow> ps. \<bar>Position_MarketValue y\<bar>) = (\<Sum>y \<leftarrow> ps. long_part y) + (\<Sum>y \<leftarrow> ps. short_part y)"
    "(\<Sum>y \<leftarrow> ps. Position_MarketValue y) = (\<Sum>y \<leftarrow> ps. long_part y) - (\<Sum>y \<leftarrow> ps. short_part y)" for ps :: "'a ProjectionPosition list"
    by (induction ps) (auto simp: max_def algebra_simps)
  from e t p state_instruments [OF assms] parts [of "Projection_Positions p'"] show ?thesis
    by (elim conjE) (simp add: s exposed_state_def validateCapitalProjectionTotals_def algebra_simps)
qed

lemma capital_state_is_exposure_witness:
  "CapitalState_longExposure demo_capital_state = (\<Sum>x \<leftarrow> Projection_Positions (demo_projection 7). max 0 (Position_MarketValue x)) \<and>
   0 \<le> CapitalState_equity demo_capital_state"
  using capital_state_is_exposure [OF demo_capital_runs [THEN conjunct1]] by blast

text \<open>
  C40: a capital state survives storage.  A valid state is restored unchanged from its identifier, digest and canonical bytes, when the
  decoder and the parsers invert the encoder on the texts of this state.
\<close>

theorem capital_state_roundtrip:
  assumes "CapitalState_validate L K s account binding policy = None" and "state_codec_inverts L K s"
  shows "StateFromCanonical L K (CapitalState_id s) (CapitalState_hash s) (CapitalState_canonicalBytes s) account binding policy = Inr s"
proof -
  let ?s = "s\<lparr>CapitalState_id := uuid_Nil, CapitalState_canonicalBytes := [], CapitalState_hash := []\<rparr>"
  from assms(1) have v: "capital_state_bytes L s = CapitalState_canonicalBytes s" "sha256Hex L (CapitalState_canonicalBytes s) = CapitalState_hash s"
    "CapitalState_id s = DeterministicUUID L capitalStateDomain [CapitalState_hash s]" "CapitalState_id s \<noteq> uuid_Nil"
    "length (CapitalState_hash s) = 64" "CapitalState_canonicalBytes s \<noteq> []"
    by (auto simp: CapitalState_validate_def Let_def)
  have bytes: "capital_state_bytes L ?s = CapitalState_canonicalBytes s"
    using v(1) by (simp add: capital_state_bytes_def capital_state_canonical_def)
  then have sealed: "seal_state L ?s = s" using v by (simp add: seal_state_def Let_def)
  from assms(2) obtain rest where d: "decode_capital_state K (CapitalState_canonicalBytes s) = Some (capital_state_canonical L s, rest)"
    "json_Decode L rest = EOF" by (auto simp: state_codec_inverts_def)
  have rebuilt: "\<lparr>CapitalState_id = uuid_Nil, CapitalState_accountID = CapitalState_accountID s, CapitalState_bindingID = CapitalState_bindingID s,
      CapitalState_policyVersion = CapitalState_policyVersion s, CapitalState_projectionCheckpointID = CapitalState_projectionCheckpointID s,
      CapitalState_projectionChecksum = CapitalState_projectionChecksum s, CapitalState_asOf = CapitalState_asOf s,
      CapitalState_currency = CapitalState_currency s, CapitalState_cash = CapitalState_cash s, CapitalState_equity = CapitalState_equity s,
      CapitalState_longExposure = CapitalState_longExposure s, CapitalState_shortExposure = CapitalState_shortExposure s,
      CapitalState_grossExposure = CapitalState_grossExposure s, CapitalState_maintenanceRequirement = CapitalState_maintenanceRequirement s,
      CapitalState_canonicalBytes = [], CapitalState_hash = []\<rparr> = ?s" by simp
  from assms(2) have dec: "canonical_decimals L K e (map (decimal_String L) (state_amounts s)) = Inr (state_amounts s)" for e :: capital_state_error
    by (simp add: state_codec_inverts_def state_amounts_def canonical_decimal_def)
  show ?thesis
    using assms dec [of StateRestoreAmount] v(4-6) d
    by (simp add: StateFromCanonical_def parsed_or_def state_codec_inverts_def capital_state_canonical_def state_amounts_def Let_def
        rebuilt sealed)
qed

lemma capital_state_roundtrip_witness:
  "StateFromCanonical demo_base demo_capital_lib 434637189733
     ''00000000000000000000007d7b2e2e2e2e2e2e2e2e2e2e2e2e2e2e2e2e2e2e2e'' ''{}'' demo_capital_account demo_binding (Some demo_capital_policy) =
   Inr demo_capital_state"
  using capital_state_roundtrip [OF demo_capital_runs [THEN conjunct2, THEN conjunct1] demo_capital_runs [THEN conjunct2, THEN conjunct2, THEN conjunct1]]
  by (simp add: demo_capital_state_def)

section \<open>Admission\<close>

text \<open>
  C36: an admitted proposal stays within the limits.  Under a finite profile an admitted reduction leaves non-negative exposures; after an
  admitted increase the gross exposure is at most equity times the maximum gross ratio, the maintenance requirement and the initial
  requirement of the new exposure are covered by equity, and a purchase under the cash profile is covered by cash.
\<close>

theorem admitted_exposure_within_limits:
  assumes "CapitalAssess L K input = Inr a" and "AssessmentInput_State input = Some s" and "AssessmentInput_Policy input = Some p"
    and "CapitalPolicy_Profile p (Bound_Profile (AssessmentInput_Binding input)) = Some profile" and "\<not> Profile_Unlimited profile"
    and "Assessment_Decision a = CapitalAdmitted" and "rounds_up K"
    and "postDirectionalExposure s (AssessmentInput_Direction input) (AssessmentInput_ProposedNotional input) = (postLong, postShort)"
  shows "(isExposureReduction (AssessmentInput_Direction input) \<longrightarrow> 0 \<le> postLong \<and> 0 \<le> postShort) \<and>
    (\<not> isExposureReduction (AssessmentInput_Direction input) \<longrightarrow>
       postLong + postShort \<le> CapitalState_equity s * Profile_MaximumGross profile \<and>
       postLong * Profile_MaintenanceLong profile + postShort * Profile_MaintenanceShort profile \<le> CapitalState_equity s \<and>
       (0 < direction_ratio profile (AssessmentInput_Direction input) \<longrightarrow>
          postLong * Profile_InitialLong profile + postShort * Profile_InitialShort profile \<le> CapitalState_equity s) \<and>
       (Bound_Profile (AssessmentInput_Binding input) = MarginProfileCash \<and> AssessmentInput_Direction input = ExposureIncreaseLong \<longrightarrow>
          AssessmentInput_ProposedNotional input \<le> CapitalState_cash s))"
  using assms(1,2)
proof (cases rule: CapitalAssess_cases)
  case (finite p' profile' b)
  let ?d = "AssessmentInput_Direction input" and ?n = "AssessmentInput_ProposedNotional input" and ?e = "CapitalState_equity s"
  let ?required = "CapitalState_longExposure s * Profile_InitialLong profile + CapitalState_shortExposure s * Profile_InitialShort profile"
  from finite(1,2) assms(3,4) have eq: "p' = p" "profile' = profile" by simp_all
  from assms(1-3) have v: "validateAssessmentInput L K input = None" by (simp add: CapitalAssess_def)
  with assms(2,3) have s: "CapitalState_validate L K s (AssessmentInput_Account input) (AssessmentInput_Binding input) (Some p) = None"
    and n: "0 < ?n" "ExposureDirection_IsValid ?d"
    and red: "?d = ExposureReduceLong \<Longrightarrow> ?n \<le> CapitalState_longExposure s" "?d = ExposureReduceShort \<Longrightarrow> ?n \<le> CapitalState_shortExposure s"
    by (auto simp: validateAssessmentInput_def Let_def not_less)
  from s have ex: "0 \<le> CapitalState_longExposure s" "0 \<le> CapitalState_shortExposure s"
    "CapitalState_grossExposure s = CapitalState_longExposure s + CapitalState_shortExposure s"
    by (auto simp: CapitalState_validate_def Let_def not_less)
  from finite(8) assms(6) have r: "finite_reason input s profile b = ReasonAdmitted" by (auto simp: eq split: if_splits)
  show ?thesis
  proof (cases "isExposureReduction ?d")
    case True
    with red ex assms(8) show ?thesis by (auto simp: isExposureReduction_def)
  next
    case False
    with r have lim: "Assessment_RequestedInitialMargin b \<le> Assessment_InitialMarginHeadroom b" "?n \<le> Assessment_GrossHeadroom b"
      "Assessment_PostMaintenanceRequirement b \<le> ?e"
      "Bound_Profile (AssessmentInput_Binding input) = MarginProfileCash \<and> ?d = ExposureIncreaseLong \<Longrightarrow> ?n \<le> CapitalState_cash s"
      by (auto simp: finite_reason_def Let_def split: if_splits)
    have ceil: "x \<le> roundCapitalUp K x k" for x k using assms(7) by (simp add: rounds_up_def roundCapitalUp_def)
    have b: "Assessment_RequestedInitialMargin b = roundCapitalUp K (?n * direction_ratio profile ?d) (CapitalPolicy_scale p)"
      "Assessment_InitialMarginHeadroom b = nonnegative (?e - roundCapitalUp K ?required (CapitalPolicy_scale p))"
      "Assessment_GrossHeadroom b = nonnegative (?e * Profile_MaximumGross profile - CapitalState_grossExposure s)"
      "Assessment_PostMaintenanceRequirement b =
         roundCapitalUp K (postLong * Profile_MaintenanceLong profile + postShort * Profile_MaintenanceShort profile) (CapitalPolicy_scale p)"
      by (simp_all add: finite(5) eq proposed_amounts_def current_headroom_def initial_assessment_def assms(8) Let_def)
    have post: "postLong + postShort = CapitalState_grossExposure s + ?n"
      "postLong * Profile_InitialLong profile + postShort * Profile_InitialShort profile = ?required + ?n * direction_ratio profile ?d"
      using False n(2) assms(8) ex(3)
      by (cases ?d; auto simp: isExposureReduction_def direction_ratio_def algebra_simps)+
    have gross: "postLong + postShort \<le> ?e * Profile_MaximumGross profile"
      using lim(2) n(1) by (auto simp: post b(3) nonnegative_def algebra_simps split: if_splits)
    have maint: "postLong * Profile_MaintenanceLong profile + postShort * Profile_MaintenanceShort profile \<le> ?e"
      using order_trans [OF ceil lim(3) [unfolded b(4)]] .
    have initial: "postLong * Profile_InitialLong profile + postShort * Profile_InitialShort profile \<le> ?e"
      if ratio: "0 < direction_ratio profile ?d"
    proof -
      have "0 < ?n * direction_ratio profile ?d" using n(1) ratio by simp
      also have "\<dots> \<le> Assessment_RequestedInitialMargin b" unfolding b(1) by (rule ceil)
      finally have "0 < Assessment_InitialMarginHeadroom b" using lim(1) by simp
      then have "Assessment_InitialMarginHeadroom b = ?e - roundCapitalUp K ?required (CapitalPolicy_scale p)"
        by (auto simp: b(2) nonnegative_def split: if_splits)
      with lim(1) ceil [of "?n * direction_ratio profile ?d" "CapitalPolicy_scale p"] ceil [of ?required "CapitalPolicy_scale p"]
      show ?thesis unfolding post(2) b(1) by linarith
    qed
    from gross maint initial lim(4) False show ?thesis by blast
  qed
qed (use assms in auto)

lemma admitted_exposure_within_limits_witness:
  "\<exists>a. CapitalAssess demo_base demo_capital_lib demo_proposal = Inr a \<and>
     (200 :: int) \<le> CapitalState_equity demo_capital_state * Profile_MaximumGross (hd (reviewedProfiles demo_capital_lib))"
proof -
  obtain a where a: "CapitalAssess demo_base demo_capital_lib demo_proposal = Inr a" "Assessment_Decision a = CapitalAdmitted"
    using demo_capital_runs by (auto simp: demo_decision_def split: sum.splits)
  have "AssessmentInput_State demo_proposal = Some demo_capital_state" "AssessmentInput_Policy demo_proposal = Some demo_capital_policy"
    "CapitalPolicy_Profile demo_capital_policy (Bound_Profile (AssessmentInput_Binding demo_proposal)) =
       Some (hd (reviewedProfiles demo_capital_lib))"
    "postDirectionalExposure demo_capital_state (AssessmentInput_Direction demo_proposal) (AssessmentInput_ProposedNotional demo_proposal) = (200, 0)"
    "\<not> isExposureReduction (AssessmentInput_Direction demo_proposal)"
    by (simp_all add: demo_proposal_def demo_binding_def demo_cash_profile demo_capital_state_def isExposureReduction_def)
  with admitted_exposure_within_limits [OF a(1) this(1,2,3) demo_cash_profile(2) a(2) demo_rounds_up this(4)] a(1)
  show ?thesis by auto
qed

section \<open>The matrix\<close>

text \<open>
  C38: the stress row of a matrix is isolated.  A successful run under a reviewed policy has one outcome per reviewed tier, in order and with
  the scored profile, and one stress outcome.  The scored outcomes are bounded and eligible for promotion; the stress outcome is
  admitted without bound, is not eligible for promotion and shares its storage with no scored account; all outcomes assess the
  same instrument.
\<close>

theorem matrix_isolates_stress:
  assumes "RunMatrix L K now newID spec (Some p) scored factory = Inr r" and "NewCapitalPolicy L K input = Inr p"
  shows "\<exists>rows stress. ScoredOutcomes (Some r) = Some rows \<and> StressOutcome (Some r) = Some stress \<and> Matrix_Outcomes r = rows @ [stress] \<and>
    map MatrixOutcome_Tier rows = reviewedCapitalTiers \<and>
    (\<forall>x \<in> set rows. MatrixOutcome_Profile x = scored \<and> Assessment_PromotionEligible (Some (MatrixOutcome_Assessment x)) \<and>
       Binding_PromotionEligible (MatrixOutcome_Binding x) \<and>
       \<not> CanShareStorageWith (MatrixOutcome_Account x) (MatrixOutcome_Account stress) \<and>
       Account_StorageNamespace (MatrixOutcome_Account x) \<noteq> Account_StorageNamespace (MatrixOutcome_Account stress) \<and>
       Assessment_InstrumentID (MatrixOutcome_Assessment x) = Assessment_InstrumentID (MatrixOutcome_Assessment stress)) \<and>
    Assessment_Unbounded (MatrixOutcome_Assessment stress) \<and> Assessment_Decision (MatrixOutcome_Assessment stress) = CapitalAdmitted \<and>
    \<not> Assessment_PromotionEligible (Some (MatrixOutcome_Assessment stress)) \<and> \<not> Binding_PromotionEligible (MatrixOutcome_Binding stress)"
proof -
  have tiers: "CapitalPolicy_tiers p = reviewedCapitalTiers"
    using assms(2) by (simp add: NewCapitalPolicy_iff reviewed_policy_def capital_policy_of_def Let_def)
  obtain rows xs last_row stress where m: "Matrix_Outcomes r = xs @ [stress]" "length xs = 6" "map row_tier rows = reviewedCapitalTiers"
    and scored: "list_all2 (\<lambda>row x. outcome_of_row L K p row x \<and> row_environment row = AccountEnvironmentPaperScored \<and> row_profile row = scored) rows xs"
    and last: "outcome_of_row L K p last_row stress" "row_environment last_row = AccountEnvironmentPaperStress"
    and same: "\<forall>x \<in> set xs. Assessment_InstrumentID (MatrixOutcome_Assessment x) = Assessment_InstrumentID (MatrixOutcome_Assessment stress)"
    using RunMatrix_reviewed [OF assms(1) tiers] .
  note s = outcome_of_stress_row [OF last]
  from last have env: "Account_Environment (MatrixOutcome_Account stress) = AccountEnvironmentPaperStress" by (simp add: outcome_of_row_def)
  have "map MatrixOutcome_Tier xs = map row_tier rows"
    using scored by (induction rule: list_all2_induct) (auto simp: outcome_of_row_def)
  moreover have "MatrixOutcome_Profile x = scored \<and> Assessment_PromotionEligible (Some (MatrixOutcome_Assessment x)) \<and>
       Binding_PromotionEligible (MatrixOutcome_Binding x) \<and>
       \<not> CanShareStorageWith (MatrixOutcome_Account x) (MatrixOutcome_Account stress) \<and>
       Account_StorageNamespace (MatrixOutcome_Account x) \<noteq> Account_StorageNamespace (MatrixOutcome_Account stress)" if "x \<in> set xs" for x
  proof -
    from that scored obtain row where row: "outcome_of_row L K p row x" "row_environment row = AccountEnvironmentPaperScored"
      "row_profile row = scored" by (auto simp: list_all2_conv_all_nth in_set_conv_nth)
    from row have "MatrixOutcome_Profile x = scored" "Account_Environment (MatrixOutcome_Account x) = AccountEnvironmentPaperScored"
      by (simp_all add: outcome_of_row_def)
    with outcome_of_scored_row [OF row(1,2)] s env paper_namespaces_disjoint_env [of L "MatrixOutcome_Account x" "MatrixOutcome_Account stress"]
    show ?thesis by (auto simp: CanShareStorageWith_def)
  qed
  ultimately show ?thesis
    using m s same by (intro exI [of _ xs] exI [of _ stress]) (simp add: ScoredOutcomes_def StressOutcome_def nth_append)
qed

lemma matrix_isolates_stress_witness:
  "\<exists>r rows stress. demo_matrix = Inr r \<and> Matrix_Outcomes r = rows @ [stress] \<and> map MatrixOutcome_Tier rows = reviewedCapitalTiers \<and>
     Assessment_Unbounded (MatrixOutcome_Assessment stress)"
proof -
  obtain r where r: "demo_matrix = Inr r" using demo_matrix_runs by (metis sum.collapse(2))
  from matrix_isolates_stress [OF r [unfolded demo_matrix_def] demo_capital_runs [THEN conjunct2, THEN conjunct2, THEN conjunct2, THEN conjunct2]] r
  show ?thesis by blast
qed

end
