(* ===== verification/Spec2Isabelle.thy ===== *)
theory Spec2Isabelle
  imports Market_Data Projection_Properties Lifecycle_Properties Simulation_Properties Capital_Properties
begin

text \<open>
  Verification of the economic core of \<open>augr\<close>, a trading system in Go.  The core is the part of
  \<open>src/internal\<close> that decides what is owned, what it cost and what may be executed: canonical reference data, quote
  observations, the double-entry ledger, the portfolio rebuilt from it, the lifecycle of an order, the deterministic
  venue that simulates executions and the capital policy that admits or rejects new exposure.  Around it the repository has adapters to venues, language-model agents, data
  ingestion, PostgreSQL repositories, an HTTP API and a dashboard, which are not modelled.

  \<^bold>\<open>How the parts interact.\<close>  An account owns capital; instruments, venue contracts and option terms are dated
  reference facts.  A quote snapshot is an immutable observation that is assessed against an instrument and a contract
  before it may be used.  An intent becomes an order by allocation, risk approval and routing; every step is a
  transition with an event that \<open>ApplyTransition\<close> checks and applies, and the current state of an order is the replay of
  its transitions.  The simulated venue evaluates an order against a quote under a content-addressed policy and returns
  transitions; each fill carries a raw source event and its economic normalization, a balanced ledger transaction.  The
  portfolio projection replays the ledger transactions of an account into FIFO lots, positions, cash, costs and profit.
  From a projection the capital package derives the exposure of an account and assesses a proposal against the margin profile
  its account is bound to; a matrix repeats the assessment at every capital tier and once, in separate storage, without limits.

  \<^bold>\<open>Theories and sources\<close> (paths below \<open>src/internal\<close>).
  \<^item> \<open>Go_Prelude\<close>: Go errors as values, strings, times, maps, JSON, and the record \<open>lib\<close> of the library functions.
    \<open>String_Lemmas\<close>: facts about trimmed strings and printed numbers.  \<open>Demo_Library\<close>: one concrete \<open>lib\<close> for witnesses.
  \<^item> \<open>Economic_ID\<close>: \<open>economicid/id.go\<close>.  The framing of the hash input is injective; the locale \<open>derived_identity\<close>
    states what a record with a derived identifier promises and is interpreted for option terms, source events and marks.
  \<^item> \<open>Domain_Account\<close>: \<open>domain/account.go\<close>.  Accounts, capital flows, evidence classes, storage isolation.
  \<^item> \<open>Instrument_Reference\<close>: \<open>instrument/instrument.go\<close>, \<open>reference.go\<close>, \<open>option_terms.go\<close>.
  \<^item> \<open>Market_Data\<close>: \<open>marketdata/snapshot.go\<close>.  Validation of quotes and depth, and the assessment at a time.
  \<^item> \<open>Ledger_Transaction\<close>: \<open>ledger/transaction.go\<close>, \<open>economic_source_event.go\<close>, \<open>mark.go\<close>.
    \<open>Ledger_Normalization\<close>: \<open>ledger/economic_normalization.go\<close>.  \<open>Ledger_Balance\<close>: the contract of the posting builders
    (locale \<open>posting_builder\<close>, interpreted for each builder and their dispatch) and the cash effect of each event type.
  \<^item> \<open>Event_Sourcing\<close>: a state rebuilt from facts that may be refused (locales \<open>event_sourced\<close> and \<open>additive_view\<close>),
    interpreted for the projection replay, the lifecycle replay and the results of the venue.
  \<^item> \<open>Ledger_Projection\<close>, \<open>Projection_Payload\<close>: \<open>ledger/projection.go\<close>.  \<open>Projection_Invariants\<close>,
    \<open>Projection_Correctness\<close>, \<open>Projection_Properties\<close>: the accounting identity, lots and FIFO order, refinement of the
    ledger sums, independence of row order and of later rows.
  \<^item> \<open>Lifecycle_Model\<close>, \<open>Lifecycle_Aggregate\<close>, \<open>Lifecycle_Commands\<close>: \<open>execution/lifecycle\<close> (\<open>types.go\<close>, \<open>intent.go\<close>,
    \<open>order.go\<close>, \<open>fill.go\<close>, \<open>aggregate.go\<close>).  \<open>Lifecycle_Correctness\<close>, \<open>Lifecycle_Acceptance\<close>,
    \<open>Lifecycle_Properties\<close>: refinement of an abstract state machine, the invariant of every replay, acceptance of the
    transitions the commands return.  \<open>Lifecycle_Demo\<close>: one concrete order.
  \<^item> \<open>Simulation_Policy\<close>, \<open>Simulation_Venue\<close>, \<open>Simulation_Outcome\<close>: \<open>simulation\<close> (\<open>policy.go\<close>, \<open>evidence.go\<close>,
    \<open>fill.go\<close>, \<open>venue.go\<close>, \<open>outcome.go\<close>, \<open>persist.go\<close>).  \<open>Simulation_Policy_Correctness\<close>: normal forms,
    disjoint sessions, restoration from an artifact.  \<open>Simulation_Correctness\<close>, \<open>Simulation_Outcome_Correctness\<close>,
    \<open>Simulation_Properties\<close>: what one evaluation guarantees, the totals of an outcome and the order of the writes.
    \<open>Simulation_Demo\<close>: concrete runs.
  \<^item> \<open>Capital_Policy\<close>, \<open>Capital_State\<close>, \<open>Capital_Assessment\<close>, \<open>Capital_Matrix\<close>: \<open>capital\<close> (\<open>policy.go\<close> and
    \<open>binding.go\<close>, \<open>state.go\<close>, \<open>assessment.go\<close>, \<open>matrix.go\<close>).  \<open>Capital_Correctness\<close>, \<open>Capital_Properties\<close>: the reviewed
    policy is the only one, the state is the exposure of its projection and survives storage, admitted exposure stays within
    the limits, the stress row of a matrix is isolated.  \<open>Capital_Demo\<close>: one account and one matrix.
  \<^item> \<open>Sorting\<close>: lists sorted by a comparison of the code (locale \<open>comparison\<close>, interpreted for each order the simulation and
    capital policies sort by).

  \<^bold>\<open>State and operations.\<close>  A struct is a record with the fields prefixed by the struct's name, a string type with
  constants a datatype, a pointer that may be nil an option.  A method is a function that takes the receiver and returns
  the new value; a store behind an interface is a record of functions on an abstract state.  Every early return is a
  value of an error datatype of its component, and a nil dereference is an error of its own, so that its absence can be
  proved.  Loops are recursive functions on the list they range over; all of them are total, so no fuel is needed.

  \<^bold>\<open>Parameters.\<close>  The decimal package, SHA-256, the printing of UUIDs, Unicode case mapping and the JSON codec are
  arguments of the definitions, decimals a type of class \<open>linordered_idom\<close> for the exact operations.  Theorems that
  need more state it as a hypothesis: \<open>exact_lots\<close> (division and floor of an exact multiple), \<open>codec_inverts\<close> (decoder
  and parsers invert the encoder on the texts of one policy), \<open>state_codec_inverts\<close> (the same for one capital state), \<open>rounds_up\<close>
  (rounding up is never below the value), \<open>lifecycle_store\<close> (the guards and effects of the lifecycle repository).  Values drawn from outside (\<open>time.Now()\<close>, \<open>uuid.New()\<close>)
  are arguments; where one operation reads the clock several times, a function from the number of the reading.
  Timestamps are unbounded integers of nanoseconds with a location; differences saturate at 64 bits as in Go.

  \<^bold>\<open>Not modelled.\<close>  PostgreSQL repositories (SQL over a database), venue and data adapters (HTTP and websocket
  clients), agents and language-model providers, the API, CLI and dashboard, the scheduler; \<open>ProjectionCheckpoint.Validate\<close>,
  which decodes a stored payload and changes no state; the floating-point models in \<open>simulation/legacy_*.go\<close>, since
  binary floating point has no faithful counterpart in the imported library.  The texts of error messages are
  constructors.
\<close>

end
